(* ===== verification/Prelude.thy ===== *)
theory Prelude
  imports Complex_Main "HOL-Library.Word" "HOL-Library.Multiset"
begin

text \<open>
  Types, automation and generic lemmas the components share.

  Go's fixed-width integers are words; \<^verbatim>\<open>int\<close> and \<^verbatim>\<open>int64\<close> values that cannot
  leave their range are \<open>int\<close>, with \<open>wrap64\<close> where they can. A Go string is a list of
  bytes, so \<open>string\<close> (a list of 8-bit characters) is exact.

  An error value keeps the format string and the arguments given to \<^verbatim>\<open>fmt.Errorf\<close> (or the
  text given to \<^verbatim>\<open>errors.New\<close>) instead of the rendered text: \<open>Errorf fmt args\<close>. The error
  of code outside the repository (a Modbus client, the file system) is \<open>External msg\<close>.
  \<open>Joined sep es\<close> is \<^verbatim>\<open>strings.Join\<close> of the messages. A function whose source can
  panic returns \<open>GoPanic what\<close> on that branch. The Go result pair \<^verbatim>\<open>(value, error)\<close> is a
  sum: \<open>Inl\<close> an error or \<open>Inr\<close> a value.
\<close>

type_synonym byte = "8 word"
type_synonym u16 = "16 word"
type_synonym u32 = "32 word"

datatype go_error =
    Errorf string "err_arg list"
  | External string
  | Joined string "go_error list"
  | GoPanic string
and err_arg =
    AStr string
  | AInt int
  | ARat rat
  | AErr go_error

type_synonym 'a result = "go_error + 'a"

text \<open>Facts that unfold the state-passing operations of the components.\<close>

named_theorems op_defs

text \<open>When a chain of guards and of calls that can fail succeeds.\<close>

lemma guard_Inr: "(if p then Inl e else x) = Inr y \<longleftrightarrow> \<not> p \<and> x = Inr y"
  by simp

lemma bind_Inr: "(case r of Inl e \<Rightarrow> Inl (g e) | Inr a \<Rightarrow> f a) = Inr y \<longleftrightarrow> (\<exists>a. r = Inr a \<and> f a = Inr y)"
  by (simp split: sum.split)

lemmas result_Inr = guard_Inr bind_Inr bind_Inr [where g = "\<lambda>e. e"]

text \<open>Two's complement wrap-around of a 64-bit signed integer (\<^verbatim>\<open>int64\<close>, \<^verbatim>\<open>time.Duration\<close>).\<close>

definition wrap64 :: "int \<Rightarrow> int" where
  "wrap64 x = (x + 2 ^ 63) mod 2 ^ 64 - 2 ^ 63"

lemma wrap64_id: "- (2 ^ 63) \<le> x \<Longrightarrow> x < 2 ^ 63 \<Longrightarrow> wrap64 x = x"
  by (simp add: wrap64_def)

lemma wrap64_bounds: "- (2 ^ 63) \<le> wrap64 x \<and> wrap64 x < 2 ^ 63"
  by (simp add: wrap64_def)

section \<open>Lists\<close>

text \<open>\<open>find_first p xs\<close> is a \<^verbatim>\<open>for\<close> loop that returns at the first match.\<close>

fun find_first :: "('a \<Rightarrow> bool) \<Rightarrow> 'a list \<Rightarrow> 'a option" where
  "find_first p [] = None"
| "find_first p (x # xs) = (if p x then Some x else find_first p xs)"

lemma find_first_eq_find: "find_first p xs = List.find p xs"
  by (induction xs) auto

lemma find_first_Some: "find_first p xs = Some x \<Longrightarrow> p x \<and> x \<in> set xs"
  by (induction xs) (auto split: if_splits)

lemma find_first_None: "find_first p xs = None \<longleftrightarrow> (\<forall>x \<in> set xs. \<not> p x)"
  by (induction xs) auto

lemma find_first_unique:
  assumes "distinct (map f xs)" "x \<in> set xs" "f x = k"
  shows "find_first (\<lambda>y. f y = k) xs = Some x"
  using assms by (induction xs) (auto simp: image_iff)

lemma find_first_append:
  "find_first p (xs @ ys) = (case find_first p xs of Some x \<Rightarrow> Some x | None \<Rightarrow> find_first p ys)"
  by (induction xs) auto

lemma find_first_cong_set:
  assumes "distinct (map f xs)" "distinct (map f ys)" "set xs = set ys"
  shows "find_first (\<lambda>y. f y = k) xs = find_first (\<lambda>y. f y = k) ys"
proof (cases "\<exists>x \<in> set xs. f x = k")
  case True
  then obtain x where "x \<in> set xs" "f x = k" by blast
  with assms show ?thesis by (metis find_first_unique)
next
  case False
  with assms(3) have "find_first (\<lambda>y. f y = k) xs = None" "find_first (\<lambda>y. f y = k) ys = None"
    by (auto simp: find_first_None)
  then show ?thesis by simp
qed

lemma sort_key_unique:
  assumes "mset ys = mset xs" "sorted (map f ys)" "distinct (map f xs)"
  shows "sort_key f xs = ys"
proof (rule properties_for_sort_key)
  show "mset ys = mset xs" by fact
  show "sorted (map f ys)" by fact
  show "filter (\<lambda>x. f k = f x) ys = filter (\<lambda>x. f k = f x) xs" if "k \<in> set ys" for k
  proof -
    have one: "filter (\<lambda>x. f k = f x) zs = [k]" if "distinct (map f zs)" "k \<in> set zs" for zs
      using that by (induction zs) (auto simp: filter_empty_conv image_iff)
    have "distinct (map f ys)"
      by (metis assms(1,3) mset_eq_imp_distinct_iff mset_map)
    moreover have "k \<in> set xs"
      using that assms(1) by (metis set_mset_mset)
    ultimately show ?thesis
      using one that assms(3) by metis
  qed
qed

section \<open>Words and bytes\<close>

text \<open>Big-endian bytes of a 16-bit word and back (\<^verbatim>\<open>binary.BigEndian.Uint16\<close>).\<close>

unbundle bit_operations_syntax

definition hi_byte :: "u16 \<Rightarrow> byte" where
  "hi_byte w = ucast (drop_bit 8 w)"

definition lo_byte :: "u16 \<Rightarrow> byte" where
  "lo_byte w = ucast w"

definition be16 :: "byte \<Rightarrow> byte \<Rightarrow> u16" where
  "be16 h l = push_bit 8 (ucast h) OR ucast l"

lemma be16_hi_lo [simp]: "be16 (hi_byte w) (lo_byte w) = w"
  unfolding be16_def hi_byte_def lo_byte_def
  by (rule bit_word_eqI) (auto simp: bit_simps)

lemma hi_byte_be16 [simp]: "hi_byte (be16 h l) = h"
  unfolding be16_def hi_byte_def
  by (rule bit_word_eqI) (auto simp: bit_simps dest: bit_imp_le_length)

lemma lo_byte_be16 [simp]: "lo_byte (be16 h l) = l"
  unfolding be16_def lo_byte_def
  by (rule bit_word_eqI) (auto simp: bit_simps)

lemma be16_inject: "be16 h l = be16 h' l' \<longleftrightarrow> h = h' \<and> l = l'"
  by (metis hi_byte_be16 lo_byte_be16)

fun bytes_of_words :: "u16 list \<Rightarrow> byte list" where
  "bytes_of_words [] = []"
| "bytes_of_words (w # ws) = hi_byte w # lo_byte w # bytes_of_words ws"

lemma length_bytes_of_words [simp]: "length (bytes_of_words ws) = 2 * length ws"
  by (induction ws) auto

end
