(* ===== verification/GoFloat.thy ===== *)
theory GoFloat
  imports Prelude "HOL-Library.Log_Nat"
begin

text \<open>
  Go's \<^verbatim>\<open>float64\<close>: IEEE 754 binary64 with round-to-nearest-even, executable. A finite
  value is the rational it denotes; the negative zero, the infinities and the (one) NaN are
  constructors of their own. Every arithmetic operation computes the exact rational result and
  rounds it once (\<open>fround\<close>); subnormals and overflow to infinity are included. Also here: the
  functions of Go's \<^verbatim>\<open>math\<close> package the program calls.

  The lemmas bound the rounding error (\<open>round53_error\<close>), show that the integers up to \<open>2 ^ 53\<close>
  are exact (\<open>round53_of_int\<close>), and compute with finite operands.
\<close>

datatype f64 = Num rat | NegZero | PosInf | NegInf | NaN

fun fval :: "f64 \<Rightarrow> rat" where
  "fval (Num q) = q"
| "fval _ = 0"

fun fsign :: "f64 \<Rightarrow> bool" where
  "fsign (Num q) = (q < 0)"
| "fsign NegZero = True"
| "fsign NegInf = True"
| "fsign _ = False"

fun is_inf :: "f64 \<Rightarrow> bool" where
  "is_inf PosInf = True"
| "is_inf NegInf = True"
| "is_inf _ = False"

definition is_fin :: "f64 \<Rightarrow> bool" where
  "is_fin x \<longleftrightarrow> x \<noteq> NaN \<and> \<not> is_inf x"

section \<open>Rounding\<close>

text \<open>The exponent of the leading bit: \<open>2 ^ ilog2 x \<le> x < 2 ^ (ilog2 x + 1)\<close> for \<open>0 < x\<close>.\<close>

definition ilog2 :: "rat \<Rightarrow> int" where
  "ilog2 x = (let (a, b) = quotient_of x; n = bitlen a - bitlen b
     in if 2 powi n \<le> x then n else n - 1)"

definition rne :: "rat \<Rightarrow> int" where
  "rne x = (let f = \<lfloor>x\<rfloor>; d = x - of_int f in
     if d < 1 / 2 then f else if 1 / 2 < d then f + 1 else if even f then f else f + 1)"

definition round53 :: "rat \<Rightarrow> rat" where
  "round53 x = (if x = 0 then 0
     else let q = max (ilog2 \<bar>x\<bar> - 52) (-1074) in of_int (rne (x / 2 powi q)) * 2 powi q)"

text \<open>\<open>fround z x\<close>: the double nearest to \<open>x\<close>; \<open>z\<close> is the sign of an exactly zero result. A
  rounded magnitude of \<open>2 ^ 1024\<close> or more overflows.\<close>

definition fround :: "bool \<Rightarrow> rat \<Rightarrow> f64" where
  "fround z x = (let y = round53 x in
     if y = 0 then (if x < 0 \<or> x = 0 \<and> z then NegZero else Num 0)
     else if 1024 \<le> ilog2 \<bar>y\<bar> then (if y < 0 then NegInf else PosInf)
     else Num y)"

text \<open>A decimal constant of the source, converted to \<^verbatim>\<open>float64\<close> by the compiler, and the
  conversion of an integer.\<close>

definition flit :: "rat \<Rightarrow> f64" where
  "flit x = fround False x"

definition f64_of_int :: "int \<Rightarrow> f64" where
  "f64_of_int n = fround False (of_int n)"

section \<open>Arithmetic\<close>

definition fadd :: "f64 \<Rightarrow> f64 \<Rightarrow> f64" where
  "fadd x y =
     (if x = NaN \<or> y = NaN \<or> x = PosInf \<and> y = NegInf \<or> x = NegInf \<and> y = PosInf then NaN
      else if x = PosInf \<or> y = PosInf then PosInf
      else if x = NegInf \<or> y = NegInf then NegInf
      else fround (x = NegZero \<and> y = NegZero) (fval x + fval y))"

fun fneg :: "f64 \<Rightarrow> f64" where
  "fneg (Num q) = (if q = 0 then NegZero else Num (- q))"
| "fneg NegZero = Num 0"
| "fneg PosInf = NegInf"
| "fneg NegInf = PosInf"
| "fneg NaN = NaN"

definition fsub :: "f64 \<Rightarrow> f64 \<Rightarrow> f64" where
  "fsub x y = fadd x (fneg y)"

definition fmul :: "f64 \<Rightarrow> f64 \<Rightarrow> f64" where
  "fmul x y =
     (if x = NaN \<or> y = NaN \<or> is_inf x \<and> \<not> is_inf y \<and> fval y = 0 \<or> is_inf y \<and> \<not> is_inf x \<and> fval x = 0
      then NaN
      else if is_inf x \<or> is_inf y then (if fsign x \<noteq> fsign y then NegInf else PosInf)
      else fround (fsign x \<noteq> fsign y) (fval x * fval y))"

definition fdiv :: "f64 \<Rightarrow> f64 \<Rightarrow> f64" where
  "fdiv x y =
     (if x = NaN \<or> y = NaN \<or> is_inf x \<and> is_inf y then NaN
      else if is_inf x then (if fsign x \<noteq> fsign y then NegInf else PosInf)
      else if is_inf y then (if fsign x \<noteq> fsign y then NegZero else Num 0)
      else if fval y = 0 then
        (if fval x = 0 then NaN else if fsign x \<noteq> fsign y then NegInf else PosInf)
      else fround (fsign x \<noteq> fsign y) (fval x / fval y))"

text \<open>The comparisons are false when an operand is NaN; the two zeros are equal.\<close>

definition flt :: "f64 \<Rightarrow> f64 \<Rightarrow> bool" where
  "flt x y \<longleftrightarrow> x \<noteq> NaN \<and> y \<noteq> NaN \<and>
     (if x = NegInf then y \<noteq> NegInf
      else if y = PosInf then x \<noteq> PosInf
      else if x = PosInf \<or> y = NegInf then False
      else fval x < fval y)"

definition feq :: "f64 \<Rightarrow> f64 \<Rightarrow> bool" where
  "feq x y \<longleftrightarrow> x \<noteq> NaN \<and> y \<noteq> NaN \<and> (if is_inf x \<or> is_inf y then x = y else fval x = fval y)"

definition fle :: "f64 \<Rightarrow> f64 \<Rightarrow> bool" where
  "fle x y \<longleftrightarrow> flt x y \<or> feq x y"

section \<open>Package math\<close>

text \<open>\<^verbatim>\<open>math.Round\<close>: the nearest integer, halves away from zero, the sign of zero kept.\<close>

definition round_half :: "rat \<Rightarrow> int" where
  "round_half q = (if q < 0 then - \<lfloor>\<bar>q\<bar> + 1 / 2\<rfloor> else \<lfloor>\<bar>q\<bar> + 1 / 2\<rfloor>)"

fun math_round :: "f64 \<Rightarrow> f64" where
  "math_round (Num q) =
     (if round_half q = 0 then (if q < 0 then NegZero else Num 0) else Num (of_int (round_half q)))"
| "math_round x = x"

fun math_abs :: "f64 \<Rightarrow> f64" where
  "math_abs (Num q) = Num \<bar>q\<bar>"
| "math_abs NegZero = Num 0"
| "math_abs NegInf = PosInf"
| "math_abs x = x"

text \<open>\<^verbatim>\<open>math.Pow10\<close>: the table lookup of the library, a product (or quotient) of two powers.\<close>

definition math_pow10 :: "int \<Rightarrow> f64" where
  "math_pow10 n =
     (if 0 \<le> n \<and> n \<le> 308 then fmul (flit (10 ^ (32 * (nat n div 32)))) (flit (10 ^ (nat n mod 32)))
      else if -323 \<le> n \<and> n \<le> 0
        then fdiv (flit (1 / 10 ^ (32 * (nat (- n) div 32)))) (flit (10 ^ (nat (- n) mod 32)))
      else if 0 < n then PosInf else Num 0)"

text \<open>Conversions to integers truncate. For a value the type cannot hold Go leaves the result to
  the implementation: the model takes amd64's, which converts through a 64-bit register and gives
  the smallest \<^verbatim>\<open>int64\<close> (whose low 16 bits are 0) for NaN and for values outside
  \<^verbatim>\<open>int64\<close>.\<close>

definition rat_trunc :: "rat \<Rightarrow> int" where
  "rat_trunc q = (if q < 0 then - \<lfloor>- q\<rfloor> else \<lfloor>q\<rfloor>)"

definition int64_of_f64 :: "f64 \<Rightarrow> int" where
  "int64_of_f64 x =
     (if is_fin x \<and> - (2 ^ 63) \<le> rat_trunc (fval x) \<and> rat_trunc (fval x) < 2 ^ 63
      then rat_trunc (fval x) else - (2 ^ 63))"

definition u16_of_f64 :: "f64 \<Rightarrow> u16" where
  "u16_of_f64 x = word_of_int (int64_of_f64 x)"


section \<open>Rounding lemmas\<close>

lemma ilog2_spec:
  assumes "0 < x"
  shows "2 powi ilog2 x \<le> x \<and> x < 2 powi (ilog2 x + 1)"
proof -
  obtain a b where q: "quotient_of x = (a, b)" by fastforce
  have b: "0 < b" using quotient_of_denom_pos [OF q] .
  have x: "x = of_int a / of_int b" using quotient_of_div [OF q] .
  with assms b have a: "0 < a"
    by (simp add: zero_less_divide_iff)
  have bit: "2 powi (bitlen c - 1) \<le> (of_int c :: rat) \<and> (of_int c :: rat) < 2 powi bitlen c"
    if "0 < c" for c
  proof -
    have c: "2 ^ nat (bitlen c - 1) \<le> c" "c < 2 ^ nat (bitlen c)"
      using bitlen_bounds [OF that] by auto
    have n: "0 \<le> bitlen c - 1"
      using that by (simp add: bitlen_alt_def)
    have "(2::rat) powi (bitlen c - 1) = of_int (2 ^ nat (bitlen c - 1))"
      using n by (simp add: power_int_def)
    moreover have "(2::rat) powi bitlen c = of_int (2 ^ nat (bitlen c))"
      using n by (simp add: power_int_def)
    ultimately show ?thesis
      using c by (simp only: of_int_le_iff of_int_less_iff)
  qed
  let ?n = "bitlen a - bitlen b"
  have b': "(0::rat) < of_int b" using b by simp
  have up: "x < 2 powi (?n + 1)"
  proof -
    have "x * 2 powi (bitlen b - 1) \<le> x * of_int b"
      using assms bit [OF b] by (intro mult_left_mono) auto
    also have "\<dots> = of_int a" using x b by simp
    also have "\<dots> < 2 powi bitlen a" using bit [OF a] by blast
    also have "\<dots> = 2 powi (?n + 1) * 2 powi (bitlen b - 1)"
      by (subst power_int_add [symmetric]) auto
    finally show ?thesis by simp
  qed
  have low: "2 powi (?n - 1) \<le> x"
  proof -
    have "(2::rat) powi (?n - 1) * of_int b \<le> 2 powi (?n - 1) * 2 powi bitlen b"
      using bit [OF b] by (intro mult_left_mono) auto
    also have "\<dots> = 2 powi (bitlen a - 1)"
      by (subst power_int_add [symmetric]) auto
    also have "\<dots> \<le> of_int a" using bit [OF a] by blast
    finally show ?thesis using x b' by (simp add: pos_le_divide_eq)
  qed
  show ?thesis
    using up low by (auto simp: ilog2_def q Let_def)
qed

lemma ilog2_less:
  assumes "0 < x" "x < 2 powi k"
  shows "ilog2 x < k"
proof (rule ccontr)
  assume "\<not> ilog2 x < k"
  then have "(2::rat) powi k \<le> 2 powi ilog2 x"
    by (intro power_int_increasing) auto
  with assms ilog2_spec [OF assms(1)] show False by linarith
qed

lemma ilog2_ge:
  assumes "0 < x" "2 powi k \<le> x"
  shows "k \<le> ilog2 x"
proof (rule ccontr)
  assume "\<not> k \<le> ilog2 x"
  then have "(2::rat) powi (ilog2 x + 1) \<le> 2 powi k"
    by (intro power_int_increasing) auto
  with assms ilog2_spec [OF assms(1)] show False by linarith
qed

lemma ilog2_powi [simp]: "ilog2 (2 powi k) = k"
proof (rule antisym)
  have "(2::rat) powi k < 2 powi (k + 1)" by (simp add: power_int_add)
  then have "ilog2 (2 powi k) < k + 1" by (intro ilog2_less) auto
  then show "ilog2 (2 powi k) \<le> k" by simp
  show "k \<le> ilog2 (2 powi k)" by (rule ilog2_ge) auto
qed

lemma rne_of_int [simp]: "rne (of_int n) = n"
  by (simp add: rne_def)

lemma rne_error: "\<bar>of_int (rne x) - x\<bar> \<le> 1 / 2"
proof -
  have "of_int \<lfloor>x\<rfloor> \<le> x" "x < of_int \<lfloor>x\<rfloor> + 1" by linarith+
  then show ?thesis
    by (auto simp: rne_def Let_def abs_le_iff)
qed

lemma round53_0 [simp]: "round53 0 = 0"
  by (simp add: round53_def)

lemma round53_error:
  assumes "\<bar>x\<bar> \<le> 2 powi k" "-1021 \<le> k"
  shows "\<bar>round53 x - x\<bar> \<le> 2 powi (k - 53)"
proof (cases "x = 0")
  case False
  define q where "q = max (ilog2 \<bar>x\<bar> - 52) (-1074)"
  have r: "round53 x = of_int (rne (x / 2 powi q)) * 2 powi q"
    using False by (simp add: round53_def q_def Let_def)
  have "round53 x - x = (of_int (rne (x / 2 powi q)) - x / 2 powi q) * 2 powi q"
    by (simp add: r left_diff_distrib)
  then have e: "\<bar>round53 x - x\<bar> \<le> 1 / 2 * 2 powi q"
    using rne_error [of "x / 2 powi q"] by (simp add: abs_mult mult_right_mono)
  have half: "(1 / 2 :: rat) * 2 powi q = 2 powi (q - 1)"
    by (simp add: power_int_diff)
  have "ilog2 \<bar>x\<bar> \<le> k"
  proof -
    have "(2::rat) powi k < 2 powi (k + 1)" by (simp add: power_int_add)
    with assms(1) False have "ilog2 \<bar>x\<bar> < k + 1" by (intro ilog2_less) auto
    then show ?thesis by simp
  qed
  then have "q - 1 \<le> k - 53"
    using assms(2) by (auto simp: q_def)
  then have "(2::rat) powi (q - 1) \<le> 2 powi (k - 53)"
    by (intro power_int_increasing) auto
  with e half show ?thesis by simp
qed simp

lemma round53_exact:
  assumes "\<bar>m\<bar> \<le> 2 ^ 53" "-1074 \<le> e"
  shows "round53 (of_int m * 2 powi e) = of_int m * 2 powi e"
proof (cases "m = 0")
  case False
  let ?x = "of_int m * 2 powi e :: rat"
  define q where "q = max (ilog2 \<bar>?x\<bar> - 52) (-1074)"
  have r: "round53 ?x = of_int (rne (?x / 2 powi q)) * 2 powi q"
    using False by (simp add: round53_def q_def Let_def)
  have "\<exists>n. ?x / 2 powi q = of_int n"
  proof (cases "\<bar>m\<bar> = 2 ^ 53")
    case True
    have pw: "(2::rat) ^ 53 = 2 powi 53" by simp
    have "\<bar>?x\<bar> = of_int \<bar>m\<bar> * 2 powi e"
      by (simp add: abs_mult)
    also have "\<dots> = 2 powi (e + 53)"
      unfolding True by (simp add: power_int_add)
    finally have "q = e + 1"
      using assms(2) by (simp add: q_def)
    then have "?x / 2 powi q = of_int (sgn m * 2 ^ 52)"
      using True by (cases "m < 0") (auto simp: power_int_add)
    then show ?thesis by blast
  next
    case less: False
    have "\<bar>?x\<bar> < 2 powi (e + 53)"
    proof -
      have "(of_int \<bar>m\<bar> :: rat) < of_int (2 ^ 53)"
        unfolding of_int_less_iff using less assms(1) by linarith
      then have "(of_int \<bar>m\<bar> :: rat) * 2 powi e < 2 ^ 53 * 2 powi e"
        by (intro mult_strict_right_mono) auto
      then show ?thesis by (simp add: abs_mult power_int_add)
    qed
    then have "ilog2 \<bar>?x\<bar> < e + 53"
      using False by (intro ilog2_less) (auto simp: abs_mult)
    then have "q \<le> e" using assms(2) by (auto simp: q_def)
    then have "?x / 2 powi q = of_int m * 2 powi (e - q)"
      by (simp add: power_int_diff)
    also have "\<dots> = of_int (m * 2 ^ nat (e - q))"
      using \<open>q \<le> e\<close> by (simp add: power_int_def)
    finally show ?thesis by blast
  qed
  then obtain n where n: "?x / 2 powi q = of_int n" by blast
  then have "round53 ?x = of_int n * 2 powi q" by (simp add: r)
  also have "\<dots> = ?x" by (simp flip: n)
  finally show ?thesis .
qed simp

lemma round53_of_int: "\<bar>m\<bar> \<le> 2 ^ 53 \<Longrightarrow> round53 (of_int m) = of_int m"
  using round53_exact [of m 0] by simp


section \<open>Computing with finite operands\<close>

lemma powi_53_ge_1: "(1::rat) \<le> 2 powi k" if "0 \<le> k" for k
  using that by (simp add: power_int_def)

lemma fround_fin:
  assumes "\<bar>q\<bar> \<le> 2 powi k" "-1021 \<le> k" "k \<le> 1000"
  shows "is_fin (fround z q)" "fval (fround z q) = round53 q"
    "\<bar>fval (fround z q) - q\<bar> \<le> 2 powi (k - 53)"
proof -
  have e: "\<bar>round53 q - q\<bar> \<le> 2 powi (k - 53)"
    using round53_error assms by blast
  have "(2::rat) powi k \<le> 2 powi 1000" "(2::rat) powi (k - 53) \<le> 2 powi 1000"
    using assms by (intro power_int_increasing; simp)+
  with e assms(1) have "\<bar>round53 q\<bar> \<le> 2 powi 1000 + 2 powi 1000" by linarith
  also have "\<dots> < (2::rat) ^ 1024" by simp
  finally have b: "\<bar>round53 q\<bar> < 2 powi 1024" by simp
  then have *: "round53 q \<noteq> 0 \<Longrightarrow> \<not> 1024 \<le> ilog2 \<bar>round53 q\<bar>"
    using ilog2_less [of "\<bar>round53 q\<bar>" 1024] by auto
  show "is_fin (fround z q)"
    using * by (simp add: fround_def Let_def is_fin_def)
  show v: "fval (fround z q) = round53 q"
    using * by (simp add: fround_def Let_def)
  show "\<bar>fval (fround z q) - q\<bar> \<le> 2 powi (k - 53)"
    using e v by simp
qed

lemma is_fin_simps [simp]:
  "is_fin (Num q)" "is_fin NegZero" "\<not> is_fin PosInf" "\<not> is_fin NegInf" "\<not> is_fin NaN"
  by (simp_all add: is_fin_def)

lemma is_fin_cases: "is_fin x \<Longrightarrow> (\<And>q. x = Num q \<Longrightarrow> P) \<Longrightarrow> (x = NegZero \<Longrightarrow> P) \<Longrightarrow> P"
  by (cases x) auto

lemma fval_fneg: "fval (fneg x) = - fval x" and is_fin_fneg: "is_fin (fneg x) = is_fin x"
  by (cases x; simp)+

lemma flt_fin [simp]: "is_fin x \<Longrightarrow> is_fin y \<Longrightarrow> flt x y \<longleftrightarrow> fval x < fval y"
  by (cases x; cases y) (auto simp: flt_def)

lemma feq_fin [simp]: "is_fin x \<Longrightarrow> is_fin y \<Longrightarrow> feq x y \<longleftrightarrow> fval x = fval y"
  by (cases x; cases y) (auto simp: feq_def)

lemma fle_fin [simp]: "is_fin x \<Longrightarrow> is_fin y \<Longrightarrow> fle x y \<longleftrightarrow> fval x \<le> fval y"
  by (auto simp: fle_def)

lemma fmul_fin:
  assumes "is_fin x" "is_fin y" "\<bar>fval x * fval y\<bar> \<le> 2 powi k" "-1021 \<le> k" "k \<le> 1000"
  shows "is_fin (fmul x y)" "fval (fmul x y) = round53 (fval x * fval y)"
    "\<bar>fval (fmul x y) - fval x * fval y\<bar> \<le> 2 powi (k - 53)"
proof -
  have "fmul x y = fround (fsign x \<noteq> fsign y) (fval x * fval y)"
    using assms(1,2) by (auto simp: fmul_def is_fin_def)
  with fround_fin [OF assms(3-5)]
  show "is_fin (fmul x y)" "fval (fmul x y) = round53 (fval x * fval y)"
    "\<bar>fval (fmul x y) - fval x * fval y\<bar> \<le> 2 powi (k - 53)"
    by simp_all
qed

lemma fdiv_fin:
  assumes "is_fin x" "is_fin y" "fval y \<noteq> 0" "\<bar>fval x / fval y\<bar> \<le> 2 powi k" "-1021 \<le> k" "k \<le> 1000"
  shows "is_fin (fdiv x y)" "fval (fdiv x y) = round53 (fval x / fval y)"
    "\<bar>fval (fdiv x y) - fval x / fval y\<bar> \<le> 2 powi (k - 53)"
proof -
  have "fdiv x y = fround (fsign x \<noteq> fsign y) (fval x / fval y)"
    using assms(1-3) by (auto simp: fdiv_def is_fin_def)
  with fround_fin [OF assms(4-6)]
  show "is_fin (fdiv x y)" "fval (fdiv x y) = round53 (fval x / fval y)"
    "\<bar>fval (fdiv x y) - fval x / fval y\<bar> \<le> 2 powi (k - 53)"
    by simp_all
qed

lemma fadd_fin:
  assumes "is_fin x" "is_fin y" "\<bar>fval x + fval y\<bar> \<le> 2 powi k" "-1021 \<le> k" "k \<le> 1000"
  shows "is_fin (fadd x y)" "fval (fadd x y) = round53 (fval x + fval y)"
    "\<bar>fval (fadd x y) - (fval x + fval y)\<bar> \<le> 2 powi (k - 53)"
proof -
  have "fadd x y = fround (x = NegZero \<and> y = NegZero) (fval x + fval y)"
    using assms(1,2) by (auto simp: fadd_def is_fin_def)
  with fround_fin [OF assms(3-5)]
  show "is_fin (fadd x y)" "fval (fadd x y) = round53 (fval x + fval y)"
    "\<bar>fval (fadd x y) - (fval x + fval y)\<bar> \<le> 2 powi (k - 53)"
    by simp_all
qed

lemma fsub_fin:
  assumes "is_fin x" "is_fin y" "\<bar>fval x - fval y\<bar> \<le> 2 powi k" "-1021 \<le> k" "k \<le> 1000"
  shows "is_fin (fsub x y)" "fval (fsub x y) = round53 (fval x - fval y)"
    "\<bar>fval (fsub x y) - (fval x - fval y)\<bar> \<le> 2 powi (k - 53)"
  using fadd_fin [of x "fneg y" k] assms by (simp_all add: fsub_def fval_fneg is_fin_fneg)

lemma f64_of_int_exact:
  assumes "\<bar>n\<bar> \<le> 2 ^ 53"
  shows "f64_of_int n = Num (of_int n)"
proof -
  have "\<bar>of_int n :: rat\<bar> \<le> 2 ^ 53"
    using assms by (metis of_int_abs of_int_le_iff of_int_numeral of_int_power)
  also have "\<dots> < 2 powi 1024" by simp
  finally have "n \<noteq> 0 \<Longrightarrow> ilog2 \<bar>of_int n\<bar> < 1024"
    by (intro ilog2_less) auto
  then have "n \<noteq> 0 \<Longrightarrow> \<not> 1024 \<le> ilog2 \<bar>of_int n\<bar>" by simp
  then show ?thesis
    by (cases "n = 0") (simp_all add: f64_of_int_def fround_def round53_of_int [OF assms] Let_def)
qed

lemma round_half_near:
  assumes "\<bar>q - of_int n\<bar> < 1 / 2"
  shows "round_half q = n"
proof -
  from assms have b: "q - of_int n < 1 / 2" "- (1 / 2) < q - of_int n"
    by (simp_all only: abs_less_iff) linarith
  show ?thesis
  proof (cases "q < 0")
    case True
    have "\<lfloor>- q + 1 / 2\<rfloor> = - n"
      by (rule floor_unique) (use b in linarith)+
    with True show ?thesis by (simp add: round_half_def)
  next
    case False
    have "\<lfloor>q + 1 / 2\<rfloor> = n"
      by (rule floor_unique) (use b in linarith)+
    with False show ?thesis by (simp add: round_half_def)
  qed
qed

lemma round_half_of_int [simp]: "round_half (of_int n) = n"
  by (rule round_half_near) simp

lemma math_round_fin:
  assumes "is_fin x"
  shows "is_fin (math_round x)" "fval (math_round x) = of_int (round_half (fval x))"
  using assms round_half_of_int [of 0] by (auto elim!: is_fin_cases simp del: round_half_of_int)

lemma math_abs_fin:
  assumes "is_fin x"
  shows "is_fin (math_abs x)" "fval (math_abs x) = \<bar>fval x\<bar>"
  using assms by (auto elim!: is_fin_cases)

lemma rat_trunc_of_int [simp]: "rat_trunc (of_int n) = n"
  by (simp add: rat_trunc_def)

lemma int64_of_f64_fin:
  "is_fin x \<Longrightarrow> fval x = of_int n \<Longrightarrow> - (2 ^ 63) \<le> n \<Longrightarrow> n < 2 ^ 63 \<Longrightarrow> int64_of_f64 x = n"
  by (simp add: int64_of_f64_def)

end
