(* ===== verification/GoText.thy ===== *)
theory GoText
  imports GoFloat
begin

text \<open>
  The parts of Go's \<^verbatim>\<open>strings\<close>, \<^verbatim>\<open>strconv\<close> and \<^verbatim>\<open>fmt\<close> the program uses,
  on byte strings: case mapping and trimming, integer and float rendering, integer and float
  parsing.

  Case mapping covers ASCII and the non-ASCII letters whose image is an ASCII letter; other
  letters are kept. The program compares the results with ASCII texts only, where this is exact.
\<close>

section \<open>Strings\<close>

fun lower_byte :: "char \<Rightarrow> char" where
  "lower_byte c = (let n = of_char c :: int in if 65 \<le> n \<and> n \<le> 90 then char_of (n + 32) else c)"

fun upper_byte :: "char \<Rightarrow> char" where
  "upper_byte c = (let n = of_char c :: int in if 97 \<le> n \<and> n \<le> 122 then char_of (n - 32) else c)"

definition has_prefix :: "string \<Rightarrow> string \<Rightarrow> bool" where
  "has_prefix s p \<longleftrightarrow> take (length p) s = p"

definition trim_prefix :: "string \<Rightarrow> string \<Rightarrow> string" where
  "trim_prefix s p = (if has_prefix s p then drop (length p) s else s)"

definition trim_suffix :: "string \<Rightarrow> string \<Rightarrow> string" where
  "trim_suffix s p = rev (trim_prefix (rev s) (rev p))"

text \<open>\<open>map_seqs seqs f s\<close> replaces each byte sequence listed in \<open>seqs\<close> by its image and maps
  every other byte by \<open>f\<close>.\<close>

fun match_seq :: "(string \<times> string) list \<Rightarrow> string \<Rightarrow> (string \<times> string) option" where
  "match_seq [] s = None"
| "match_seq ((p, r) # ps) s =
     (if p \<noteq> [] \<and> has_prefix s p then Some (r, drop (length p) s) else match_seq ps s)"

lemma match_seq_shorter: "match_seq ps s = Some (r, t) \<Longrightarrow> length t < length s"
  by (induction ps s rule: match_seq.induct)
    (auto simp: has_prefix_def split: if_splits, metis diff_less length_greater_0_conv take_eq_Nil2)

function map_seqs :: "(string \<times> string) list \<Rightarrow> (char \<Rightarrow> char) \<Rightarrow> string \<Rightarrow> string" where
  "map_seqs ps f s =
     (case match_seq ps s of
        Some (r, t) \<Rightarrow> r @ map_seqs ps f t
      | None \<Rightarrow> (case s of [] \<Rightarrow> [] | c # t \<Rightarrow> f c # map_seqs ps f t))"
  by pat_completeness auto
termination
  by (relation "measure (\<lambda>(ps, f, s). length s)") (auto dest: match_seq_shorter)

declare map_seqs.simps [simp del]

text \<open>U+0130 lowers to i and the Kelvin sign U+212A to k; U+017F and U+0131 rise to S and I;
  under case folding U+017F equals s and U+212A equals k.\<close>

definition to_lower :: "string \<Rightarrow> string" where
  "to_lower = map_seqs [([CHR 0xC4, CHR 0xB0], ''i''), ([CHR 0xE2, CHR 0x84, CHR 0xAA], ''k'')] lower_byte"

definition to_upper :: "string \<Rightarrow> string" where
  "to_upper = map_seqs [([CHR 0xC5, CHR 0xBF], ''S''), ([CHR 0xC4, CHR 0xB1], ''I'')] upper_byte"

definition fold_case :: "string \<Rightarrow> string" where
  "fold_case = map_seqs [([CHR 0xC5, CHR 0xBF], ''s''), ([CHR 0xE2, CHR 0x84, CHR 0xAA], ''k'')] lower_byte"

definition equal_fold :: "string \<Rightarrow> string \<Rightarrow> bool" where
  "equal_fold s t \<longleftrightarrow> fold_case s = fold_case t"

text \<open>White space: the ASCII space characters and the UTF-8 sequences of U+0085, U+00A0, U+1680,
  U+2000 to U+200A, U+2028, U+2029, U+202F, U+205F and U+3000.\<close>

definition space_seqs :: "string list" where
  "space_seqs =
     map (\<lambda>n. [char_of (n :: int)]) [9, 10, 11, 12, 13, 32]
     @ [[CHR 0xC2, CHR 0x85], [CHR 0xC2, CHR 0xA0], [CHR 0xE1, CHR 0x9A, CHR 0x80],
        [CHR 0xE2, CHR 0x80, CHR 0xA8], [CHR 0xE2, CHR 0x80, CHR 0xA9], [CHR 0xE2, CHR 0x80, CHR 0xAF],
        [CHR 0xE2, CHR 0x81, CHR 0x9F], [CHR 0xE3, CHR 0x80, CHR 0x80]]
     @ map (\<lambda>n. [CHR 0xE2, CHR 0x80, char_of (n :: int)]) [128 .. 138]"

function trim_left_seqs :: "string list \<Rightarrow> string \<Rightarrow> string" where
  "trim_left_seqs ws s =
     (case match_seq (map (\<lambda>w. (w, [])) ws) s of
        Some (r, t) \<Rightarrow> trim_left_seqs ws t
      | None \<Rightarrow> s)"
  by pat_completeness auto
termination
  by (relation "measure (\<lambda>(ws, s). length s)") (auto dest: match_seq_shorter)

declare trim_left_seqs.simps [simp del]

definition trim_space :: "string \<Rightarrow> string" where
  "trim_space s = rev (trim_left_seqs (map rev space_seqs) (rev (trim_left_seqs space_seqs s)))"

section \<open>Rendering numbers\<close>

definition digit_char :: "int \<Rightarrow> char" where
  "digit_char d = char_of (48 + d)"

text \<open>The decimal digits of a non-negative number.\<close>

function show_dec :: "int \<Rightarrow> string" where
  "show_dec n = (if n < 10 then [digit_char n] else show_dec (n div 10) @ [digit_char (n mod 10)])"
  by pat_completeness auto
termination
  by (relation "measure nat") auto

declare show_dec.simps [simp del]

definition show_int :: "int \<Rightarrow> string" where
  "show_int n = (if n < 0 then ''-'' @ show_dec (- n) else show_dec n)"

text \<open>The verb \<^verbatim>\<open>%0wd\<close> for a non-negative number.\<close>

definition show_padded :: "nat \<Rightarrow> int \<Rightarrow> string" where
  "show_padded w n = replicate (w - length (show_dec n)) (CHR ''0'') @ show_dec n"

text \<open>\<^verbatim>\<open>strconv.FormatFloat(x, 'f', prec, 64)\<close>: the decimal with \<open>prec\<close> digits nearest to
  the exact binary value, ties to even.\<close>

definition format_float :: "f64 \<Rightarrow> nat \<Rightarrow> string" where
  "format_float x prec =
     (if x = NaN then ''NaN''
      else if x = PosInf then ''+Inf''
      else if x = NegInf then ''-Inf''
      else let n = rne (\<bar>fval x\<bar> * 10 ^ prec);
               i = show_dec (n div 10 ^ prec);
               f = (if prec = 0 then [] else CHR ''.'' # show_padded prec (n mod 10 ^ prec))
           in (if fsign x then ''-'' else []) @ i @ f)"

section \<open>Parsing numbers\<close>

definition digit_val :: "char \<Rightarrow> int option" where
  "digit_val c = (let n = of_char c :: int in if 48 \<le> n \<and> n \<le> 57 then Some (n - 48) else None)"

definition hex_val :: "char \<Rightarrow> int option" where
  "hex_val c = (let n = of_char (lower_byte c) :: int in
     if 48 \<le> n \<and> n \<le> 57 then Some (n - 48)
     else if 97 \<le> n \<and> n \<le> 102 then Some (n - 87) else None)"

definition is_digit :: "char \<Rightarrow> bool" where
  "is_digit c \<longleftrightarrow> digit_val c \<noteq> None"

definition digits_val :: "int \<Rightarrow> (char \<Rightarrow> int option) \<Rightarrow> string \<Rightarrow> int" where
  "digits_val base dv s = foldl (\<lambda>n c. n * base + (case dv c of None \<Rightarrow> 0 | Some d \<Rightarrow> d)) 0 s"

fun split_sign :: "string \<Rightarrow> bool \<times> string" where
  "split_sign [] = (False, [])"
| "split_sign (c # s) =
     (if c = CHR ''+'' then (False, s) else if c = CHR ''-'' then (True, s) else (False, c # s))"

text \<open>\<^verbatim>\<open>strconv.ParseInt(s, 10, 64)\<close> and \<^verbatim>\<open>strconv.Atoi\<close>; \<open>None\<close> is an error (syntax or range).\<close>

definition parse_int :: "string \<Rightarrow> int option" where
  "parse_int s = (case split_sign s of (neg, t) \<Rightarrow>
     if t = [] \<or> \<not> list_all is_digit t then None
     else let n = digits_val 10 digit_val t; v = (if neg then - n else n)
          in if - (2 ^ 63) \<le> v \<and> v < 2 ^ 63 then Some v else None)"

text \<open>\<^verbatim>\<open>underscoreOK\<close>: underscores only between digits or after a base prefix. The last
  character class seen is 0 (a digit), 1 (an underscore) or 2 (anything else).\<close>

fun underscores_scan :: "bool \<Rightarrow> nat \<Rightarrow> string \<Rightarrow> bool" where
  "underscores_scan hex saw [] = (saw \<noteq> 1)"
| "underscores_scan hex saw (c # s) =
     (if is_digit c \<or> hex \<and> hex_val c \<noteq> None then underscores_scan hex 0 s
      else if c = CHR ''_'' then saw = 0 \<and> underscores_scan hex 1 s
      else saw \<noteq> 1 \<and> underscores_scan hex 2 s)"

definition underscore_ok :: "string \<Rightarrow> bool" where
  "underscore_ok s =
     (let t = snd (split_sign s) in
      if 2 \<le> length t \<and> hd t = CHR ''0'' \<and> lower_byte (t ! 1) \<in> {CHR ''b'', CHR ''o'', CHR ''x''}
      then underscores_scan (lower_byte (t ! 1) = CHR ''x'') 0 (drop 2 t)
      else underscores_scan False 2 t)"

text \<open>The exponent: a sign and digits; the parser stops accumulating at 10000.\<close>

definition parse_exp :: "string \<Rightarrow> int option" where
  "parse_exp s = (case split_sign s of (neg, t) \<Rightarrow>
     if t = [] \<or> \<not> list_all is_digit t then None
     else let e = foldl (\<lambda>n c. if n < 10000 then n * 10 + (case digit_val c of None \<Rightarrow> 0 | Some d \<Rightarrow> d) else n) (0 :: int) t
          in Some (if neg then - e else e))"

text \<open>A mantissa in base 10 or 16: digits with at most one point, then the rest.\<close>

definition parse_mant :: "(char \<Rightarrow> int option) \<Rightarrow> string \<Rightarrow> string \<times> string \<times> string" where
  "parse_mant dv s =
     (let p = (\<lambda>c. dv c \<noteq> None); i = takeWhile p s; r = dropWhile p s
      in case r of
           [] \<Rightarrow> (i, [], [])
         | c # r' \<Rightarrow> if c = CHR ''.'' then (i, takeWhile p r', dropWhile p r') else (i, [], r))"

definition finite_or_none :: "f64 \<Rightarrow> f64 option" where
  "finite_or_none x = (if is_inf x then None else Some x)"

definition parse_decimal :: "bool \<Rightarrow> string \<Rightarrow> f64 option" where
  "parse_decimal neg s = (case parse_mant digit_val s of (i, f, r) \<Rightarrow>
     if i @ f = [] then None
     else let m = rat_of_int (digits_val 10 digit_val (i @ f));
              v = (\<lambda>e. let q = m * 10 powi (e - int (length f))
                       in finite_or_none (fround neg (if neg then - q else q)))
          in case r of
               [] \<Rightarrow> v 0
             | c # r' \<Rightarrow> if lower_byte c = CHR ''e''
                 then (case parse_exp r' of None \<Rightarrow> None | Some e \<Rightarrow> v e) else None)"

definition parse_hex :: "bool \<Rightarrow> string \<Rightarrow> f64 option" where
  "parse_hex neg s = (case parse_mant hex_val s of (i, f, r) \<Rightarrow>
     if i @ f = [] then None
     else case r of
        [] \<Rightarrow> None
      | c # r' \<Rightarrow> if lower_byte c = CHR ''p''
          then (case parse_exp r' of None \<Rightarrow> None
                | Some e \<Rightarrow>
                    let q = rat_of_int (digits_val 16 hex_val (i @ f)) * 2 powi (e - 4 * int (length f))
                    in finite_or_none (fround neg (if neg then - q else q)))
          else None)"

text \<open>\<^verbatim>\<open>strconv.ParseFloat(s, 64)\<close>; \<open>None\<close> is an error (syntax or range).\<close>

definition parse_float :: "string \<Rightarrow> f64 option" where
  "parse_float s =
     (let (neg, t) = split_sign s; l = map lower_byte t in
      if map lower_byte s = ''nan'' then Some NaN
      else if l = ''inf'' \<or> l = ''infinity'' then Some (if neg then NegInf else PosInf)
      else if CHR ''_'' \<in> set s \<and> \<not> underscore_ok s then None
      else let u = filter (\<lambda>c. c \<noteq> CHR ''_'') t in
        if 2 < length u \<and> take 1 u = ''0'' \<and> lower_byte (u ! 1) = CHR ''x''
        then parse_hex neg (drop 2 u) else parse_decimal neg u)"

section \<open>Texts that trimming keeps\<close>

text \<open>A printing character of ASCII begins no white space, in either direction.\<close>

lemma match_none: "list_all (\<lambda>w. w = [] \<or> hd w \<noteq> c) ws \<Longrightarrow> match_seq (map (\<lambda>w. (w, [])) ws) (c # s) = None"
  by (induction ws) (auto simp: has_prefix_def neq_Nil_conv)

definition plain_char :: "char \<Rightarrow> bool" where
  "plain_char c \<longleftrightarrow> (let n = of_char c :: int in 32 < n \<and> n < 128)"

lemma spaces_apart: "plain_char c \<Longrightarrow> list_all (\<lambda>w. w = [] \<or> hd w \<noteq> c) (space_seqs @ map rev space_seqs)"
proof -
  assume c: "plain_char c"
  have "list_all (\<lambda>w. w \<noteq> [] \<and> \<not> plain_char (hd w)) (space_seqs @ map rev space_seqs)" by code_simp
  with c show ?thesis by (auto simp: list_all_iff)
qed

lemma trim_space_id:
  assumes "s \<noteq> []" "plain_char (hd s)" "plain_char (last s)"
  shows "trim_space s = s"
proof -
  have l: "trim_left_seqs ws t = t" if "t \<noteq> []" "list_all (\<lambda>w. w = [] \<or> hd w \<noteq> hd t) ws" for ws t
    using that match_none [of "hd t" ws "tl t"] by (subst trim_left_seqs.simps) simp
  have "trim_left_seqs space_seqs s = s" using assms spaces_apart [OF assms(2)] by (intro l) simp_all
  moreover have "trim_left_seqs (map rev space_seqs) (rev s) = rev s"
    using assms(1) spaces_apart [OF assms(3)] by (intro l) (simp_all add: hd_rev)
  ultimately show ?thesis by (simp add: trim_space_def)
qed

end
