(* ===== verification/InverterClock.thy ===== *)
theory InverterClock
  imports GoText
begin

text \<open>
  \<^verbatim>\<open>internal/inverterclock/clock.go\<close>: the inverter's wall clock, three holding registers
  from 0x020C that pack year and month, day and hour, minute and second.

  \<open>date_time\<close> is the struct \<^verbatim>\<open>DateTime\<close>; \<open>validate\<close>, \<open>decode_clock\<close>,
  \<open>encode_clock\<close>, \<open>parse_local\<close>, \<open>clock_read\<close> and \<open>clock_set\<close> are the
  functions of the file. The interface \<^verbatim>\<open>WordAccessor\<close> is the locale
  \<open>word_accessor\<close>; the Modbus service provides it. \<^verbatim>\<open>time.Date\<close> normalises a day
  past the end of its month into the following months (\<open>norm_day\<close>). The time zone is outside
  the program: \<open>tz\<close> gives the wall clock that \<^verbatim>\<open>time.Date\<close> in \<^verbatim>\<open>time.Local\<close>
  shows for the given one (another one only in a gap of the zone).
\<close>

record date_time =
  dt_year :: int
  dt_month :: int
  dt_day :: int
  dt_hour :: int
  dt_minute :: int
  dt_second :: int
  dt_formatted :: string
  dt_valid :: bool

definition dateTimeAddress :: u16 where
  "dateTimeAddress = 0x020C"

definition dateTimeWords :: u16 where
  "dateTimeWords = 3"

section \<open>The calendar of package time\<close>

definition leap_year :: "int \<Rightarrow> bool" where
  "leap_year y \<longleftrightarrow> y mod 4 = 0 \<and> (y mod 100 \<noteq> 0 \<or> y mod 400 = 0)"

definition days_in :: "int \<Rightarrow> int \<Rightarrow> int" where
  "days_in y m =
     (if m = 2 then (if leap_year y then 29 else 28)
      else if m = 4 \<or> m = 6 \<or> m = 9 \<or> m = 11 then 30 else 31)"

lemma days_in_pos: "0 < days_in y m" and days_in_bounds: "28 \<le> days_in y m \<and> days_in y m \<le> 31"
  by (simp_all add: days_in_def)

function norm_day :: "int \<Rightarrow> int \<Rightarrow> int \<Rightarrow> int \<times> int \<times> int" where
  "norm_day y m d =
     (if d \<le> days_in y m then (y, m, d)
      else if m = 12 then norm_day (y + 1) 1 (d - days_in y m)
      else norm_day y (m + 1) (d - days_in y m))"
  by pat_completeness auto
termination
  by (relation "measure (\<lambda>(y, m, d). nat d)") (auto simp: not_le intro: less_trans [OF days_in_pos] days_in_pos)

declare norm_day.simps [simp del]

lemma norm_day_same_iff:
  assumes "1 \<le> d" "d \<le> 31" "1 \<le> m" "m \<le> 12"
  shows "norm_day y m d = (y, m, d) \<longleftrightarrow> d \<le> days_in y m"
proof (cases "d \<le> days_in y m")
  case True
  then show ?thesis by (simp add: norm_day.simps)
next
  case False
  then have "d - days_in y m \<le> days_in (y + 1) 1" "d - days_in y m \<le> days_in y (m + 1)"
    using assms(2) days_in_bounds [of y m] days_in_bounds [of "y + 1" 1] days_in_bounds [of y "m + 1"]
    by linarith+
  then have "norm_day (y + 1) 1 (d - days_in y m) = (y + 1, 1, d - days_in y m)"
    "norm_day y (m + 1) (d - days_in y m) = (y, m + 1, d - days_in y m)"
    by (simp_all add: norm_day.simps)
  with False show ?thesis
    by (subst norm_day.simps) (auto split: if_splits)
qed

section \<open>Validation, decoding and encoding\<close>

definition validate :: "date_time \<Rightarrow> unit result" where
  "validate v =
     (if dt_year v < 2000 \<or> dt_year v > 2099
        then Inl (Errorf ''inverter clock year must be between 2000 and 2099'' [])
      else if dt_month v < 1 \<or> dt_month v > 12 \<or> dt_day v < 1 \<or> dt_day v > 31
          \<or> dt_hour v < 0 \<or> dt_hour v > 23 \<or> dt_minute v < 0 \<or> dt_minute v > 59
          \<or> dt_second v < 0 \<or> dt_second v > 59
        then Inl (Errorf ''invalid inverter date and time'' [])
      else if norm_day (dt_year v) (dt_month v) (dt_day v) \<noteq> (dt_year v, dt_month v, dt_day v)
        then Inl (Errorf ''invalid inverter date and time'' [])
      else Inr ())"

text \<open>The abstract specification: a date of the Gregorian calendar in the years 2000 to 2099 and a
  time of day.\<close>

definition clock_ok :: "date_time \<Rightarrow> bool" where
  "clock_ok v \<longleftrightarrow> 2000 \<le> dt_year v \<and> dt_year v \<le> 2099 \<and> 1 \<le> dt_month v \<and> dt_month v \<le> 12
     \<and> 1 \<le> dt_day v \<and> dt_day v \<le> days_in (dt_year v) (dt_month v)
     \<and> 0 \<le> dt_hour v \<and> dt_hour v \<le> 23 \<and> 0 \<le> dt_minute v \<and> dt_minute v \<le> 59
     \<and> 0 \<le> dt_second v \<and> dt_second v \<le> 59"

lemma validate_ok_iff: "validate v = Inr () \<longleftrightarrow> clock_ok v"
  using days_in_bounds [of "dt_year v" "dt_month v"]
    norm_day_same_iff [of "dt_day v" "dt_month v" "dt_year v"]
  by (auto simp: validate_def clock_ok_def)

lemma validate_cases: "clock_ok v \<and> validate v = Inr () \<or> \<not> clock_ok v \<and> (\<exists>e. validate v = Inl e)"
  using validate_ok_iff [of v] by (cases "validate v") auto

definition format_clock :: "date_time \<Rightarrow> string" where
  "format_clock v =
     show_padded 4 (dt_year v) @ ''-'' @ show_padded 2 (dt_month v) @ ''-'' @ show_padded 2 (dt_day v)
     @ '' '' @ show_padded 2 (dt_hour v) @ '':'' @ show_padded 2 (dt_minute v)
     @ '':'' @ show_padded 2 (dt_second v)"

definition format_invalid :: "date_time \<Rightarrow> string" where
  "format_invalid v =
     ''invalid raw clock ('' @ show_int (dt_year v) @ ''-'' @ show_int (dt_month v) @ ''-''
     @ show_int (dt_day v) @ '' '' @ show_int (dt_hour v) @ '':'' @ show_int (dt_minute v)
     @ '':'' @ show_int (dt_second v) @ '')''"

definition finish_clock :: "date_time \<Rightarrow> date_time" where
  "finish_clock value =
     (if validate value = Inr ()
      then value\<lparr>dt_valid := True, dt_formatted := format_clock value\<rparr>
      else value\<lparr>dt_formatted := format_invalid value\<rparr>)"

definition decode_clock :: "u16 list \<Rightarrow> date_time result" where
  "decode_clock words =
     (if length words < unat dateTimeWords
      then Inl (Errorf ''inverter clock requires %d words, got %d''
                 [AInt (uint dateTimeWords), AInt (int (length words))])
      else
        let rawYear = uint (drop_bit 8 (words ! 0));
            year = (if rawYear \<ge> 100 then 1900 + rawYear else 2000 + rawYear);
            value = \<lparr>dt_year = year,
                     dt_month = uint (words ! 0 AND 0xFF),
                     dt_day = uint (drop_bit 8 (words ! 1)),
                     dt_hour = uint (words ! 1 AND 0xFF),
                     dt_minute = uint (drop_bit 8 (words ! 2)),
                     dt_second = uint (words ! 2 AND 0xFF),
                     dt_formatted = '''', dt_valid = False\<rparr>
        in Inr (finish_clock value))"

definition encode_clock :: "date_time \<Rightarrow> u16 list result" where
  "encode_clock v =
     (case validate v of
        Inl e \<Rightarrow> Inl e
      | Inr _ \<Rightarrow> Inr
          [push_bit 8 (word_of_int (dt_year v - 2000)) OR word_of_int (dt_month v),
           push_bit 8 (word_of_int (dt_day v)) OR word_of_int (dt_hour v),
           push_bit 8 (word_of_int (dt_minute v)) OR word_of_int (dt_second v)])"

text \<open>A register packs two bytes; \<open>be16\<close> is the packing.\<close>

lemma uint_drop_bit_8: "uint (drop_bit 8 (w :: u16)) = uint (hi_byte w)"
  unfolding hi_byte_def
  by (rule bit_eqI) (auto simp: bit_simps bit_uint_iff dest: bit_imp_le_length)

lemma uint_and_mask: "uint ((w :: u16) AND 0xFF) = uint (lo_byte w)"
proof -
  have m: "(0xFF :: u16) = mask 8" by (simp add: mask_eq_exp_minus_1)
  show ?thesis
    unfolding m lo_byte_def
    by (rule bit_eqI) (auto simp: bit_simps bit_uint_iff)
qed

lemma pack_be16:
  assumes "0 \<le> h" "h < 256" "0 \<le> l" "l < 256"
  shows "push_bit 8 (word_of_int h) OR word_of_int l = be16 (word_of_int h) (word_of_int l)"
  using assms by (simp add: be16_def unsigned_of_int take_bit_int_eq_self)

lemma uint_byte_of_int: "0 \<le> n \<Longrightarrow> n < 256 \<Longrightarrow> uint (word_of_int n :: byte) = n"
  by (simp add: unsigned_of_int take_bit_int_eq_self)

lemmas clock_bytes = uint_drop_bit_8 uint_and_mask

text \<open>What the three words hold, whatever they are.\<close>

lemma clock_ok_update [simp]:
  "clock_ok (v\<lparr>dt_formatted := f\<rparr>) = clock_ok v" "clock_ok (v\<lparr>dt_valid := b\<rparr>) = clock_ok v"
  by (simp_all add: clock_ok_def)

lemma finish_clock_fields [simp]:
  "dt_year (finish_clock v) = dt_year v" "dt_month (finish_clock v) = dt_month v"
  "dt_day (finish_clock v) = dt_day v" "dt_hour (finish_clock v) = dt_hour v"
  "dt_minute (finish_clock v) = dt_minute v" "dt_second (finish_clock v) = dt_second v"
  by (simp_all add: finish_clock_def)

lemma finish_clock_valid: "\<not> dt_valid v \<Longrightarrow> dt_valid (finish_clock v) \<longleftrightarrow> clock_ok (finish_clock v)"
  by (simp add: finish_clock_def validate_ok_iff)

lemma decode_clock_fields:
  assumes "decode_clock ws = Inr v"
  shows "3 \<le> length ws"
    "dt_year v = (if 100 \<le> uint (hi_byte (ws ! 0)) then 1900 else 2000) + uint (hi_byte (ws ! 0))"
    "dt_month v = uint (lo_byte (ws ! 0))" "dt_day v = uint (hi_byte (ws ! 1))"
    "dt_hour v = uint (lo_byte (ws ! 1))" "dt_minute v = uint (hi_byte (ws ! 2))"
    "dt_second v = uint (lo_byte (ws ! 2))" "dt_valid v \<longleftrightarrow> clock_ok v"
  using assms
  by (auto simp: decode_clock_def dateTimeWords_def clock_bytes Let_def finish_clock_valid
      split: if_split_asm)

lemmas decode_clock_valid_iff = decode_clock_fields(8)

text \<open>Encoding then decoding gives the clock back, marked valid.\<close>

lemma encode_clock_words:
  assumes "clock_ok v"
  shows "encode_clock v = Inr
    [be16 (word_of_int (dt_year v - 2000)) (word_of_int (dt_month v)),
     be16 (word_of_int (dt_day v)) (word_of_int (dt_hour v)),
     be16 (word_of_int (dt_minute v)) (word_of_int (dt_second v))]"
proof -
  have "validate v = Inr ()" using assms by (simp add: validate_ok_iff)
  moreover have "dt_day v < 256"
    using assms days_in_bounds [of "dt_year v" "dt_month v"] by (simp add: clock_ok_def)
  ultimately show ?thesis
    using assms by (simp add: encode_clock_def pack_be16 clock_ok_def del: of_int_diff)
qed

lemma decode_encode_clock:
  assumes "clock_ok v" "encode_clock v = Inr ws"
  shows "decode_clock ws = Inr (v\<lparr>dt_valid := True, dt_formatted := format_clock v\<rparr>)"
proof -
  obtain y mo d h mi sec f b where v: "v = \<lparr>dt_year = y, dt_month = mo, dt_day = d, dt_hour = h,
      dt_minute = mi, dt_second = sec, dt_formatted = f, dt_valid = b\<rparr>"
    by (cases v)
  have ok: "2000 \<le> y" "y \<le> 2099" "1 \<le> mo" "mo \<le> 12" "1 \<le> d" "d \<le> days_in y mo" "0 \<le> h" "h \<le> 23"
    "0 \<le> mi" "mi \<le> 59" "0 \<le> sec" "sec \<le> 59"
    using assms(1) by (simp_all add: clock_ok_def v)
  have d: "d < 256" using ok days_in_bounds [of y mo] by simp
  have valid: "validate \<lparr>dt_year = y, dt_month = mo, dt_day = d, dt_hour = h,
      dt_minute = mi, dt_second = sec, dt_formatted = '''', dt_valid = False\<rparr> = Inr ()"
    using ok by (simp add: validate_ok_iff clock_ok_def)
  have bytes: "uint (word_of_int (y - 2000) :: byte) = y - 2000" "uint (word_of_int mo :: byte) = mo"
    "uint (word_of_int d :: byte) = d" "uint (word_of_int h :: byte) = h"
    "uint (word_of_int mi :: byte) = mi" "uint (word_of_int sec :: byte) = sec"
    using ok d by (simp_all only: uint_byte_of_int)
  have year: "\<not> 2100 \<le> y"
    using ok by simp
  have ws: "ws = [be16 (word_of_int (y - 2000)) (word_of_int mo),
      be16 (word_of_int d) (word_of_int h), be16 (word_of_int mi) (word_of_int sec)]"
    using assms(2) unfolding encode_clock_words [OF assms(1)] by (simp add: v)
  show ?thesis
    unfolding ws v decode_clock_def Let_def clock_bytes
    by (simp add: bytes year valid finish_clock_def dateTimeWords_def format_clock_def del: of_int_diff)
qed

text \<open>Decoding then encoding gives the words back; the \<^verbatim>\<open>tm_year\<close> form (a raw year of 100
  or more) is rewritten to the other one, 100 less in the upper byte.\<close>

lemma be16_sum: "be16 h l = ucast h * 256 + ucast l"
proof -
  have "be16 h l = push_bit 8 (ucast h) + ucast l"
    unfolding be16_def
    by (rule disjunctive_add_eq_or [symmetric], rule bit_eqI) (auto simp: bit_simps dest: bit_imp_le_length)
  then show ?thesis by (simp add: push_bit_eq_mult)
qed

lemma year_shift:
  assumes "100 \<le> uint h"
  shows "be16 (word_of_int (uint h - 100)) l = be16 h l - 0x6400"
proof -
  have "uint h < 256" using uint_lt2p [of h] by simp
  then have "ucast (word_of_int (uint h - 100) :: byte) = (word_of_int (uint h - 100) :: u16)"
    using assms by (simp add: unsigned_of_int take_bit_int_eq_self del: of_int_diff)
  also have "\<dots> = ucast h - 100" by simp
  finally show ?thesis by (simp add: be16_sum)
qed
lemma encode_decode_clock:
  assumes "decode_clock [a, b, c] = Inr v" "dt_valid v"
  shows "encode_clock v = Inr [if uint (hi_byte a) < 100 then a else a - 0x6400, b, c]"
proof -
  have ok: "clock_ok v" using assms decode_clock_valid_iff by blast
  have "be16 (word_of_int (uint (hi_byte w))) (word_of_int (uint (lo_byte w))) = w" for w
    by simp
  moreover have "be16 (word_of_int (uint (hi_byte a) - 100)) (lo_byte a) = a - 0x6400" if "100 \<le> uint (hi_byte a)"
    using year_shift [OF that, of "lo_byte a"] by simp
  ultimately show ?thesis
    using decode_clock_fields [OF assms(1)] by (simp add: encode_clock_words [OF ok] not_less del: of_int_diff)
qed

section \<open>Parsing the browser's local time\<close>

text \<open>\<^verbatim>\<open>getnum\<close> of package time: two digits, or one when not fixed.\<close>

definition getnum :: "string \<Rightarrow> bool \<Rightarrow> (int \<times> string) option" where
  "getnum s fixed =
     (case s of
        [] \<Rightarrow> None
      | c # s1 \<Rightarrow>
          (case digit_val c of
             None \<Rightarrow> None
           | Some d \<Rightarrow>
               (case s1 of
                  [] \<Rightarrow> if fixed then None else Some (d, s1)
                | c2 # s2 \<Rightarrow>
                    (case digit_val c2 of
                       None \<Rightarrow> if fixed then None else Some (d, s1)
                     | Some d2 \<Rightarrow> Some (d * 10 + d2, s2)))))"

definition skip_char :: "char \<Rightarrow> string \<Rightarrow> string option" where
  "skip_char c s = (case s of [] \<Rightarrow> None | c' # t \<Rightarrow> if c' = c then Some t else None)"

text \<open>A two-digit field in a range, after a separator.\<close>

definition get_field :: "char \<Rightarrow> bool \<Rightarrow> int \<Rightarrow> int \<Rightarrow> string \<Rightarrow> (int \<times> string) option" where
  "get_field sep fixed lo hi s =
     (case skip_char sep s of
        None \<Rightarrow> None
      | Some t \<Rightarrow>
          (case getnum t fixed of
             None \<Rightarrow> None
           | Some (n, u) \<Rightarrow> if lo \<le> n \<and> n \<le> hi then Some (n, u) else None))"

text \<open>A fraction after the seconds is accepted and dropped, although the layout has none.\<close>

definition skip_fraction :: "string \<Rightarrow> string" where
  "skip_fraction s =
     (if 2 \<le> length s \<and> hd s \<in> {CHR ''.'', CHR '',''} \<and> is_digit (s ! 1)
      then dropWhile is_digit (tl s) else s)"

text \<open>\<^verbatim>\<open>time.ParseInLocation\<close> for the two layouts of the file; \<open>secs\<close> chooses the one
  with seconds. The result is the civil time, before the zone is applied.\<close>

definition parse_layout :: "bool \<Rightarrow> string \<Rightarrow> date_time option" where
  "parse_layout secs s =
     (if length s < 4 \<or> \<not> list_all is_digit (take 4 s) then None
      else case get_field (CHR ''-'') True 1 12 (drop 4 s) of None \<Rightarrow> None | Some (mo, s1) \<Rightarrow>
      case get_field (CHR ''-'') True 0 99 s1 of None \<Rightarrow> None | Some (d, s2) \<Rightarrow>
      case get_field (CHR ''T'') False 0 23 s2 of None \<Rightarrow> None | Some (h, s3) \<Rightarrow>
      case get_field (CHR '':'') True 0 59 s3 of None \<Rightarrow> None | Some (mi, s4) \<Rightarrow>
      case (if secs then get_field (CHR '':'') True 0 59 s4 else Some (0, s4)) of
        None \<Rightarrow> None
      | Some (sec, s5) \<Rightarrow>
          let y = digits_val 10 digit_val (take 4 s); rest = (if secs then skip_fraction s5 else s5)
          in if rest \<noteq> [] \<or> d < 1 \<or> d > days_in y mo then None
             else Some \<lparr>dt_year = y, dt_month = mo, dt_day = d, dt_hour = h, dt_minute = mi,
                        dt_second = sec, dt_formatted = '''', dt_valid = False\<rparr>)"

definition parse_local :: "(date_time \<Rightarrow> date_time) \<Rightarrow> string \<Rightarrow> date_time result" where
  "parse_local tz input =
     (case parse_layout True input of
        Some v \<Rightarrow> Inr (tz v)
      | None \<Rightarrow>
          (case parse_layout False input of
             Some v \<Rightarrow> Inr (tz v)
           | None \<Rightarrow> Inl (Errorf ''dateTime must use YYYY-MM-DDTHH:MM[:SS]'' [])))"

lemma get_field_range: "get_field c f lo hi s = Some (n, t) \<Longrightarrow> lo \<le> n \<and> n \<le> hi"
  by (auto simp: get_field_def split: option.splits if_splits)

lemma parse_layout_range:
  assumes "parse_layout secs s = Some v"
  shows "1 \<le> dt_month v \<and> dt_month v \<le> 12 \<and> 1 \<le> dt_day v \<and> dt_day v \<le> days_in (dt_year v) (dt_month v)
    \<and> 0 \<le> dt_hour v \<and> dt_hour v \<le> 23 \<and> 0 \<le> dt_minute v \<and> dt_minute v \<le> 59
    \<and> 0 \<le> dt_second v \<and> dt_second v \<le> 59"
  using assms
  by (auto simp: parse_layout_def Let_def split: if_splits option.splits dest!: get_field_range)

section \<open>The service over a word accessor\<close>

text \<open>\<^verbatim>\<open>Service.Read\<close> and \<^verbatim>\<open>Service.Set\<close>; \<open>rd\<close> and \<open>wr\<close> are the two methods of
  the interface \<^verbatim>\<open>WordAccessor\<close>, over a state \<open>'s\<close>.\<close>

type_synonym 's word_reader = "u16 \<Rightarrow> u16 \<Rightarrow> 's \<Rightarrow> u16 list result \<times> 's"
type_synonym 's word_writer = "u16 \<Rightarrow> u16 list \<Rightarrow> 's \<Rightarrow> unit result \<times> 's"

definition clock_read :: "'s word_reader \<Rightarrow> 's \<Rightarrow> date_time result \<times> 's" where
  "clock_read rd s =
     (case rd dateTimeAddress dateTimeWords s of
        (Inl e, s') \<Rightarrow> (Inl e, s')
      | (Inr words, s') \<Rightarrow> (decode_clock words, s'))"

definition clock_set :: "'s word_reader \<Rightarrow> 's word_writer \<Rightarrow> date_time \<Rightarrow> 's \<Rightarrow> date_time result \<times> 's" where
  "clock_set rd wr value s =
     (case encode_clock value of
        Inl e \<Rightarrow> (Inl e, s)
      | Inr words \<Rightarrow>
          (case wr dateTimeAddress words s of
             (Inl e, s') \<Rightarrow> (Inl e, s')
           | (Inr _, s') \<Rightarrow> clock_read rd s'))"

text \<open>The interface: a successful read returns exactly the words asked for.\<close>

locale word_accessor =
  fixes rd :: "'s word_reader"
    and wr :: "'s word_writer"
  assumes rd_length: "rd a n s = (Inr ws, s') \<Longrightarrow> length ws = unat n"
begin

lemma read_ok:
  assumes "rd dateTimeAddress dateTimeWords s = (Inr ws, s')"
  shows "\<exists>v. clock_read rd s = (Inr v, s') \<and> (dt_valid v \<longleftrightarrow> clock_ok v)"
proof -
  have "length ws = 3"
    using rd_length [OF assms] by (simp add: dateTimeWords_def)
  then obtain v where "decode_clock ws = Inr v"
    by (cases "decode_clock ws") (auto simp: decode_clock_def dateTimeWords_def Let_def)
  with assms decode_clock_valid_iff show ?thesis
    by (auto simp: clock_read_def)
qed

lemma read_error:
  assumes "clock_read rd s = (Inl e, s')"
  shows "rd dateTimeAddress dateTimeWords s = (Inl e, s')"
proof (cases "rd dateTimeAddress dateTimeWords s")
  case (Pair r t)
  show ?thesis
  proof (cases r)
    case (Inl d)
    with Pair assms show ?thesis by (simp add: clock_read_def)
  next
    case (Inr ws)
    with Pair read_ok assms show ?thesis by fastforce
  qed
qed

lemma set_rejects:
  assumes "\<not> clock_ok v"
  shows "\<exists>e. clock_set rd wr v s = (Inl e, s)"
  using validate_cases [of v] assms by (auto simp: clock_set_def encode_clock_def)

end

section \<open>Properties of the clock\<close>

text \<open>C6: a clock is encoded exactly when it is a date of the calendar in 2000 to 2099 and a time of
  day; decoding the three words gives the same clock back, marked valid and formatted.\<close>

theorem clock_round_trip:
  "if clock_ok v
   then \<exists>ws. encode_clock v = Inr ws \<and> length ws = 3
          \<and> decode_clock ws = Inr (v\<lparr>dt_valid := True, dt_formatted := format_clock v\<rparr>)
   else \<exists>e. encode_clock v = Inl e"
  using encode_clock_words [of v] decode_encode_clock [of v] validate_cases [of v]
  by (auto simp: encode_clock_def)

text \<open>C7: any three words decode; the clock is marked valid exactly when it is a date and a time of
  day, and then it encodes to the words it was decoded from, but that a year register of 100 or more
  (the \<^verbatim>\<open>tm_year\<close> form, years since 1900) is rewritten as the year since 2000, 100 less; a
  clock that is not valid is not encoded.\<close>

theorem clock_words_round_trip:
  "\<exists>v. decode_clock [a, b, c] = Inr v \<and> (dt_valid v \<longleftrightarrow> clock_ok v)
     \<and> (if dt_valid v then encode_clock v = Inr [if uint (hi_byte a) < 100 then a else a - 0x6400, b, c]
        else \<exists>e. encode_clock v = Inl e)"
proof -
  obtain v where v: "decode_clock [a, b, c] = Inr v"
    by (simp add: decode_clock_def dateTimeWords_def Let_def)
  then show ?thesis
    using decode_clock_valid_iff [OF v] encode_decode_clock [OF v] validate_cases [of v]
    by (auto simp: encode_clock_def)
qed

end
