(* ===== verification/Registers.thy ===== *)
theory Registers
  imports InverterClock "HOL-Library.Product_Lexorder"
begin

text \<open>
  \<^verbatim>\<open>internal/registers/catalog.go\<close>, the register type and its conversions: the structs
  \<^verbatim>\<open>Register\<close> (\<open>register\<close>) and \<^verbatim>\<open>DecodedValue\<close> (\<open>decoded_value\<close>), decoding
  holding-register words into engineering values, encoding a control's input into a raw word, the
  enum tables, and the write-only controls. The tables of registers are in \<open>Catalog\<close>.

  A Go map from raw values to labels is an association list with distinct keys; a loop over it is a
  loop over the list (the labels of the catalog differ, so the order does not matter). Times are
  nanoseconds since the zero time, which is 0. An interface value is a \<open>go_value\<close>.
  \<^verbatim>\<open>sort.Slice\<close> is \<open>sort_key\<close>; where keys are distinct every sorting algorithm gives
  that result (\<open>sort_key_unique\<close>).
\<close>

section \<open>Types\<close>

datatype poll_group = GroupFast | GroupSlow

text \<open>The groups compare as the strings \<^verbatim>\<open>fast\<close> and \<^verbatim>\<open>slow\<close>.\<close>

instantiation poll_group :: linorder
begin

definition less_eq_poll_group :: "poll_group \<Rightarrow> poll_group \<Rightarrow> bool" where
  "less_eq_poll_group a b \<longleftrightarrow> a = GroupFast \<or> b = GroupSlow"

definition less_poll_group :: "poll_group \<Rightarrow> poll_group \<Rightarrow> bool" where
  "less_poll_group a b \<longleftrightarrow> a = GroupFast \<and> b = GroupSlow"

instance
proof
  fix a b c :: poll_group
  show "a < b \<longleftrightarrow> a \<le> b \<and> \<not> b \<le> a" "a \<le> a" "a \<le> b \<or> b \<le> a"
    by (cases a; cases b; simp add: less_eq_poll_group_def less_poll_group_def)+
  show "a \<le> b \<Longrightarrow> b \<le> c \<Longrightarrow> a \<le> c" "a \<le> b \<Longrightarrow> b \<le> a \<Longrightarrow> a = b"
    by (cases a; cases b; cases c; simp add: less_eq_poll_group_def)+
qed

end

datatype value_type =
    TypeUint16 | TypeInt16 | TypeUint32 | TypeInt32 | TypeDateTime | TypePackedTime
  | TypeOther string

datatype word_order = WordOrderUnset | WordOrderHighLow | WordOrderLowHigh

datatype go_value =
    VNil
  | VFloat f64
  | VInt int
  | VInt64 int
  | VUint64 int
  | VStr string
  | VOther string

type_synonym gotime = int

type_synonym enum_map = "(int \<times> string) list"

record register =
  rID :: string
  rName :: string
  rAddress :: u16
  rCount :: u16
  rType :: value_type
  rWordOrder :: word_order
  rSynthetic :: bool
  rRawOnly :: bool
  rScale :: f64
  rPrecision :: nat
  rUnit :: string
  rDeviceClass :: string
  rStateClass :: string
  rIcon :: string
  rComponent :: string
  rGroup :: poll_group
  rWritable :: bool
  rWriteOnly :: bool
  rEntity :: string
  rEntityCategory :: string
  rEnum :: enum_map
  rWriteMin :: f64
  rWriteMax :: f64
  rWriteStep :: f64
  rButtonClass :: string

record go_option =
  oRaw :: int
  oLabel :: string

record decoded_value =
  dID :: string
  dName :: string
  dAddress :: u16
  dGroup :: poll_group
  dComponent :: string
  dEntity :: string
  dEntityCategory :: string
  dWritable :: bool
  dWriteOnly :: bool
  dSynthetic :: bool
  dRawOnly :: bool
  dUnit :: string
  dDeviceClass :: string
  dStateClass :: string
  dIcon :: string
  dRaw :: int
  dRawWords :: "u16 list"
  dValue :: go_value
  dRendered :: string
  dWriteMin :: f64
  dWriteMax :: f64
  dWriteStep :: f64
  dOptions :: "go_option list"
  dUpdatedAt :: gotime

text \<open>The literal of \<^verbatim>\<open>Register\<close> with every field at its zero value.\<close>

definition reg0 :: register where
  "reg0 = \<lparr>rID = '''', rName = '''', rAddress = 0, rCount = 0, rType = TypeOther '''',
     rWordOrder = WordOrderUnset, rSynthetic = False, rRawOnly = False, rScale = Num 0,
     rPrecision = 0, rUnit = '''', rDeviceClass = '''', rStateClass = '''', rIcon = '''',
     rComponent = '''', rGroup = GroupFast, rWritable = False, rWriteOnly = False, rEntity = '''',
     rEntityCategory = '''', rEnum = [], rWriteMin = Num 0, rWriteMax = Num 0, rWriteStep = Num 0,
     rButtonClass = ''''\<rparr>"

section \<open>Payload bytes\<close>

text \<open>\<^verbatim>\<open>WordsFromBytes\<close>\<close>

fun words_be :: "byte list \<Rightarrow> u16 list" where
  "words_be (h # l # bs) = be16 h l # words_be bs"
| "words_be _ = []"

definition words_from_bytes :: "byte list \<Rightarrow> u16 \<Rightarrow> u16 list result" where
  "words_from_bytes data expectedWords =
     (if length data mod 2 \<noteq> 0
        then Inl (Errorf ''invalid modbus payload length %d'' [AInt (int (length data))])
      else let ws = words_be data in
        if length ws < unat expectedWords
        then Inl (Errorf ''short payload: got %d words, expected %d''
                    [AInt (int (length ws)), AInt (uint expectedWords)])
        else Inr ws)"

lemma length_words_be [simp]: "length (words_be bs) = length bs div 2"
  by (induction bs rule: words_be.induct) auto

lemma words_be_bytes_of_words [simp]: "words_be (bytes_of_words ws) = ws"
  by (induction ws) auto

lemma bytes_of_words_be: "even (length bs) \<Longrightarrow> bytes_of_words (words_be bs) = bs"
  by (induction bs rule: words_be.induct) auto

lemma words_from_bytes_ok:
  assumes "words_from_bytes data n = Inr ws"
  shows "data = bytes_of_words ws" "unat n \<le> length ws"
  using assms bytes_of_words_be [of data]
  by (auto simp: words_from_bytes_def Let_def even_iff_mod_2_eq_zero split: if_splits)

section \<open>Decoding\<close>

definition scale_or_one :: "f64 \<Rightarrow> f64" where
  "scale_or_one scale = (if feq scale (Num 0) then Num 1 else scale)"

definition round_float :: "f64 \<Rightarrow> nat \<Rightarrow> f64" where
  "round_float value precision =
     (let p = math_pow10 (int precision) in fdiv (math_round (fmul value p)) p)"

definition enum_value :: "enum_map \<Rightarrow> int \<Rightarrow> string" where
  "enum_value mapping raw =
     (case map_of mapping raw of
        Some label \<Rightarrow> label
      | None \<Rightarrow> ''Unknown ('' @ show_int raw @ '')'')"

definition enum_options :: "enum_map \<Rightarrow> go_option list" where
  "enum_options mapping =
     map (\<lambda>(k, v). \<lparr>oRaw = k, oLabel = v\<rparr>) (sort_key fst mapping)"

definition write_options :: "register \<Rightarrow> go_option list" where
  "write_options r = (if rWritable r then enum_options (rEnum r) else [])"

definition join_words32 :: "u16 \<Rightarrow> u16 \<Rightarrow> word_order \<Rightarrow> u32" where
  "join_words32 first second order =
     (if order = WordOrderLowHigh then push_bit 16 (ucast second) OR ucast first
      else push_bit 16 (ucast first) OR ucast second)"

text \<open>\<^verbatim>\<open>rawValue\<close>; indexing an empty slice panics.\<close>

definition raw_value :: "register \<Rightarrow> u16 list \<Rightarrow> int result" where
  "raw_value r words =
     (case rType r of
        TypeOther t \<Rightarrow> Inl (Errorf ''unsupported value type %s'' [AStr t])
      | TypeUint32 \<Rightarrow>
          (if length words < 2 then Inl (Errorf ''register %s needs 2 words'' [AStr (rID r)])
           else Inr (uint (join_words32 (words ! 0) (words ! 1) (rWordOrder r))))
      | TypeInt32 \<Rightarrow>
          (if length words < 2 then Inl (Errorf ''register %s needs 2 words'' [AStr (rID r)])
           else Inr (sint (join_words32 (words ! 0) (words ! 1) (rWordOrder r))))
      | TypeInt16 \<Rightarrow>
          (if words = [] then Inl (GoPanic ''index out of range'') else Inr (sint (words ! 0)))
      | _ \<Rightarrow>
          (if words = [] then Inl (GoPanic ''index out of range'') else Inr (uint (words ! 0))))"

text \<open>The default branch of \<^verbatim>\<open>Decode\<close>: scaling and rounding a number.\<close>

definition decode_number :: "register \<Rightarrow> int \<Rightarrow> go_value \<times> string" where
  "decode_number r raw =
     (let scaled = fmul (f64_of_int raw) (scale_or_one (rScale r)) in
      if rPrecision r = 0 \<and> flt (math_abs (fsub scaled (math_round scaled))) (flit (1 / 1000000))
      then let rounded = int64_of_f64 (math_round scaled) in (VInt64 rounded, show_int rounded)
      else let v = round_float scaled (rPrecision r) in (VFloat v, format_float v (rPrecision r)))"

definition decode_packed_time :: "int \<Rightarrow> string" where
  "decode_packed_time raw =
     (let hour = raw div 256; minute = raw mod 256 in
      if hour > 23 \<or> minute > 59 then ''Invalid ('' @ show_int raw @ '')''
      else show_padded 2 hour @ '':'' @ show_padded 2 minute)"

text \<open>The value and its rendering, by the kind of register.\<close>

definition decode_value :: "register \<Rightarrow> u16 list \<Rightarrow> int \<Rightarrow> (go_value \<times> string) result" where
  "decode_value r words raw =
     (if rType r = TypeDateTime then
        (case decode_clock (take (unat (rCount r)) words) of
           Inl e \<Rightarrow> Inl e
         | Inr clock \<Rightarrow> Inr (VStr (dt_formatted clock), dt_formatted clock))
      else if rType r = TypePackedTime then
        Inr (VStr (decode_packed_time raw), decode_packed_time raw)
      else if rEnum r \<noteq> [] then
        Inr (VStr (enum_value (rEnum r) raw), enum_value (rEnum r) raw)
      else Inr (decode_number r raw))"

text \<open>The fields a decoded value copies from its register.\<close>

definition describe_register :: "register \<Rightarrow> gotime \<Rightarrow> decoded_value" where
  "describe_register r now =
     \<lparr>dID = rID r, dName = rName r, dAddress = rAddress r, dGroup = rGroup r,
      dComponent = rComponent r, dEntity = rEntity r, dEntityCategory = rEntityCategory r,
      dWritable = rWritable r, dWriteOnly = rWriteOnly r, dSynthetic = rSynthetic r,
      dRawOnly = rRawOnly r, dUnit = rUnit r, dDeviceClass = rDeviceClass r,
      dStateClass = rStateClass r, dIcon = rIcon r, dRaw = 0, dRawWords = [], dValue = VNil,
      dRendered = '''', dWriteMin = rWriteMin r, dWriteMax = rWriteMax r,
      dWriteStep = rWriteStep r, dOptions = write_options r, dUpdatedAt = now\<rparr>"

definition decode :: "register \<Rightarrow> u16 list \<Rightarrow> gotime \<Rightarrow> decoded_value result" where
  "decode r words now =
     (if length words < unat (rCount r)
      then Inl (Errorf ''register %s expected %d words, got %d''
                  [AStr (rID r), AInt (uint (rCount r)), AInt (int (length words))])
      else case raw_value r (take (unat (rCount r)) words) of
        Inl e \<Rightarrow> Inl e
      | Inr raw \<Rightarrow>
          (case decode_value r words raw of
             Inl e \<Rightarrow> Inl e
           | Inr (value, rendered) \<Rightarrow>
               Inr ((describe_register r now)
                    \<lparr>dRaw := raw, dRawWords := take (unat (rCount r)) words,
                     dValue := value, dRendered := rendered\<rparr>)))"

section \<open>Encoding a write\<close>

definition enum_raw_value :: "enum_map \<Rightarrow> go_value \<Rightarrow> int result" where
  "enum_raw_value mapping input =
     (case input of
        VStr value \<Rightarrow>
          (case find_first (\<lambda>(raw, label). equal_fold label value) mapping of
             Some (raw, label) \<Rightarrow> Inr raw
           | None \<Rightarrow>
               (case parse_int value of
                  Some parsed \<Rightarrow>
                    (if map_of mapping parsed \<noteq> None then Inr parsed
                     else Inl (Errorf ''unsupported enum value %q'' [AStr value]))
                | None \<Rightarrow> Inl (Errorf ''unsupported enum value %q'' [AStr value])))
      | VFloat value \<Rightarrow>
          (let raw = int64_of_f64 value in
           if map_of mapping raw = None
           then Inl (Errorf ''unsupported enum value %.0f'' [ARat (fval value)]) else Inr raw)
      | VInt64 value \<Rightarrow>
          (if map_of mapping value = None
           then Inl (Errorf ''unsupported enum value %d'' [AInt value]) else Inr value)
      | VInt value \<Rightarrow>
          (if map_of mapping value = None
           then Inl (Errorf ''unsupported enum value %d'' [AInt value]) else Inr value)
      | _ \<Rightarrow> Inl (Errorf ''unsupported enum input type %T'' []))"

definition numeric_input :: "go_value \<Rightarrow> f64 result" where
  "numeric_input input =
     (case input of
        VFloat value \<Rightarrow> Inr value
      | VInt64 value \<Rightarrow> Inr (f64_of_int value)
      | VInt value \<Rightarrow> Inr (f64_of_int value)
      | VStr value \<Rightarrow>
          (case parse_float value of
             None \<Rightarrow> Inl (Errorf ''invalid numeric value %q'' [AStr value])
           | Some parsed \<Rightarrow> Inr parsed)
      | _ \<Rightarrow> Inl (Errorf ''unsupported numeric input type %T'' []))"

definition validate_write_bounds :: "register \<Rightarrow> f64 \<Rightarrow> unit result" where
  "validate_write_bounds r value =
     (if (\<not> feq (rWriteMin r) (Num 0) \<or> \<not> feq (rWriteMax r) (Num 0))
         \<and> (flt value (rWriteMin r) \<or> flt (rWriteMax r) value)
      then Inl (Errorf ''%s must be between %.3f and %.3f''
                  [AStr (rID r), ARat (fval (rWriteMin r)), ARat (fval (rWriteMax r))])
      else if flt (Num 0) (rWriteStep r)
        \<and> (let base = rWriteMin r;
               steps = math_round (fdiv (fsub value base) (rWriteStep r));
               expected = fadd base (fmul steps (rWriteStep r))
           in flt (flit (1 / 1000000)) (math_abs (fsub expected value)))
      then Inl (Errorf ''%s must follow step %.3f'' [AStr (rID r), ARat (fval (rWriteStep r))])
      else Inr ())"

definition encode_write :: "register \<Rightarrow> go_value \<Rightarrow> u16 result" where
  "encode_write r input =
     (if \<not> rWritable r then Inl (Errorf ''register %s is not writable'' [AStr (rID r)])
      else if rCount r \<noteq> 1
        then Inl (Errorf ''register %s write encoding supports single-register writes only'' [AStr (rID r)])
      else if rEnum r \<noteq> [] then
        (case enum_raw_value (rEnum r) input of
           Inl e \<Rightarrow> Inl e
         | Inr raw \<Rightarrow>
             (if raw < 0 \<or> raw > 65535 then Inl (Errorf ''encoded value out of uint16 range'' [])
              else Inr (word_of_int raw)))
      else
        (case numeric_input input of
           Inl e \<Rightarrow> Inl e
         | Inr number \<Rightarrow>
             (case validate_write_bounds r number of
                Inl e \<Rightarrow> Inl e
              | Inr _ \<Rightarrow>
                  (let raw = math_round (fdiv number (scale_or_one (rScale r))) in
                   if flt raw (Num 0) \<or> flt (Num 65535) raw
                   then Inl (Errorf ''encoded value out of uint16 range'' [])
                   else Inr (u16_of_f64 raw)))))"

section \<open>Write-only controls\<close>

definition control_value :: "register \<Rightarrow> gotime \<Rightarrow> decoded_value" where
  "control_value r now =
     (let options = write_options r in
      if rWriteOnly r \<and> length options = 1
      then (describe_register r now)\<lparr>dRendered := oLabel (hd options), dValue := VStr (oLabel (hd options))\<rparr>
      else describe_register r now)"

definition sort_values :: "decoded_value list \<Rightarrow> decoded_value list" where
  "sort_values = sort_key (\<lambda>v. (dGroup v, dAddress v))"

definition merge_write_only_controls :: "decoded_value list \<Rightarrow> gotime \<Rightarrow> register list \<Rightarrow> decoded_value list" where
  "merge_write_only_controls values now catalog =
     sort_values (values @ map (\<lambda>r. control_value r now)
       (filter (\<lambda>r. rWritable r \<and> rWriteOnly r \<and> rID r \<notin> dID ` set values) catalog))"

end
