(* ===== verification/Catalog.thy ===== *)
theory Catalog
  imports Registers
begin

text \<open>
  \<^verbatim>\<open>internal/registers/catalog.go\<close>, the tables: the base (single-phase) catalog, the
  registers the three-phase profiles add, and the catalog of each inverter type. A register literal
  is \<open>reg0\<close> with the fields the source sets. The base catalog is split into nine parts
  that follow the source's order.
\<close>

section \<open>Register constructors\<close>

definition inverterClockRegister :: "register" where
  "inverterClockRegister =
     reg0\<lparr>rID := ''inverter_clock'', rName := ''Inverter Clock'', rAddress := 0x020C, rCount := 3,
          rType := TypeDateTime, rIcon := ''mdi:clock-outline'', rComponent := ''sensor'',
          rGroup := GroupSlow, rEntity := ''diagnostic'', rEntityCategory := ''diagnostic'',
          rRawOnly := True\<rparr>"

definition timedChargeRegister :: "string \<Rightarrow> string \<Rightarrow> u16 \<Rightarrow> register" where
  "timedChargeRegister ident name address =
     reg0\<lparr>rID := ident, rName := name, rAddress := address, rCount := 1, rType := TypePackedTime,
          rIcon := ''mdi:clock-outline'', rComponent := ''sensor'', rGroup := GroupSlow,
          rEntity := ''diagnostic'', rEntityCategory := ''diagnostic'', rRawOnly := True\<rparr>"

definition timedChargeEnabledRegister :: "register" where
  "timedChargeEnabledRegister =
     reg0\<lparr>rID := ''timed_utility_charging'', rName := ''Timed Utility Charging'', rAddress := 0xE02C,
          rCount := 1, rType := TypeUint16, rIcon := ''mdi:battery-clock-outline'',
          rComponent := ''sensor'', rGroup := GroupSlow, rEntity := ''diagnostic'',
          rEntityCategory := ''diagnostic'', rRawOnly := True,
          rEnum := [(0, ''Disabled''), (1, ''Enabled'')]\<rparr>"

definition gridOperatingModeRegister :: "register" where
  "gridOperatingModeRegister =
     reg0\<lparr>rID := ''grid_operating_mode'', rName := ''Grid Operating Mode'', rAddress := 0xE037,
          rCount := 1, rType := TypeUint16, rPrecision := 0,
          rIcon := ''mdi:transmission-tower-export'', rComponent := ''sensor'', rGroup := GroupSlow,
          rEntity := ''config'', rWritable := True, rWriteMin := Num 0, rWriteMax := Num 2,
          rWriteStep := Num 1,
          rEnum := [(0, ''Disabled''), (1, ''Grid-connected Export''), (2, ''Anti-backflow'')]\<rparr>"

definition onGridMaxPowerRegister :: "register" where
  "onGridMaxPowerRegister =
     reg0\<lparr>rID := ''on_grid_max_power'', rName := ''Grid-connected Active Power'', rAddress := 0xE400,
          rCount := 1, rType := TypeInt16, rScale := Num 1, rPrecision := 0, rUnit := ''%'',
          rIcon := ''mdi:transmission-tower-export'', rComponent := ''sensor'', rGroup := GroupSlow,
          rEntity := ''config'', rWritable := True, rWriteMin := Num (-100), rWriteMax := Num 100,
          rWriteStep := Num 1\<rparr>"

definition zeroExportPowerRegister :: "register" where
  "zeroExportPowerRegister =
     reg0\<lparr>rID := ''zero_export_power'', rName := ''Zero-export Target Power'', rAddress := 0xE42C,
          rCount := 1, rType := TypeUint16, rScale := Num 1, rPrecision := 0, rUnit := ''W'',
          rDeviceClass := ''power'', rIcon := ''mdi:transmission-tower-off'', rComponent := ''sensor'',
          rGroup := GroupSlow, rEntity := ''config'', rWritable := True, rWriteMin := Num 0,
          rWriteMax := Num 500, rWriteStep := Num 1\<rparr>"

definition phaseVoltageRegister :: "string \<Rightarrow> string \<Rightarrow> u16 \<Rightarrow> string \<Rightarrow> register" where
  "phaseVoltageRegister ident name address icon =
     reg0\<lparr>rID := ident, rName := name, rAddress := address, rCount := 1, rType := TypeUint16,
          rScale := flit (1 / 10), rPrecision := 1, rUnit := ''V'', rDeviceClass := ''voltage'',
          rStateClass := ''measurement'', rIcon := icon, rComponent := ''sensor'', rGroup := GroupFast,
          rEntity := ''diagnostic''\<rparr>"

definition pvVoltageRegister :: "string \<Rightarrow> string \<Rightarrow> u16 \<Rightarrow> register" where
  "pvVoltageRegister ident name address =
     phaseVoltageRegister ident name address ''mdi:solar-power''"

definition pvCurrentRegister :: "string \<Rightarrow> string \<Rightarrow> u16 \<Rightarrow> register" where
  "pvCurrentRegister ident name address =
     reg0\<lparr>rID := ident, rName := name, rAddress := address, rCount := 1, rType := TypeUint16,
          rScale := flit (1 / 10), rPrecision := 1, rUnit := ''A'', rDeviceClass := ''current'',
          rStateClass := ''measurement'', rIcon := ''mdi:solar-power'', rComponent := ''sensor'',
          rGroup := GroupFast, rEntity := ''diagnostic''\<rparr>"

definition pvPowerRegister :: "string \<Rightarrow> string \<Rightarrow> u16 \<Rightarrow> register" where
  "pvPowerRegister ident name address =
     reg0\<lparr>rID := ident, rName := name, rAddress := address, rCount := 1, rType := TypeUint16,
          rScale := Num 1, rPrecision := 0, rUnit := ''W'', rDeviceClass := ''power'',
          rStateClass := ''measurement'', rIcon := ''mdi:white-balance-sunny'',
          rComponent := ''sensor'', rGroup := GroupFast, rEntity := ''diagnostic''\<rparr>"

definition powerSumRegister :: "string \<Rightarrow> string \<Rightarrow> u16 \<Rightarrow> string \<Rightarrow> register" where
  "powerSumRegister ident name address icon =
     reg0\<lparr>rID := ident, rName := name, rAddress := address, rCount := 1, rType := TypeUint16,
          rSynthetic := True, rScale := Num 1, rPrecision := 0, rUnit := ''W'',
          rDeviceClass := ''power'', rStateClass := ''measurement'', rIcon := icon,
          rComponent := ''sensor'', rGroup := GroupFast, rEntity := ''diagnostic''\<rparr>"

definition phasePowerRegister :: "string \<Rightarrow> string \<Rightarrow> u16 \<Rightarrow> f64 \<Rightarrow> string \<Rightarrow> register" where
  "phasePowerRegister ident name address scale icon =
     reg0\<lparr>rID := ident, rName := name, rAddress := address, rCount := 1, rType := TypeInt16,
          rScale := scale, rPrecision := 0, rUnit := ''W'', rDeviceClass := ''power'',
          rStateClass := ''measurement'', rIcon := icon, rComponent := ''sensor'', rGroup := GroupFast,
          rEntity := ''diagnostic''\<rparr>"

definition phaseCurrentRegister :: "string \<Rightarrow> string \<Rightarrow> u16 \<Rightarrow> register" where
  "phaseCurrentRegister ident name address =
     reg0\<lparr>rID := ident, rName := name, rAddress := address, rCount := 1, rType := TypeUint16,
          rScale := flit (1 / 10), rPrecision := 1, rUnit := ''A'', rDeviceClass := ''current'',
          rStateClass := ''measurement'', rIcon := ''mdi:current-ac'', rComponent := ''sensor'',
          rGroup := GroupFast, rEntity := ''diagnostic''\<rparr>"

definition phaseApparentPowerRegister :: "string \<Rightarrow> string \<Rightarrow> u16 \<Rightarrow> register" where
  "phaseApparentPowerRegister ident name address =
     reg0\<lparr>rID := ident, rName := name, rAddress := address, rCount := 1, rType := TypeUint16,
          rScale := Num 1, rPrecision := 0, rUnit := ''VA'', rIcon := ''mdi:flash-outline'',
          rComponent := ''sensor'', rGroup := GroupSlow, rEntity := ''diagnostic''\<rparr>"

section \<open>The base catalog\<close>

definition baseCatalog1 :: "register list" where
  "baseCatalog1 =
    [reg0\<lparr>rID := ''battery_soc'', rName := ''Battery SOC'', rAddress := 0x0100, rCount := 1,
       rType := TypeUint16, rScale := Num 1, rPrecision := 0, rUnit := ''%'',
       rDeviceClass := ''battery'', rStateClass := ''measurement'', rIcon := ''mdi:battery'',
       rComponent := ''sensor'', rGroup := GroupFast, rEntity := ''diagnostic''\<rparr>,
     reg0\<lparr>rID := ''battery_voltage'', rName := ''Battery Voltage'', rAddress := 0x0101, rCount := 1,
       rType := TypeUint16, rScale := flit (1 / 10), rPrecision := 1, rUnit := ''V'',
       rDeviceClass := ''voltage'', rStateClass := ''measurement'', rIcon := ''mdi:car-battery'',
       rComponent := ''sensor'', rGroup := GroupFast, rEntity := ''diagnostic''\<rparr>,
     reg0\<lparr>rID := ''battery_current'', rName := ''Battery Current'', rAddress := 0x0102, rCount := 1,
       rType := TypeInt16, rScale := flit (1 / 10), rPrecision := 1, rUnit := ''A'',
       rDeviceClass := ''current'', rStateClass := ''measurement'', rIcon := ''mdi:current-dc'',
       rComponent := ''sensor'', rGroup := GroupFast, rEntity := ''diagnostic''\<rparr>,
     reg0\<lparr>rID := ''battery_temperature'', rName := ''Battery Temperature'', rAddress := 0x0103,
       rCount := 1, rType := TypeInt16, rScale := flit (1 / 10), rPrecision := 1,
       rUnit := [CHR 0xC2, CHR 0xB0, CHR ''C''], rDeviceClass := ''temperature'',
       rStateClass := ''measurement'', rIcon := ''mdi:thermometer'', rComponent := ''sensor'',
       rGroup := GroupSlow, rEntity := ''diagnostic''\<rparr>,
     reg0\<lparr>rID := ''pv_voltage'', rName := ''PV Voltage'', rAddress := 0x0107, rCount := 1,
       rType := TypeUint16, rScale := flit (1 / 10), rPrecision := 1, rUnit := ''V'',
       rDeviceClass := ''voltage'', rStateClass := ''measurement'', rIcon := ''mdi:solar-power'',
       rComponent := ''sensor'', rGroup := GroupFast, rEntity := ''diagnostic''\<rparr>,
     reg0\<lparr>rID := ''pv_current'', rName := ''PV Current'', rAddress := 0x0108, rCount := 1,
       rType := TypeUint16, rScale := flit (1 / 10), rPrecision := 1, rUnit := ''A'',
       rDeviceClass := ''current'', rStateClass := ''measurement'', rIcon := ''mdi:solar-power'',
       rComponent := ''sensor'', rGroup := GroupFast, rEntity := ''diagnostic''\<rparr>,
     reg0\<lparr>rID := ''pv_power'', rName := ''PV Power'', rAddress := 0x0109, rCount := 1,
       rType := TypeUint16, rScale := Num 1, rPrecision := 0, rUnit := ''W'',
       rDeviceClass := ''power'', rStateClass := ''measurement'',
       rIcon := ''mdi:white-balance-sunny'', rComponent := ''sensor'', rGroup := GroupFast,
       rEntity := ''diagnostic''\<rparr>,
     reg0\<lparr>rID := ''pv_total_power'', rName := ''PV Total Power'', rAddress := 0x010A, rCount := 1,
       rType := TypeUint16, rScale := Num 1, rPrecision := 0, rUnit := ''W'',
       rDeviceClass := ''power'', rStateClass := ''measurement'',
       rIcon := ''mdi:solar-power-variant'', rComponent := ''sensor'', rGroup := GroupSlow,
       rEntity := ''diagnostic''\<rparr>,
     reg0\<lparr>rID := ''pv_ac_power'', rName := ''PV+AC Power'', rAddress := 0x010E, rCount := 1,
       rType := TypeUint16, rScale := Num 1, rPrecision := 0, rUnit := ''W'',
       rDeviceClass := ''power'', rStateClass := ''measurement'',
       rIcon := ''mdi:solar-power-variant'', rComponent := ''sensor'', rGroup := GroupSlow,
       rEntity := ''diagnostic''\<rparr>]"

definition baseCatalog2 :: "register list" where
  "baseCatalog2 =
    [reg0\<lparr>rID := ''charge_state'', rName := ''Charge State'', rAddress := 0x010B, rCount := 1,
       rType := TypeUint16, rPrecision := 0, rIcon := ''mdi:battery-charging'',
       rComponent := ''sensor'', rGroup := GroupSlow, rEntity := ''diagnostic'',
       rEnum := [(0, ''Charge Off''), (1, ''Quick Charge''), (2, ''Constant Voltage Charge''), (4, ''Float Charge''), (5, ''Reserved''), (6, ''Li Battery Active''), (8, ''Full'')]\<rparr>,
     reg0\<lparr>rID := ''fault_code_1'', rName := ''Fault Code 1'', rAddress := 0x0204, rCount := 1,
       rType := TypeUint16, rPrecision := 0, rIcon := ''mdi:alert-circle-outline'',
       rComponent := ''sensor'', rGroup := GroupSlow, rEntity := ''diagnostic''\<rparr>,
     reg0\<lparr>rID := ''fault_code_2'', rName := ''Fault Code 2'', rAddress := 0x0205, rCount := 1,
       rType := TypeUint16, rPrecision := 0, rIcon := ''mdi:alert-circle-outline'',
       rComponent := ''sensor'', rGroup := GroupSlow, rEntity := ''diagnostic''\<rparr>,
     reg0\<lparr>rID := ''load_power'', rName := ''Load Power'', rAddress := 0x021B, rCount := 1,
       rType := TypeUint16, rScale := Num 1, rPrecision := 0, rUnit := ''W'',
       rDeviceClass := ''power'', rStateClass := ''measurement'',
       rIcon := ''mdi:home-lightning-bolt-outline'', rComponent := ''sensor'', rGroup := GroupFast,
       rEntity := ''diagnostic''\<rparr>,
     reg0\<lparr>rID := ''grid_voltage'', rName := ''Grid Voltage'', rAddress := 0x0213, rCount := 1,
       rType := TypeUint16, rScale := flit (1 / 10), rPrecision := 1, rUnit := ''V'',
       rDeviceClass := ''voltage'', rStateClass := ''measurement'',
       rIcon := ''mdi:transmission-tower'', rComponent := ''sensor'', rGroup := GroupFast,
       rEntity := ''diagnostic''\<rparr>,
     reg0\<lparr>rID := ''grid_current'', rName := ''Grid Current'', rAddress := 0x0214, rCount := 1,
       rType := TypeUint16, rScale := flit (1 / 10), rPrecision := 1, rUnit := ''A'',
       rDeviceClass := ''current'', rStateClass := ''measurement'',
       rIcon := ''mdi:transmission-tower'', rComponent := ''sensor'', rGroup := GroupFast,
       rEntity := ''diagnostic''\<rparr>,
     reg0\<lparr>rID := ''grid_frequency'', rName := ''Grid Frequency'', rAddress := 0x0215, rCount := 1,
       rType := TypeUint16, rScale := flit (1 / 100), rPrecision := 2, rUnit := ''Hz'',
       rDeviceClass := ''frequency'', rStateClass := ''measurement'', rIcon := ''mdi:sine-wave'',
       rComponent := ''sensor'', rGroup := GroupFast, rEntity := ''diagnostic''\<rparr>,
     reg0\<lparr>rID := ''inverter_voltage'', rName := ''Inverter Voltage'', rAddress := 0x0216, rCount := 1,
       rType := TypeUint16, rScale := flit (1 / 10), rPrecision := 1, rUnit := ''V'',
       rDeviceClass := ''voltage'', rStateClass := ''measurement'', rIcon := ''mdi:flash'',
       rComponent := ''sensor'', rGroup := GroupFast, rEntity := ''diagnostic''\<rparr>,
     reg0\<lparr>rID := ''inverter_frequency'', rName := ''Inverter Frequency'', rAddress := 0x0218,
       rCount := 1, rType := TypeUint16, rScale := flit (1 / 100), rPrecision := 2, rUnit := ''Hz'',
       rDeviceClass := ''frequency'', rStateClass := ''measurement'', rIcon := ''mdi:sine-wave'',
       rComponent := ''sensor'', rGroup := GroupFast, rEntity := ''diagnostic''\<rparr>]"

definition baseCatalog3 :: "register list" where
  "baseCatalog3 =
    [reg0\<lparr>rID := ''load_current'', rName := ''Load Current'', rAddress := 0x0219, rCount := 1,
       rType := TypeUint16, rScale := flit (1 / 10), rPrecision := 1, rUnit := ''A'',
       rDeviceClass := ''current'', rStateClass := ''measurement'', rIcon := ''mdi:current-ac'',
       rComponent := ''sensor'', rGroup := GroupSlow, rEntity := ''diagnostic''\<rparr>,
     reg0\<lparr>rID := ''load_apparent_power'', rName := ''Load Apparent Power'', rAddress := 0x021C,
       rCount := 1, rType := TypeUint16, rScale := Num 1, rPrecision := 0, rUnit := ''VA'',
       rIcon := ''mdi:flash-outline'', rComponent := ''sensor'', rGroup := GroupSlow,
       rEntity := ''diagnostic''\<rparr>,
     reg0\<lparr>rID := ''machine_state'', rName := ''Machine State'', rAddress := 0x0210, rCount := 1,
       rType := TypeUint16, rPrecision := 0, rIcon := ''mdi:state-machine'',
       rComponent := ''sensor'', rGroup := GroupSlow, rEntity := ''diagnostic'',
       rEnum := [(0, ''Power-on Delay''), (1, ''Standby''), (2, ''Initialization''), (3, ''Soft Start''), (4, ''AC Power Operation''), (5, ''Inverter Operation''), (6, ''Inverter to AC Power''), (7, ''AC Power to Inverter''), (8, ''Battery Activation''), (9, ''Manual Shutdown''), (10, ''Fault'')]\<rparr>,
     reg0\<lparr>rID := ''pv_charge_current_setup'', rName := ''PV Charge Current Setup'', rAddress := 0xE001,
       rCount := 1, rType := TypeUint16, rScale := flit (1 / 10), rPrecision := 1, rUnit := ''A'',
       rDeviceClass := ''current'', rIcon := ''mdi:solar-power'', rComponent := ''sensor'',
       rGroup := GroupSlow, rEntity := ''config'', rWritable := True, rWriteMin := Num 0,
       rWriteMax := Num 100, rWriteStep := flit (1 / 10)\<rparr>,
     reg0\<lparr>rID := ''battery_type'', rName := ''Battery Type'', rAddress := 0xE004, rCount := 1,
       rType := TypeUint16, rPrecision := 0, rIcon := ''mdi:battery-heart-variant'',
       rComponent := ''sensor'', rGroup := GroupSlow, rEntity := ''config'',
       rEnum := [(0, ''User Defined''), (1, ''SLD''), (2, ''FLD''), (3, ''GEL''), (4, ''LFP x14''), (5, ''LFP x15''), (6, ''LFP x16''), (7, ''LFP x7''), (8, ''LFP x8''), (9, ''LFP x9''), (10, ''Ternary Li x7''), (11, ''Ternary Li x8''), (12, ''Ternary Li x13''), (13, ''Ternary Li x14'')]\<rparr>,
     reg0\<lparr>rID := ''boost_charge_voltage'', rName := ''Boost Charge Voltage'', rAddress := 0xE008,
       rCount := 1, rType := TypeUint16, rScale := flit (1 / 5), rPrecision := 2, rUnit := ''V'',
       rDeviceClass := ''voltage'', rIcon := ''mdi:car-battery'', rComponent := ''sensor'',
       rGroup := GroupSlow, rEntity := ''config''\<rparr>,
     reg0\<lparr>rID := ''float_charge_voltage'', rName := ''Float Charge Voltage'', rAddress := 0xE009,
       rCount := 1, rType := TypeUint16, rScale := flit (1 / 5), rPrecision := 2, rUnit := ''V'',
       rDeviceClass := ''voltage'', rIcon := ''mdi:car-battery'', rComponent := ''sensor'',
       rGroup := GroupSlow, rEntity := ''config''\<rparr>,
     reg0\<lparr>rID := ''boost_return_voltage'', rName := ''Boost Return Voltage'', rAddress := 0xE00A,
       rCount := 1, rType := TypeUint16, rScale := flit (1 / 5), rPrecision := 2, rUnit := ''V'',
       rDeviceClass := ''voltage'', rIcon := ''mdi:car-battery'', rComponent := ''sensor'',
       rGroup := GroupSlow, rEntity := ''config''\<rparr>]"

definition baseCatalog4 :: "register list" where
  "baseCatalog4 =
    [reg0\<lparr>rID := ''boost_charging_time'', rName := ''Boost Charging Time'', rAddress := 0xE012,
       rCount := 1, rType := TypeUint16, rScale := Num 1, rPrecision := 0, rUnit := ''min'',
       rIcon := ''mdi:timer-outline'', rComponent := ''sensor'', rGroup := GroupSlow,
       rEntity := ''config''\<rparr>,
     reg0\<lparr>rID := ''battery_discharge_cutoff_soc'', rName := ''Battery Discharge Cut-off SOC'',
       rAddress := 0xE00F, rCount := 1, rType := TypeUint16, rScale := Num 1, rPrecision := 0,
       rUnit := ''%'', rDeviceClass := ''battery'', rIcon := ''mdi:battery-off-outline'',
       rComponent := ''sensor'', rGroup := GroupSlow, rEntity := ''config'', rWritable := True,
       rWriteMin := Num 0, rWriteMax := Num 100, rWriteStep := Num 1\<rparr>,
     reg0\<lparr>rID := ''charge_termination_current'', rName := ''Charge Termination Current'',
       rAddress := 0xE01C, rCount := 1, rType := TypeUint16, rScale := flit (1 / 10),
       rPrecision := 1, rUnit := ''A'', rDeviceClass := ''current'',
       rIcon := ''mdi:battery-charging-outline'', rComponent := ''sensor'', rGroup := GroupSlow,
       rEntity := ''config'', rWritable := True, rWriteMin := Num 0, rWriteMax := Num 10,
       rWriteStep := flit (1 / 10)\<rparr>,
     reg0\<lparr>rID := ''battery_charge_cutoff_soc'', rName := ''Battery Charge Cut-off SOC'',
       rAddress := 0xE01D, rCount := 1, rType := TypeUint16, rScale := Num 1, rPrecision := 0,
       rUnit := ''%'', rDeviceClass := ''battery'', rIcon := ''mdi:battery-check-outline'',
       rComponent := ''sensor'', rGroup := GroupSlow, rEntity := ''config'', rWritable := True,
       rWriteMin := Num 0, rWriteMax := Num 100, rWriteStep := Num 1\<rparr>,
     reg0\<lparr>rID := ''battery_low_soc_alarm'', rName := ''Battery Low SOC Alarm'', rAddress := 0xE01E,
       rCount := 1, rType := TypeUint16, rScale := Num 1, rPrecision := 0, rUnit := ''%'',
       rDeviceClass := ''battery'', rIcon := ''mdi:battery-alert-variant-outline'',
       rComponent := ''sensor'', rGroup := GroupSlow, rEntity := ''config'', rWritable := True,
       rWriteMin := Num 0, rWriteMax := Num 100, rWriteStep := Num 1\<rparr>,
     reg0\<lparr>rID := ''battery_discharge_stop'', rName := ''Switch to Utility SOC'', rAddress := 0xE01F,
       rCount := 1, rType := TypeUint16, rScale := Num 1, rPrecision := 0, rUnit := ''%'',
       rDeviceClass := ''battery'', rIcon := ''mdi:battery'', rComponent := ''sensor'',
       rGroup := GroupSlow, rEntity := ''config'', rWritable := True, rWriteMin := Num 0,
       rWriteMax := Num 100, rWriteStep := Num 1\<rparr>,
     reg0\<lparr>rID := ''battery_discharge_start'', rName := ''Switch to Inverter SOC'', rAddress := 0xE020,
       rCount := 1, rType := TypeUint16, rScale := Num 1, rPrecision := 0, rUnit := ''%'',
       rDeviceClass := ''battery'', rIcon := ''mdi:battery'', rComponent := ''sensor'',
       rGroup := GroupSlow, rEntity := ''config'', rWritable := True, rWriteMin := Num 1,
       rWriteMax := Num 100, rWriteStep := Num 1\<rparr>]"

definition baseCatalog5 :: "register list" where
  "baseCatalog5 =
    [reg0\<lparr>rID := ''bms_charge_limit_mode'', rName := ''BMS Charge Limit Mode'', rAddress := 0xE025,
       rCount := 1, rType := TypeUint16, rPrecision := 0, rIcon := ''mdi:battery-sync'',
       rComponent := ''sensor'', rGroup := GroupSlow, rEntity := ''config'', rWritable := True,
       rWriteMin := Num 0, rWriteMax := Num 2, rWriteStep := Num 1,
       rEnum := [(0, ''Setting''), (1, ''BMS''), (2, ''Inverter Logic'')]\<rparr>,
     reg0\<lparr>rID := ''output_source_priority'', rName := ''Output Source Priority'', rAddress := 0xE204,
       rCount := 1, rType := TypeUint16, rPrecision := 0, rIcon := ''mdi:home-switch-outline'',
       rComponent := ''sensor'', rGroup := GroupSlow, rEntity := ''config'', rWritable := True,
       rWriteMin := Num 0, rWriteMax := Num 2, rWriteStep := Num 1,
       rEnum := [(0, ''Solar''), (1, ''Utility''), (2, ''Solar, Battery, Utility'')]\<rparr>,
     reg0\<lparr>rID := ''mains_charge_current_limit'', rName := ''Mains Charge Current Limit'',
       rAddress := 0xE205, rCount := 1, rType := TypeUint16, rScale := flit (1 / 10),
       rPrecision := 1, rUnit := ''A'', rDeviceClass := ''current'',
       rIcon := ''mdi:transmission-tower'', rComponent := ''sensor'', rGroup := GroupSlow,
       rEntity := ''config'', rWritable := True, rWriteMin := Num 0, rWriteMax := Num 100,
       rWriteStep := flit (1 / 10)\<rparr>,
     reg0\<lparr>rID := ''maximum_charge_current'', rName := ''Maximum Charge Current'', rAddress := 0xE20A,
       rCount := 1, rType := TypeUint16, rScale := flit (1 / 10), rPrecision := 1, rUnit := ''A'',
       rDeviceClass := ''current'', rIcon := ''mdi:battery-charging-high'',
       rComponent := ''sensor'', rGroup := GroupFast, rEntity := ''config'', rWritable := True,
       rWriteMin := Num 0, rWriteMax := Num 150, rWriteStep := flit (1 / 10)\<rparr>,
     reg0\<lparr>rID := ''reset_machine'', rName := ''Reset Machine'', rAddress := 0xDF01, rCount := 1,
       rType := TypeUint16, rPrecision := 0, rIcon := ''mdi:restart-alert'',
       rComponent := ''sensor'', rGroup := GroupSlow, rEntity := ''config'', rWritable := True,
       rWriteOnly := True, rWriteMin := Num 1, rWriteMax := Num 1, rWriteStep := Num 1,
       rButtonClass := ''restart'', rEnum := [(1, ''Reset'')]\<rparr>,
     reg0\<lparr>rID := ''charger_source_priority'', rName := ''Charger Source Priority'', rAddress := 0xE20F,
       rCount := 1, rType := TypeUint16, rPrecision := 0, rIcon := ''mdi:battery-charging-outline'',
       rComponent := ''sensor'', rGroup := GroupSlow, rEntity := ''config'', rWritable := True,
       rWriteMin := Num 0, rWriteMax := Num 3, rWriteStep := Num 1,
       rEnum := [(0, ''PV Priority''), (1, ''Utility Priority''), (2, ''Hybrid''), (3, ''PV Only'')]\<rparr>,
     reg0\<lparr>rID := ''power_saving_mode'', rName := ''Power Saving Mode'', rAddress := 0xE20C,
       rCount := 1, rType := TypeUint16, rPrecision := 0, rIcon := ''mdi:leaf'',
       rComponent := ''sensor'', rGroup := GroupSlow, rEntity := ''config'', rWritable := True,
       rWriteMin := Num 0, rWriteMax := Num 1, rWriteStep := Num 1,
       rEnum := [(0, ''Disabled''), (1, ''Enabled'')]\<rparr>]"

definition baseCatalog6 :: "register list" where
  "baseCatalog6 =
    [reg0\<lparr>rID := ''overload_auto_restart'', rName := ''Overload Auto Restart'', rAddress := 0xE20D,
       rCount := 1, rType := TypeUint16, rPrecision := 0, rIcon := ''mdi:restart-alert'',
       rComponent := ''sensor'', rGroup := GroupSlow, rEntity := ''config'', rWritable := True,
       rWriteMin := Num 0, rWriteMax := Num 1, rWriteStep := Num 1,
       rEnum := [(0, ''Disabled''), (1, ''Enabled'')]\<rparr>,
     reg0\<lparr>rID := ''overtemperature_auto_restart'', rName := ''Overtemperature Auto Restart'',
       rAddress := 0xE20E, rCount := 1, rType := TypeUint16, rPrecision := 0,
       rIcon := ''mdi:thermometer-alert'', rComponent := ''sensor'', rGroup := GroupSlow,
       rEntity := ''config'', rWritable := True, rWriteMin := Num 0, rWriteMax := Num 1,
       rWriteStep := Num 1, rEnum := [(0, ''Disabled''), (1, ''Enabled'')]\<rparr>,
     reg0\<lparr>rID := ''buzzer_alarm'', rName := ''Buzzer Alarm'', rAddress := 0xE210, rCount := 1,
       rType := TypeUint16, rPrecision := 0, rIcon := ''mdi:volume-high'', rComponent := ''sensor'',
       rGroup := GroupSlow, rEntity := ''config'', rWritable := True, rWriteMin := Num 0,
       rWriteMax := Num 1, rWriteStep := Num 1, rEnum := [(0, ''Disabled''), (1, ''Enabled'')]\<rparr>,
     reg0\<lparr>rID := ''source_change_alert'', rName := ''Source Change Alert'', rAddress := 0xE211,
       rCount := 1, rType := TypeUint16, rPrecision := 0, rIcon := ''mdi:bell-alert-outline'',
       rComponent := ''sensor'', rGroup := GroupSlow, rEntity := ''config'', rWritable := True,
       rWriteMin := Num 0, rWriteMax := Num 1, rWriteStep := Num 1,
       rEnum := [(0, ''Disabled''), (1, ''Enabled'')]\<rparr>,
     reg0\<lparr>rID := ''overload_bypass'', rName := ''Bypass on Overload'', rAddress := 0xE212, rCount := 1,
       rType := TypeUint16, rPrecision := 0, rIcon := ''mdi:electric-switch'',
       rComponent := ''sensor'', rGroup := GroupSlow, rEntity := ''config'', rWritable := True,
       rWriteMin := Num 0, rWriteMax := Num 1, rWriteStep := Num 1,
       rEnum := [(0, ''Disabled''), (1, ''Enabled'')]\<rparr>,
     reg0\<lparr>rID := ''bms_communication_enable'', rName := ''BMS Communication Enable'',
       rAddress := 0xE215, rCount := 1, rType := TypeUint16, rPrecision := 0,
       rIcon := ''mdi:battery-sync-outline'', rComponent := ''sensor'', rGroup := GroupSlow,
       rEntity := ''config'', rEnum := [(0, ''Disabled''), (1, ''RS485 BMS''), (2, ''CAN BMS'')]\<rparr>,
     reg0\<lparr>rID := ''bms_protocol'', rName := ''BMS Protocol'', rAddress := 0xE21B, rCount := 1,
       rType := TypeUint16, rPrecision := 0, rIcon := ''mdi:protocol'', rComponent := ''sensor'',
       rGroup := GroupSlow, rEntity := ''config''\<rparr>,
     reg0\<lparr>rID := ''dc_to_dc_temperature'', rName := ''DC to DC Temperature'', rAddress := 0x0220,
       rCount := 1, rType := TypeInt16, rScale := flit (1 / 10), rPrecision := 1,
       rUnit := [CHR 0xC2, CHR 0xB0, CHR ''C''], rDeviceClass := ''temperature'',
       rStateClass := ''measurement'', rIcon := ''mdi:thermometer'', rComponent := ''sensor'',
       rGroup := GroupSlow, rEntity := ''diagnostic''\<rparr>]"

definition baseCatalog7 :: "register list" where
  "baseCatalog7 =
    [reg0\<lparr>rID := ''dc_to_ac_temperature'', rName := ''DC to AC Temperature'', rAddress := 0x0221,
       rCount := 1, rType := TypeInt16, rScale := flit (1 / 10), rPrecision := 1,
       rUnit := [CHR 0xC2, CHR 0xB0, CHR ''C''], rDeviceClass := ''temperature'',
       rStateClass := ''measurement'', rIcon := ''mdi:thermometer'', rComponent := ''sensor'',
       rGroup := GroupSlow, rEntity := ''diagnostic''\<rparr>,
     reg0\<lparr>rID := ''transformer_temperature'', rName := ''Transformer Temperature'', rAddress := 0x0222,
       rCount := 1, rType := TypeInt16, rScale := flit (1 / 10), rPrecision := 1,
       rUnit := [CHR 0xC2, CHR 0xB0, CHR ''C''], rDeviceClass := ''temperature'',
       rStateClass := ''measurement'', rIcon := ''mdi:thermometer'', rComponent := ''sensor'',
       rGroup := GroupSlow, rEntity := ''diagnostic''\<rparr>,
     reg0\<lparr>rID := ''grid_power'', rName := ''Grid Power'', rAddress := 0x023A, rCount := 1,
       rType := TypeInt16, rScale := Num (-1), rPrecision := 0, rUnit := ''W'',
       rDeviceClass := ''power'', rStateClass := ''measurement'',
       rIcon := ''mdi:transmission-tower'', rComponent := ''sensor'', rGroup := GroupSlow,
       rEntity := ''diagnostic''\<rparr>,
     reg0\<lparr>rID := ''today_energy_export'', rName := ''Today Energy Export'', rAddress := 0xF02C,
       rCount := 1, rType := TypeUint16, rScale := flit (1 / 10), rPrecision := 1, rUnit := ''kWh'',
       rDeviceClass := ''energy'', rStateClass := ''total_increasing'',
       rIcon := ''mdi:transmission-tower-import'', rComponent := ''sensor'', rGroup := GroupSlow,
       rEntity := ''diagnostic''\<rparr>,
     reg0\<lparr>rID := ''today_battery_charge_ah'', rName := ''Today Battery Charge'', rAddress := 0xF02D,
       rCount := 1, rType := TypeUint16, rScale := Num 1, rPrecision := 0, rUnit := ''Ah'',
       rStateClass := ''total_increasing'', rIcon := ''mdi:battery-plus'', rComponent := ''sensor'',
       rGroup := GroupSlow, rEntity := ''diagnostic''\<rparr>,
     reg0\<lparr>rID := ''today_battery_discharge_ah'', rName := ''Today Battery Discharge'',
       rAddress := 0xF02E, rCount := 1, rType := TypeUint16, rScale := Num 1, rPrecision := 0,
       rUnit := ''Ah'', rStateClass := ''total_increasing'', rIcon := ''mdi:battery-minus'',
       rComponent := ''sensor'', rGroup := GroupSlow, rEntity := ''diagnostic''\<rparr>,
     reg0\<lparr>rID := ''today_production'', rName := ''Today Production'', rAddress := 0xF02F, rCount := 1,
       rType := TypeUint16, rScale := flit (1 / 10), rPrecision := 1, rUnit := ''kWh'',
       rDeviceClass := ''energy'', rStateClass := ''total_increasing'',
       rIcon := ''mdi:solar-power'', rComponent := ''sensor'', rGroup := GroupSlow,
       rEntity := ''diagnostic''\<rparr>,
     reg0\<lparr>rID := ''today_load_consumption'', rName := ''Today Load Consumption'', rAddress := 0xF030,
       rCount := 1, rType := TypeUint16, rScale := flit (1 / 10), rPrecision := 1, rUnit := ''kWh'',
       rDeviceClass := ''energy'', rStateClass := ''total_increasing'',
       rIcon := ''mdi:home-lightning-bolt-outline'', rComponent := ''sensor'', rGroup := GroupSlow,
       rEntity := ''diagnostic''\<rparr>,
     reg0\<lparr>rID := ''total_energy_export'', rName := ''Total Energy Export'', rAddress := 0xF032,
       rCount := 2, rType := TypeUint32, rWordOrder := WordOrderLowHigh, rScale := flit (1 / 10),
       rPrecision := 1, rUnit := ''kWh'', rDeviceClass := ''energy'',
       rStateClass := ''total_increasing'', rIcon := ''mdi:transmission-tower-import'',
       rComponent := ''sensor'', rGroup := GroupSlow, rEntity := ''diagnostic''\<rparr>]"

definition baseCatalog8 :: "register list" where
  "baseCatalog8 =
    [reg0\<lparr>rID := ''total_battery_charge_ah'', rName := ''Total Battery Charge'', rAddress := 0xF034,
       rCount := 2, rType := TypeUint32, rWordOrder := WordOrderLowHigh, rScale := Num 1,
       rPrecision := 0, rUnit := ''Ah'', rStateClass := ''total_increasing'',
       rIcon := ''mdi:battery-plus'', rComponent := ''sensor'', rGroup := GroupSlow,
       rEntity := ''diagnostic''\<rparr>,
     reg0\<lparr>rID := ''total_battery_discharge_ah'', rName := ''Total Battery Discharge'',
       rAddress := 0xF036, rCount := 2, rType := TypeUint32, rWordOrder := WordOrderLowHigh,
       rScale := Num 1, rPrecision := 0, rUnit := ''Ah'', rStateClass := ''total_increasing'',
       rIcon := ''mdi:battery-minus'', rComponent := ''sensor'', rGroup := GroupSlow,
       rEntity := ''diagnostic''\<rparr>,
     reg0\<lparr>rID := ''total_production'', rName := ''Total Production'', rAddress := 0xF038, rCount := 2,
       rType := TypeUint32, rWordOrder := WordOrderLowHigh, rScale := flit (1 / 10),
       rPrecision := 1, rUnit := ''kWh'', rDeviceClass := ''energy'',
       rStateClass := ''total_increasing'', rIcon := ''mdi:solar-power'', rComponent := ''sensor'',
       rGroup := GroupSlow, rEntity := ''diagnostic''\<rparr>,
     reg0\<lparr>rID := ''total_load_consumption'', rName := ''Total Load Consumption'', rAddress := 0xF03A,
       rCount := 2, rType := TypeUint32, rWordOrder := WordOrderLowHigh, rScale := flit (1 / 10),
       rPrecision := 1, rUnit := ''kWh'', rDeviceClass := ''energy'',
       rStateClass := ''total_increasing'', rIcon := ''mdi:home-lightning-bolt-outline'',
       rComponent := ''sensor'', rGroup := GroupSlow, rEntity := ''diagnostic''\<rparr>,
     reg0\<lparr>rID := ''today_battery_grid_charge_ah'', rName := ''Today Battery Grid Charge'',
       rAddress := 0xF03C, rCount := 1, rType := TypeUint16, rScale := Num 1, rPrecision := 0,
       rUnit := ''Ah'', rStateClass := ''total_increasing'', rIcon := ''mdi:battery-plus'',
       rComponent := ''sensor'', rGroup := GroupSlow, rEntity := ''diagnostic''\<rparr>,
     reg0\<lparr>rID := ''today_energy_import'', rName := ''Today Energy Import'', rAddress := 0xF03D,
       rCount := 1, rType := TypeUint16, rScale := flit (1 / 10), rPrecision := 1, rUnit := ''kWh'',
       rDeviceClass := ''energy'', rStateClass := ''total_increasing'',
       rIcon := ''mdi:transmission-tower-export'', rComponent := ''sensor'', rGroup := GroupSlow,
       rEntity := ''diagnostic''\<rparr>,
     reg0\<lparr>rID := ''total_battery_grid_charge_ah'', rName := ''Total Battery Grid Charge'',
       rAddress := 0xF046, rCount := 2, rType := TypeUint32, rWordOrder := WordOrderLowHigh,
       rScale := Num 1, rPrecision := 0, rUnit := ''Ah'', rStateClass := ''total_increasing'',
       rIcon := ''mdi:battery-plus'', rComponent := ''sensor'', rGroup := GroupSlow,
       rEntity := ''diagnostic''\<rparr>,
     reg0\<lparr>rID := ''total_energy_import'', rName := ''Total Energy Import'', rAddress := 0xF048,
       rCount := 2, rType := TypeUint32, rWordOrder := WordOrderLowHigh, rScale := flit (1 / 10),
       rPrecision := 1, rUnit := ''kWh'', rDeviceClass := ''energy'',
       rStateClass := ''total_increasing'', rIcon := ''mdi:transmission-tower-export'',
       rComponent := ''sensor'', rGroup := GroupSlow, rEntity := ''diagnostic''\<rparr>,
     reg0\<lparr>rID := ''system_energy_losses_total'', rName := ''System Energy Losses Total'',
       rAddress := 0xFFF0, rCount := 0, rType := TypeUint16, rSynthetic := True, rScale := Num 1,
       rPrecision := 1, rUnit := ''kWh'', rDeviceClass := ''energy'',
       rStateClass := ''total_increasing'', rIcon := ''mdi:transmission-tower-off'',
       rComponent := ''sensor'', rGroup := GroupSlow, rEntity := ''diagnostic''\<rparr>]"

definition baseCatalog9 :: "register list" where
  "baseCatalog9 =
    [reg0\<lparr>rID := ''system_energy_efficiency_total'', rName := ''System Energy Efficiency Total'',
       rAddress := 0xFFF1, rCount := 0, rType := TypeUint16, rSynthetic := True, rScale := Num 1,
       rPrecision := 1, rUnit := ''%'', rIcon := ''mdi:percent-outline'', rComponent := ''sensor'',
       rGroup := GroupSlow, rEntity := ''diagnostic''\<rparr>,
     reg0\<lparr>rID := ''last_switch_to_grid_at'', rName := ''Last Switch To Grid At'', rAddress := 0xFFF2,
       rCount := 0, rType := TypeUint16, rSynthetic := True, rDeviceClass := ''timestamp'',
       rIcon := ''mdi:transmission-tower-import'', rComponent := ''sensor'', rGroup := GroupSlow,
       rEntity := ''diagnostic''\<rparr>,
     reg0\<lparr>rID := ''last_switch_to_grid_soc'', rName := ''Last Switch To Grid SOC'', rAddress := 0xFFF3,
       rCount := 0, rType := TypeUint16, rSynthetic := True, rScale := Num 1, rPrecision := 0,
       rUnit := ''%'', rDeviceClass := ''battery'', rIcon := ''mdi:battery-arrow-down'',
       rComponent := ''sensor'', rGroup := GroupSlow, rEntity := ''diagnostic''\<rparr>,
     reg0\<lparr>rID := ''last_switch_to_battery_at'', rName := ''Last Switch To Battery At'',
       rAddress := 0xFFF4, rCount := 0, rType := TypeUint16, rSynthetic := True,
       rDeviceClass := ''timestamp'', rIcon := ''mdi:battery-arrow-up'', rComponent := ''sensor'',
       rGroup := GroupSlow, rEntity := ''diagnostic''\<rparr>,
     reg0\<lparr>rID := ''last_switch_to_battery_soc'', rName := ''Last Switch To Battery SOC'',
       rAddress := 0xFFF5, rCount := 0, rType := TypeUint16, rSynthetic := True, rScale := Num 1,
       rPrecision := 0, rUnit := ''%'', rDeviceClass := ''battery'',
       rIcon := ''mdi:battery-heart-variant'', rComponent := ''sensor'', rGroup := GroupSlow,
       rEntity := ''diagnostic''\<rparr>,
     reg0\<lparr>rID := ''battery_charge_energy_total_estimate'',
       rName := ''Battery Charge Energy Total Estimate'', rAddress := 0xFFF6, rCount := 0,
       rType := TypeUint16, rSynthetic := True, rScale := Num 1, rPrecision := 1, rUnit := ''kWh'',
       rDeviceClass := ''energy'', rStateClass := ''total_increasing'',
       rIcon := ''mdi:battery-plus'', rComponent := ''sensor'', rGroup := GroupSlow,
       rEntity := ''diagnostic''\<rparr>,
     reg0\<lparr>rID := ''battery_discharge_energy_total_estimate'',
       rName := ''Battery Discharge Energy Total Estimate'', rAddress := 0xFFF7, rCount := 0,
       rType := TypeUint16, rSynthetic := True, rScale := Num 1, rPrecision := 1, rUnit := ''kWh'',
       rDeviceClass := ''energy'', rStateClass := ''total_increasing'',
       rIcon := ''mdi:battery-minus'', rComponent := ''sensor'', rGroup := GroupSlow,
       rEntity := ''diagnostic''\<rparr>]"

definition baseCatalog :: "register list" where
  "baseCatalog = baseCatalog1 @ baseCatalog2 @ baseCatalog3 @ baseCatalog4 @ baseCatalog5 @ baseCatalog6 @ baseCatalog7 @ baseCatalog8 @ baseCatalog9"

section \<open>The catalog of an inverter type\<close>

definition threePhaseRegisters :: "register list" where
  "threePhaseRegisters =
    [inverterClockRegister,
     timedChargeRegister ''timed_charge_slot_1_start'' ''Timed Utility Charge Slot 1 Start'' 0xE026,
     timedChargeRegister ''timed_charge_slot_1_end'' ''Timed Utility Charge Slot 1 End'' 0xE027,
     timedChargeRegister ''timed_charge_slot_2_start'' ''Timed Utility Charge Slot 2 Start'' 0xE028,
     timedChargeRegister ''timed_charge_slot_2_end'' ''Timed Utility Charge Slot 2 End'' 0xE029,
     timedChargeRegister ''timed_charge_slot_3_start'' ''Timed Utility Charge Slot 3 Start'' 0xE02A,
     timedChargeRegister ''timed_charge_slot_3_end'' ''Timed Utility Charge Slot 3 End'' 0xE02B,
     timedChargeEnabledRegister,
     powerSumRegister ''pv_power'' ''PV Power'' 0xFFFA ''mdi:white-balance-sunny'',
     pvVoltageRegister ''pv1_voltage'' ''PV1 Voltage'' 0x0107,
     pvCurrentRegister ''pv1_current'' ''PV1 Current'' 0x0108,
     pvPowerRegister ''pv1_power'' ''PV1 Power'' 0x0109,
     pvVoltageRegister ''pv2_voltage'' ''PV2 Voltage'' 0x010F,
     pvCurrentRegister ''pv2_current'' ''PV2 Current'' 0x0110,
     pvPowerRegister ''pv2_power'' ''PV2 Power'' 0x0111,
     powerSumRegister ''load_power'' ''Load Power'' 0xFFF8 ''mdi:home-lightning-bolt-outline'',
     powerSumRegister ''grid_power'' ''Grid Power'' 0xFFF9 ''mdi:transmission-tower'',
     phaseVoltageRegister ''grid_voltage_phase_a'' ''Grid Voltage Phase A'' 0x0213 ''mdi:transmission-tower'',
     phaseCurrentRegister ''grid_current_phase_a'' ''Grid Current Phase A'' 0x0214,
     phaseCurrentRegister ''load_current_phase_a'' ''Load Current Phase A'' 0x0219,
     phasePowerRegister ''load_power_phase_a'' ''Load Power Phase A'' 0x021B (Num 1) ''mdi:home-lightning-bolt-outline'',
     phaseApparentPowerRegister ''load_apparent_power_phase_a'' ''Load Apparent Power Phase A'' 0x021C,
     phaseVoltageRegister ''grid_voltage_phase_b'' ''Grid Voltage Phase B'' 0x022A ''mdi:transmission-tower'',
     phaseVoltageRegister ''grid_voltage_phase_c'' ''Grid Voltage Phase C'' 0x022B ''mdi:transmission-tower'',
     phaseCurrentRegister ''load_current_phase_b'' ''Load Current Phase B'' 0x0230,
     phaseCurrentRegister ''load_current_phase_c'' ''Load Current Phase C'' 0x0231,
     phasePowerRegister ''load_power_phase_b'' ''Load Power Phase B'' 0x0232 (Num 1) ''mdi:home-lightning-bolt-outline'',
     phasePowerRegister ''load_power_phase_c'' ''Load Power Phase C'' 0x0233 (Num 1) ''mdi:home-lightning-bolt-outline'',
     phaseCurrentRegister ''grid_current_phase_b'' ''Grid Current Phase B'' 0x0238,
     phaseCurrentRegister ''grid_current_phase_c'' ''Grid Current Phase C'' 0x0239,
     phasePowerRegister ''grid_power_phase_a'' ''Grid Power Phase A'' 0x023A (Num 1) ''mdi:transmission-tower'',
     phasePowerRegister ''grid_power_phase_b'' ''Grid Power Phase B'' 0x023B (Num 1) ''mdi:transmission-tower'',
     phasePowerRegister ''grid_power_phase_c'' ''Grid Power Phase C'' 0x023C (Num 1) ''mdi:transmission-tower'']"

definition gridControls :: "register list" where
  "gridControls = [gridOperatingModeRegister, onGridMaxPowerRegister, zeroExportPowerRegister]"

text \<open>\<^verbatim>\<open>threePhaseCatalog\<close>: the registers the profile replaces are dropped, three bounds
  are changed.\<close>

definition replacedByThreePhase :: "string list" where
  "replacedByThreePhase =
     [''pv_voltage'', ''pv_current'', ''pv_power'', ''load_power'', ''load_current'',
      ''load_apparent_power'', ''grid_voltage'', ''grid_current'', ''grid_power'']"

definition adjustThreePhase :: "register \<Rightarrow> register" where
  "adjustThreePhase reg =
     (if rID reg \<in> {''pv_charge_current_setup'', ''maximum_charge_current''} then reg\<lparr>rWriteMax := Num 260\<rparr>
      else if rID reg = ''mains_charge_current_limit'' then reg\<lparr>rWriteMax := Num 120\<rparr>
      else reg)"

definition threePhaseCatalog :: "register list \<Rightarrow> bool \<Rightarrow> register list" where
  "threePhaseCatalog catalog includeGridControls =
     map adjustThreePhase (filter (\<lambda>reg. rID reg \<notin> set replacedByThreePhase) catalog)
     @ threePhaseRegisters @ (if includeGridControls then gridControls else [])"

definition inverterTypeSinglePhase :: string where
  "inverterTypeSinglePhase = ''single_phase''"

definition inverterTypeSPIH3P :: string where
  "inverterTypeSPIH3P = ''spi_h3p''"

definition inverterTypeHESPSH3 :: string where
  "inverterTypeHESPSH3 = ''hesp_sh3''"

definition normalizeInverterType :: "string \<Rightarrow> string" where
  "normalizeInverterType inverterType =
     (let t = to_lower (trim_space inverterType) in
      if t \<in> {''three_phase'', ''three-phase'', ''three'', ''3p''} then inverterTypeSPIH3P
      else if t \<in> {''spi_h3p'', ''spi-h3p'', ''spi''} then inverterTypeSPIH3P
      else if t \<in> {''hesp_sh3'', ''hesp-sh3'', ''hesp''} then inverterTypeHESPSH3
      else inverterTypeSinglePhase)"

definition isThreePhaseInverterType :: "string \<Rightarrow> bool" where
  "isThreePhaseInverterType inverterType =
     (normalizeInverterType inverterType = inverterTypeSPIH3P
      \<or> normalizeInverterType inverterType = inverterTypeHESPSH3)"

definition catalogForInverterType :: "string \<Rightarrow> register list" where
  "catalogForInverterType inverterType =
     (let catalog = baseCatalog; normalized = normalizeInverterType inverterType in
      if \<not> isThreePhaseInverterType normalized then catalog
      else threePhaseCatalog catalog (normalized = inverterTypeHESPSH3))"

definition findByIDForInverterType :: "string \<Rightarrow> string \<Rightarrow> register option" where
  "findByIDForInverterType i inverterType =
     find_first (\<lambda>reg. rID reg = i) (catalogForInverterType inverterType)"

end
