(* ===== verification/ReadPlan.thy ===== *)
theory ReadPlan
  imports Catalog
begin

text \<open>
  \<^verbatim>\<open>internal/registers/catalog.go\<close>, the read plan: the registers of a polling group, sorted
  by address, are merged into contiguous ranges, one Modbus request each. \<open>read_range\<close> is the
  struct \<^verbatim>\<open>ReadRange\<close>, \<open>merge_ranges\<close> the loop of
  \<^verbatim>\<open>BuildReadPlanForRegisters\<close>. Addresses are \<^verbatim>\<open>uint16\<close>, so the end of a range
  can wrap around; \<open>fits\<close> says that a register does not.
\<close>

record read_range =
  rrStart :: u16
  rrCount :: u16
  rrRegisters :: "register list"

definition byGroupForInverterType :: "poll_group \<Rightarrow> string \<Rightarrow> register list" where
  "byGroupForInverterType grp inverterType =
     sort_key rAddress
       (filter (\<lambda>reg. rGroup reg = grp \<and> \<not> rWriteOnly reg \<and> \<not> rSynthetic reg)
         (catalogForInverterType inverterType))"

fun merge_ranges :: "read_range \<Rightarrow> register list \<Rightarrow> read_range list" where
  "merge_ranges current [] = [current]"
| "merge_ranges current (reg # regs) =
     (let currentEnd = rrStart current + rrCount current;
          regEnd = rAddress reg + rCount reg in
      if rAddress reg \<le> currentEnd then
        merge_ranges
          (current\<lparr>rrCount := (if regEnd > currentEnd then regEnd - rrStart current else rrCount current),
                   rrRegisters := rrRegisters current @ [reg]\<rparr>) regs
      else
        current # merge_ranges \<lparr>rrStart = rAddress reg, rrCount = rCount reg, rrRegisters = [reg]\<rparr> regs)"

definition buildReadPlanForRegisters :: "register list \<Rightarrow> read_range list" where
  "buildReadPlanForRegisters regs =
     (case sort_key rAddress regs of
        [] \<Rightarrow> []
      | reg # rest \<Rightarrow>
          merge_ranges \<lparr>rrStart = rAddress reg, rrCount = rCount reg, rrRegisters = [reg]\<rparr> rest)"

definition buildReadPlanForInverterType :: "poll_group \<Rightarrow> string \<Rightarrow> read_range list" where
  "buildReadPlanForInverterType grp inverterType =
     buildReadPlanForRegisters (byGroupForInverterType grp inverterType)"

definition criticalIDs :: "string \<Rightarrow> string list" where
  "criticalIDs inverterType =
     [''battery_soc'', ''battery_voltage'', ''battery_current'', ''maximum_charge_current'']
     @ (if isThreePhaseInverterType inverterType then
          [''pv1_voltage'', ''pv1_current'', ''pv1_power'', ''pv2_voltage'', ''pv2_current'',
           ''pv2_power'', ''grid_voltage_phase_a'', ''grid_voltage_phase_b'', ''grid_voltage_phase_c'',
           ''grid_current_phase_a'', ''grid_current_phase_b'', ''grid_current_phase_c'',
           ''grid_frequency'', ''load_current_phase_a'', ''load_current_phase_b'',
           ''load_current_phase_c'', ''load_power_phase_a'', ''load_power_phase_b'',
           ''load_power_phase_c'', ''grid_power_phase_a'', ''grid_power_phase_b'',
           ''grid_power_phase_c'']
        else [''pv_voltage'', ''pv_current'', ''pv_power'', ''load_power''])"

definition buildCriticalFastReadPlanForInverterType :: "string \<Rightarrow> read_range list" where
  "buildCriticalFastReadPlanForInverterType inverterType =
     buildReadPlanForRegisters
       (filter (\<lambda>reg. rID reg \<in> set (criticalIDs inverterType))
         (byGroupForInverterType GroupFast inverterType))"

section \<open>Words covered\<close>

text \<open>The addresses of a register and of a range, as natural numbers.\<close>

definition reg_words :: "register \<Rightarrow> nat set" where
  "reg_words reg = {unat (rAddress reg)..<unat (rAddress reg) + unat (rCount reg)}"

definition range_words :: "read_range \<Rightarrow> nat set" where
  "range_words rr = {unat (rrStart rr)..<unat (rrStart rr) + unat (rrCount rr)}"

definition fits :: "register \<Rightarrow> bool" where
  "fits reg \<longleftrightarrow> 0 < unat (rCount reg) \<and> unat (rAddress reg) + unat (rCount reg) < 65536"

lemma fits_uint: "fits reg \<longleftrightarrow> 0 < uint (rCount reg) \<and> uint (rAddress reg) + uint (rCount reg) < 65536"
proof -
  have "uint (rCount reg) = int (unat (rCount reg))" "uint (rAddress reg) = int (unat (rAddress reg))"
    by simp_all
  then show ?thesis unfolding fits_def by linarith
qed

text \<open>A range whose words are exactly those of its registers.\<close>

definition range_ok :: "read_range \<Rightarrow> bool" where
  "range_ok rr \<longleftrightarrow> unat (rrStart rr) + unat (rrCount rr) < 65536
     \<and> range_words rr = (\<Union>reg \<in> set (rrRegisters rr). reg_words reg)
     \<and> list_all fits (rrRegisters rr)"

lemma unat_add_u16: "unat (a :: u16) + unat b < 65536 \<Longrightarrow> unat (a + b) = unat a + unat b"
  by (simp add: unat_add_lem [THEN iffD1])

lemma unat_sub_u16: "b \<le> (a :: u16) \<Longrightarrow> unat (a - b) = unat a - unat b"
  by (rule unat_sub)

lemma range_ok_single:
  "fits reg \<Longrightarrow> range_ok \<lparr>rrStart = rAddress reg, rrCount = rCount reg, rrRegisters = [reg]\<rparr>"
  by (simp add: range_ok_def fits_def range_words_def reg_words_def)

lemma range_ok_extend:
  assumes "range_ok cur" "fits reg" "rrStart cur \<le> rAddress reg"
    and "rAddress reg \<le> rrStart cur + rrCount cur"
  shows "range_ok (cur\<lparr>rrCount := (if rAddress reg + rCount reg > rrStart cur + rrCount cur
                     then rAddress reg + rCount reg - rrStart cur else rrCount cur),
                   rrRegisters := rrRegisters cur @ [reg]\<rparr>)"
proof -
  let ?s = "unat (rrStart cur)" and ?c = "unat (rrCount cur)"
  let ?a = "unat (rAddress reg)" and ?k = "unat (rCount reg)"
  have e: "unat (rrStart cur + rrCount cur) = ?s + ?c" "unat (rAddress reg + rCount reg) = ?a + ?k"
    using assms(1,2) by (simp_all add: range_ok_def fits_def unat_add_u16)
  have o: "?s \<le> ?a" "?a \<le> ?s + ?c"
    using assms(3,4) by (simp_all add: word_le_nat_alt e)
  have gt: "rAddress reg + rCount reg > rrStart cur + rrCount cur \<longleftrightarrow> ?s + ?c < ?a + ?k"
    by (simp add: word_less_nat_alt e)
  have sub: "unat (rAddress reg + rCount reg - rrStart cur) = ?a + ?k - ?s"
    using o by (subst unat_sub_u16) (simp_all add: word_le_nat_alt e)
  have w: "{?s..<?s + ?c} \<union> {?a..<?a + ?k} = {?s..<max (?s + ?c) (?a + ?k)}"
    using o by (auto simp: max_def)
  have cov: "{?s..<?s + ?c} = (\<Union>reg \<in> set (rrRegisters cur). reg_words reg)"
    using assms(1) by (simp add: range_ok_def range_words_def)
  show ?thesis
    using assms(1,2) o w cov
    by (auto simp: range_ok_def fits_def range_words_def reg_words_def gt sub max_def split: if_splits)
qed

section \<open>The plan\<close>

definition separated :: "read_range list \<Rightarrow> bool" where
  "separated rrs \<longleftrightarrow>
     sorted_wrt (\<lambda>r s. unat (rrStart r) + unat (rrCount r) < unat (rrStart s)) rrs"

lemma merge_ranges_registers:
  "concat (map rrRegisters (merge_ranges cur regs)) = rrRegisters cur @ regs"
  by (induction regs arbitrary: cur) (simp_all add: Let_def)

lemma merge_ranges_start:
  assumes "rr \<in> set (merge_ranges cur regs)" "sorted (map rAddress regs)" "\<forall>reg \<in> set regs. rrStart cur \<le> rAddress reg"
  shows "rrStart cur \<le> rrStart rr"
  using assms
proof (induction regs arbitrary: cur)
  case Nil
  then show ?case by simp
next
  case (Cons reg regs)
  show ?case
  proof (cases "rAddress reg \<le> rrStart cur + rrCount cur")
    case True
    with Cons.prems Cons.IH [of "cur\<lparr>rrCount := _, rrRegisters := _\<rparr>"] show ?thesis
      by (fastforce simp: Let_def)
  next
    case False
    with Cons.prems have "rr = cur \<or> rr \<in> set (merge_ranges \<lparr>rrStart = rAddress reg, rrCount = rCount reg, rrRegisters = [reg]\<rparr> regs)"
      by (simp add: Let_def)
    with Cons.prems Cons.IH [of "\<lparr>rrStart = rAddress reg, rrCount = rCount reg, rrRegisters = [reg]\<rparr>"]
    show ?thesis by fastforce
  qed
qed

lemma merge_ranges_ok:
  assumes "range_ok cur" "list_all fits regs" "sorted (map rAddress regs)"
    and "\<forall>reg \<in> set regs. rrStart cur \<le> rAddress reg"
  shows "list_all range_ok (merge_ranges cur regs) \<and> separated (merge_ranges cur regs)"
  using assms
proof (induction regs arbitrary: cur)
  case Nil
  then show ?case by (simp add: separated_def)
next
  case (Cons reg regs)
  let ?new = "\<lparr>rrStart = rAddress reg, rrCount = rCount reg, rrRegisters = [reg]\<rparr>"
  show ?case
  proof (cases "rAddress reg \<le> rrStart cur + rrCount cur")
    case True
    let ?ext = "cur\<lparr>rrCount := (if rAddress reg + rCount reg > rrStart cur + rrCount cur
                     then rAddress reg + rCount reg - rrStart cur else rrCount cur),
                   rrRegisters := rrRegisters cur @ [reg]\<rparr>"
    have "range_ok ?ext"
      using Cons.prems True by (intro range_ok_extend) auto
    with Cons.IH [of ?ext] Cons.prems True show ?thesis by (simp add: Let_def)
  next
    case False
    have new: "list_all range_ok (merge_ranges ?new regs) \<and> separated (merge_ranges ?new regs)"
      using Cons.prems by (intro Cons.IH) (auto simp: range_ok_single)
    have "unat (rrStart cur) + unat (rrCount cur) < unat (rrStart rr)" if "rr \<in> set (merge_ranges ?new regs)" for rr
    proof -
      have "rAddress reg \<le> rrStart rr"
        using merge_ranges_start [OF that] Cons.prems by simp
      moreover have "unat (rrStart cur + rrCount cur) = unat (rrStart cur) + unat (rrCount cur)"
        using Cons.prems(1) by (simp add: range_ok_def unat_add_u16)
      ultimately show ?thesis
        using False by (simp add: word_le_nat_alt not_le)
    qed
    with new Cons.prems(1) False show ?thesis by (simp add: Let_def separated_def)
  qed
qed

lemma plan_registers: "concat (map rrRegisters (buildReadPlanForRegisters regs)) = sort_key rAddress regs"
  by (simp add: buildReadPlanForRegisters_def merge_ranges_registers split: list.split)

lemma plan_ok:
  assumes "list_all fits regs"
  shows "list_all range_ok (buildReadPlanForRegisters regs) \<and> separated (buildReadPlanForRegisters regs)"
proof (cases "sort_key rAddress regs")
  case Nil
  then show ?thesis by (simp add: buildReadPlanForRegisters_def separated_def)
next
  case (Cons reg rest)
  have s: "sorted (map rAddress (reg # rest))" unfolding Cons [symmetric] by simp
  have f: "list_all fits (reg # rest)" unfolding Cons [symmetric] using assms by (simp add: list_all_iff)
  show ?thesis
    unfolding buildReadPlanForRegisters_def Cons list.case
    using s f by (intro merge_ranges_ok range_ok_single) simp_all
qed

end
