(* ===== verification/RegisterNumbers.thy ===== *)
theory RegisterNumbers
  imports Registers
begin

text \<open>
  The arithmetic of \<^verbatim>\<open>Register.Decode\<close> and \<^verbatim>\<open>Register.EncodeWrite\<close> in binary64, for
  the two kinds of numeric control the catalog has: tenths (scale and step 0.1, which binary64
  cannot represent) and whole units. \<open>near x q e\<close> bounds the error of a computed value;
  \<open>whole x m\<close> says it is exact. The results are \<open>decode_tenths\<close> and
  \<open>encode_tenths\<close>, \<open>decode_units\<close> and \<open>encode_units\<close>: decoding and encoding a
  value are inverse on every raw value the bounds allow.
\<close>

definition near :: "f64 \<Rightarrow> rat \<Rightarrow> rat \<Rightarrow> bool" where
  "near x q e \<longleftrightarrow> is_fin x \<and> \<bar>fval x - q\<bar> \<le> e"

lemma near_mono: "near x q d \<Longrightarrow> d \<le> e \<Longrightarrow> near x q e"
  by (auto simp: near_def)

lemma near_Num [simp]: "near (Num q) q 0"
  by (simp add: near_def)

text \<open>One rounded operation on operands whose exact result is close to \<open>q\<close>.\<close>

lemma near_op:
  assumes "is_fin z" "\<bar>fval z - w\<bar> \<le> 2 powi (k - 53)" "\<bar>w - q\<bar> \<le> e"
  shows "near z q (e + 2 powi (k - 53))"
  using assms by (auto simp: near_def)

lemma near_round: "near x (of_int n) e \<Longrightarrow> e < 1 / 2 \<Longrightarrow> near (math_round x) (of_int n) 0"
  by (auto simp: near_def math_round_fin intro!: round_half_near)

lemma tenth_near: "near (flit (1 / 10)) (1 / 10) (1 / 2 ^ 56)"
  using fround_fin [of "1 / 10" "-3" False] by (simp add: near_def flit_def power_int_def power_divide)

lemma tenth_bounds: "is_fin (flit (1 / 10))" "9 / 100 \<le> fval (flit (1 / 10))" "fval (flit (1 / 10)) \<le> 11 / 100"
  using tenth_near unfolding near_def abs_le_iff by auto

lemma abs_bound:
  fixes y :: rat
  assumes "\<bar>y - of_int n\<bar> \<le> e" "e \<le> 1" "0 \<le> n" "n \<le> 65536"
  shows "\<bar>y\<bar> \<le> 2 powi 17"
proof -
  have "\<bar>y\<bar> \<le> \<bar>y - of_int n\<bar> + \<bar>of_int n\<bar>"
    using abs_triangle_ineq [of "y - of_int n" "of_int n"] by simp
  also have "\<dots> \<le> 1 + 65536" using assms by (intro add_mono) auto
  finally show ?thesis by simp
qed

lemma near_times_tenth:
  assumes "near x (of_int n) 0" "0 \<le> n" "n \<le> 65536"
  shows "near (fmul x (flit (1 / 10))) (of_int n / 10) (1 / 2 ^ 39)"
proof -
  let ?t = "fval (flit (1 / 10))"
  have x: "is_fin x" "fval x = of_int n" using assms(1) by (auto simp: near_def)
  have n: "0 \<le> (of_int n :: rat)" "(of_int n :: rat) \<le> 65536" using assms by simp_all
  have "of_int n * ?t \<le> 65536 * (11 / 100)"
    using n tenth_bounds by (intro mult_mono) auto
  moreover have "0 \<le> of_int n * ?t" using n tenth_bounds by simp
  ultimately have b: "\<bar>fval x * ?t\<bar> \<le> 2 powi 13" by (simp add: x)
  have "\<bar>of_int n * (?t - 1 / 10)\<bar> \<le> 65536 * (1 / 2 ^ 56)"
    unfolding abs_mult using n tenth_near by (intro mult_mono) (auto simp: near_def)
  then have "\<bar>fval x * ?t - of_int n / 10\<bar> \<le> 1 / 2 ^ 40"
    by (simp add: x right_diff_distrib)
  with fmul_fin [OF x(1) tenth_bounds(1) b] have "near (fmul x (flit (1 / 10))) (of_int n / 10) (1 / 2 ^ 40 + 2 powi (13 - 53))"
    by (intro near_op) auto
  then show ?thesis by (rule near_mono) (simp add: power_int_def power_divide)
qed

lemma near_div_tenth:
  assumes "near x (of_int n / 10) (1 / 2 ^ 36)" "0 \<le> n" "n \<le> 65536"
  shows "near (fdiv x (flit (1 / 10))) (of_int n) (1 / 2 ^ 30)"
proof -
  let ?t = "fval (flit (1 / 10))"
  have x: "is_fin x" "\<bar>fval x - of_int n / 10\<bar> \<le> 1 / 2 ^ 36" using assms(1) by (auto simp: near_def)
  have n: "0 \<le> (of_int n :: rat)" "(of_int n :: rat) \<le> 65536" using assms by simp_all
  have t: "0 < ?t" using tenth_bounds by linarith
  have "\<bar>of_int n * (?t - 1 / 10)\<bar> \<le> 65536 * (1 / 2 ^ 56)"
    unfolding abs_mult using n tenth_near by (intro mult_mono) (auto simp: near_def)
  then have "\<bar>fval x - of_int n * ?t\<bar> \<le> 1 / 2 ^ 36 + 1 / 2 ^ 40"
    using x(2) unfolding right_diff_distrib abs_le_iff by (simp; linarith)
  then have "\<bar>fval x / ?t - of_int n\<bar> \<le> (1 / 2 ^ 36 + 1 / 2 ^ 40) / (9 / 100)"
  proof -
    have "fval x / ?t - of_int n = (fval x - of_int n * ?t) / ?t"
      using t by (simp add: diff_divide_distrib)
    then have "\<bar>fval x / ?t - of_int n\<bar> = \<bar>fval x - of_int n * ?t\<bar> / ?t"
      using t by simp
    also have "\<dots> \<le> (1 / 2 ^ 36 + 1 / 2 ^ 40) / (9 / 100)"
      using \<open>\<bar>fval x - of_int n * ?t\<bar> \<le> _\<close> tenth_bounds by (intro frac_le) auto
    finally show ?thesis .
  qed
  then have e: "\<bar>fval x / ?t - of_int n\<bar> \<le> 1 / 2 ^ 31" by simp
  have b: "\<bar>fval x / ?t\<bar> \<le> 2 powi 17" by (rule abs_bound [OF e]) (use assms in auto)
  with fdiv_fin [OF x(1) tenth_bounds(1) _ b] t e
  have "near (fdiv x (flit (1 / 10))) (of_int n) (1 / 2 ^ 31 + 2 powi (17 - 53))"
    by (intro near_op) auto
  then show ?thesis by (rule near_mono) (simp add: power_int_def power_divide)
qed


lemma pow10_1: "math_pow10 1 = Num 10"
  by code_simp

lemma near_times_10:
  assumes "near x (of_int n / 10) (1 / 2 ^ 39)" "0 \<le> n" "n \<le> 65536"
  shows "near (fmul x (Num 10)) (of_int n) (1 / 2 ^ 30)"
proof -
  have x: "is_fin x" "\<bar>fval x - of_int n / 10\<bar> \<le> 1 / 2 ^ 39" using assms(1) by (auto simp: near_def)
  have n: "0 \<le> (of_int n :: rat)" "(of_int n :: rat) \<le> 65536" using assms by simp_all
  have e: "\<bar>fval x * fval (Num 10) - of_int n\<bar> \<le> 1 / 2 ^ 35"
    using x(2) unfolding abs_le_iff by (simp; linarith)
  have b: "\<bar>fval x * fval (Num 10)\<bar> \<le> 2 powi 17" by (rule abs_bound [OF e]) (use assms in auto)
  from fmul_fin [OF x(1) _ b] e have "near (fmul x (Num 10)) (of_int n) (1 / 2 ^ 35 + 2 powi (17 - 53))"
    by (intro near_op) auto
  then show ?thesis by (rule near_mono) (simp add: power_int_def power_divide)
qed

lemma near_div_10:
  assumes "near x (of_int n) 0" "0 \<le> n" "n \<le> 65536"
  shows "near (fdiv x (Num 10)) (of_int n / 10) (1 / 2 ^ 40)"
    "fval (fdiv x (Num 10)) = round53 (of_int n / 10)"
proof -
  have x: "is_fin x" "fval x = of_int n" using assms(1) by (auto simp: near_def)
  have n: "0 \<le> (of_int n :: rat)" "(of_int n :: rat) \<le> 65536" using assms by simp_all
  have b: "\<bar>fval x / fval (Num 10)\<bar> \<le> 2 powi 13" using n by (simp add: x)
  from fdiv_fin [OF x(1) _ _ b]
  show "near (fdiv x (Num 10)) (of_int n / 10) (1 / 2 ^ 40)"
    "fval (fdiv x (Num 10)) = round53 (of_int n / 10)"
    by (simp_all add: near_def x power_int_def power_divide)
qed

text \<open>The displayed value of a register in tenths: raw 0 to 65536.\<close>

lemma decode_tenths:
  assumes "rScale r = flit (1 / 10)" "rPrecision r = 1" "0 \<le> n" "n \<le> 65536"
  obtains v where "decode_number r n = (VFloat v, format_float v 1)"
    "near v (of_int n / 10) (1 / 2 ^ 40)" "fval v = round53 (of_int n / 10)"
proof -
  have "\<not> feq (flit (1 / 10)) (Num 0)" using tenth_bounds by simp
  then have s: "scale_or_one (rScale r) = flit (1 / 10)"
    by (simp add: scale_or_one_def assms(1))
  have f: "f64_of_int n = Num (of_int n)" using assms by (intro f64_of_int_exact) auto
  have "near (fmul (f64_of_int n) (flit (1 / 10))) (of_int n / 10) (1 / 2 ^ 39)"
    unfolding f using assms by (intro near_times_tenth near_Num)
  then have m: "near (math_round (fmul (fmul (f64_of_int n) (flit (1 / 10))) (Num 10))) (of_int n) 0"
    using assms(3,4) by (intro near_round [OF near_times_10]) simp_all
  let ?v = "round_float (fmul (f64_of_int n) (flit (1 / 10))) 1"
  have v: "?v = fdiv (math_round (fmul (fmul (f64_of_int n) (flit (1 / 10))) (Num 10))) (Num 10)"
    using pow10_1 by (simp add: round_float_def Let_def)
  show thesis
  proof (rule that)
    show "decode_number r n = (VFloat ?v, format_float ?v 1)"
      by (simp add: decode_number_def s assms(2) Let_def)
    show "near ?v (of_int n / 10) (1 / 2 ^ 40)" "fval ?v = round53 (of_int n / 10)"
      unfolding v using near_div_10 [OF m] assms by simp_all
  qed
qed


text \<open>One more exact operand: \<open>x - 0\<close> and \<open>0 + x\<close>.\<close>

lemma near_sub_0:
  assumes "near x (of_int n / 10) (1 / 2 ^ 40)" "0 \<le> n" "n \<le> 65536"
  shows "near (fsub x (Num 0)) (of_int n / 10) (1 / 2 ^ 36)"
proof -
  have x: "is_fin x" "\<bar>fval x - of_int n / 10\<bar> \<le> 1 / 2 ^ 40" using assms(1) by (auto simp: near_def)
  have n: "0 \<le> (of_int n :: rat)" "(of_int n :: rat) \<le> 65536" using assms by simp_all
  have "\<bar>fval x - fval (Num 0)\<bar> \<le> 2 powi 13"
    using x(2) n unfolding abs_le_iff by (simp; linarith)
  from fsub_fin [OF x(1) _ this] x(2)
  have "near (fsub x (Num 0)) (of_int n / 10) (1 / 2 ^ 40 + 2 powi (13 - 53))"
    by (intro near_op) auto
  then show ?thesis by (rule near_mono) (simp add: power_int_def power_divide)
qed

lemma near_add_0:
  assumes "near x (of_int n / 10) (1 / 2 ^ 39)" "0 \<le> n" "n \<le> 65536"
  shows "near (fadd (Num 0) x) (of_int n / 10) (1 / 2 ^ 36)"
proof -
  have x: "is_fin x" "\<bar>fval x - of_int n / 10\<bar> \<le> 1 / 2 ^ 39" using assms(1) by (auto simp: near_def)
  have n: "0 \<le> (of_int n :: rat)" "(of_int n :: rat) \<le> 65536" using assms by simp_all
  have "\<bar>fval (Num 0) + fval x\<bar> \<le> 2 powi 13"
    using x(2) n unfolding abs_le_iff by (simp; linarith)
  from fadd_fin [OF _ x(1) this] x(2)
  have "near (fadd (Num 0) x) (of_int n / 10) (1 / 2 ^ 39 + 2 powi (13 - 53))"
    by (intro near_op) auto
  then show ?thesis by (rule near_mono) (simp add: power_int_def power_divide)
qed

lemma near_diff:
  assumes "near x q (1 / 2 ^ 36)" "near y q (1 / 2 ^ 36)"
  shows "near (math_abs (fsub x y)) 0 (1 / 2 ^ 34)"
proof -
  have x: "is_fin x" "is_fin y" "\<bar>fval x - q\<bar> \<le> 1 / 2 ^ 36" "\<bar>fval y - q\<bar> \<le> 1 / 2 ^ 36"
    using assms by (auto simp: near_def)
  have d: "\<bar>fval x - fval y\<bar> \<le> 1 / 2 ^ 35"
    using x(3,4) unfolding abs_le_iff by (simp; linarith)
  then have "\<bar>fval x - fval y\<bar> \<le> 2 powi 0" by simp
  from fsub_fin [OF x(1,2) this] d have "near (fsub x y) 0 (1 / 2 ^ 35 + 2 powi (0 - 53))"
    by (intro near_op) auto
  then have "near (fsub x y) 0 (1 / 2 ^ 34)"
    by (rule near_mono) (simp add: power_int_def power_divide)
  then show ?thesis by (simp add: near_def math_abs_fin)
qed

lemma millionth: "is_fin (flit (1 / 1000000))" "1 / 2 ^ 34 < fval (flit (1 / 1000000))"
proof -
  have "\<bar>1 / 1000000 :: rat\<bar> \<le> 2 powi (-19)" by (simp add: power_int_def power_divide)
  from fround_fin [OF this, of False] have f: "near (flit (1 / 1000000)) (1 / 1000000) (1 / 2 ^ 72)"
    by (simp add: near_def flit_def power_int_def power_divide)
  then show "is_fin (flit (1 / 1000000))" by (simp add: near_def)
  from f have "1 / 1000000 - 1 / 2 ^ 72 \<le> fval (flit (1 / 1000000))"
    unfolding near_def abs_le_iff by linarith
  then show "1 / 2 ^ 34 < fval (flit (1 / 1000000))" by (rule less_le_trans [rotated]) simp
qed

text \<open>Writing a displayed value of a register in tenths with bounds 0 and \<open>m\<close> and step 0.1.\<close>

lemma tenths_range:
  assumes "near v (of_int n / 10) (1 / 2 ^ 40)" "fval v = round53 (of_int n / 10)"
    and "0 \<le> n" "n \<le> 10 * m" "m \<le> 6553"
  shows "0 \<le> fval v \<and> fval v \<le> of_int m"
proof
  have v: "\<bar>fval v - of_int n / 10\<bar> \<le> 1 / 2 ^ 40" using assms(1) by (auto simp: near_def)
  show "0 \<le> fval v"
  proof (cases "n = 0")
    case True
    then show ?thesis by (simp add: assms(2))
  next
    case False
    then have "1 \<le> (of_int n :: rat)" using assms by simp
    then show ?thesis using v unfolding abs_le_iff by (simp; linarith)
  qed
  show "fval v \<le> of_int m"
  proof (cases "n = 10 * m")
    case True
    have "round53 (of_int m) = of_int m"
      using assms by (intro round53_of_int) auto
    with True show ?thesis by (simp add: assms(2))
  next
    case False
    then have "n + 1 \<le> 10 * m" using assms by simp
    then have "(of_int (n + 1) :: rat) \<le> of_int (10 * m)" by (simp only: of_int_le_iff)
    then have "(of_int n :: rat) + 1 \<le> 10 * of_int m" by simp
    then show ?thesis using v unfolding abs_le_iff by (simp; linarith)
  qed
qed

lemma bounds_tenths:
  assumes "rWriteMin r = Num 0" "rWriteMax r = Num (of_int m)" "rWriteStep r = flit (1 / 10)"
    and "near v (of_int n / 10) (1 / 2 ^ 40)" "fval v = round53 (of_int n / 10)"
    and "0 \<le> n" "n \<le> 10 * m" "m \<le> 6553"
  shows "validate_write_bounds r v = Inr ()"
proof -
  have v: "is_fin v" "\<bar>fval v - of_int n / 10\<bar> \<le> 1 / 2 ^ 40" using assms(4) by (auto simp: near_def)
  have n: "n \<le> 65536" using assms by simp
  have range: "0 \<le> fval v" "fval v \<le> of_int m"
    using tenths_range [OF assms(4-8)] by auto
  let ?s = "math_round (fdiv (fsub v (Num 0)) (flit (1 / 10)))"
  have "near ?s (of_int n) 0"
    using near_round [OF near_div_tenth [OF near_sub_0 [OF assms(4,6) n] assms(6) n]] by simp
  then have "near (fadd (Num 0) (fmul ?s (flit (1 / 10)))) (of_int n / 10) (1 / 2 ^ 36)"
    using assms(6) n by (intro near_add_0 near_times_tenth)
  moreover have "near v (of_int n / 10) (1 / 2 ^ 36)"
    by (rule near_mono [OF assms(4)]) simp
  ultimately have "near (math_abs (fsub (fadd (Num 0) (fmul ?s (flit (1 / 10)))) v)) 0 (1 / 2 ^ 34)"
    by (rule near_diff)
  then have "\<not> flt (flit (1 / 1000000)) (math_abs (fsub (fadd (Num 0) (fmul ?s (flit (1 / 10)))) v))"
    using millionth unfolding near_def abs_le_iff by simp
  moreover have "\<not> flt v (Num 0)" "\<not> flt (Num (of_int m)) v"
    using v(1) range by simp_all
  ultimately show ?thesis
    by (simp add: validate_write_bounds_def assms(1-3) Let_def)
qed

lemma encode_tenths:
  assumes "rWritable r" "rCount r = 1" "rEnum r = []" "rScale r = flit (1 / 10)"
    and "rWriteMin r = Num 0" "rWriteMax r = Num (of_int m)" "rWriteStep r = flit (1 / 10)"
    and "near v (of_int n / 10) (1 / 2 ^ 40)" "fval v = round53 (of_int n / 10)"
    and "0 \<le> n" "n \<le> 10 * m" "m \<le> 6553"
  shows "encode_write r (VFloat v) = Inr (word_of_int n)"
proof -
  have n: "n \<le> 65536" "n \<le> 65530" using assms by simp_all
  have "\<not> feq (flit (1 / 10)) (Num 0)" using tenth_bounds by simp
  then have s: "scale_or_one (rScale r) = flit (1 / 10)" by (simp add: scale_or_one_def assms(4))
  have "near v (of_int n / 10) (1 / 2 ^ 36)" by (rule near_mono [OF assms(8)]) simp
  then have raw: "near (math_round (fdiv v (flit (1 / 10)))) (of_int n) 0"
    using near_round [OF near_div_tenth] assms(10) n(1) by simp
  then have fin: "is_fin (math_round (fdiv v (flit (1 / 10))))" "fval (math_round (fdiv v (flit (1 / 10)))) = of_int n"
    by (auto simp: near_def)
  have "u16_of_f64 (math_round (fdiv v (flit (1 / 10)))) = word_of_int n"
    using fin assms(10) n by (simp add: u16_of_f64_def int64_of_f64_fin)
  then show ?thesis
    using bounds_tenths [OF assms(5-7) assms(8-)] fin assms(10) n
    by (simp add: encode_write_def assms(1-3) numeric_input_def s Let_def)
qed


text \<open>A register in whole units: every operation is exact.\<close>

definition whole :: "f64 \<Rightarrow> int \<Rightarrow> bool" where
  "whole x m \<longleftrightarrow> is_fin x \<and> fval x = of_int m"

lemma whole_Num [simp]: "whole (Num (of_int m)) m" "whole (Num 0) 0" "whole (Num 1) 1"
  by (simp_all add: whole_def)

lemma whole_bound: "\<bar>m\<bar> \<le> 2 ^ 20 \<Longrightarrow> \<bar>of_int m :: rat\<bar> \<le> 2 powi 20"
proof -
  assume "\<bar>m\<bar> \<le> 2 ^ 20"
  then have "of_int \<bar>m\<bar> \<le> (of_int (2 ^ 20) :: rat)" by (simp only: of_int_le_iff)
  then show ?thesis by simp
qed

lemma whole_ops:
  assumes "whole x a" "whole y b"
  shows "\<bar>a + b\<bar> \<le> 2 ^ 20 \<Longrightarrow> whole (fadd x y) (a + b)"
    and "\<bar>a - b\<bar> \<le> 2 ^ 20 \<Longrightarrow> whole (fsub x y) (a - b)"
    and "\<bar>a * b\<bar> \<le> 2 ^ 20 \<Longrightarrow> whole (fmul x y) (a * b)"
    and "whole (math_round x) a" "whole (math_abs x) \<bar>a\<bar>"
proof -
  have x: "is_fin x" "is_fin y" "fval x = of_int a" "fval y = of_int b"
    using assms by (auto simp: whole_def)
  show "whole (fadd x y) (a + b)" if b: "\<bar>a + b\<bar> \<le> 2 ^ 20"
    using fadd_fin [OF x(1,2), of 20] whole_bound [OF b] round53_of_int [of "a + b"] b
    by (simp add: whole_def x)
  show "whole (fsub x y) (a - b)" if b: "\<bar>a - b\<bar> \<le> 2 ^ 20"
    using fsub_fin [OF x(1,2), of 20] whole_bound [OF b] round53_of_int [of "a - b"] b
    by (simp add: whole_def x)
  show "whole (fmul x y) (a * b)" if b: "\<bar>a * b\<bar> \<le> 2 ^ 20"
    using fmul_fin [OF x(1,2), of 20] whole_bound [OF b] round53_of_int [of "a * b"] b
    by (simp add: whole_def x)
  show "whole (math_round x) a" "whole (math_abs x) \<bar>a\<bar>"
    using x by (simp_all add: whole_def math_round_fin math_abs_fin)
qed

lemma whole_div_1:
  assumes "whole x a" "\<bar>a\<bar> \<le> 2 ^ 20"
  shows "whole (fdiv x (Num 1)) a"
  using fdiv_fin [of x "Num 1" 20] whole_bound [OF assms(2)] round53_of_int [of a] assms
  by (simp add: whole_def)

lemma decode_units:
  assumes "rScale r = Num 1" "rPrecision r = 0" "\<bar>n\<bar> \<le> 2 ^ 20"
  shows "decode_number r n = (VInt64 n, show_int n)"
proof -
  have "f64_of_int n = Num (of_int n)" using assms(3) by (intro f64_of_int_exact) auto
  then have w: "whole (fmul (f64_of_int n) (Num 1)) n"
    using whole_ops(3) [of "f64_of_int n" n "Num 1" 1] assms(3) by simp
  let ?x = "fmul (f64_of_int n) (Num 1)"
  have "whole (fsub ?x (math_round ?x)) (n - n)"
    by (rule whole_ops(2) [OF w whole_ops(4) [OF w w]]) simp
  then have "whole (math_abs (fsub ?x (math_round ?x))) 0"
    using whole_ops(5) by fastforce
  then have "flt (math_abs (fsub ?x (math_round ?x))) (flit (1 / 1000000))"
    using millionth by (simp add: whole_def less_trans [rotated])
  moreover have "int64_of_f64 (math_round ?x) = n"
    using whole_ops(4) [OF w w] assms(3) by (intro int64_of_f64_fin) (simp_all add: whole_def)
  ultimately show ?thesis
    by (simp add: decode_number_def assms(1,2) scale_or_one_def Let_def)
qed

lemma bounds_units:
  assumes "rWriteMin r = Num (of_int lo)" "rWriteMax r = Num (of_int hi)" "rWriteStep r = Num 1"
    and "lo \<le> n" "n \<le> hi" "\<bar>lo\<bar> \<le> 2 ^ 18" "\<bar>hi\<bar> \<le> 2 ^ 18" "whole x n"
  shows "validate_write_bounds r x = Inr ()"
proof -
  have n: "\<bar>n\<bar> \<le> 2 ^ 18" "\<bar>n - lo\<bar> \<le> 2 ^ 20" using assms(4-7) by auto
  have d: "whole (math_round (fdiv (fsub x (Num (of_int lo))) (Num 1))) (n - lo)" (is "whole ?s _")
    using n by (intro whole_ops(4) [OF whole_div_1 [OF whole_ops(2)] assms(8)] assms(8)) simp_all
  have "whole (fmul ?s (Num 1)) (n - lo)"
    using whole_ops(3) [OF d, of "Num 1" 1] n(2) by simp
  from whole_ops(1) [OF whole_Num(1) [of lo] this] n
  have "whole (fadd (Num (of_int lo)) (fmul ?s (Num 1))) n" (is "whole ?e _") by simp
  from whole_ops(2) [OF this assms(8)] whole_ops(5) [of "fsub ?e x" 0 x n] assms(8)
  have "whole (math_abs (fsub ?e x)) 0" by simp
  then have "\<not> flt (flit (1 / 1000000)) (math_abs (fsub ?e x))"
    using millionth by (simp add: whole_def)
  moreover have "\<not> flt x (Num (of_int lo))" "\<not> flt (Num (of_int hi)) x"
    using assms(4,5,8) by (simp_all add: whole_def)
  ultimately show ?thesis
    by (simp add: validate_write_bounds_def assms(1-3) Let_def)
qed

lemma encode_units:
  assumes "rWritable r" "rCount r = 1" "rEnum r = []" "rScale r = Num 1"
    and "rWriteMin r = Num (of_int lo)" "rWriteMax r = Num (of_int hi)" "rWriteStep r = Num 1"
    and "lo \<le> n" "n \<le> hi" "\<bar>lo\<bar> \<le> 2 ^ 18" "\<bar>hi\<bar> \<le> 2 ^ 18"
  shows "0 \<le> n \<Longrightarrow> n \<le> 65535 \<Longrightarrow> encode_write r (VInt64 n) = Inr (word_of_int n)"
    "n < 0 \<Longrightarrow> encode_write r (VInt64 n) = Inl (Errorf ''encoded value out of uint16 range'' [])"
proof -
  have n: "\<bar>n\<bar> \<le> 2 ^ 18" using assms(8-11) by auto
  then have f: "f64_of_int n = Num (of_int n)" by (intro f64_of_int_exact) auto
  have v: "validate_write_bounds r (Num (of_int n)) = Inr ()"
    by (rule bounds_units [where lo = lo and hi = hi and n = n]) (use assms in simp_all)
  have w: "whole (math_round (fdiv (Num (of_int n)) (Num 1))) n"
    using n by (intro whole_ops(4) [of _ _ "Num 0" 0] whole_div_1) simp_all
  have e: "encode_write r (VInt64 n) =
     (let raw = math_round (fdiv (Num (of_int n)) (Num 1)) in
      if flt raw (Num 0) \<or> flt (Num 65535) raw
      then Inl (Errorf ''encoded value out of uint16 range'' []) else Inr (u16_of_f64 raw))"
    by (simp add: encode_write_def assms(1-4) numeric_input_def f v scale_or_one_def)
  show "encode_write r (VInt64 n) = Inl (Errorf ''encoded value out of uint16 range'' [])" if "n < 0"
    using w that by (simp add: e whole_def)
  show "encode_write r (VInt64 n) = Inr (word_of_int n)" if "0 \<le> n" "n \<le> 65535"
  proof -
    have "u16_of_f64 (math_round (fdiv (Num (of_int n)) (Num 1))) = word_of_int n"
      using w that unfolding whole_def u16_of_f64_def by (simp add: int64_of_f64_fin)
    with w that show ?thesis by (simp add: e whole_def)
  qed
qed

end
