(* ===== verification/RegisterProofs.thy ===== *)
theory RegisterProofs
  imports RegisterNumbers
begin

text \<open>
  What makes a register of the catalog well formed (\<open>register_wf\<close>) and what follows for
  \<^verbatim>\<open>Decode\<close> and \<^verbatim>\<open>EncodeWrite\<close>: decoding a full payload never fails or panics
  (\<open>decode_ok\<close>), writing back a value the control offers gives the word it was read from
  (\<open>round_trip_wf\<close>), and every word an accepted write produces is one the control offers
  (\<open>encode_offered\<close>).
\<close>

definition enum_wf :: "enum_map \<Rightarrow> bool" where
  "enum_wf m \<longleftrightarrow> distinct (map fst m) \<and> distinct (map (fold_case \<circ> snd) m)
     \<and> list_all (\<lambda>(k, _). 0 \<le> k \<and> k \<le> 65535) m"

definition tenths_control :: "register \<Rightarrow> bool" where
  "tenths_control r \<longleftrightarrow> rType r = TypeUint16 \<and> rScale r = flit (1 / 10) \<and> rPrecision r = 1
     \<and> rWriteMin r = Num 0 \<and> rWriteStep r = flit (1 / 10)
     \<and> (case rWriteMax r of Num q \<Rightarrow> q = of_int \<lfloor>q\<rfloor> \<and> 0 < q \<and> q \<le> 6553 | _ \<Rightarrow> False)"

definition units_control :: "register \<Rightarrow> bool" where
  "units_control r \<longleftrightarrow> rScale r = Num 1 \<and> rPrecision r = 0 \<and> rWriteStep r = Num 1
     \<and> (rType r = TypeUint16 \<or> rType r = TypeInt16)
     \<and> (case rWriteMin r of Num q \<Rightarrow> q = of_int \<lfloor>q\<rfloor> \<and> \<bar>q\<bar> \<le> 65535 | _ \<Rightarrow> False)
     \<and> (case rWriteMax r of Num q \<Rightarrow> q = of_int \<lfloor>q\<rfloor> \<and> 0 < q \<and> q \<le> 32767 | _ \<Rightarrow> False)"

definition register_wf :: "register \<Rightarrow> bool" where
  "register_wf r \<longleftrightarrow>
     (\<not> rSynthetic r \<longrightarrow>
        (case rType r of
           TypeOther t \<Rightarrow> False
         | TypeUint32 \<Rightarrow> 2 \<le> unat (rCount r)
         | TypeInt32 \<Rightarrow> 2 \<le> unat (rCount r)
         | TypeDateTime \<Rightarrow> 3 \<le> unat (rCount r)
         | _ \<Rightarrow> 1 \<le> unat (rCount r)))
     \<and> (rWritable r \<longrightarrow> \<not> rSynthetic r \<and> rCount r = 1
        \<and> (if rEnum r = [] then tenths_control r \<or> units_control r
           else rType r = TypeUint16 \<and> enum_wf (rEnum r)))"

section \<open>Decoding is total\<close>

lemma decode_clock_ok: "3 \<le> length ws \<Longrightarrow> \<exists>v. decode_clock ws = Inr v"
  by (auto simp: decode_clock_def dateTimeWords_def Let_def)

lemma raw_value_ok:
  assumes "register_wf r" "\<not> rSynthetic r" "length ws = unat (rCount r)"
  shows "\<exists>raw. raw_value r ws = Inr raw"
  using assms by (auto simp: register_wf_def raw_value_def split: value_type.splits)

lemma decode_value_ok:
  assumes "register_wf r" "\<not> rSynthetic r" "unat (rCount r) \<le> length ws"
  shows "\<exists>value rendered. decode_value r ws raw = Inr (value, rendered)"
proof (cases "rType r = TypeDateTime")
  case True
  then have "3 \<le> length (take (unat (rCount r)) ws)" using assms by (simp add: register_wf_def)
  then show ?thesis using decode_clock_ok assms(3) True by (fastforce simp: decode_value_def)
next
  case False
  then show ?thesis by (cases "decode_number r raw") (simp add: decode_value_def)
qed

lemma decode_ok:
  assumes "register_wf r" "\<not> rSynthetic r" "unat (rCount r) \<le> length ws"
  shows "\<exists>v. decode r ws now = Inr v \<and> dID v = rID r \<and> dRawWords v = take (unat (rCount r)) ws
    \<and> raw_value r (take (unat (rCount r)) ws) = Inr (dRaw v)"
proof -
  let ?ws = "take (unat (rCount r)) ws"
  have l: "length ?ws = unat (rCount r)" using assms(3) by simp
  obtain raw where raw: "raw_value r ?ws = Inr raw"
    using raw_value_ok [OF assms(1,2) l] by blast
  obtain x t where v: "decode_value r ws raw = Inr (x, t)"
    using decode_value_ok [OF assms(1-3), of raw] by blast
  show ?thesis
    using assms(3) raw v by (simp add: decode_def describe_register_def)
qed

lemma decode_short: "length ws < unat (rCount r) \<Longrightarrow> \<exists>e. decode r ws now = Inl e"
  by (simp add: decode_def)

section \<open>Writing back what was read\<close>

text \<open>The displayed value is one the control offers: a label of its table, or a number within its
  bounds. A negative raw value (a register of type \<^verbatim>\<open>int16\<close>) is left out: see
  \<open>negative_percentage_rejected\<close>.\<close>

definition offered :: "register \<Rightarrow> decoded_value \<Rightarrow> bool" where
  "offered r v \<longleftrightarrow> 0 \<le> dRaw v \<and>
     (if rEnum r \<noteq> [] then map_of (rEnum r) (dRaw v) \<noteq> None
      else case numeric_input (dValue v) of
        Inl e \<Rightarrow> False
      | Inr x \<Rightarrow> fle (rWriteMin r) x \<and> fle x (rWriteMax r))"

lemma enum_round_trip:
  assumes "enum_wf m" "map_of m k = Some label"
  shows "enum_raw_value m (VStr label) = Inr k"
proof -
  have k: "(k, label) \<in> set m" using assms(2) by (rule map_of_SomeD)
  have "distinct (map (fold_case \<circ> snd) m)" using assms(1) by (simp add: enum_wf_def)
  from find_first_unique [OF this k, of "fold_case label"]
  have "find_first (\<lambda>(raw, l). equal_fold l label) m = Some (k, label)"
    by (simp add: equal_fold_def case_prod_unfold)
  then show ?thesis by (simp add: enum_raw_value_def)
qed

lemma uint16_range: "0 \<le> uint (w :: u16)" "uint (w :: u16) \<le> 65535"
  using uint_bounded [of w] by simp_all

lemma decode_single:
  assumes "rCount r = 1" "decode r [w] now = Inr v"
  shows "raw_value r [w] = Inr (dRaw v)" "decode_value r [w] (dRaw v) = Inr (dValue v, dRendered v)"
  using assms by (auto simp: decode_def split: sum.splits prod.splits)

lemma raw_single:
  "rType r = TypeUint16 \<Longrightarrow> raw_value r [w] = Inr (uint w)"
  "rType r = TypeInt16 \<Longrightarrow> raw_value r [w] = Inr (sint w)"
  by (simp_all add: raw_value_def)

lemma sint16_nonneg: "0 \<le> sint (w :: u16) \<Longrightarrow> word_of_int (sint w) = w"
  by simp

lemma tenths_max:
  assumes "tenths_control r"
  obtains m where "rWriteMax r = Num (of_int m)" "0 < m" "m \<le> 6553"
proof -
  obtain q where q: "rWriteMax r = Num q" "q = of_int \<lfloor>q\<rfloor>" "0 < q" "q \<le> 6553"
    using assms by (auto simp: tenths_control_def split: f64.splits)
  show thesis
  proof (rule that [of "\<lfloor>q\<rfloor>"])
    have "(0 :: rat) < of_int \<lfloor>q\<rfloor>" using q by simp
    then show "0 < \<lfloor>q\<rfloor>" by (simp only: of_int_0_less_iff)
  qed (use q in \<open>simp_all add: floor_le_iff\<close>)
qed

lemma units_bounds:
  assumes "units_control r"
  obtains lo hi where "rWriteMin r = Num (of_int lo)" "rWriteMax r = Num (of_int hi)"
    "\<bar>lo\<bar> \<le> 65535" "0 < hi" "hi \<le> 32767"
proof -
  obtain p q where q: "rWriteMin r = Num p" "rWriteMax r = Num q" "p = of_int \<lfloor>p\<rfloor>" "q = of_int \<lfloor>q\<rfloor>"
    "\<bar>p\<bar> \<le> 65535" "0 < q" "q \<le> 32767"
    using assms by (auto simp: units_control_def split: f64.splits)
  then have "\<bar>of_int \<lfloor>p\<rfloor> :: rat\<bar> \<le> of_int 65535" "(0 :: rat) < of_int \<lfloor>q\<rfloor>" "of_int \<lfloor>q\<rfloor> \<le> (of_int 32767 :: rat)"
    by simp_all
  then have "\<bar>\<lfloor>p\<rfloor>\<bar> \<le> 65535" "0 < \<lfloor>q\<rfloor>" "\<lfloor>q\<rfloor> \<le> 32767"
    by (simp_all only: of_int_abs [symmetric] of_int_le_iff of_int_0_less_iff)
  with q show thesis by (intro that [of "\<lfloor>p\<rfloor>" "\<lfloor>q\<rfloor>"]) simp_all
qed

lemma round_trip_enum:
  assumes "rWritable r" "rCount r = 1" "rEnum r \<noteq> []" "rType r = TypeUint16" "enum_wf (rEnum r)"
    and "decode r [w] now = Inr v" "offered r v"
  shows "encode_write r (dValue v) = Inr w"
proof -
  have raw: "dRaw v = uint w"
    using decode_single(1) [OF assms(2,6)] raw_single(1) [OF assms(4), of w] by simp
  obtain label where l: "map_of (rEnum r) (uint w) = Some label"
    using assms(3,7) by (auto simp: offered_def raw)
  have dv: "VStr label = dValue v"
    using decode_single(2) [OF assms(2,6)] assms(3,4) l by (auto simp: decode_value_def raw enum_value_def)
  then show ?thesis
    using enum_round_trip [OF assms(5) l] assms(1-3) uint16_range [of w]
    by (simp add: encode_write_def not_less dv [symmetric])
qed

lemma round_trip_tenths:
  assumes "rWritable r" "rCount r = 1" "rEnum r = []" "tenths_control r"
    and "decode r [w] now = Inr v" "offered r v"
  shows "encode_write r (dValue v) = Inr w"
proof -
  have t: "rType r = TypeUint16" "rScale r = flit (1 / 10)" "rPrecision r = 1" "rWriteMin r = Num 0"
    "rWriteStep r = flit (1 / 10)"
    using assms(4) by (simp_all add: tenths_control_def)
  obtain m where m: "rWriteMax r = Num (of_int m)" "0 < m" "m \<le> 6553"
    using tenths_max [OF assms(4)] .
  have raw: "dRaw v = uint w"
    using decode_single(1) [OF assms(2,5)] raw_single(1) [OF t(1), of w] by simp
  obtain x where x: "decode_number r (uint w) = (VFloat x, format_float x 1)"
    "near x (of_int (uint w) / 10) (1 / 2 ^ 40)" "fval x = round53 (of_int (uint w) / 10)"
    by (rule decode_tenths [OF t(2,3), of "uint w"]) (use uint16_range [of w] in simp_all)
  have dv: "dValue v = VFloat x"
    using decode_single(2) [OF assms(2,5)] assms(3) t(1) x(1) by (simp add: decode_value_def raw)
  have f: "is_fin x" using x(2) by (simp add: near_def)
  have "fval x \<le> of_int m"
    using assms(3,6) f m(1) by (simp add: offered_def dv numeric_input_def)
  then have "of_int (uint w) / 10 \<le> (of_int m :: rat) + 1 / 2 ^ 40"
    using x(2) unfolding near_def abs_le_iff by linarith
  then have "of_int (uint w) < (of_int (10 * m + 1) :: rat)" by (simp; linarith)
  then have "uint w \<le> 10 * m" by (simp only: of_int_less_iff)
  from encode_tenths [OF assms(1-3) t(2,4) m(1) t(5) x(2,3) _ this m(3)] uint16_range [of w]
  show ?thesis by (simp add: dv)
qed

lemma round_trip_units:
  assumes "rWritable r" "rCount r = 1" "rEnum r = []" "units_control r"
    and "decode r [w] now = Inr v" "offered r v"
  shows "encode_write r (dValue v) = Inr w"
proof -
  have t: "rType r = TypeUint16 \<or> rType r = TypeInt16" "rScale r = Num 1" "rPrecision r = 0"
    "rWriteStep r = Num 1"
    using assms(4) by (simp_all add: units_control_def)
  obtain lo hi where b: "rWriteMin r = Num (of_int lo)" "rWriteMax r = Num (of_int hi)"
    "\<bar>lo\<bar> \<le> 65535" "0 < hi" "hi \<le> 32767"
    using units_bounds [OF assms(4)] .
  have raw: "word_of_int (dRaw v) = w" "0 \<le> dRaw v" "dRaw v \<le> 65535"
  proof -
    show "0 \<le> dRaw v" using assms(6) by (simp add: offered_def)
    have "dRaw v = uint w \<or> dRaw v = sint w"
      using decode_single(1) [OF assms(2,5)] raw_single [of r w] t(1) by auto
    then show "word_of_int (dRaw v) = w" "dRaw v \<le> 65535"
      using uint16_range [of w] sint_lt [of w] by auto
  qed
  have "decode_number r (dRaw v) = (VInt64 (dRaw v), show_int (dRaw v))"
    by (rule decode_units [OF t(2,3)]) (use raw in simp)
  then have dv: "dValue v = VInt64 (dRaw v)"
    using decode_single(2) [OF assms(2,5)] assms(3) t(1) by (auto simp: decode_value_def)
  have "f64_of_int (dRaw v) = Num (of_int (dRaw v))"
    using raw by (intro f64_of_int_exact) auto
  then have "lo \<le> dRaw v" "dRaw v \<le> hi"
    using assms(3,6) b(1,2) by (simp_all add: offered_def dv numeric_input_def)
  with encode_units(1) [OF assms(1-3) t(2) b(1,2) t(4)] b raw show ?thesis
    by (simp add: dv)
qed

lemma round_trip_wf:
  assumes "register_wf r" "rWritable r" "decode r [w] now = Inr v" "offered r v"
  shows "encode_write r (dValue v) = Inr w"
proof (cases "rEnum r = []")
  case True
  with assms show ?thesis
    using round_trip_tenths round_trip_units by (auto simp: register_wf_def)
next
  case False
  with assms show ?thesis using round_trip_enum by (simp add: register_wf_def)
qed


section \<open>Accepted writes\<close>

lemma round_half_le: "q \<le> of_int n + 1 / 4 \<Longrightarrow> 0 \<le> q \<Longrightarrow> round_half q \<le> n"
  unfolding round_half_def by (simp add: floor_le_iff)

lemma round_half_ge: "of_int n - 1 / 4 \<le> q \<Longrightarrow> 0 \<le> q \<Longrightarrow> n \<le> round_half q"
  unfolding round_half_def by (simp add: le_floor_iff)

lemma round_half_neg: "q < 0 \<Longrightarrow> round_half q \<le> 0"
  unfolding round_half_def by simp

text \<open>A number within bounds that are not both 0 is finite.\<close>

lemma bounded_finite:
  assumes "validate_write_bounds r x = Inr ()" "rWriteMin r = Num lo" "rWriteMax r = Num hi" "hi \<noteq> 0" "x \<noteq> NaN"
  shows "is_fin x" "lo \<le> fval x" "fval x \<le> hi"
proof -
  have b: "\<not> flt x (Num lo)" "\<not> flt (Num hi) x"
    using assms(1,4) by (auto simp: validate_write_bounds_def assms(2,3) split: if_splits)
  then show f: "is_fin x" using assms(5) by (cases x) (auto simp: flt_def)
  then show "lo \<le> fval x" "fval x \<le> hi" using b by simp_all
qed

lemma encode_number_cases:
  assumes "encode_write r input = Inr w" "rEnum r = []"
  obtains x where "numeric_input input = Inr x" "validate_write_bounds r x = Inr ()"
    "\<not> flt (math_round (fdiv x (scale_or_one (rScale r)))) (Num 0)"
    "\<not> flt (Num 65535) (math_round (fdiv x (scale_or_one (rScale r))))"
    "w = u16_of_f64 (math_round (fdiv x (scale_or_one (rScale r))))"
  using assms by (auto simp: encode_write_def Let_def split: if_splits sum.splits)

lemma rounded_word:
  assumes "is_fin y" "\<not> flt (math_round y) (Num 0)" "\<not> flt (Num 65535) (math_round y)"
  shows "uint (u16_of_f64 (math_round y)) = round_half (fval y)"
proof -
  have m: "is_fin (math_round y)" "fval (math_round y) = of_int (round_half (fval y))"
    using math_round_fin [OF assms(1)] by simp_all
  with assms(2,3) have "0 \<le> round_half (fval y)" "round_half (fval y) \<le> 65535"
    by simp_all
  then show ?thesis
    using m by (simp add: u16_of_f64_def int64_of_f64_fin unsigned_of_int take_bit_int_eq_self)
qed

lemma word_tenths:
  assumes "tenths_control r" "rEnum r = []" "encode_write r input = Inr w" "numeric_input input \<noteq> Inr NaN"
    and m: "rWriteMax r = Num (of_int m)" "0 < m" "m \<le> 6553"
  shows "uint w \<le> 10 * m"
proof -
  let ?t = "flit (1 / 10)"
  have "\<not> feq ?t (Num 0)" using tenth_bounds by simp
  then have s: "scale_or_one (rScale r) = ?t" using assms(1) by (simp add: scale_or_one_def tenths_control_def)
  obtain x where x: "numeric_input input = Inr x" "validate_write_bounds r x = Inr ()"
    "\<not> flt (math_round (fdiv x ?t)) (Num 0)" "\<not> flt (Num 65535) (math_round (fdiv x ?t))"
    "w = u16_of_f64 (math_round (fdiv x ?t))"
    using encode_number_cases [OF assms(3,2)] unfolding s .
  have f: "is_fin x" "0 \<le> fval x" "fval x \<le> of_int m"
    using bounded_finite [OF x(2) _ m(1)] assms(1,4) m(2) x(1) by (auto simp: tenths_control_def)
  have t: "1 / 10 - 1 / 2 ^ 56 \<le> fval ?t"
    using tenth_near unfolding near_def abs_le_iff by linarith
  have mm: "(0 :: rat) < of_int m" "(of_int m :: rat) \<le> 6553" using m by simp_all
  have "fval x / fval ?t \<le> of_int m / (1 / 10 - 1 / 2 ^ 56)"
    using f t mm by (intro frac_le) auto
  also have "\<dots> \<le> 10 * of_int m + 1 / 2 ^ 8" using mm by simp
  finally have q: "fval x / fval ?t \<le> 10 * of_int m + 1 / 2 ^ 8" .
  have q0: "0 \<le> fval x / fval ?t" using f tenth_bounds by simp
  have "\<bar>fval x / fval ?t\<bar> \<le> 2 powi 17" using q q0 mm by simp
  from fdiv_fin [OF f(1) tenth_bounds(1) _ this] tenth_bounds
  have y: "is_fin (fdiv x ?t)" "\<bar>fval (fdiv x ?t) - fval x / fval ?t\<bar> \<le> 1 / 2 ^ 36"
    by (auto simp: power_int_def power_divide)
  then have "fval (fdiv x ?t) \<le> of_int (10 * m) + 1 / 4"
    using q unfolding abs_le_iff by (simp; linarith)
  then have "round_half (fval (fdiv x ?t)) \<le> 10 * m"
    using round_half_le round_half_neg m(2) by (cases "fval (fdiv x ?t) < 0") fastforce+
  then show ?thesis
    using rounded_word [OF y(1) x(3,4)] x(5) by simp
qed

lemma word_units:
  assumes "units_control r" "rEnum r = []" "encode_write r input = Inr w" "numeric_input input \<noteq> Inr NaN"
    and b: "rWriteMin r = Num (of_int lo)" "rWriteMax r = Num (of_int hi)" "\<bar>lo\<bar> \<le> 65535" "0 < hi" "hi \<le> 32767"
  shows "lo \<le> uint w \<and> uint w \<le> hi"
proof -
  have s: "scale_or_one (rScale r) = Num 1" using assms(1) by (simp add: scale_or_one_def units_control_def)
  obtain x where x: "numeric_input input = Inr x" "validate_write_bounds r x = Inr ()"
    "\<not> flt (math_round (fdiv x (Num 1))) (Num 0)" "\<not> flt (Num 65535) (math_round (fdiv x (Num 1)))"
    "w = u16_of_f64 (math_round (fdiv x (Num 1)))"
    using encode_number_cases [OF assms(3,2)] unfolding s .
  have f: "is_fin x" "of_int lo \<le> fval x" "fval x \<le> of_int hi"
    using bounded_finite [OF x(2) b(1,2)] assms(4) b(4) x(1) by auto
  have "(of_int lo :: rat) \<ge> of_int (- 65535)" "(of_int hi :: rat) \<le> of_int 32767"
    using b by (simp_all only: of_int_le_iff)
  then have "\<bar>fval x / fval (Num 1)\<bar> \<le> 2 powi 17" using f(2,3) unfolding abs_le_iff by simp
  from fdiv_fin [OF f(1) _ _ this]
  have y: "is_fin (fdiv x (Num 1))" "\<bar>fval (fdiv x (Num 1)) - fval x\<bar> \<le> 1 / 2 ^ 36"
    by (auto simp: power_int_def power_divide)
  let ?q = "fval (fdiv x (Num 1))"
  have r: "?q \<le> of_int hi + 1 / 4"
    using y(2) f(2,3) unfolding abs_le_iff by (simp; linarith)
  have r2: "of_int lo - 1 / 4 \<le> ?q"
    using y(2) f(2,3) unfolding abs_le_iff by (simp; linarith)
  have u: "uint w = round_half ?q" using rounded_word [OF y(1) x(3,4)] x(5) by simp
  show ?thesis
  proof (cases "?q < 0")
    case True
    then have "round_half ?q = 0"
      using round_half_neg u uint_ge_0 [of w] by fastforce
    moreover have "of_int lo < (of_int 1 :: rat)" using True r2 by simp
    ultimately show ?thesis using b(4) u by (simp; linarith)
  next
    case False
    then show ?thesis using r r2 u round_half_le round_half_ge by fastforce
  qed
qed


lemma enum_raw_key:
  assumes "enum_raw_value m input = Inr k" "distinct (map fst m)"
  shows "map_of m k \<noteq> None"
proof (cases input)
  case (VStr s)
  show ?thesis
  proof (cases "find_first (\<lambda>(raw, label). equal_fold label s) m")
    case None
    with assms(1) VStr show ?thesis
      by (auto simp: enum_raw_value_def split: option.splits if_splits)
  next
    case (Some e)
    then have "e \<in> set m" by (blast dest: find_first_Some)
    moreover have "k = fst e" using assms(1) VStr Some by (cases e) (simp add: enum_raw_value_def)
    ultimately show ?thesis by (auto simp: map_of_eq_None_iff)
  qed
qed (use assms(1) in \<open>auto simp: enum_raw_value_def Let_def split: if_splits\<close>)

lemma word_enum:
  assumes "enum_wf (rEnum r)" "rEnum r \<noteq> []" "encode_write r input = Inr w"
  shows "map_of (rEnum r) (uint w) \<noteq> None"
proof -
  obtain k where k: "enum_raw_value (rEnum r) input = Inr k" "0 \<le> k" "k \<le> 65535" "w = word_of_int k"
    using assms(2,3) by (auto simp: encode_write_def not_less split: if_splits sum.splits)
  then have "uint w = k" by (simp add: unsigned_of_int take_bit_int_eq_self)
  with enum_raw_key [OF k(1)] assms(1) show ?thesis by (simp add: enum_wf_def)
qed

lemma offered_tenths:
  assumes "rCount r = 1" "rEnum r = []" "tenths_control r" "decode r [w] now = Inr v"
    and m: "rWriteMax r = Num (of_int m)" "m \<le> 6553" "uint w \<le> 10 * m"
  shows "offered r v"
proof -
  have t: "rType r = TypeUint16" "rScale r = flit (1 / 10)" "rPrecision r = 1" "rWriteMin r = Num 0"
    "rWriteStep r = flit (1 / 10)"
    using assms(3) by (simp_all add: tenths_control_def)
  have raw: "dRaw v = uint w"
    using decode_single(1) [OF assms(1,4)] raw_single(1) [OF t(1), of w] by simp
  obtain x where x: "decode_number r (uint w) = (VFloat x, format_float x 1)"
    "near x (of_int (uint w) / 10) (1 / 2 ^ 40)" "fval x = round53 (of_int (uint w) / 10)"
    by (rule decode_tenths [OF t(2,3), of "uint w"]) (use uint16_range [of w] in simp_all)
  have dv: "dValue v = VFloat x"
    using decode_single(2) [OF assms(1,4)] assms(2) t(1) x(1) by (simp add: decode_value_def raw)
  have f: "is_fin x" using x(2) by (simp add: near_def)
  from tenths_range [OF x(2,3) _ m(3,2)] uint16_range [of w] f show ?thesis
    by (simp add: offered_def raw dv assms(2) numeric_input_def t(4) m(1))
qed

lemma offered_units:
  assumes "rCount r = 1" "rEnum r = []" "units_control r" "decode r [w] now = Inr v"
    and b: "rWriteMin r = Num (of_int lo)" "rWriteMax r = Num (of_int hi)" "hi \<le> 32767" "lo \<le> uint w \<and> uint w \<le> hi"
  shows "offered r v"
proof -
  have t: "rType r = TypeUint16 \<or> rType r = TypeInt16" "rScale r = Num 1" "rPrecision r = 0"
    using assms(3) by (simp_all add: units_control_def)
  have "uint w < 32768" "- 32768 \<le> uint w"
    using b(3,4) uint16_range(1) [of w] by linarith+
  then have "sint w = uint w"
    using signed_take_bit_int_eq_self [of 15 "uint w"] by (simp add: sint_uint)
  then have "dRaw v = uint w"
    using decode_single(1) [OF assms(1,4)] raw_single [of r w] t(1) by auto
  then obtain n where raw: "dRaw v = n" "0 \<le> n" "lo \<le> n" "n \<le> hi"
    using b(4) uint16_range(1) [of w] by auto
  have "decode_number r n = (VInt64 n, show_int n)"
    by (rule decode_units [OF t(2,3)]) (use raw b(3) in simp)
  then have dv: "dValue v = VInt64 n"
    using decode_single(2) [OF assms(1,4)] assms(2) t(1) by (auto simp: decode_value_def raw(1))
  have "f64_of_int n = Num (of_int n)"
    using raw b(3) by (intro f64_of_int_exact) auto
  with raw show ?thesis
    by (simp add: offered_def dv assms(2) numeric_input_def b(1,2))
qed

lemma encode_offered:
  assumes "register_wf r" "encode_write r input = Inr w"
    and "rEnum r = [] \<Longrightarrow> numeric_input input \<noteq> Inr NaN"
  shows "\<exists>v. decode r [w] now = Inr v \<and> offered r v"
proof -
  have wr: "rWritable r" using assms(2) by (auto simp: encode_write_def split: if_splits)
  then have c: "rCount r = 1" "\<not> rSynthetic r" using assms(1) by (auto simp: register_wf_def)
  obtain v where v: "decode r [w] now = Inr v"
    using decode_ok [OF assms(1) c(2), of "[w]" now] c(1) by auto
  have "offered r v"
  proof (cases "rEnum r = []")
    case True
    then consider "tenths_control r" | "units_control r" using assms(1) wr by (auto simp: register_wf_def)
    then show ?thesis
    proof cases
      case 1
      then obtain m where "rWriteMax r = Num (of_int m)" "0 < m" "m \<le> 6553" using tenths_max by blast
      with 1 show ?thesis using word_tenths offered_tenths True assms(2,3) c(1) v by blast
    next
      case 2
      then obtain lo hi where "rWriteMin r = Num (of_int lo)" "rWriteMax r = Num (of_int hi)"
        "\<bar>lo\<bar> \<le> 65535" "0 < hi" "hi \<le> 32767" using units_bounds by blast
      with 2 show ?thesis using word_units offered_units True assms(2,3) c(1) v by blast
    qed
  next
    case False
    then have e: "rType r = TypeUint16" "enum_wf (rEnum r)" using assms(1) wr by (auto simp: register_wf_def)
    then have "dRaw v = uint w"
      using decode_single(1) [OF c(1) v] raw_single(1) [of r w] by simp
    with word_enum [OF e(2) False assms(2)] False show ?thesis by (simp add: offered_def)
  qed
  with v show ?thesis by blast
qed

text \<open>The bounds and the step check let a NaN through, which is written as 0.\<close>

lemma nan_encodes_zero:
  assumes "register_wf r" "rWritable r" "rEnum r = []" "numeric_input input = Inr NaN"
  shows "encode_write r input = Inr 0"
proof -
  have "tenths_control r \<or> units_control r" "rCount r = 1"
    using assms(1-3) by (auto simp: register_wf_def)
  then have "rScale r = Num 1 \<or> rScale r = flit (1 / 10)" by (auto simp: tenths_control_def units_control_def)
  have "fdiv NaN s = NaN" for s by (simp add: fdiv_def)
  moreover have "validate_write_bounds r NaN = Inr ()"
    by (simp add: validate_write_bounds_def flt_def fsub_def fadd_def fdiv_def fmul_def Let_def)
  ultimately show ?thesis
    using assms(2-4) \<open>rCount r = 1\<close>
    by (simp add: encode_write_def Let_def flt_def u16_of_f64_def int64_of_f64_def)
qed


end
