(* ===== verification/CatalogProofs.thy ===== *)
theory CatalogProofs
  imports ReadPlan RegisterProofs
begin

text \<open>
  The catalogs satisfy what the conversions and the read plan assume. Each table is unfolded once
  (\<open>base_wf\<close>, \<open>base_rows\<close>); the facts about the three catalogs follow from those:
  every register is well formed, identifiers are distinct, and within a polling group addresses
  are distinct and do not wrap around.
\<close>

section \<open>Well-formed registers\<close>

lemma enum_tables:
  "enum_wf [(0, ''Disabled''), (1, ''Enabled'')]"
  "enum_wf [(0, ''Solar''), (1, ''Utility''), (2, ''Solar, Battery, Utility'')]"
  "enum_wf [(0, ''Setting''), (1, ''BMS''), (2, ''Inverter Logic'')]"
  "enum_wf [(1, ''Reset'')]"
  "enum_wf [(0, ''PV Priority''), (1, ''Utility Priority''), (2, ''Hybrid''), (3, ''PV Only'')]"
  "enum_wf [(0, ''Disabled''), (1, ''Grid-connected Export''), (2, ''Anti-backflow'')]"
  by code_simp+

lemma base_wf1: "list_all (\<lambda>r. register_wf r \<and> register_wf (adjustThreePhase r)) baseCatalog1"
  by (simp add: baseCatalog1_def register_wf_def reg0_def tenths_control_def units_control_def enum_tables adjustThreePhase_def)

lemma base_wf2: "list_all (\<lambda>r. register_wf r \<and> register_wf (adjustThreePhase r)) baseCatalog2"
  by (simp add: baseCatalog2_def register_wf_def reg0_def tenths_control_def units_control_def enum_tables adjustThreePhase_def)

lemma base_wf3: "list_all (\<lambda>r. register_wf r \<and> register_wf (adjustThreePhase r)) baseCatalog3"
  by (simp add: baseCatalog3_def register_wf_def reg0_def tenths_control_def units_control_def enum_tables adjustThreePhase_def)

lemma base_wf4: "list_all (\<lambda>r. register_wf r \<and> register_wf (adjustThreePhase r)) baseCatalog4"
  by (simp add: baseCatalog4_def register_wf_def reg0_def tenths_control_def units_control_def enum_tables adjustThreePhase_def)

lemma base_wf5: "list_all (\<lambda>r. register_wf r \<and> register_wf (adjustThreePhase r)) baseCatalog5"
  by (simp add: baseCatalog5_def register_wf_def reg0_def tenths_control_def units_control_def enum_tables adjustThreePhase_def)

lemma base_wf6: "list_all (\<lambda>r. register_wf r \<and> register_wf (adjustThreePhase r)) baseCatalog6"
  by (simp add: baseCatalog6_def register_wf_def reg0_def tenths_control_def units_control_def enum_tables adjustThreePhase_def)

lemma base_wf7: "list_all (\<lambda>r. register_wf r \<and> register_wf (adjustThreePhase r)) baseCatalog7"
  by (simp add: baseCatalog7_def register_wf_def reg0_def tenths_control_def units_control_def enum_tables adjustThreePhase_def)

lemma base_wf8: "list_all (\<lambda>r. register_wf r \<and> register_wf (adjustThreePhase r)) baseCatalog8"
  by (simp add: baseCatalog8_def register_wf_def reg0_def tenths_control_def units_control_def enum_tables adjustThreePhase_def)

lemma base_wf9: "list_all (\<lambda>r. register_wf r \<and> register_wf (adjustThreePhase r)) baseCatalog9"
  by (simp add: baseCatalog9_def register_wf_def reg0_def tenths_control_def units_control_def enum_tables adjustThreePhase_def)

lemma base_wf: "list_all (\<lambda>r. register_wf r \<and> register_wf (adjustThreePhase r)) baseCatalog"
  by (simp add: baseCatalog_def base_wf1 base_wf2 base_wf3 base_wf4 base_wf5 base_wf6 base_wf7 base_wf8 base_wf9)

lemmas constructor_defs = inverterClockRegister_def timedChargeRegister_def timedChargeEnabledRegister_def
  pvVoltageRegister_def phaseVoltageRegister_def pvCurrentRegister_def pvPowerRegister_def
  powerSumRegister_def phasePowerRegister_def phaseCurrentRegister_def phaseApparentPowerRegister_def
  gridOperatingModeRegister_def onGridMaxPowerRegister_def zeroExportPowerRegister_def

lemma three_wf: "list_all register_wf threePhaseRegisters" "list_all register_wf gridControls"
  by (simp_all add: threePhaseRegisters_def gridControls_def constructor_defs register_wf_def reg0_def
      units_control_def enum_tables)

text \<open>The catalog of an inverter type is one of three.\<close>

lemma normalize_cases:
  "normalizeInverterType t \<in> {inverterTypeSPIH3P, inverterTypeHESPSH3, inverterTypeSinglePhase}"
  by (simp add: normalizeInverterType_def Let_def)

lemma normalize_fixed:
  "normalizeInverterType inverterTypeSPIH3P = inverterTypeSPIH3P"
  "normalizeInverterType inverterTypeHESPSH3 = inverterTypeHESPSH3"
  "normalizeInverterType inverterTypeSinglePhase = inverterTypeSinglePhase"
  by code_simp+

lemma type_names_distinct:
  "inverterTypeSPIH3P \<noteq> inverterTypeHESPSH3" "inverterTypeSPIH3P \<noteq> inverterTypeSinglePhase"
  "inverterTypeHESPSH3 \<noteq> inverterTypeSinglePhase"
  by (simp_all add: inverterTypeSPIH3P_def inverterTypeHESPSH3_def inverterTypeSinglePhase_def)

lemma catalog_cases:
  "catalogForInverterType t = baseCatalog
   \<or> catalogForInverterType t = threePhaseCatalog baseCatalog False
   \<or> catalogForInverterType t = threePhaseCatalog baseCatalog True"
  by (cases "normalizeInverterType t = inverterTypeHESPSH3") (simp_all add: catalogForInverterType_def Let_def)

lemma catalog_wf: "r \<in> set (catalogForInverterType t) \<Longrightarrow> register_wf r"
proof -
  assume r: "r \<in> set (catalogForInverterType t)"
  have "list_all register_wf (threePhaseCatalog baseCatalog b)" for b
    using base_wf three_wf by (auto simp: threePhaseCatalog_def list_all_iff)
  moreover have "list_all register_wf baseCatalog"
    using base_wf by (simp add: list_all_iff)
  ultimately show ?thesis
    using catalog_cases [of t] r by (metis list_all_iff)
qed

section \<open>Identifiers and addresses\<close>

type_synonym row = "string \<times> int \<times> int \<times> poll_group \<times> bool"

definition row :: "register \<Rightarrow> row" where
  "row r = (rID r, uint (rAddress r), uint (rCount r), rGroup r, rWriteOnly r \<or> rSynthetic r)"

definition baseRows :: "row list" where
  "baseRows =
    [(''battery_soc'', 0x0100, 1, GroupFast, False),
     (''battery_voltage'', 0x0101, 1, GroupFast, False),
     (''battery_current'', 0x0102, 1, GroupFast, False),
     (''battery_temperature'', 0x0103, 1, GroupSlow, False),
     (''pv_voltage'', 0x0107, 1, GroupFast, False),
     (''pv_current'', 0x0108, 1, GroupFast, False),
     (''pv_power'', 0x0109, 1, GroupFast, False),
     (''pv_total_power'', 0x010A, 1, GroupSlow, False),
     (''pv_ac_power'', 0x010E, 1, GroupSlow, False),
     (''charge_state'', 0x010B, 1, GroupSlow, False),
     (''fault_code_1'', 0x0204, 1, GroupSlow, False),
     (''fault_code_2'', 0x0205, 1, GroupSlow, False),
     (''load_power'', 0x021B, 1, GroupFast, False),
     (''grid_voltage'', 0x0213, 1, GroupFast, False),
     (''grid_current'', 0x0214, 1, GroupFast, False),
     (''grid_frequency'', 0x0215, 1, GroupFast, False),
     (''inverter_voltage'', 0x0216, 1, GroupFast, False),
     (''inverter_frequency'', 0x0218, 1, GroupFast, False),
     (''load_current'', 0x0219, 1, GroupSlow, False),
     (''load_apparent_power'', 0x021C, 1, GroupSlow, False),
     (''machine_state'', 0x0210, 1, GroupSlow, False),
     (''pv_charge_current_setup'', 0xE001, 1, GroupSlow, False),
     (''battery_type'', 0xE004, 1, GroupSlow, False),
     (''boost_charge_voltage'', 0xE008, 1, GroupSlow, False),
     (''float_charge_voltage'', 0xE009, 1, GroupSlow, False),
     (''boost_return_voltage'', 0xE00A, 1, GroupSlow, False),
     (''boost_charging_time'', 0xE012, 1, GroupSlow, False),
     (''battery_discharge_cutoff_soc'', 0xE00F, 1, GroupSlow, False),
     (''charge_termination_current'', 0xE01C, 1, GroupSlow, False),
     (''battery_charge_cutoff_soc'', 0xE01D, 1, GroupSlow, False),
     (''battery_low_soc_alarm'', 0xE01E, 1, GroupSlow, False),
     (''battery_discharge_stop'', 0xE01F, 1, GroupSlow, False),
     (''battery_discharge_start'', 0xE020, 1, GroupSlow, False),
     (''bms_charge_limit_mode'', 0xE025, 1, GroupSlow, False),
     (''output_source_priority'', 0xE204, 1, GroupSlow, False),
     (''mains_charge_current_limit'', 0xE205, 1, GroupSlow, False),
     (''maximum_charge_current'', 0xE20A, 1, GroupFast, False),
     (''reset_machine'', 0xDF01, 1, GroupSlow, True),
     (''charger_source_priority'', 0xE20F, 1, GroupSlow, False),
     (''power_saving_mode'', 0xE20C, 1, GroupSlow, False),
     (''overload_auto_restart'', 0xE20D, 1, GroupSlow, False),
     (''overtemperature_auto_restart'', 0xE20E, 1, GroupSlow, False),
     (''buzzer_alarm'', 0xE210, 1, GroupSlow, False),
     (''source_change_alert'', 0xE211, 1, GroupSlow, False),
     (''overload_bypass'', 0xE212, 1, GroupSlow, False),
     (''bms_communication_enable'', 0xE215, 1, GroupSlow, False),
     (''bms_protocol'', 0xE21B, 1, GroupSlow, False),
     (''dc_to_dc_temperature'', 0x0220, 1, GroupSlow, False),
     (''dc_to_ac_temperature'', 0x0221, 1, GroupSlow, False),
     (''transformer_temperature'', 0x0222, 1, GroupSlow, False),
     (''grid_power'', 0x023A, 1, GroupSlow, False),
     (''today_energy_export'', 0xF02C, 1, GroupSlow, False),
     (''today_battery_charge_ah'', 0xF02D, 1, GroupSlow, False),
     (''today_battery_discharge_ah'', 0xF02E, 1, GroupSlow, False),
     (''today_production'', 0xF02F, 1, GroupSlow, False),
     (''today_load_consumption'', 0xF030, 1, GroupSlow, False),
     (''total_energy_export'', 0xF032, 2, GroupSlow, False),
     (''total_battery_charge_ah'', 0xF034, 2, GroupSlow, False),
     (''total_battery_discharge_ah'', 0xF036, 2, GroupSlow, False),
     (''total_production'', 0xF038, 2, GroupSlow, False),
     (''total_load_consumption'', 0xF03A, 2, GroupSlow, False),
     (''today_battery_grid_charge_ah'', 0xF03C, 1, GroupSlow, False),
     (''today_energy_import'', 0xF03D, 1, GroupSlow, False),
     (''total_battery_grid_charge_ah'', 0xF046, 2, GroupSlow, False),
     (''total_energy_import'', 0xF048, 2, GroupSlow, False),
     (''system_energy_losses_total'', 0xFFF0, 0, GroupSlow, True),
     (''system_energy_efficiency_total'', 0xFFF1, 0, GroupSlow, True),
     (''last_switch_to_grid_at'', 0xFFF2, 0, GroupSlow, True),
     (''last_switch_to_grid_soc'', 0xFFF3, 0, GroupSlow, True),
     (''last_switch_to_battery_at'', 0xFFF4, 0, GroupSlow, True),
     (''last_switch_to_battery_soc'', 0xFFF5, 0, GroupSlow, True),
     (''battery_charge_energy_total_estimate'', 0xFFF6, 0, GroupSlow, True),
     (''battery_discharge_energy_total_estimate'', 0xFFF7, 0, GroupSlow, True)]"

lemma base_rows: "map row baseCatalog = baseRows"
  by (simp add: baseCatalog_def baseCatalog1_def baseCatalog2_def baseCatalog3_def baseCatalog4_def
      baseCatalog5_def baseCatalog6_def baseCatalog7_def baseCatalog8_def baseCatalog9_def
      reg0_def row_def baseRows_def)

definition threeRows :: "row list" where
  "threeRows =
    [(''inverter_clock'', 0x020C, 3, GroupSlow, False),
     (''timed_charge_slot_1_start'', 0xE026, 1, GroupSlow, False),
     (''timed_charge_slot_1_end'', 0xE027, 1, GroupSlow, False),
     (''timed_charge_slot_2_start'', 0xE028, 1, GroupSlow, False),
     (''timed_charge_slot_2_end'', 0xE029, 1, GroupSlow, False),
     (''timed_charge_slot_3_start'', 0xE02A, 1, GroupSlow, False),
     (''timed_charge_slot_3_end'', 0xE02B, 1, GroupSlow, False),
     (''timed_utility_charging'', 0xE02C, 1, GroupSlow, False),
     (''pv_power'', 0xFFFA, 1, GroupFast, True),
     (''pv1_voltage'', 0x0107, 1, GroupFast, False),
     (''pv1_current'', 0x0108, 1, GroupFast, False),
     (''pv1_power'', 0x0109, 1, GroupFast, False),
     (''pv2_voltage'', 0x010F, 1, GroupFast, False),
     (''pv2_current'', 0x0110, 1, GroupFast, False),
     (''pv2_power'', 0x0111, 1, GroupFast, False),
     (''load_power'', 0xFFF8, 1, GroupFast, True),
     (''grid_power'', 0xFFF9, 1, GroupFast, True),
     (''grid_voltage_phase_a'', 0x0213, 1, GroupFast, False),
     (''grid_current_phase_a'', 0x0214, 1, GroupFast, False),
     (''load_current_phase_a'', 0x0219, 1, GroupFast, False),
     (''load_power_phase_a'', 0x021B, 1, GroupFast, False),
     (''load_apparent_power_phase_a'', 0x021C, 1, GroupSlow, False),
     (''grid_voltage_phase_b'', 0x022A, 1, GroupFast, False),
     (''grid_voltage_phase_c'', 0x022B, 1, GroupFast, False),
     (''load_current_phase_b'', 0x0230, 1, GroupFast, False),
     (''load_current_phase_c'', 0x0231, 1, GroupFast, False),
     (''load_power_phase_b'', 0x0232, 1, GroupFast, False),
     (''load_power_phase_c'', 0x0233, 1, GroupFast, False),
     (''grid_current_phase_b'', 0x0238, 1, GroupFast, False),
     (''grid_current_phase_c'', 0x0239, 1, GroupFast, False),
     (''grid_power_phase_a'', 0x023A, 1, GroupFast, False),
     (''grid_power_phase_b'', 0x023B, 1, GroupFast, False),
     (''grid_power_phase_c'', 0x023C, 1, GroupFast, False)]"

definition gridRows :: "row list" where
  "gridRows =
    [(''grid_operating_mode'', 0xE037, 1, GroupSlow, False),
     (''on_grid_max_power'', 0xE400, 1, GroupSlow, False),
     (''zero_export_power'', 0xE42C, 1, GroupSlow, False)]"

lemma three_rows: "map row threePhaseRegisters = threeRows" "map row gridControls = gridRows"
  by (simp_all add: threePhaseRegisters_def gridControls_def constructor_defs reg0_def row_def
      threeRows_def gridRows_def)

lemma row_adjust: "row (adjustThreePhase r) = row r"
  by (simp add: row_def adjustThreePhase_def)

definition keptRows :: "row list" where
  "keptRows =
    [(''battery_soc'', 0x0100, 1, GroupFast, False),
     (''battery_voltage'', 0x0101, 1, GroupFast, False),
     (''battery_current'', 0x0102, 1, GroupFast, False),
     (''battery_temperature'', 0x0103, 1, GroupSlow, False),
     (''pv_total_power'', 0x010A, 1, GroupSlow, False),
     (''pv_ac_power'', 0x010E, 1, GroupSlow, False),
     (''charge_state'', 0x010B, 1, GroupSlow, False),
     (''fault_code_1'', 0x0204, 1, GroupSlow, False),
     (''fault_code_2'', 0x0205, 1, GroupSlow, False),
     (''grid_frequency'', 0x0215, 1, GroupFast, False),
     (''inverter_voltage'', 0x0216, 1, GroupFast, False),
     (''inverter_frequency'', 0x0218, 1, GroupFast, False),
     (''machine_state'', 0x0210, 1, GroupSlow, False),
     (''pv_charge_current_setup'', 0xE001, 1, GroupSlow, False),
     (''battery_type'', 0xE004, 1, GroupSlow, False),
     (''boost_charge_voltage'', 0xE008, 1, GroupSlow, False),
     (''float_charge_voltage'', 0xE009, 1, GroupSlow, False),
     (''boost_return_voltage'', 0xE00A, 1, GroupSlow, False),
     (''boost_charging_time'', 0xE012, 1, GroupSlow, False),
     (''battery_discharge_cutoff_soc'', 0xE00F, 1, GroupSlow, False),
     (''charge_termination_current'', 0xE01C, 1, GroupSlow, False),
     (''battery_charge_cutoff_soc'', 0xE01D, 1, GroupSlow, False),
     (''battery_low_soc_alarm'', 0xE01E, 1, GroupSlow, False),
     (''battery_discharge_stop'', 0xE01F, 1, GroupSlow, False),
     (''battery_discharge_start'', 0xE020, 1, GroupSlow, False),
     (''bms_charge_limit_mode'', 0xE025, 1, GroupSlow, False),
     (''output_source_priority'', 0xE204, 1, GroupSlow, False),
     (''mains_charge_current_limit'', 0xE205, 1, GroupSlow, False),
     (''maximum_charge_current'', 0xE20A, 1, GroupFast, False),
     (''reset_machine'', 0xDF01, 1, GroupSlow, True),
     (''charger_source_priority'', 0xE20F, 1, GroupSlow, False),
     (''power_saving_mode'', 0xE20C, 1, GroupSlow, False),
     (''overload_auto_restart'', 0xE20D, 1, GroupSlow, False),
     (''overtemperature_auto_restart'', 0xE20E, 1, GroupSlow, False),
     (''buzzer_alarm'', 0xE210, 1, GroupSlow, False),
     (''source_change_alert'', 0xE211, 1, GroupSlow, False),
     (''overload_bypass'', 0xE212, 1, GroupSlow, False),
     (''bms_communication_enable'', 0xE215, 1, GroupSlow, False),
     (''bms_protocol'', 0xE21B, 1, GroupSlow, False),
     (''dc_to_dc_temperature'', 0x0220, 1, GroupSlow, False),
     (''dc_to_ac_temperature'', 0x0221, 1, GroupSlow, False),
     (''transformer_temperature'', 0x0222, 1, GroupSlow, False),
     (''today_energy_export'', 0xF02C, 1, GroupSlow, False),
     (''today_battery_charge_ah'', 0xF02D, 1, GroupSlow, False),
     (''today_battery_discharge_ah'', 0xF02E, 1, GroupSlow, False),
     (''today_production'', 0xF02F, 1, GroupSlow, False),
     (''today_load_consumption'', 0xF030, 1, GroupSlow, False),
     (''total_energy_export'', 0xF032, 2, GroupSlow, False),
     (''total_battery_charge_ah'', 0xF034, 2, GroupSlow, False),
     (''total_battery_discharge_ah'', 0xF036, 2, GroupSlow, False),
     (''total_production'', 0xF038, 2, GroupSlow, False),
     (''total_load_consumption'', 0xF03A, 2, GroupSlow, False),
     (''today_battery_grid_charge_ah'', 0xF03C, 1, GroupSlow, False),
     (''today_energy_import'', 0xF03D, 1, GroupSlow, False),
     (''total_battery_grid_charge_ah'', 0xF046, 2, GroupSlow, False),
     (''total_energy_import'', 0xF048, 2, GroupSlow, False),
     (''system_energy_losses_total'', 0xFFF0, 0, GroupSlow, True),
     (''system_energy_efficiency_total'', 0xFFF1, 0, GroupSlow, True),
     (''last_switch_to_grid_at'', 0xFFF2, 0, GroupSlow, True),
     (''last_switch_to_grid_soc'', 0xFFF3, 0, GroupSlow, True),
     (''last_switch_to_battery_at'', 0xFFF4, 0, GroupSlow, True),
     (''last_switch_to_battery_soc'', 0xFFF5, 0, GroupSlow, True),
     (''battery_charge_energy_total_estimate'', 0xFFF6, 0, GroupSlow, True),
     (''battery_discharge_energy_total_estimate'', 0xFFF7, 0, GroupSlow, True)]"

lemma kept_rows: "filter (\<lambda>row. fst row \<notin> set replacedByThreePhase) baseRows = keptRows"
  by (simp add: baseRows_def replacedByThreePhase_def keptRows_def)

definition threeCatalogRows :: "bool \<Rightarrow> row list" where
  "threeCatalogRows b = keptRows @ threeRows @ (if b then gridRows else [])"

lemma three_catalog_rows: "map row (threePhaseCatalog baseCatalog b) = threeCatalogRows b"
proof -
  have "map row (filter (\<lambda>reg. rID reg \<notin> set replacedByThreePhase) rs)
      = filter (\<lambda>row. fst row \<notin> set replacedByThreePhase) (map row rs)" for rs
    by (induction rs) (auto simp: row_def)
  then show ?thesis
    by (simp add: threePhaseCatalog_def threeCatalogRows_def three_rows base_rows row_adjust comp_def
        flip: kept_rows)
qed

text \<open>A check on the rows of every catalog is a check on three literal lists.\<close>

lemma catalog_rows_cases:
  assumes "P baseRows" "P (threeCatalogRows False)" "P (threeCatalogRows True)"
  shows "P (map row (catalogForInverterType t))"
  using catalog_cases [of t] assms by (auto simp: base_rows three_catalog_rows)

lemmas rows_defs = baseRows_def threeCatalogRows_def keptRows_def threeRows_def gridRows_def

lemma base_ids: "distinct (map fst baseRows)"
  by code_simp

lemma three_ids: "distinct (map fst (threeRows @ gridRows))"
  by code_simp

lemma three_ids_new: "set (map fst keptRows) \<inter> set (map fst (threeRows @ gridRows)) = {}"
  by code_simp

lemma kept_ids: "distinct (map fst keptRows)"
  using base_ids unfolding kept_rows [symmetric] by (rule distinct_map_filter)

lemma distinct_ids: "distinct (map rID (catalogForInverterType t))"
proof -
  have "distinct (map fst (map row (catalogForInverterType t)))"
  proof (rule catalog_rows_cases [of "\<lambda>rs. distinct (map fst rs)" t])
    show "distinct (map fst baseRows)" by (rule base_ids)
    have "distinct (map fst (threeCatalogRows b))" for b
      using kept_ids three_ids three_ids_new
      by (cases b) (auto simp: threeCatalogRows_def simp del: set_map)
    then show "distinct (map fst (threeCatalogRows False))" "distinct (map fst (threeCatalogRows True))"
      by blast+
  qed
  then show ?thesis by (simp add: row_def comp_def)
qed

definition polled :: "poll_group \<Rightarrow> row \<Rightarrow> bool" where
  "polled g = (\<lambda>(_, _, _, g', off). g' = g \<and> \<not> off)"

definition rowAddress :: "row \<Rightarrow> int" where
  "rowAddress = (\<lambda>(_, a, _, _, _). a)"

definition row_fits :: "row \<Rightarrow> bool" where
  "row_fits = (\<lambda>(_, a, c, _, off). off \<or> 0 < c \<and> a + c < 65536)"

lemma row_addresses:
  "distinct (map rowAddress (filter (polled GroupFast) baseRows))"
  "distinct (map rowAddress (filter (polled GroupSlow) baseRows))"
  "distinct (map rowAddress (filter (polled GroupFast) (threeCatalogRows False)))"
  "distinct (map rowAddress (filter (polled GroupSlow) (threeCatalogRows False)))"
  "distinct (map rowAddress (filter (polled GroupFast) (threeCatalogRows True)))"
  "distinct (map rowAddress (filter (polled GroupSlow) (threeCatalogRows True)))"
  by code_simp+

lemma distinct_addresses:
  "distinct (map rAddress (filter (\<lambda>reg. rGroup reg = g \<and> \<not> rWriteOnly reg \<and> \<not> rSynthetic reg)
     (catalogForInverterType t)))"
proof -
  have d: "distinct (map rowAddress (filter (polled g) (map row (catalogForInverterType t))))"
    by (cases g; rule catalog_rows_cases [of "\<lambda>rs. distinct (map rowAddress (filter (polled g) rs))" t])
      (simp_all only: row_addresses)
  have "map rowAddress (filter (polled g) (map row rs))
      = map uint (map rAddress (filter (\<lambda>reg. rGroup reg = g \<and> \<not> rWriteOnly reg \<and> \<not> rSynthetic reg) rs))" for rs
    by (induction rs) (auto simp: polled_def row_def rowAddress_def)
  with d have "distinct (map uint (map rAddress (filter (\<lambda>reg. rGroup reg = g \<and> \<not> rWriteOnly reg \<and> \<not> rSynthetic reg)
     (catalogForInverterType t))))" by metis
  then show ?thesis by (simp only: distinct_map)
qed

lemma catalog_fits:
  assumes "r \<in> set (catalogForInverterType t)" "\<not> rWriteOnly r" "\<not> rSynthetic r"
  shows "fits r"
proof -
  have "list_all row_fits (map row (catalogForInverterType t))"
    by (rule catalog_rows_cases [of "list_all row_fits" t]) (simp_all add: rows_defs row_fits_def)
  then have "row_fits (row r)" using assms(1) by (auto simp: list_all_iff)
  then show ?thesis
    using assms(2,3) by (simp add: fits_uint row_fits_def row_def)
qed

section \<open>The requests of the plans\<close>

text \<open>The spans (start and count) of a plan, computed on the rows.\<close>

fun merge_spans :: "int \<times> int \<Rightarrow> (int \<times> int) list \<Rightarrow> (int \<times> int) list" where
  "merge_spans cur [] = [cur]"
| "merge_spans (s, c) ((a, k) # rest) =
     (if a \<le> s + c then merge_spans (s, max c (a + k - s)) rest
      else (s, c) # merge_spans (a, k) rest)"

definition spans :: "(int \<times> int) list \<Rightarrow> (int \<times> int) list" where
  "spans xs = (case sort_key fst xs of [] \<Rightarrow> [] | x # rest \<Rightarrow> merge_spans x rest)"

definition reg_span :: "register \<Rightarrow> int \<times> int" where
  "reg_span r = (uint (rAddress r), uint (rCount r))"

definition range_span :: "read_range \<Rightarrow> int \<times> int" where
  "range_span rr = (uint (rrStart rr), uint (rrCount rr))"

lemma range_span_update:
  "range_span (cur\<lparr>rrCount := k, rrRegisters := regs\<rparr>) = (uint (rrStart cur), uint k)"
  by (simp add: range_span_def)

lemma uint_add_u16: "uint (a :: u16) + uint b < 65536 \<Longrightarrow> uint (a + b) = uint a + uint b"
  by (simp add: uint_add_lem [THEN iffD1])

lemma merge_ranges_spans:
  assumes "uint (rrStart cur) + uint (rrCount cur) < 65536" "list_all fits regs"
    and "sorted (map rAddress regs)" "\<forall>reg \<in> set regs. rrStart cur \<le> rAddress reg"
  shows "map range_span (merge_ranges cur regs) = merge_spans (range_span cur) (map reg_span regs)"
  using assms
proof (induction regs arbitrary: cur)
  case Nil
  then show ?case by simp
next
  case (Cons reg regs)
  have fit: "uint (rAddress reg) + uint (rCount reg) < 65536"
    using Cons.prems(2) fits_uint by simp
  have e: "uint (rAddress reg + rCount reg) = uint (rAddress reg) + uint (rCount reg)"
    "uint (rrStart cur + rrCount cur) = uint (rrStart cur) + uint (rrCount cur)"
    using fit Cons.prems(1) by (simp_all only: uint_add_u16)
  have le: "rAddress reg \<le> rrStart cur + rrCount cur \<longleftrightarrow> uint (rAddress reg) \<le> uint (rrStart cur) + uint (rrCount cur)"
    by (simp add: word_le_def e)
  have o: "uint (rrStart cur) \<le> uint (rAddress reg)"
    using Cons.prems(4) by (simp add: word_le_def)
  let ?k = "if rAddress reg + rCount reg > rrStart cur + rrCount cur
    then rAddress reg + rCount reg - rrStart cur else rrCount cur"
  have "rrStart cur \<le> rAddress reg + rCount reg"
    using o uint_ge_0 [of "rCount reg"] unfolding word_le_def e by linarith
  then have "uint (rAddress reg + rCount reg - rrStart cur) = uint (rAddress reg) + uint (rCount reg) - uint (rrStart cur)"
    using uint_sub_lem [of "rrStart cur" "rAddress reg + rCount reg"] by (simp add: word_le_def e)
  then have k: "uint ?k = max (uint (rrCount cur)) (uint (rAddress reg) + uint (rCount reg) - uint (rrStart cur))"
    by (auto simp: word_less_def e)
  show ?case
  proof (cases "rAddress reg \<le> rrStart cur + rrCount cur")
    case True
    let ?ext = "cur\<lparr>rrCount := ?k, rrRegisters := rrRegisters cur @ [reg]\<rparr>"
    have "uint (rrStart ?ext) + uint (rrCount ?ext) < 65536"
      using k fit Cons.prems(1) by auto
    from Cons.IH [OF this] Cons.prems have "map range_span (merge_ranges ?ext regs) = merge_spans (range_span ?ext) (map reg_span regs)"
      by simp
    moreover have "merge_ranges cur (reg # regs) = merge_ranges ?ext regs"
      using True by (simp only: merge_ranges.simps Let_def if_True)
    moreover have "range_span ?ext = (uint (rrStart cur), max (uint (rrCount cur))
        (uint (rAddress reg) + uint (rCount reg) - uint (rrStart cur)))"
      by (simp only: range_span_update k)
    ultimately show ?thesis
      using True unfolding le by (simp add: range_span_def [of cur] reg_span_def [of reg])
  next
    case False
    let ?new = "\<lparr>rrStart = rAddress reg, rrCount = rCount reg, rrRegisters = [reg]\<rparr>"
    have "map range_span (merge_ranges ?new regs) = merge_spans (range_span ?new) (map reg_span regs)"
      using Cons.IH [of ?new] Cons.prems fit by simp
    then show ?thesis using False
      by (simp add: Let_def range_span_def [of cur] range_span_def [of ?new] reg_span_def [of reg] le)
  qed
qed

lemma map_insort_key: "map f (insort_key (\<lambda>a. k (f a)) x xs) = insort_key k (f x) (map f xs)"
  by (induction xs) auto

lemma map_sort_key: "map f (sort_key (\<lambda>a. k (f a)) xs) = sort_key k (map f xs)"
  by (induction xs) (simp_all add: map_insort_key)

lemma insort_key_uint: "insort_key (\<lambda>r. uint (rAddress r)) x xs = insort_key rAddress x xs"
  by (induction xs) (simp_all add: word_le_def)

lemma sort_key_uint: "sort_key (\<lambda>r. uint (rAddress r)) xs = sort_key rAddress xs"
  by (induction xs) (simp_all add: insort_key_uint)

lemma plan_spans:
  assumes "list_all fits regs"
  shows "map range_span (buildReadPlanForRegisters regs) = spans (map reg_span regs)"
proof -
  have sorted: "map reg_span (sort_key rAddress regs) = sort_key fst (map reg_span regs)"
    using map_sort_key [of reg_span fst regs] by (simp add: comp_def reg_span_def sort_key_uint)
  show ?thesis
  proof (cases "sort_key rAddress regs")
    case Nil
    with sorted show ?thesis by (simp add: buildReadPlanForRegisters_def spans_def flip: sorted)
  next
    case (Cons reg rest)
    have s: "sorted (map rAddress (reg # rest))" unfolding Cons [symmetric] by simp
    have f: "list_all fits (reg # rest)" unfolding Cons [symmetric] using assms by (simp add: list_all_iff)
    let ?new = "\<lparr>rrStart = rAddress reg, rrCount = rCount reg, rrRegisters = [reg]\<rparr>"
    have "map range_span (merge_ranges ?new rest) = merge_spans (range_span ?new) (map reg_span rest)"
      using s f fits_uint by (intro merge_ranges_spans) simp_all
    then show ?thesis
      unfolding buildReadPlanForRegisters_def spans_def sorted [symmetric] Cons
      by (simp add: range_span_def reg_span_def)
  qed
qed

text \<open>Every request of the slow and of the critical plans is within the 125 registers a Modbus
  read may ask for, and no register of a plan wraps around the address space.\<close>

definition rowSpan :: "row \<Rightarrow> int \<times> int" where
  "rowSpan = (\<lambda>(_, a, c, _, _). (a, c))"

definition plan_limit :: "(row \<Rightarrow> bool) \<Rightarrow> row list \<Rightarrow> bool" where
  "plan_limit p rows \<longleftrightarrow> list_all (\<lambda>(_, c). c \<le> 125) (spans (map rowSpan (filter p rows)))"

lemma byGroup_filter:
  "byGroupForInverterType g t =
     sort_key rAddress (filter (\<lambda>r. polled g (row r)) (catalogForInverterType t))"
  by (simp add: byGroupForInverterType_def polled_def row_def)

lemma byGroup_fits: "list_all fits (byGroupForInverterType g t)"
  using catalog_fits by (auto simp: byGroupForInverterType_def list_all_iff)

lemma reg_span_row: "reg_span r = rowSpan (row r)"
  by (simp add: reg_span_def rowSpan_def row_def)

lemma spans_sort: "spans (map reg_span (sort_key rAddress xs)) = spans (map reg_span xs)"
  using map_sort_key [of reg_span fst xs]
  by (simp add: reg_span_def sort_key_uint comp_def spans_def sort_key_id_if_sorted)

lemma filter_sort_address: "filter p (sort_key rAddress xs) = sort_key rAddress (filter p xs)"
  by (rule filter_sort)

lemma filter_map_rows: "filter p (map row xs) = map row (filter (\<lambda>r. p (row r)) xs)"
  by (induction xs) auto

lemma plan_limit_plan:
  assumes "plan_limit (\<lambda>x. polled g x \<and> p x) (map row (catalogForInverterType t))"
    and rr: "rr \<in> set (buildReadPlanForRegisters
          (filter (\<lambda>r. p (row r)) (byGroupForInverterType g t)))"
  shows "uint (rrCount rr) \<le> 125"
proof -
  let ?c = "catalogForInverterType t"
  let ?regs = "filter (\<lambda>r. p (row r)) (byGroupForInverterType g t)"
  have fits: "list_all fits ?regs" using byGroup_fits [of g t] by (simp add: list_all_iff)
  have "?regs = sort_key rAddress (filter (\<lambda>r. p (row r)) (filter (\<lambda>r. polled g (row r)) ?c))"
    unfolding byGroup_filter by (rule filter_sort_address)
  then have regs: "?regs = sort_key rAddress (filter (\<lambda>r. polled g (row r) \<and> p (row r)) ?c)"
    by (simp add: conj_commute)
  have rows: "map rowSpan (filter (\<lambda>x. polled g x \<and> p x) (map row ?c))
      = map reg_span (filter (\<lambda>r. polled g (row r) \<and> p (row r)) ?c)"
    by (simp add: filter_map_rows reg_span_row)
  have "map range_span (buildReadPlanForRegisters ?regs)
      = spans (map rowSpan (filter (\<lambda>x. polled g x \<and> p x) (map row ?c)))"
    unfolding plan_spans [OF fits] rows by (subst regs) (rule spans_sort)
  with assms(1) have "list_all (\<lambda>(_, c). c \<le> 125) (map range_span (buildReadPlanForRegisters ?regs))"
    by (simp add: plan_limit_def)
  with rr show ?thesis by (auto simp: list_all_iff range_span_def)
qed

lemma slow_limits:
  "plan_limit (polled GroupSlow) baseRows" "plan_limit (polled GroupSlow) (threeCatalogRows False)"
  "plan_limit (polled GroupSlow) (threeCatalogRows True)"
  by code_simp+

definition criticalSingle :: "string list" where
  "criticalSingle =
     [''battery_soc'', ''battery_voltage'', ''battery_current'', ''maximum_charge_current'',
      ''pv_voltage'', ''pv_current'', ''pv_power'', ''load_power'']"

definition criticalThree :: "string list" where
  "criticalThree =
     [''battery_soc'', ''battery_voltage'', ''battery_current'', ''maximum_charge_current'',
      ''pv1_voltage'', ''pv1_current'', ''pv1_power'', ''pv2_voltage'', ''pv2_current'', ''pv2_power'',
      ''grid_voltage_phase_a'', ''grid_voltage_phase_b'', ''grid_voltage_phase_c'',
      ''grid_current_phase_a'', ''grid_current_phase_b'', ''grid_current_phase_c'',
      ''grid_frequency'', ''load_current_phase_a'', ''load_current_phase_b'', ''load_current_phase_c'',
      ''load_power_phase_a'', ''load_power_phase_b'', ''load_power_phase_c'',
      ''grid_power_phase_a'', ''grid_power_phase_b'', ''grid_power_phase_c'']"

lemma critical_cases:
  "criticalIDs t = (if isThreePhaseInverterType t then criticalThree else criticalSingle)"
  by (simp add: criticalIDs_def criticalThree_def criticalSingle_def)

text \<open>The spans of the critical registers.\<close>

lemma critical_limits:
  "plan_limit (\<lambda>x. polled GroupFast x \<and> fst x \<in> set criticalSingle) baseRows"
  "plan_limit (\<lambda>x. polled GroupFast x \<and> fst x \<in> set criticalThree) (threeCatalogRows False)"
  "plan_limit (\<lambda>x. polled GroupFast x \<and> fst x \<in> set criticalThree) (threeCatalogRows True)"
  by code_simp+

lemma critical_three: "plan_limit (\<lambda>x. polled GroupFast x \<and> fst x \<in> set criticalThree) (threeCatalogRows b)"
  using critical_limits(2,3) by (cases b) simp_all

lemma three_phase_catalog:
  "\<not> isThreePhaseInverterType t \<and> catalogForInverterType t = baseCatalog
   \<or> isThreePhaseInverterType t \<and> (\<exists>b. catalogForInverterType t = threePhaseCatalog baseCatalog b)"
proof -
  have "isThreePhaseInverterType (normalizeInverterType t) = isThreePhaseInverterType t"
    using normalize_cases [of t] by (auto simp: isThreePhaseInverterType_def normalize_fixed)
  then show ?thesis by (auto simp: catalogForInverterType_def Let_def)
qed

section \<open>Properties of the registers and of the read plan\<close>

text \<open>A control of the \<^verbatim>\<open>hesp_sh3\<close> catalog, at which the properties are instantiated.\<close>

lemma hesp_control:
  "zeroExportPowerRegister \<in> set (catalogForInverterType inverterTypeHESPSH3)"
  "rWritable zeroExportPowerRegister" "rCount zeroExportPowerRegister = 1" "rEnum zeroExportPowerRegister = []"
  "rScale zeroExportPowerRegister = Num 1" "rPrecision zeroExportPowerRegister = 0"
  "rWriteMin zeroExportPowerRegister = Num (of_int 0)" "rWriteMax zeroExportPowerRegister = Num (of_int 500)"
  "rWriteStep zeroExportPowerRegister = Num 1" "\<not> rSynthetic zeroExportPowerRegister"
  "units_control zeroExportPowerRegister"
proof -
  have "zeroExportPowerRegister \<in> set (threePhaseCatalog baseCatalog True)"
    by (simp add: threePhaseCatalog_def gridControls_def)
  then show "zeroExportPowerRegister \<in> set (catalogForInverterType inverterTypeHESPSH3)"
    by (simp add: catalogForInverterType_def isThreePhaseInverterType_def normalize_fixed)
qed (simp_all add: zeroExportPowerRegister_def reg0_def units_control_def)

lemma hesp_control_250: "encode_write zeroExportPowerRegister (VInt64 250) = Inr 250"
  using encode_units(1) [OF hesp_control(2-5) hesp_control(7-9), of 250] by simp

lemma hesp_control_decodes: "\<exists>v. decode zeroExportPowerRegister [250] 0 = Inr v \<and> offered zeroExportPowerRegister v"
proof -
  obtain v where v: "decode zeroExportPowerRegister [250] 0 = Inr v"
    using decode_ok [OF catalog_wf [OF hesp_control(1)] hesp_control(10), of "[250]" 0] hesp_control(3) by auto
  with offered_units [OF hesp_control(3,4,11) v hesp_control(7,8)] show ?thesis by simp
qed

text \<open>C3: for every register of every catalog that is read from the device, decoding a payload with
  at least as many words as the register has succeeds (no error and no panic), and gives the
  register's identifier, its words and the raw value they hold; a shorter payload is an error.\<close>

theorem decode_total:
  assumes "r \<in> set (catalogForInverterType t)" "\<not> rSynthetic r"
  shows "if unat (rCount r) \<le> length ws
     then \<exists>v. decode r ws now = Inr v \<and> dID v = rID r \<and> dRawWords v = take (unat (rCount r)) ws
            \<and> raw_value r (take (unat (rCount r)) ws) = Inr (dRaw v) \<and> dUpdatedAt v = now
     else \<exists>fmt args. decode r ws now = Inl (Errorf fmt args)"
proof (cases "unat (rCount r) \<le> length ws")
  case True
  from decode_ok [OF catalog_wf [OF assms(1)] assms(2) True, of now] True show ?thesis
    by (auto simp: decode_def describe_register_def split: sum.splits prod.splits)
next
  case False
  then show ?thesis by (simp add: decode_def)
qed

theorem decode_total_witness:
  "(\<exists>v. decode zeroExportPowerRegister [250] 7 = Inr v \<and> dRawWords v = [250])
   \<and> (\<exists>fmt args. decode zeroExportPowerRegister [] 7 = Inl (Errorf fmt args))"
  using decode_total [OF hesp_control(1,10), of "[250]" 7] decode_total [OF hesp_control(1,10), of "[]" 7]
  by (auto simp: hesp_control(3))

text \<open>C1: writing back what was read. Whatever word a writable register of any catalog holds, if the
  decoded value is one the control offers (an enum label, or a number within the bounds that is not
  negative; C8 is about the negative ones), then
  encoding the decoded value, in tenths or in units, gives exactly that word.\<close>

theorem write_read_round_trip:
  assumes "r \<in> set (catalogForInverterType t)" "rWritable r" "decode r [w] now = Inr v" "offered r v"
  shows "encode_write r (dValue v) = Inr w"
  using assms by (intro round_trip_wf catalog_wf)

theorem write_read_round_trip_witness:
  "\<exists>v. decode zeroExportPowerRegister [250] 0 = Inr v \<and> encode_write zeroExportPowerRegister (dValue v) = Inr 250"
  using hesp_control_decodes write_read_round_trip [OF hesp_control(1,2)] by blast

text \<open>C2: conversely every accepted write encodes to a word that decodes, and to a value the control
  offers: no input puts a writable register of a catalog outside its enum table or its bounds, with
  one exception, a NaN given to a numeric control, which is accepted and written as the word 0.\<close>

theorem accepted_write_offered:
  assumes "r \<in> set (catalogForInverterType t)" "encode_write r input = Inr w"
  shows "\<exists>v. decode r [w] now = Inr v
    \<and> (offered r v \<or> rEnum r = [] \<and> numeric_input input = Inr NaN \<and> w = 0)"
proof (cases "rEnum r = [] \<and> numeric_input input = Inr NaN")
  case True
  have wf: "register_wf r" using assms(1) by (rule catalog_wf)
  have wr: "rWritable r" using assms(2) by (auto simp: encode_write_def split: if_splits)
  then have "rCount r = 1" "\<not> rSynthetic r" using wf by (auto simp: register_wf_def)
  then have "\<exists>v. decode r [w] now = Inr v" using decode_ok [OF wf, of "[w]" now] by auto
  moreover have "w = 0" using nan_encodes_zero [OF wf wr] True assms(2) by simp
  ultimately show ?thesis using True by blast
qed (use assms encode_offered catalog_wf in blast)

theorem accepted_write_offered_witness:
  "\<exists>v. decode zeroExportPowerRegister [250] 0 = Inr v \<and> offered zeroExportPowerRegister v"
  using accepted_write_offered [OF hesp_control(1) hesp_control_250] by auto

text \<open>Identifiers name one register each: looking an identifier up finds a register exactly when
  it is the register of the catalog with that identifier.\<close>

theorem find_by_id_exact:
  "findByIDForInverterType i t = Some r \<longleftrightarrow> r \<in> set (catalogForInverterType t) \<and> rID r = i"
  using distinct_ids [of t]
  by (auto simp: findByIDForInverterType_def dest: find_first_Some intro: find_first_unique)

text \<open>C4: the read plan of a polling group asks for each polled register of the group once, in order
  of address; the words of every range are exactly the words of its registers, none of which wraps
  around the address space, and between two ranges there is a word that is not read.\<close>

theorem read_plan_exact:
  "concat (map rrRegisters (buildReadPlanForInverterType g t)) = byGroupForInverterType g t
   \<and> list_all range_ok (buildReadPlanForInverterType g t)
   \<and> separated (buildReadPlanForInverterType g t)"
proof -
  have "sort_key rAddress (byGroupForInverterType g t) = byGroupForInverterType g t"
    by (simp add: byGroupForInverterType_def sort_key_id_if_sorted)
  then show ?thesis
    using plan_registers [of "byGroupForInverterType g t"] plan_ok [OF byGroup_fits]
    by (simp add: buildReadPlanForInverterType_def)
qed

text \<open>C5: every request of the slow plan and of the critical fast plan, for every inverter type, asks
  for at most the 125 registers that a Modbus read may ask for.\<close>

theorem read_plan_limit:
  "list_all (\<lambda>rr. uint (rrCount rr) \<le> 125)
     (buildReadPlanForInverterType GroupSlow t @ buildCriticalFastReadPlanForInverterType t)"
proof -
  have "plan_limit (polled GroupSlow) (map row (catalogForInverterType t))"
    by (rule catalog_rows_cases [of "plan_limit (polled GroupSlow)"]) (rule slow_limits)+
  then have slow: "plan_limit (\<lambda>x. polled GroupSlow x \<and> True) (map row (catalogForInverterType t))" by simp
  have fast: "plan_limit (\<lambda>x. polled GroupFast x \<and> fst x \<in> set (criticalIDs t)) (map row (catalogForInverterType t))"
    using three_phase_catalog [of t] critical_limits(1) critical_three
    by (auto simp: critical_cases base_rows three_catalog_rows)
  show ?thesis
    using plan_limit_plan [OF slow] plan_limit_plan [OF fast]
    by (auto simp: list_all_iff buildReadPlanForInverterType_def buildCriticalFastReadPlanForInverterType_def row_def)
qed

text \<open>C8: the device reports the signed percentage of \<^verbatim>\<open>on_grid_max_power\<close> from -100 to 100,
  and the declared bounds allow it, but no negative percentage can be written: encoding it fails.\<close>

theorem negative_percentage_rejected:
  assumes "- 100 \<le> n" "n < 0"
  shows "validate_write_bounds onGridMaxPowerRegister (f64_of_int n) = Inr ()
    \<and> encode_write onGridMaxPowerRegister (VInt64 n) = Inl (Errorf ''encoded value out of uint16 range'' [])
    \<and> (\<exists>v. decode onGridMaxPowerRegister [word_of_int n] now = Inr v \<and> dValue v = VInt64 n)"
proof -
  let ?r = onGridMaxPowerRegister
  have r: "rWritable ?r" "rCount ?r = 1" "rEnum ?r = []" "rScale ?r = Num 1" "rPrecision ?r = 0"
    "rWriteMin ?r = Num (of_int (- 100))" "rWriteMax ?r = Num (of_int 100)" "rWriteStep ?r = Num 1"
    "rType ?r = TypeInt16"
    by (simp_all add: onGridMaxPowerRegister_def reg0_def)
  have f: "f64_of_int n = Num (of_int n)" using assms by (intro f64_of_int_exact) auto
  have "validate_write_bounds ?r (f64_of_int n) = Inr ()"
    using assms by (intro bounds_units [OF r(6-8)]) (auto simp: f whole_def)
  moreover have "encode_write ?r (VInt64 n) = Inl (Errorf ''encoded value out of uint16 range'' [])"
    using assms by (intro encode_units(2) [OF r(1-4) r(6-8)]) simp_all
  moreover have "sint (word_of_int n :: u16) = n"
    using assms by (simp add: signed_of_int signed_take_bit_int_eq_self)
  moreover have "decode_number ?r n = (VInt64 n, show_int n)"
    using assms by (intro decode_units [OF r(4,5)]) simp
  ultimately show ?thesis
    by (simp add: decode_def raw_value_def decode_value_def r(2,3,9))
qed

theorem negative_percentage_rejected_witness:
  "encode_write onGridMaxPowerRegister (VInt64 (- 50)) = Inl (Errorf ''encoded value out of uint16 range'' [])"
  using negative_percentage_rejected [of "- 50" 0] by simp

text \<open>The text \<^verbatim>\<open>NaN\<close> passes the bounds and the step check of every numeric control and is
  written as the raw value 0, whatever the minimum of the control is.\<close>

theorem nan_written_as_zero:
  assumes "r \<in> set (catalogForInverterType t)" "rWritable r" "rEnum r = []"
  shows "encode_write r (VStr ''NaN'') = Inr 0"
proof (rule nan_encodes_zero [OF catalog_wf [OF assms(1)] assms(2,3)])
  have "parse_float ''NaN'' = Some NaN" by code_simp
  then show "numeric_input (VStr ''NaN'') = Inr NaN" by (simp add: numeric_input_def)
qed

theorem nan_written_as_zero_witness: "encode_write zeroExportPowerRegister (VStr ''NaN'') = Inr 0"
  by (rule nan_written_as_zero [OF hesp_control(1,2,4)])

end
