(* ===== verification/Rtu.thy ===== *)
theory Rtu
  imports Prelude
begin

unbundle bit_operations_syntax

text \<open>
  \<^verbatim>\<open>internal/modbus/rtu_tcp.go\<close>: Modbus RTU frames over a TCP connection. \<open>rtu_encode\<close>,
  \<open>rtu_verify\<close>, \<open>rtu_decode\<close> and \<open>rtu_send\<close> are the methods of
  \<^verbatim>\<open>rtuOverTCPClientHandler\<close>; \<open>calculate_crc\<close>, \<open>append_crc\<close>, \<open>frame_crc\<close>
  and \<open>rtu_response_length\<close> are the functions at the end of the file.

  The network is outside the program. A connection (\<open>net_conn\<close>) is what it will do: the outcome
  of setting the deadline and of a write, the pieces of data its reads return one after the other,
  and the error that ends them (the deadline makes sure there is one). What was written is logged.
  \<open>dial\<close> is the connection a dial gives, or its error. \<open>read_at_least\<close> is
  \<^verbatim>\<open>io.ReadAtLeast\<close>, whose error for too few bytes is kept as the error of the connection.
  The function codes are those of the Modbus application protocol, which
  \<^verbatim>\<open>goburrow/modbus\<close> names.
\<close>

section \<open>CRC\<close>

text \<open>One of the eight rounds for a byte.\<close>

definition crc_round :: "u16 \<Rightarrow> u16" where
  "crc_round crc =
     (if crc AND 1 = 0 then drop_bit 1 crc else drop_bit 1 crc XOR 0xA001)"

definition crc_byte :: "u16 \<Rightarrow> byte \<Rightarrow> u16" where
  "crc_byte crc b = (crc_round ^^ 8) (crc XOR ucast b)"

definition calculate_crc :: "byte list \<Rightarrow> u16" where
  "calculate_crc data = foldl crc_byte 0xFFFF data"

text \<open>The CRC is sent low byte first.\<close>

definition append_crc :: "byte list \<Rightarrow> byte list" where
  "append_crc body = body @ [lo_byte (calculate_crc body), hi_byte (calculate_crc body)]"

definition frame_crc :: "byte list \<Rightarrow> u16" where
  "frame_crc frame =
     ucast (frame ! (length frame - 2)) OR push_bit 8 (ucast (frame ! (length frame - 1)))"

section \<open>Frames\<close>

definition rtuMinFrameSize :: nat where "rtuMinFrameSize = 4"
definition rtuMaxFrameSize :: nat where "rtuMaxFrameSize = 256"
definition rtuExceptionFrameSize :: nat where "rtuExceptionFrameSize = 5"

record pdu =
  functionCode :: byte
  pduData :: "byte list"

definition rtu_encode :: "byte \<Rightarrow> pdu \<Rightarrow> byte list result" where
  "rtu_encode slaveID p =
     (let frameLen = length (pduData p) + 4 in
      if frameLen > rtuMaxFrameSize
      then Inl (Errorf ''modbus: RTU frame length %d exceeds %d''
                  [AInt (int frameLen), AInt (int rtuMaxFrameSize)])
      else Inr (append_crc (slaveID # functionCode p # pduData p)))"

text \<open>The messages of \<^verbatim>\<open>Verify\<close> and \<^verbatim>\<open>Decode\<close> for a short frame are the same.\<close>

definition short_frame :: "byte list \<Rightarrow> go_error" where
  "short_frame frame =
     Errorf ''modbus: response length %d is shorter than RTU minimum %d''
       [AInt (int (length frame)), AInt (int rtuMinFrameSize)]"

definition rtu_verify :: "byte list \<Rightarrow> byte list \<Rightarrow> unit result" where
  "rtu_verify request response =
     (if length response < rtuMinFrameSize then Inl (short_frame response)
      else if request = [] then Inl (GoPanic ''index out of range'')
      else if response ! 0 \<noteq> request ! 0
      then Inl (Errorf ''modbus: response slave id %d does not match request %d''
                  [AInt (uint (response ! 0)), AInt (uint (request ! 0))])
      else Inr ())"

definition rtu_decode :: "byte list \<Rightarrow> pdu result" where
  "rtu_decode frame =
     (if length frame < rtuMinFrameSize then Inl (short_frame frame)
      else let got = frame_crc frame; want = calculate_crc (take (length frame - 2) frame) in
        if got \<noteq> want
        then Inl (Errorf ''modbus: response crc %d does not match expected %d'' [AInt (uint got), AInt (uint want)])
        else Inr \<lparr>functionCode = frame ! 1, pduData = drop 2 (take (length frame - 2) frame)\<rparr>)"

text \<open>\<^verbatim>\<open>rtuResponseLength\<close>; a request too short for its function code panics.\<close>

definition rtu_response_length :: "byte list \<Rightarrow> nat result" where
  "rtu_response_length request =
     (if length request < 2 then Inl (GoPanic ''index out of range'')
      else let code = request ! 1; count = unat (be16 (request ! 4) (request ! 5)) in
        if code \<in> {2, 1} then
          (if length request < 6 then Inl (GoPanic ''index out of range'')
           else Inr (rtuMinFrameSize + 1 + count div 8 + (if count mod 8 \<noteq> 0 then 1 else 0)))
        else if code \<in> {4, 3, 23} then
          (if length request < 6 then Inl (GoPanic ''index out of range'')
           else Inr (rtuMinFrameSize + 1 + count * 2))
        else if code \<in> {5, 15, 6, 16} then Inr (rtuMinFrameSize + 4)
        else if code = 22 then Inr (rtuMinFrameSize + 6)
        else Inr rtuMinFrameSize)"

section \<open>Sending a request\<close>

record net_conn =
  ncDeadline :: "go_error option"
  ncWrite :: "go_error option"
  ncChunks :: "byte list list"
  ncEnd :: go_error
  ncSent :: "byte list list"

record rtu_handler =
  rhTimeout :: int
  rhConn :: "net_conn option"

text \<open>One \<^verbatim>\<open>Read\<close> into a buffer with room for \<open>k\<close> bytes.\<close>

fun net_read :: "nat \<Rightarrow> byte list list \<Rightarrow> (byte list \<times> byte list list) option" where
  "net_read k [] = None"
| "net_read k (c # cs) = Some (take k c, if length c \<le> k then cs else drop k c # cs)"

text \<open>\<^verbatim>\<open>io.ReadAtLeast\<close> from the pieces \<open>cs\<close>: \<open>got\<close> is what the buffer holds, of
  \<open>cap\<close> bytes; \<open>None\<close> when the connection ends before \<open>need\<close> bytes are there (or the
  buffer is too small for them, which no caller does).\<close>

function read_at_least :: "nat \<Rightarrow> nat \<Rightarrow> byte list \<Rightarrow> byte list list \<Rightarrow> (byte list option \<times> byte list list)" where
  "read_at_least cap need got cs =
     (if need \<le> length got then (Some got, cs)
      else if cap \<le> length got then (None, cs)
      else case net_read (cap - length got) cs of
        None \<Rightarrow> (None, [])
      | Some (bs, cs') \<Rightarrow> read_at_least cap need (got @ bs) cs')"
  by pat_completeness auto
termination
proof (relation "measure (\<lambda>(cap, need, got, cs). length cs + length (concat cs))", goal_cases)
  case 1
  show ?case by simp
next
  case (2 cap need got cs x bs cs')
  then show ?case by (cases cs) (auto split: if_splits)
qed

declare read_at_least.simps [simp del]

definition rtu_close :: "rtu_handler \<Rightarrow> rtu_handler" where
  "rtu_close h = h\<lparr>rhConn := None\<rparr>"

definition rtu_connect :: "net_conn result \<Rightarrow> rtu_handler \<Rightarrow> net_conn result" where
  "rtu_connect dial h = (case rhConn h of Some c \<Rightarrow> Inr c | None \<Rightarrow> dial)"

text \<open>The rest of a response whose first \<open>data\<close> bytes are there: \<^verbatim>\<open>io.ReadFull\<close> up to
  \<open>want\<close> bytes, when there are fewer; a slice past the array of 256 bytes panics.\<close>

definition read_rest :: "nat \<Rightarrow> byte list \<Rightarrow> net_conn \<Rightarrow> rtu_handler \<Rightarrow> byte list result \<times> rtu_handler" where
  "read_rest want data c h =
     (if want \<le> length data then (Inr data, h\<lparr>rhConn := Some c\<rparr>)
      else if want > rtuMaxFrameSize then (Inl (GoPanic ''slice bounds out of range''), h\<lparr>rhConn := Some c\<rparr>)
      else case read_at_least want want data (ncChunks c) of
        (None, cs) \<Rightarrow> (Inl (ncEnd c), rtu_close h)
      | (Some full, cs) \<Rightarrow> (Inr full, h\<lparr>rhConn := Some (c\<lparr>ncChunks := cs\<rparr>)\<rparr>))"

definition rtu_send :: "net_conn result \<Rightarrow> byte list \<Rightarrow> rtu_handler \<Rightarrow> byte list result \<times> rtu_handler" where
  "rtu_send dial request h =
     (case rtu_connect dial h of
        Inl e \<Rightarrow> (Inl e, h)
      | Inr c \<Rightarrow>
          if rhTimeout h > 0 \<and> ncDeadline c \<noteq> None
          then (Inl (the (ncDeadline c)), h\<lparr>rhConn := Some c\<rparr>)
          else case ncWrite c of
            Some e \<Rightarrow> (Inl e, rtu_close h)
          | None \<Rightarrow>
              let c1 = c\<lparr>ncSent := ncSent c @ [request]\<rparr> in
              case rtu_response_length request of
                Inl e \<Rightarrow> (Inl e, h\<lparr>rhConn := Some c1\<rparr>)
              | Inr responseLen \<Rightarrow>
                  (case read_at_least rtuMaxFrameSize rtuMinFrameSize [] (ncChunks c1) of
                     (None, cs) \<Rightarrow> (Inl (ncEnd c1), rtu_close h)
                   | (Some data, cs) \<Rightarrow>
                       let c2 = c1\<lparr>ncChunks := cs\<rparr>; function_code = request ! 1 in
                       if data ! 1 = function_code then read_rest responseLen data c2 h
                       else if data ! 1 = function_code OR 0x80 then read_rest rtuExceptionFrameSize data c2 h
                       else (Inl (Errorf ''modbus: unexpected response function 0x%02X for request 0x%02X''
                               [AInt (uint (data ! 1)), AInt (uint function_code)]), rtu_close h)))"

section \<open>The CRC is injective\<close>

lemma crc_round_inj: "crc_round x = crc_round y \<Longrightarrow> x = y"
proof (rule bit_word_eqI)
  fix n
  assume e: "crc_round x = crc_round y" and n: "n < LENGTH(16)"
  have bit: "bit (crc_round z) m = (if bit z 0 then bit z (m + 1) \<noteq> bit (0xA001 :: u16) m else bit z (m + 1))"
    if "m < 16" for z m
  proof -
    have "z AND 1 = 0 \<longleftrightarrow> \<not> bit z 0"
      by (simp add: and_one_eq mod_2_eq_odd bit_0)
    then show ?thesis
      using that by (auto simp: crc_round_def bit_simps)
  qed
  have top: "bit (crc_round z) 15 = bit z 0" for z
  proof -
    have "bit (0xA001 :: u16) 15" by simp
    moreover have "\<not> bit z 16" by (auto dest: bit_imp_le_length)
    ultimately show ?thesis using bit [of 15 z] by simp
  qed
  have z: "bit x 0 = bit y 0" using e top by metis
  show "bit x n = bit y n"
  proof (cases n)
    case 0
    with z show ?thesis by simp
  next
    case (Suc m)
    then have "m < 16" using n by simp
    with e bit [of m x] bit [of m y] z show ?thesis by (auto simp: Suc split: if_splits)
  qed
qed

lemma crc_rounds_inj: "(crc_round ^^ n) x = (crc_round ^^ n) y \<Longrightarrow> x = y"
  by (induction n) (auto dest: crc_round_inj)

lemma crc_byte_inj:
  "crc_byte c b = crc_byte c' b \<Longrightarrow> c = c'"
  "crc_byte c b = crc_byte c b' \<Longrightarrow> b = b'"
proof -
  show "c = c'" if "crc_byte c b = crc_byte c' b"
  proof -
    have "c XOR ucast b = c' XOR ucast b" using that by (auto simp: crc_byte_def dest: crc_rounds_inj)
    then have "(c XOR ucast b) XOR ucast b = (c' XOR ucast b) XOR ucast b" by (rule arg_cong)
    then show ?thesis by (simp add: xor.assoc)
  qed
  show "b = b'" if "crc_byte c b = crc_byte c b'"
  proof -
    have "c XOR ucast b = c XOR ucast b'" using that by (auto simp: crc_byte_def dest: crc_rounds_inj)
    then have "c XOR (c XOR ucast b) = c XOR (c XOR ucast b')" by (rule arg_cong)
    then have "(ucast b :: u16) = ucast b'" by (simp add: xor.assoc [symmetric])
    then have "lo_byte (ucast b) = lo_byte (ucast b')" by (rule arg_cong)
    moreover have "lo_byte (ucast z) = z" for z :: byte
      by (rule bit_word_eqI) (auto simp: lo_byte_def bit_simps)
    ultimately show ?thesis by simp
  qed
qed

lemma foldl_crc_inj: "foldl crc_byte c bs = foldl crc_byte c' bs \<Longrightarrow> c = c'"
  by (induction bs arbitrary: c c') (auto dest: crc_byte_inj)

text \<open>Changing one byte of a message changes its CRC.\<close>

lemma crc_one_byte:
  assumes "i < length bs" "b \<noteq> bs ! i"
  shows "calculate_crc (bs[i := b]) \<noteq> calculate_crc bs"
proof
  assume e: "calculate_crc (bs[i := b]) = calculate_crc bs"
  have u: "bs[i := b] = take i bs @ b # drop (Suc i) bs" using assms(1) by (rule upd_conv_take_nth_drop)
  have o: "bs = take i bs @ bs ! i # drop (Suc i) bs" using assms(1) by (rule id_take_nth_drop)
  let ?c = "foldl crc_byte 0xFFFF (take i bs)"
  have "foldl crc_byte (crc_byte ?c b) (drop (Suc i) bs) = foldl crc_byte (crc_byte ?c (bs ! i)) (drop (Suc i) bs)"
    using e unfolding calculate_crc_def u by (subst (asm) (2) o) simp
  then have "crc_byte ?c b = crc_byte ?c (bs ! i)" by (rule foldl_crc_inj)
  then have "b = bs ! i" by (rule crc_byte_inj(2))
  with assms(2) show False by simp
qed

lemma frame_crc_be16:
  "2 \<le> length frame \<Longrightarrow> frame_crc frame = be16 (frame ! (length frame - 1)) (frame ! (length frame - 2))"
  by (simp add: frame_crc_def be16_def or.commute)

lemma frame_crc_append: "frame_crc (append_crc body) = calculate_crc body"
  by (simp add: frame_crc_be16 append_crc_def nth_append)

section \<open>Reading a response\<close>

text \<open>Whatever the pieces, reading exactly what is there gives their concatenation.\<close>

lemma read_at_least_Nil:
  "read_at_least cap need got [] = (if need \<le> length got then (Some got, []) else (None, []))"
  by (simp add: read_at_least.simps [of cap need got "[]"])

lemma read_at_least_Cons:
  "read_at_least cap need got (c # cs) =
     (if need \<le> length got then (Some got, c # cs)
      else if cap \<le> length got then (None, c # cs)
      else read_at_least cap need (got @ take (cap - length got) c)
             (if length c \<le> cap - length got then cs else drop (cap - length got) c # cs))"
  by (simp add: read_at_least.simps [of cap need got "c # cs"])

lemma read_at_least_bounds:
  "read_at_least cap need got cs = (Some data, cs') \<Longrightarrow> length got \<le> cap \<Longrightarrow> need \<le> length data \<and> length data \<le> cap"
proof (induction cap need got cs rule: read_at_least.induct)
  case (1 cap need got cs)
  show ?case
  proof (cases cs)
    case Nil
    with 1(2,3) show ?thesis by (simp add: read_at_least_Nil split: if_splits)
  next
    case (Cons c cs0)
    show ?thesis
    proof (cases "need \<le> length got \<or> cap \<le> length got")
      case True
      with 1(2,3) show ?thesis by (auto simp: Cons read_at_least_Cons split: if_splits)
    next
      case False
      with 1(2) have "read_at_least cap need (got @ take (cap - length got) c)
          (if length c \<le> cap - length got then cs0 else drop (cap - length got) c # cs0) = (Some data, cs')"
        by (simp only: Cons read_at_least_Cons) simp
      moreover have "length (got @ take (cap - length got) c) \<le> cap" using 1(3) by simp
      ultimately show ?thesis using 1(1) False by (simp only: Cons net_read.simps) blast
    qed
  qed
qed

text \<open>When all that comes fits the buffer, the read succeeds however it is split, and loses nothing.\<close>

lemma read_at_least_prefix:
  "length (got @ concat cs) \<le> cap \<Longrightarrow> need \<le> length (got @ concat cs) \<Longrightarrow>
   \<exists>data cs'. read_at_least cap need got cs = (Some data, cs') \<and> data @ concat cs' = got @ concat cs
     \<and> need \<le> length data"
proof (induction cs arbitrary: got)
  case Nil
  then show ?case by (simp add: read_at_least_Nil)
next
  case (Cons c cs)
  show ?case
  proof (cases "need \<le> length got")
    case True
    then show ?thesis by (simp add: read_at_least_Cons)
  next
    case False
    have c: "length c \<le> cap - length got" using Cons.prems(1) by simp
    have "\<not> cap \<le> length got" using False Cons.prems by simp
    with False c have "read_at_least cap need got (c # cs) = read_at_least cap need (got @ c) cs"
      by (simp add: read_at_least_Cons)
    with Cons.IH [of "got @ c"] Cons.prems show ?thesis by simp
  qed
qed

section \<open>Properties of the transport\<close>

text \<open>C9: a protocol data unit of at most 252 bytes is framed in at most 256 bytes, passes the
  verification against its own request, and decodes to itself; a longer one is rejected.\<close>

theorem rtu_round_trip:
  "if length (pduData p) \<le> 252
   then \<exists>frame. rtu_encode slaveID p = Inr frame \<and> length frame \<le> 256
          \<and> rtu_verify frame frame = Inr () \<and> rtu_decode frame = Inr p
   else \<exists>fmt args. rtu_encode slaveID p = Inl (Errorf fmt args)"
proof (cases "length (pduData p) \<le> 252")
  case True
  let ?body = "slaveID # functionCode p # pduData p"
  have "rtu_encode slaveID p = Inr (append_crc ?body)"
    using True by (simp add: rtu_encode_def rtuMaxFrameSize_def)
  moreover have "length (append_crc ?body) = length (pduData p) + 4" by (simp add: append_crc_def)
  moreover have "take (length (append_crc ?body) - 2) (append_crc ?body) = ?body"
    by (simp add: append_crc_def)
  then have "rtu_decode (append_crc ?body) = Inr p"
    using frame_crc_append [of ?body]
    by (simp add: rtu_decode_def rtuMinFrameSize_def append_crc_def)
  ultimately show ?thesis
    using True by (auto simp: rtu_verify_def rtuMinFrameSize_def)
next
  case False
  then show ?thesis by (simp add: rtu_encode_def rtuMaxFrameSize_def)
qed

text \<open>C10: a frame that decodes and has one byte changed, in the body or in the CRC, is rejected.\<close>

theorem rtu_detects_corruption:
  assumes "rtu_decode frame = Inr p" "i < length frame" "b \<noteq> frame ! i"
  shows "\<exists>e. rtu_decode (frame[i := b]) = Inl e"
proof -
  let ?n = "length frame - 2"
  have n: "4 \<le> length frame" and ok: "frame_crc frame = calculate_crc (take ?n frame)"
    using assms(1) by (auto simp: rtu_decode_def rtuMinFrameSize_def Let_def split: if_splits)
  have "frame_crc (frame[i := b]) \<noteq> calculate_crc (take ?n (frame[i := b]))"
  proof (cases "i < ?n")
    case True
    have "calculate_crc ((take ?n frame)[i := b]) \<noteq> calculate_crc (take ?n frame)"
      using True assms(3) by (intro crc_one_byte) simp_all
    moreover have "frame_crc (frame[i := b]) = frame_crc frame"
      using n True by (simp add: frame_crc_be16)
    ultimately show ?thesis using ok by (simp add: take_update_swap)
  next
    case False
    then have "take ?n (frame[i := b]) = take ?n frame" by simp
    moreover have "i = ?n \<or> i = length frame - 1" using False assms(2) by linarith
    then have "frame_crc (frame[i := b]) \<noteq> frame_crc frame"
      using n assms(3) by (auto simp: frame_crc_be16 be16_inject)
    ultimately show ?thesis using ok by metis
  qed
  then show ?thesis using n by (simp add: rtu_decode_def rtuMinFrameSize_def Let_def)
qed

theorem rtu_detects_corruption_witness:
  "\<exists>e. rtu_decode ((append_crc [1, 3, 2, 0, 7])[4 := 8]) = Inl e"
  by (rule rtu_detects_corruption [where p = "\<lparr>functionCode = 3, pduData = [2, 0, 7]\<rparr>"])
    (use frame_crc_append [of "[1, 3, 2, 0, 7]"] in
      \<open>simp_all add: rtu_decode_def rtuMinFrameSize_def append_crc_def\<close>)

text \<open>C11: a response that arrives complete and nothing else is returned as it is, however the
  network splits it, both for the expected function code and for an exception.\<close>

theorem rtu_send_reassembles:
  assumes "rtu_connect dial h = Inr c" "ncDeadline c = None" "ncWrite c = None"
    and "rtu_response_length request = Inr n" "n \<le> rtuMaxFrameSize"
    and "frame = concat (ncChunks c)"
    and "length frame = n \<and> frame ! 1 = request ! 1 \<or>
         length frame = rtuExceptionFrameSize \<and> frame ! 1 = request ! 1 OR 0x80 \<and> frame ! 1 \<noteq> request ! 1"
  shows "\<exists>h'. rtu_send dial request h = (Inr frame, h')"
proof -
  have n: "4 \<le> n"
    using assms(4) by (auto simp: rtu_response_length_def rtuMinFrameSize_def Let_def split: if_splits)
  define want where "want = (if frame ! 1 = request ! 1 then n else rtuExceptionFrameSize)"
  have w: "length frame = want" "4 \<le> want" "want \<le> rtuMaxFrameSize"
    using assms(5,7) n by (auto simp: want_def rtuExceptionFrameSize_def rtuMaxFrameSize_def)
  have "length (concat (ncChunks c)) \<le> rtuMaxFrameSize" "rtuMinFrameSize \<le> length (concat (ncChunks c))"
    using w by (simp_all add: assms(6) [symmetric] rtuMinFrameSize_def)
  then obtain data cs where d: "read_at_least rtuMaxFrameSize rtuMinFrameSize [] (ncChunks c) = (Some data, cs)"
    "data @ concat cs = frame" "rtuMinFrameSize \<le> length data"
    using read_at_least_prefix [of "[]" "ncChunks c" rtuMaxFrameSize rtuMinFrameSize]
    by (auto simp: assms(6))
  have fc: "data ! 1 = frame ! 1"
    using d(2,3) by (auto simp: rtuMinFrameSize_def nth_append)
  let ?c = "c\<lparr>ncSent := ncSent c @ [request], ncChunks := cs\<rparr>"
  have "\<exists>h'. read_rest want data ?c h = (Inr frame, h')"
  proof (cases "want \<le> length data")
    case True
    then have "concat cs = []" using d(2) w(1) by auto
    then have "data = frame" using d(2) by (simp only: append_Nil2)
    then show ?thesis using True by (simp add: read_rest_def)
  next
    case False
    obtain full cs' where f: "read_at_least want want data cs = (Some full, cs')" "full @ concat cs' = frame" "want \<le> length full"
      using read_at_least_prefix [of data cs want want] d(2) w(1) by auto
    then have "full = frame" using w(1) by auto
    then show ?thesis using False f(1) w(3) by (simp add: read_rest_def)
  qed
  then show ?thesis
    using assms(1-4,7) d(1) fc
    by (auto simp: rtu_send_def want_def Let_def)
qed

theorem rtu_send_reassembles_witness:
  "\<exists>h'. rtu_send (Inr \<lparr>ncDeadline = None, ncWrite = None, ncChunks = [[1, 3], [2], [0, 7], [9, 9]],
       ncEnd = External ''timeout'', ncSent = []\<rparr>) [1, 3, 0, 1, 0, 1, 0, 0] \<lparr>rhTimeout = 1, rhConn = None\<rparr>
     = (Inr [1, 3, 2, 0, 7, 9, 9], h')"
  by (rule rtu_send_reassembles [where n = 7 and c = "\<lparr>ncDeadline = None, ncWrite = None,
      ncChunks = [[1, 3], [2], [0, 7], [9, 9]], ncEnd = External ''timeout'', ncSent = []\<rparr>"])
    (simp_all add: rtu_connect_def rtu_response_length_def rtuMinFrameSize_def rtuMaxFrameSize_def be16_def)

text \<open>What is read is what comes: nothing is lost or made up.\<close>

lemma read_at_least_split:
  "read_at_least cap need got cs = (Some data, cs') \<Longrightarrow>
    \<exists>more. data = got @ more \<and> more @ concat cs' = concat cs"
proof (induction cap need got cs rule: read_at_least.induct)
  case (1 cap need got cs)
  show ?case
  proof (cases cs)
    case Nil
    with 1(2) show ?thesis by (simp add: read_at_least_Nil split: if_splits)
  next
    case (Cons c cs0)
    let ?k = "cap - length got"
    show ?thesis
    proof (cases "need \<le> length got \<or> cap \<le> length got")
      case True
      with 1(2) show ?thesis by (auto simp: Cons read_at_least_Cons split: if_splits)
    next
      case False
      with 1(2) have "read_at_least cap need (got @ take ?k c)
          (if length c \<le> ?k then cs0 else drop ?k c # cs0) = (Some data, cs')"
        by (simp only: Cons read_at_least_Cons) simp
      then have "\<exists>more. data = (got @ take ?k c) @ more
          \<and> more @ concat cs' = concat (if length c \<le> ?k then cs0 else drop ?k c # cs0)"
        using 1(1) False by (simp only: Cons net_read.simps) blast
      then show ?thesis by (auto simp: Cons split: if_splits)
    qed
  qed
qed

lemma read_rest_outcome:
  assumes "read_rest want data c h = (r, h')" "want \<le> rtuMaxFrameSize" "4 \<le> length data" "length data \<le> rtuMaxFrameSize"
  shows "(\<exists>bs c'. r = Inr bs \<and> want \<le> length bs \<and> length bs \<le> rtuMaxFrameSize \<and> 4 \<le> length bs \<and> bs ! 1 = data ! 1
      \<and> bs @ concat (ncChunks c') = data @ concat (ncChunks c) \<and> rhConn h' = Some c' \<and> ncSent c' = ncSent c)
    \<or> (\<exists>e. r = Inl e \<and> rhConn h' = None)"
proof (cases "want \<le> length data")
  case True
  with assms show ?thesis by (auto simp: read_rest_def)
next
  case False
  obtain o' cs where r: "read_at_least want want data (ncChunks c) = (o', cs)" by fastforce
  show ?thesis
  proof (cases o')
    case None
    with r assms(1,2) False show ?thesis by (auto simp: read_rest_def rtu_close_def)
  next
    case (Some full)
    then obtain more where m: "full = data @ more" "more @ concat cs = concat (ncChunks c)"
      using read_at_least_split r by blast
    moreover have "want \<le> length full \<and> length full \<le> want"
      using read_at_least_bounds [of want want data "ncChunks c"] r Some False by simp
    ultimately show ?thesis using assms False r Some by (auto simp: read_rest_def nth_append)
  qed
qed

text \<open>C12: when the response length of a request fits the buffer, sending it either returns a frame of
  the requested function, at least as long as its response, or an exception frame of that function;
  the frame is what the connection delivered, in order and at most 256 bytes, the request has been sent
  once and the connection is kept. Or it fails and drops the connection (so that the next request dials
  again); only a failure to set the deadline leaves the connection in place.\<close>

theorem rtu_send_outcome:
  assumes "rtu_connect dial h = Inr c" "rtu_response_length request = Inr n" "n \<le> rtuMaxFrameSize"
    and "rtu_send dial request h = (r, h')"
  shows "(\<exists>bs c'. r = Inr bs \<and> 4 \<le> length bs \<and> length bs \<le> rtuMaxFrameSize
        \<and> (bs ! 1 = request ! 1 \<and> n \<le> length bs
            \<or> bs ! 1 = request ! 1 OR 0x80 \<and> rtuExceptionFrameSize \<le> length bs)
        \<and> bs @ concat (ncChunks c') = concat (ncChunks c)
        \<and> rhConn h' = Some c' \<and> ncSent c' = ncSent c @ [request])
    \<or> (\<exists>e. r = Inl e \<and> (rhConn h' = None \<or> ncDeadline c = Some e \<and> rhConn h' = Some c))"
proof (cases "rhTimeout h > 0 \<and> ncDeadline c \<noteq> None \<or> ncWrite c \<noteq> None")
  case True
  with assms show ?thesis by (auto simp: rtu_send_def rtu_close_def split: if_splits option.splits)
next
  case False
  obtain o' cs where rd: "read_at_least rtuMaxFrameSize rtuMinFrameSize [] (ncChunks c) = (o', cs)" by fastforce
  show ?thesis
  proof (cases o')
    case None
    with assms False rd show ?thesis by (auto simp: rtu_send_def Let_def rtu_close_def)
  next
    case (Some data)
    then have d: "4 \<le> length data" "length data \<le> rtuMaxFrameSize" "data @ concat cs = concat (ncChunks c)"
      using read_at_least_bounds [of rtuMaxFrameSize rtuMinFrameSize "[]" "ncChunks c"]
        read_at_least_split [of rtuMaxFrameSize rtuMinFrameSize "[]" "ncChunks c"] rd
      by (auto simp: rtuMinFrameSize_def)
    let ?c = "c\<lparr>ncSent := ncSent c @ [request], ncChunks := cs\<rparr>"
    have e: "rtuExceptionFrameSize \<le> rtuMaxFrameSize" by (simp add: rtuExceptionFrameSize_def rtuMaxFrameSize_def)
    consider "data ! 1 = request ! 1" "read_rest n data ?c h = (r, h')"
      | "data ! 1 = request ! 1 OR 0x80" "read_rest rtuExceptionFrameSize data ?c h = (r, h')"
      | "\<exists>e. r = Inl e \<and> rhConn h' = None"
      using assms False rd Some by (auto simp: rtu_send_def Let_def rtu_close_def split: if_splits)
    then show ?thesis
    proof cases
      case 1
      from read_rest_outcome [OF 1(2) assms(3) d(1,2)] 1(1) d(3) show ?thesis by auto
    next
      case 2
      from read_rest_outcome [OF 2(2) e d(1,2)] 2(1) d(3) show ?thesis by auto
    qed blast
  qed
qed

theorem rtu_send_outcome_witness:
  "\<exists>r h'. rtu_send (Inr \<lparr>ncDeadline = None, ncWrite = None, ncChunks = [[1, 3], [2, 0, 7, 9, 9, 1]],
       ncEnd = External ''timeout'', ncSent = []\<rparr>) [1, 3, 0, 1, 0, 1, 0, 0] \<lparr>rhTimeout = 1, rhConn = None\<rparr> = (r, h')
     \<and> ((\<exists>bs. r = Inr bs \<and> bs ! 1 \<in> {3, 0x83} \<and> 5 \<le> length bs) \<or> (\<exists>e. r = Inl e \<and> rhConn h' = None))"
proof -
  let ?c = "\<lparr>ncDeadline = None, ncWrite = None, ncChunks = [[1, 3], [2, 0, 7, 9, 9, 1]], ncEnd = External ''timeout'', ncSent = []\<rparr>"
  let ?h = "\<lparr>rhTimeout = 1, rhConn = None\<rparr>"
  obtain r h' where s: "rtu_send (Inr ?c) [1, 3, 0, 1, 0, 1, 0, 0] ?h = (r, h')" by fastforce
  have "rtu_response_length [1, 3, 0, 1, 0, 1, 0, 0] = Inr 7"
    by (simp add: rtu_response_length_def rtuMinFrameSize_def be16_def)
  from rtu_send_outcome [OF _ this _ s, of ?c] s show ?thesis
    by (auto simp: rtu_connect_def rtuMaxFrameSize_def rtuExceptionFrameSize_def)
qed

text \<open>Reading up to 125 holding registers never needs more than the 256 bytes of the buffer; from
  126 registers on, a response with the function code of the request that is not longer than the
  buffer makes the slice past its end panic.\<close>

theorem rtu_read_limit:
  assumes "rtu_encode slaveID \<lparr>functionCode = 3, pduData = [hi_byte a, lo_byte a, hi_byte k, lo_byte k]\<rparr> = Inr request"
  shows "rtu_response_length request = Inr (5 + 2 * unat k)
    \<and> (if unat k \<le> 125 then 5 + 2 * unat k \<le> rtuMaxFrameSize
       else length data \<le> rtuMaxFrameSize
         \<longrightarrow> fst (read_rest (5 + 2 * unat k) data c h) = Inl (GoPanic ''slice bounds out of range''))"
proof -
  have "request = append_crc [slaveID, 3, hi_byte a, lo_byte a, hi_byte k, lo_byte k]"
    using assms by (simp add: rtu_encode_def rtuMaxFrameSize_def)
  then have "rtu_response_length request = Inr (5 + 2 * unat k)"
    by (simp add: rtu_response_length_def append_crc_def rtuMinFrameSize_def)
  then show ?thesis by (auto simp: rtuMaxFrameSize_def read_rest_def)
qed

theorem rtu_read_limit_witness:
  "\<exists>request. rtu_encode 1 \<lparr>functionCode = 3, pduData = [hi_byte 256, lo_byte 256, hi_byte 10, lo_byte 10]\<rparr> = Inr request
     \<and> rtu_response_length request = Inr 25"
proof -
  obtain request where r: "rtu_encode 1 \<lparr>functionCode = 3, pduData = [hi_byte 256, lo_byte 256, hi_byte 10, lo_byte 10]\<rparr> = Inr request"
    by (simp add: rtu_encode_def rtuMaxFrameSize_def)
  with rtu_read_limit [OF r] show ?thesis by simp
qed

end
