(* ===== verification/Config.thy ===== *)
theory Config
  imports Catalog
begin

text \<open>
  \<^verbatim>\<open>internal/config/config.go\<close>: the configuration, its validation, the normalised inverter
  type, the connection mode of the serial settings, and loading and saving the file.

  Durations are \<^verbatim>\<open>time.Duration\<close>, nanoseconds. The file system is a map from paths to
  contents; \<open>fs_env\<close> says which operations of a call fail, and what a failed write leaves in
  the file it was writing. \<^verbatim>\<open>gopkg.in/yaml.v3\<close> is not part of the repository: its two
  directions are the parameters \<open>marshal\<close> and \<open>unmarshal\<close> (which overwrites the fields it
  finds in the default configuration; theory \<open>ConfigYaml\<close> writes out what the repository makes of
  them, sections, keys and durations). The directory operations of \<^verbatim>\<open>Save\<close> only succeed or
  fail.
\<close>

type_synonym duration = int

definition second :: duration where "second = 1000000000"
definition minute :: duration where "minute = 60 * second"
definition hour :: duration where "hour = 60 * minute"

record device_config =
  dcName :: string
  dcSlaveID :: byte
  dcInverterType :: string

record serial_config =
  scPort :: string
  scNetworkProtocol :: string
  scBaudRate :: int
  scDataBits :: int
  scParity :: string
  scStopBits :: int
  scTimeout :: duration

record polling_config =
  pcFastInterval :: duration
  pcSlowInterval :: duration
  pcReconnectDelay :: duration

record mqtt_config =
  mcBroker :: string
  mcUsername :: string
  mcPassword :: string
  mcClientID :: string
  mcTopicPrefix :: string
  mcDiscoveryPrefix :: string
  mcRetain :: bool

record storm_config =
  smTargetSOC :: int
  smMaxCurrentA :: f64
  smTimeout :: duration

record config =
  cfDevice :: device_config
  cfSerial :: serial_config
  cfPolling :: polling_config
  cfMQTT :: mqtt_config
  cfListen :: string
  cfLevel :: string
  cfStorm :: storm_config

definition default_config :: config where
  "default_config =
     \<lparr>cfDevice = \<lparr>dcName = ''srne-main'', dcSlaveID = 1, dcInverterType = ''single_phase''\<rparr>,
      cfSerial = \<lparr>scPort = ''/dev/ttyUSB0'', scNetworkProtocol = ''rtu'', scBaudRate = 9600,
        scDataBits = 8, scParity = ''N'', scStopBits = 1, scTimeout = 3 * second\<rparr>,
      cfPolling = \<lparr>pcFastInterval = 15 * second, pcSlowInterval = 60 * second,
        pcReconnectDelay = 5 * second\<rparr>,
      cfMQTT = \<lparr>mcBroker = ''tcp://127.0.0.1:1883'', mcUsername = '''', mcPassword = '''',
        mcClientID = ''srne-hive-nuc'', mcTopicPrefix = ''srne/srne-main'',
        mcDiscoveryPrefix = ''homeassistant'', mcRetain = True\<rparr>,
      cfListen = ''127.0.0.1:8080'', cfLevel = ''info'',
      cfStorm = \<lparr>smTargetSOC = 95, smMaxCurrentA = Num 50, smTimeout = 12 * hour\<rparr>\<rparr>"

section \<open>Inverter type and connection mode\<close>

definition normalized_inverter_type :: "device_config \<Rightarrow> string result" where
  "normalized_inverter_type c =
     (let t = to_lower (trim_space (dcInverterType c)) in
      if t \<in> {'''', ''single_phase'', ''single-phase'', ''single'', ''1p''} then Inr ''single_phase''
      else if t \<in> {''three_phase'', ''three-phase'', ''three'', ''3p''} then Inr ''spi_h3p''
      else if t \<in> {''spi_h3p'', ''spi-h3p'', ''spi''} then Inr ''spi_h3p''
      else if t \<in> {''hesp_sh3'', ''hesp-sh3'', ''hesp''} then Inr ''hesp_sh3''
      else Inl (Errorf ''device.inverter_type must be single_phase, spi_h3p, or hesp_sh3'' []))"

datatype connection_mode = ModeRTU | ModeRTUOverTCP | ModeModbusTCP

definition is_tcp_port :: "string \<Rightarrow> bool" where
  "is_tcp_port port =
     (let p = trim_space port in has_prefix p ''tcp://'' \<or> has_prefix p ''tcp:'')"

definition tcp_address :: "string \<Rightarrow> string \<times> bool" where
  "tcp_address port =
     (let p = trim_space port in
      if has_prefix p ''tcp://'' then
        (let address = trim_space (trim_prefix p ''tcp://'') in (address, address \<noteq> ''''))
      else if has_prefix p ''tcp:'' then
        (let address = trim_space (trim_prefix p ''tcp:'') in (address, address \<noteq> ''''))
      else ('''', False))"

definition connection_mode_of :: "serial_config \<Rightarrow> connection_mode result" where
  "connection_mode_of c =
     (let protocol = to_lower (trim_space (scNetworkProtocol c)) in
      if protocol \<in> {'''', ''rtu''} then
        (if snd (tcp_address (scPort c)) then Inr ModeRTUOverTCP
         else if is_tcp_port (scPort c)
           then Inl (Errorf ''serial.port tcp endpoint must include host:port'' [])
         else Inr ModeRTU)
      else if protocol \<in> {''rtu_over_tcp'', ''rtu-over-tcp''} then
        (if \<not> snd (tcp_address (scPort c))
           then Inl (Errorf ''serial.network_protocol rtu_over_tcp requires serial.port to start with tcp://'' [])
         else Inr ModeRTUOverTCP)
      else if protocol \<in> {''modbus_tcp'', ''modbus-tcp'', ''tcp''} then
        (if \<not> snd (tcp_address (scPort c))
           then Inl (Errorf ''serial.network_protocol modbus_tcp requires serial.port to start with tcp://'' [])
         else Inr ModeModbusTCP)
      else Inl (Errorf ''serial.network_protocol must be rtu, rtu_over_tcp, or modbus_tcp'' []))"

section \<open>Validation\<close>

definition validate_config :: "config \<Rightarrow> unit result" where
  "validate_config c =
     (if trim_space (dcName (cfDevice c)) = '''' then Inl (Errorf ''device.name is required'' [])
      else if dcSlaveID (cfDevice c) = 0 then Inl (Errorf ''device.slave_id must be greater than 0'' [])
      else case normalized_inverter_type (cfDevice c) of Inl e \<Rightarrow> Inl e | Inr _ \<Rightarrow>
      if scBaudRate (cfSerial c) \<le> 0 then Inl (Errorf ''serial.baud_rate must be greater than 0'' [])
      else if scDataBits (cfSerial c) < 5 \<or> scDataBits (cfSerial c) > 8
        then Inl (Errorf ''serial.data_bits must be between 5 and 8'' [])
      else if scStopBits (cfSerial c) < 1 \<or> scStopBits (cfSerial c) > 2
        then Inl (Errorf ''serial.stop_bits must be 1 or 2'' [])
      else case connection_mode_of (cfSerial c) of Inl e \<Rightarrow> Inl e | Inr _ \<Rightarrow>
      if to_upper (trim_space (scParity (cfSerial c))) \<notin> {''N'', ''E'', ''O''}
        then Inl (Errorf ''serial.parity must be N, E, or O'' [])
      else if scTimeout (cfSerial c) \<le> 0 then Inl (Errorf ''serial.timeout must be greater than 0'' [])
      else if pcFastInterval (cfPolling c) \<le> 0 then Inl (Errorf ''polling.fast_interval must be greater than 0'' [])
      else if pcSlowInterval (cfPolling c) \<le> 0 then Inl (Errorf ''polling.slow_interval must be greater than 0'' [])
      else if pcReconnectDelay (cfPolling c) \<le> 0 then Inl (Errorf ''polling.reconnect_delay must be greater than 0'' [])
      else if trim_space (cfListen c) = '''' then Inl (Errorf ''http.listen is required'' [])
      else if to_lower (trim_space (cfLevel c)) = '''' then Inl (Errorf ''logging.level is required'' [])
      else if smTargetSOC (cfStorm c) < 50 \<or> smTargetSOC (cfStorm c) > 100
        then Inl (Errorf ''storm_charge.target_soc must be between 50 and 100'' [])
      else if fle (smMaxCurrentA (cfStorm c)) (Num 0) \<or> flt (Num 120) (smMaxCurrentA (cfStorm c))
        then Inl (Errorf ''storm_charge.max_current_a must be greater than 0 and at most 120'' [])
      else if smTimeout (cfStorm c) < 5 * minute \<or> smTimeout (cfStorm c) > 24 * hour
        then Inl (Errorf ''storm_charge.timeout must be between 5m and 24h'' [])
      else Inr ())"

section \<open>The configuration file\<close>

type_synonym files = "string \<Rightarrow> string option"

record fs_env =
  feRead :: "go_error option"
  feMkdir :: "go_error option"
  feWrite :: "go_error option"
  fePartial :: "string option"
  feRename :: "go_error option"

datatype load_error = NotExist | LoadFailed go_error

definition load_config ::
  "(string \<Rightarrow> config \<Rightarrow> config result) \<Rightarrow> fs_env \<Rightarrow> string \<Rightarrow> files \<Rightarrow> load_error + config" where
  "load_config unmarshal env path files =
     (case feRead env of
        Some e \<Rightarrow> Inl (LoadFailed e)
      | None \<Rightarrow>
          (case files path of
             None \<Rightarrow> Inl NotExist
           | Some data \<Rightarrow>
               (case unmarshal data default_config of
                  Inl e \<Rightarrow> Inl (LoadFailed (Errorf ''parse config: %w'' [AErr e]))
                | Inr cfg \<Rightarrow>
                    (case validate_config cfg of
                       Inl e \<Rightarrow> Inl (LoadFailed e)
                     | Inr _ \<Rightarrow> Inr cfg))))"

definition save_config ::
  "(config \<Rightarrow> string result) \<Rightarrow> fs_env \<Rightarrow> string \<Rightarrow> config \<Rightarrow> files \<Rightarrow> unit result \<times> files" where
  "save_config marshal env path cfg files =
     (case validate_config cfg of
        Inl e \<Rightarrow> (Inl e, files)
      | Inr _ \<Rightarrow>
      (case feMkdir env of
        Some e \<Rightarrow> (Inl (Errorf ''create config directory: %w'' [AErr e]), files)
      | None \<Rightarrow>
      (case marshal cfg of
        Inl e \<Rightarrow> (Inl (Errorf ''marshal config: %w'' [AErr e]), files)
      | Inr data \<Rightarrow>
          let tmpPath = path @ ''.tmp'' in
          (case feWrite env of
             Some e \<Rightarrow> (Inl (Errorf ''write temp config: %w'' [AErr e]), files(tmpPath := fePartial env))
           | None \<Rightarrow>
               let files1 = files(tmpPath := Some data) in
               (case feRename env of
                  Some e \<Rightarrow> (Inl (Errorf ''replace config: %w'' [AErr e]), files1)
                | None \<Rightarrow> (Inr (), (files1(path := Some data))(tmpPath := None)))))))"

definition load_or_create ::
  "(string \<Rightarrow> config \<Rightarrow> config result) \<Rightarrow> (config \<Rightarrow> string result) \<Rightarrow> fs_env \<Rightarrow> string \<Rightarrow> files
    \<Rightarrow> (go_error + config \<times> bool) \<times> files" where
  "load_or_create unmarshal marshal env path files =
     (case load_config unmarshal env path files of
        Inr cfg \<Rightarrow> (Inr (cfg, False), files)
      | Inl (LoadFailed e) \<Rightarrow> (Inl e, files)
      | Inl NotExist \<Rightarrow>
          (case save_config marshal env path default_config files of
             (Inl e, files1) \<Rightarrow> (Inl e, files1)
           | (Inr _, files1) \<Rightarrow> (Inr (default_config, True), files1)))"

section \<open>Lemmas\<close>

lemma valid_iff:
  "validate_config c = Inr () \<longleftrightarrow>
     trim_space (dcName (cfDevice c)) \<noteq> '''' \<and> dcSlaveID (cfDevice c) \<noteq> 0
     \<and> (\<exists>t. normalized_inverter_type (cfDevice c) = Inr t)
     \<and> 0 < scBaudRate (cfSerial c) \<and> 5 \<le> scDataBits (cfSerial c) \<and> scDataBits (cfSerial c) \<le> 8
     \<and> 1 \<le> scStopBits (cfSerial c) \<and> scStopBits (cfSerial c) \<le> 2
     \<and> (\<exists>m. connection_mode_of (cfSerial c) = Inr m)
     \<and> to_upper (trim_space (scParity (cfSerial c))) \<in> {''N'', ''E'', ''O''}
     \<and> 0 < scTimeout (cfSerial c) \<and> 0 < pcFastInterval (cfPolling c) \<and> 0 < pcSlowInterval (cfPolling c)
     \<and> 0 < pcReconnectDelay (cfPolling c) \<and> trim_space (cfListen c) \<noteq> ''''
     \<and> to_lower (trim_space (cfLevel c)) \<noteq> ''''
     \<and> 50 \<le> smTargetSOC (cfStorm c) \<and> smTargetSOC (cfStorm c) \<le> 100
     \<and> \<not> fle (smMaxCurrentA (cfStorm c)) (Num 0) \<and> \<not> flt (Num 120) (smMaxCurrentA (cfStorm c))
     \<and> 5 * minute \<le> smTimeout (cfStorm c) \<and> smTimeout (cfStorm c) \<le> 24 * hour"
  unfolding validate_config_def result_Inr by (simp only: not_le not_less de_Morgan_disj not_not
      simp_thms conj_assoc ex_simps)

lemma default_valid: "validate_config default_config = Inr ()"
proof -
  have "normalized_inverter_type (cfDevice default_config) = Inr ''single_phase''"
    "connection_mode_of (cfSerial default_config) = Inr ModeRTU"
    "to_upper (trim_space (scParity (cfSerial default_config))) \<in> {''N'', ''E'', ''O''}"
    "trim_space (dcName (cfDevice default_config)) \<noteq> ''''" "trim_space (cfListen default_config) \<noteq> ''''"
    "to_lower (trim_space (cfLevel default_config)) \<noteq> ''''"
    by code_simp+
  moreover have "dcSlaveID (cfDevice default_config) \<noteq> 0" "0 < scBaudRate (cfSerial default_config)"
    "5 \<le> scDataBits (cfSerial default_config)" "scDataBits (cfSerial default_config) \<le> 8"
    "1 \<le> scStopBits (cfSerial default_config)" "scStopBits (cfSerial default_config) \<le> 2"
    "0 < scTimeout (cfSerial default_config)" "0 < pcFastInterval (cfPolling default_config)"
    "0 < pcSlowInterval (cfPolling default_config)" "0 < pcReconnectDelay (cfPolling default_config)"
    "50 \<le> smTargetSOC (cfStorm default_config)" "smTargetSOC (cfStorm default_config) \<le> 100"
    "\<not> fle (smMaxCurrentA (cfStorm default_config)) (Num 0)"
    "\<not> flt (Num 120) (smMaxCurrentA (cfStorm default_config))"
    "5 * minute \<le> smTimeout (cfStorm default_config)" "smTimeout (cfStorm default_config) \<le> 24 * hour"
    by (simp_all add: default_config_def second_def minute_def hour_def)
  ultimately show ?thesis unfolding valid_iff by blast
qed

text \<open>The two normalisations test the same names in the same order, but for the first ones.\<close>

lemma same_choice:
  assumes "Z \<inter> (A \<union> B \<union> C) = {}"
    and "(if t \<in> Z then Inr z else if t \<in> A then Inr a else if t \<in> B then Inr b
          else if t \<in> C then Inr c else Inl e) = Inr x"
  shows "(if t \<in> A then a else if t \<in> B then b else if t \<in> C then c else z) = x"
  using assms by (auto split: if_splits)

section \<open>Properties of the configuration\<close>

text \<open>The two normalisations of the inverter type agree: whenever the configuration accepts a
  type, the register catalogs read it as the same one, and the name it gives is a fixed point.\<close>

theorem inverter_types_agree:
  assumes "normalized_inverter_type d = Inr t"
  shows "normalizeInverterType (dcInverterType d) = t \<and> normalizeInverterType t = t
    \<and> catalogForInverterType (dcInverterType d) = catalogForInverterType t"
proof -
  have n: "normalizeInverterType (dcInverterType d) = t"
    unfolding normalizeInverterType_def Let_def
      inverterTypeSinglePhase_def inverterTypeSPIH3P_def inverterTypeHESPSH3_def
    by (rule same_choice [OF _ assms [unfolded normalized_inverter_type_def Let_def]]) simp
  moreover have "t \<in> {''single_phase'', ''spi_h3p'', ''hesp_sh3''}"
    unfolding n [symmetric] using normalizeInverterType_def
    by (simp add: Let_def inverterTypeSinglePhase_def inverterTypeSPIH3P_def inverterTypeHESPSH3_def)
  moreover have "normalizeInverterType ''single_phase'' = ''single_phase''"
    "normalizeInverterType ''spi_h3p'' = ''spi_h3p''" "normalizeInverterType ''hesp_sh3'' = ''hesp_sh3''"
    by code_simp+
  ultimately show ?thesis by (auto simp: catalogForInverterType_def)
qed

theorem inverter_types_agree_witness:
  "normalizeInverterType '' HESP '' = ''hesp_sh3''"
proof -
  have "normalized_inverter_type \<lparr>dcName = ''x'', dcSlaveID = 1, dcInverterType = '' HESP ''\<rparr> = Inr ''hesp_sh3''"
    by code_simp
  from inverter_types_agree [OF this] show ?thesis by simp
qed

text \<open>The connection mode decides whether the port is an address: in both TCP modes the port
  holds a non-empty address, and in serial mode it is no TCP endpoint.\<close>

theorem connection_mode_address:
  assumes "connection_mode_of c = Inr m"
  shows "if m = ModeRTU then \<not> is_tcp_port (scPort c)
     else \<exists>address. tcp_address (scPort c) = (address, True) \<and> address \<noteq> ''''"
  using assms
  by (auto simp: connection_mode_of_def tcp_address_def Let_def split: if_splits)

theorem connection_mode_address_witness:
  "\<exists>address. tcp_address '' tcp://10.0.0.5:502'' = (address, True) \<and> address \<noteq> ''''"
proof -
  have "connection_mode_of \<lparr>scPort = '' tcp://10.0.0.5:502'', scNetworkProtocol = ''TCP'', scBaudRate = 9600,
      scDataBits = 8, scParity = ''N'', scStopBits = 1, scTimeout = 1\<rparr> = Inr ModeModbusTCP"
    by code_simp
  from connection_mode_address [OF this] show ?thesis by simp
qed

text \<open>C16: saving either succeeds, and then the file holds the serialised configuration and the
  temporary file is gone, or fails, and then the file is what it was: whichever operation fails, a
  half-written configuration is never in place.\<close>

theorem save_atomic:
  assumes "save_config marshal env path cfg files = (r, files')"
  shows "(r = Inr () \<longrightarrow> validate_config cfg = Inr () \<and> (\<exists>data. marshal cfg = Inr data \<and> files' path = Some data)
            \<and> files' (path @ ''.tmp'') = None)
    \<and> (r \<noteq> Inr () \<longrightarrow> files' path = files path)
    \<and> (\<forall>p. p \<noteq> path \<and> p \<noteq> path @ ''.tmp'' \<longrightarrow> files' p = files p)"
  using assms
  by (auto simp: save_config_def Let_def split: sum.splits option.splits)

theorem save_atomic_witness:
  "snd (save_config (\<lambda>_. Inr ''device:'') \<lparr>feRead = None, feMkdir = None, feWrite = Some (External ''disk full''),
       fePartial = Some ''dev'', feRename = None\<rparr> ''c.yaml'' default_config [''c.yaml'' \<mapsto> ''old'']) ''c.yaml''
   = Some ''old''"
proof -
  let ?env = "\<lparr>feRead = None, feMkdir = None, feWrite = Some (External ''disk full''), fePartial = Some ''dev'', feRename = None\<rparr>"
  obtain r f where s: "save_config (\<lambda>_. Inr ''device:'') ?env ''c.yaml'' default_config [''c.yaml'' \<mapsto> ''old''] = (r, f)"
    by fastforce
  moreover have "r \<noteq> Inr ()" using s by (auto simp: save_config_def default_valid)
  ultimately show ?thesis using save_atomic [OF s] by simp
qed

text \<open>C18: a start on a machine without a configuration file creates a valid one and uses it; an
  existing file is never overwritten, whatever is wrong with it.\<close>

theorem load_or_create_safe:
  assumes "load_or_create unmarshal marshal env path files = (r, files')"
  shows "(files path \<noteq> None \<longrightarrow> files' = files)
    \<and> (\<forall>cfg created. r = Inr (cfg, created) \<longrightarrow> validate_config cfg = Inr () \<and> files' path \<noteq> None)"
  using assms default_valid
  by (auto simp: load_or_create_def load_config_def save_config_def Let_def
      split: sum.splits option.splits load_error.splits)

theorem load_or_create_safe_witness:
  "snd (load_or_create (\<lambda>_ _. Inl (External ''bad yaml'')) (\<lambda>_. Inr ''device:'') \<lparr>feRead = None, feMkdir = None,
      feWrite = None, fePartial = None, feRename = None\<rparr> ''c.yaml'' [''c.yaml'' \<mapsto> ''old'']) = [''c.yaml'' \<mapsto> ''old'']"
proof -
  let ?env = "\<lparr>feRead = None, feMkdir = None, feWrite = None, fePartial = None, feRename = None\<rparr>"
  obtain r f where "load_or_create (\<lambda>_ _. Inl (External ''bad yaml'')) (\<lambda>_. Inr ''device:'') ?env ''c.yaml''
      [''c.yaml'' \<mapsto> ''old''] = (r, f)"
    by fastforce
  from load_or_create_safe [OF this] this show ?thesis by simp
qed

text \<open>A storm charge current that is not a number passes the validation, although the message
  says it must be greater than 0 and at most 120.\<close>

theorem nan_current_accepted:
  assumes "validate_config c = Inr ()"
  shows "validate_config (c\<lparr>cfStorm := (cfStorm c)\<lparr>smMaxCurrentA := NaN\<rparr>\<rparr>) = Inr ()"
  using assms unfolding valid_iff by (simp add: fle_def flt_def feq_def)

theorem nan_current_accepted_witness:
  "validate_config (default_config\<lparr>cfStorm := (cfStorm default_config)\<lparr>smMaxCurrentA := NaN\<rparr>\<rparr>) = Inr ()"
  by (rule nan_current_accepted [OF default_valid])

end
