(* ===== verification/GoTime.thy ===== *)
theory GoTime
  imports GoText Config
begin

text \<open>
  What the program uses of the text forms of \<^verbatim>\<open>time\<close>: \<^verbatim>\<open>Duration.Minutes\<close>,
  \<^verbatim>\<open>Duration.String\<close>, and a UTC instant in the layout
  \<^verbatim>\<open>RFC3339\<close>. An instant counts nanoseconds since the year 1, the zero time of Go.
\<close>

text \<open>Division that truncates towards zero, as Go's.\<close>

definition quot :: "int \<Rightarrow> int \<Rightarrow> int" where
  "quot a b = (if 0 \<le> a then a div b else - (- a div b))"

definition duration_minutes :: "duration \<Rightarrow> f64" where
  "duration_minutes d =
     fadd (f64_of_int (quot d minute)) (fdiv (f64_of_int (d - quot d minute * minute)) (Num (of_int minute)))"

text \<open>\<^verbatim>\<open>Duration.String\<close>. A fraction has no trailing zeros, and no point when it is zero; below a second
  the unit is smaller.\<close>

definition strip_zeros :: "string \<Rightarrow> string" where
  "strip_zeros s = rev (dropWhile (\<lambda>c. c = CHR ''0'') (rev s))"

definition frac_text :: "nat \<Rightarrow> int \<Rightarrow> string" where
  "frac_text prec v =
     (let r = v mod 10 ^ prec in if r = 0 then [] else CHR ''.'' # strip_zeros (show_padded prec r))"

definition microUnit :: string where "microUnit = [CHR 0xC2, CHR 0xB5, CHR ''s'']"

definition duration_body :: "int \<Rightarrow> string" where
  "duration_body u =
     (if u = 0 then ''0s''
      else if u < 1000 then show_dec u @ ''ns''
      else if u < 1000000 then show_dec (u div 10 ^ 3) @ frac_text 3 u @ microUnit
      else if u < second then show_dec (u div 10 ^ 6) @ frac_text 6 u @ ''ms''
      else let s = u div 10 ^ 9; m = s div 60; h = m div 60 in
        (if 0 < h then show_dec h @ ''h'' else []) @ (if 0 < m then show_dec (m mod 60) @ ''m'' else [])
        @ show_dec (s mod 60) @ frac_text 9 u @ ''s'')"

definition duration_string :: "duration \<Rightarrow> string" where
  "duration_string d = (if d < 0 then CHR ''-'' # duration_body (- d) else duration_body d)"

text \<open>Year, month and day of a number of days since the first day of the year 1. The count starts at
  the first of March of the year 0, so that the leap day is the last of its year.\<close>

definition civil_date :: "int \<Rightarrow> int \<times> int \<times> int" where
  "civil_date days =
     (let z = days + 306; era = z div 146097; doe = z mod 146097;
          yoe = (doe - doe div 1460 + doe div 36524 - doe div 146096) div 365;
          doy = doe - (365 * yoe + yoe div 4 - yoe div 100);
          mp = (5 * doy + 2) div 153;
          m = (if mp < 10 then mp + 3 else mp - 9)
      in (yoe + era * 400 + (if m \<le> 2 then 1 else 0), m, doy - (153 * mp + 2) div 5 + 1))"

definition rfc3339 :: "gotime \<Rightarrow> string" where
  "rfc3339 t =
     (let s = t div second; days = s div 86400; r = s mod 86400 in
      case civil_date days of (y, m, d) \<Rightarrow>
        show_padded 4 y @ ''-'' @ show_padded 2 m @ ''-'' @ show_padded 2 d @ ''T''
        @ show_padded 2 (r div 3600) @ '':'' @ show_padded 2 (r div 60 mod 60) @ '':'' @ show_padded 2 (r mod 60) @ ''Z'')"

text \<open>Two known instants, and the duration of 12 hours.\<close>

lemma rfc3339_examples:
  "rfc3339 0 = ''0001-01-01T00:00:00Z''"
  "rfc3339 ((62135596800 + 1709208000) * second) = ''2024-02-29T12:00:00Z''"
  "duration_string (12 * hour) = ''12h0m0s''"
  by (code_simp, code_simp, code_simp)

end
