(* ===== verification/Durations.thy ===== *)
theory Durations
  imports GoTime
begin

text \<open>
  The type \<^verbatim>\<open>Duration\<close> of \<^verbatim>\<open>internal/config/config.go\<close> in YAML and JSON: its four hooks, over
  \<^verbatim>\<open>time.ParseDuration\<close> and \<^verbatim>\<open>Duration.String\<close>. A node of the YAML library is a scalar with its text or
  another node; a JSON string and its encoding are parameters. Every duration is read back from the text
  it is written as (\<open>duration_round_trip\<close>).
\<close>

section \<open>Parsing\<close>

definition is_numeric :: "char \<Rightarrow> bool" where
  "is_numeric c \<longleftrightarrow> c = CHR ''.'' \<or> is_digit c"

text \<open>\<^verbatim>\<open>leadingInt\<close>; \<open>None\<close> is an overflow.\<close>

fun leading_int :: "int \<Rightarrow> string \<Rightarrow> (int \<times> string) option" where
  "leading_int x [] = Some (x, [])"
| "leading_int x (c # s) =
     (case digit_val c of
        None \<Rightarrow> Some (x, c # s)
      | Some d \<Rightarrow>
          (if 2 ^ 63 div 10 < x then None
           else if 2 ^ 63 < x * 10 + d then None
           else leading_int (x * 10 + d) s))"

text \<open>\<^verbatim>\<open>leadingFraction\<close>: digits that would overflow are skipped.\<close>

fun leading_fraction :: "int \<Rightarrow> f64 \<Rightarrow> bool \<Rightarrow> string \<Rightarrow> int \<times> f64 \<times> string" where
  "leading_fraction x scale overflow [] = (x, scale, [])"
| "leading_fraction x scale overflow (c # s) =
     (case digit_val c of
        None \<Rightarrow> (x, scale, c # s)
      | Some d \<Rightarrow>
          (if overflow \<or> (2 ^ 63 - 1) div 10 < x \<or> 2 ^ 63 < x * 10 + d then leading_fraction x scale True s
           else leading_fraction (x * 10 + d) (fmul scale (Num 10)) False s))"

definition unitMap :: "(string \<times> int) list" where
  "unitMap =
     [(''ns'', 1), (''us'', 1000), (microUnit, 1000), ([CHR 0xCE, CHR 0xBC, CHR ''s''], 1000),
      (''ms'', 1000000), (''s'', second), (''m'', minute), (''h'', hour)]"

definition invalid_duration :: "string \<Rightarrow> go_error" where
  "invalid_duration orig = Errorf ''time: invalid duration %q'' [AStr orig]"

text \<open>The digits after a point: whether there are any, their value and scale, and the rest.\<close>

definition parse_fraction :: "string \<Rightarrow> bool \<times> int \<times> f64 \<times> string" where
  "parse_fraction s =
     (case s of
        [] \<Rightarrow> (False, 0, Num 1, s)
      | c # r \<Rightarrow>
          (if c = CHR ''.''
           then (case leading_fraction 0 (Num 1) False r of (f, scale, r') \<Rightarrow> (length r' \<noteq> length r, f, scale, r'))
           else (False, 0, Num 1, s)))"

text \<open>One number with its unit: its value and the rest.\<close>

definition parse_unit :: "string \<Rightarrow> string \<Rightarrow> (int \<times> string) result" where
  "parse_unit orig s =
     (if s = [] \<or> \<not> is_numeric (hd s) then Inl (invalid_duration orig)
      else case leading_int 0 s of
        None \<Rightarrow> Inl (invalid_duration orig)
      | Some (v, s1) \<Rightarrow>
        (case parse_fraction s1 of (post, f, scale, s2) \<Rightarrow>
          let u = takeWhile (\<lambda>c. \<not> is_numeric c) s2 in
          if length s1 = length s \<and> \<not> post then Inl (invalid_duration orig)
          else if u = [] then Inl (Errorf ''time: missing unit in duration %q'' [AStr orig])
          else case map_of unitMap u of
            None \<Rightarrow> Inl (Errorf ''time: unknown unit %q in duration %q'' [AStr u, AStr orig])
          | Some unit \<Rightarrow>
              (if 2 ^ 63 div unit < v then Inl (invalid_duration orig)
               else let w = v * unit + (if 0 < f then int64_of_f64 (fmul (f64_of_int f) (fdiv (f64_of_int unit) scale)) else 0) in
                 if 0 < f \<and> 2 ^ 63 < w then Inl (invalid_duration orig)
                 else Inr (w, drop (length u) s2))))"

lemma leading_int_length: "leading_int x s = Some (v, r) \<Longrightarrow> length r \<le> length s"
  by (induction x s rule: leading_int.induct) (auto split: option.splits if_splits)

lemma leading_fraction_length: "leading_fraction x sc b s = (f, sc', r) \<Longrightarrow> length r \<le> length s"
  by (induction x sc b s rule: leading_fraction.induct) (auto split: option.splits if_splits)

lemma parse_fraction_length: "parse_fraction s = (post, f, scale, r) \<Longrightarrow> length r \<le> length s"
  using leading_fraction_length
  by (auto simp: parse_fraction_def split: list.splits if_splits prod.splits) (metis le_SucI)

lemma parse_unit_shorter:
  assumes "parse_unit orig s = Inr (v, r)"
  shows "length r < length s"
proof -
  obtain v1 s1 where 1: "leading_int 0 s = Some (v1, s1)" and "s \<noteq> []"
    using assms by (auto simp: parse_unit_def split: if_splits option.splits)
  obtain post f scale s2 where t: "parse_fraction s1 = (post, f, scale, s2)" by (metis prod_cases4)
  have s2: "length s2 \<le> length s" using parse_fraction_length [OF t] leading_int_length [OF 1] by simp
  let ?u = "takeWhile (\<lambda>c. \<not> is_numeric c) s2"
  have "?u \<noteq> []" "r = drop (length ?u) s2"
    using assms 1 t by (auto simp: parse_unit_def Let_def split: if_splits option.splits)
  then have "length r = length s2 - length ?u" "0 < length ?u" "length ?u \<le> length s2"
    using length_takeWhile_le by auto
  then show ?thesis using s2 by linarith
qed

function parse_units :: "string \<Rightarrow> int \<Rightarrow> string \<Rightarrow> int result" where
  "parse_units orig acc s =
     (if s = [] then Inr acc
      else case parse_unit orig s of
        Inl e \<Rightarrow> Inl e
      | Inr (v, r) \<Rightarrow>
          (let d = (acc + v) mod 2 ^ 64 in
           if 2 ^ 63 < d then Inl (invalid_duration orig) else parse_units orig d r))"
  by pat_completeness auto
termination
  by (relation "measure (\<lambda>(orig, acc, s). length s)") (auto dest: parse_unit_shorter)

declare parse_units.simps [simp del]

definition parse_duration :: "string \<Rightarrow> duration result" where
  "parse_duration s =
     (case split_sign s of (neg, t) \<Rightarrow>
        if t = ''0'' then Inr 0
        else if t = [] then Inl (invalid_duration s)
        else case parse_units s 0 t of
          Inl e \<Rightarrow> Inl e
        | Inr d \<Rightarrow>
            (if neg then Inr (wrap64 (- d))
             else if 2 ^ 63 - 1 < d then Inl (invalid_duration s)
             else Inr d))"

section \<open>The hooks\<close>

datatype yaml_node = ScalarNode string | OtherNode

definition unmarshal_yaml_duration :: "yaml_node \<Rightarrow> duration result" where
  "unmarshal_yaml_duration node =
     (case node of
        OtherNode \<Rightarrow> Inl (Errorf ''duration must be a scalar value'' [])
      | ScalarNode v \<Rightarrow>
          (case parse_duration (trim_space v) of
             Inl e \<Rightarrow> Inl (Errorf ''invalid duration %q: %w'' [AStr v, AErr e])
           | Inr d \<Rightarrow> Inr d))"

definition marshal_yaml_duration :: "duration \<Rightarrow> string" where
  "marshal_yaml_duration d = duration_string d"

definition unmarshal_json_duration :: "(string \<Rightarrow> string result) \<Rightarrow> string \<Rightarrow> duration result" where
  "unmarshal_json_duration dec data =
     (case dec data of
        Inl e \<Rightarrow> Inl (Errorf ''duration must be a JSON string: %w'' [AErr e])
      | Inr raw \<Rightarrow>
          (case parse_duration (trim_space raw) of
             Inl e \<Rightarrow> Inl (Errorf ''invalid duration %q: %w'' [AStr raw, AErr e])
           | Inr d \<Rightarrow> Inr d))"

definition marshal_json_duration :: "(string \<Rightarrow> string result) \<Rightarrow> duration \<Rightarrow> string result" where
  "marshal_json_duration enc d = enc (duration_string d)"

section \<open>Numbers in a text\<close>

lemma digit_val_char [simp]: "0 \<le> d \<Longrightarrow> d < 10 \<Longrightarrow> digit_val (digit_char d) = Some d"
  by (simp add: digit_val_def digit_char_def Let_def)

lemma leading_int_dec: "0 \<le> n \<Longrightarrow> n \<le> 2 ^ 63 \<Longrightarrow> leading_int 0 (show_dec n @ s) = leading_int n s"
proof (induction n arbitrary: s rule: show_dec.induct)
  case (1 n)
  show ?case
  proof (cases "n < 10")
    case True
    then show ?thesis using "1.prems" by (subst show_dec.simps) simp
  next
    case False
    then have "leading_int 0 (show_dec n @ s) = leading_int (n div 10) (digit_char (n mod 10) # s)"
      using "1.IH" [OF False, of "digit_char (n mod 10) # s"] "1.prems" by (subst show_dec.simps) simp
    also have "n div 10 \<le> 2 ^ 63 div 10" using "1.prems" by (intro zdiv_mono1) simp_all
    then have "leading_int (n div 10) (digit_char (n mod 10) # s) = leading_int n s" using "1.prems" by simp
    finally show ?thesis .
  qed
qed

text \<open>What a number is followed by: nothing that continues it.\<close>

definition stops :: "string \<Rightarrow> bool" where
  "stops s \<longleftrightarrow> (case s of [] \<Rightarrow> True | c # _ \<Rightarrow> \<not> is_digit c)"

lemma leading_int_stops: "stops s \<Longrightarrow> leading_int x s = Some (x, s)"
  by (cases s) (simp_all add: stops_def is_digit_def)

lemma leading_number: "0 \<le> n \<Longrightarrow> n \<le> 2 ^ 63 \<Longrightarrow> stops s \<Longrightarrow> leading_int 0 (show_dec n @ s) = Some (n, s)"
  by (simp add: leading_int_dec leading_int_stops)

section \<open>Fractions\<close>

text \<open>The value of a list of digits, and its text.\<close>

definition digits_text :: "int list \<Rightarrow> string" where
  "digits_text ds = map digit_char ds"

definition digits_number :: "int list \<Rightarrow> int" where
  "digits_number ds = foldl (\<lambda>n d. n * 10 + d) 0 ds"

abbreviation all_digits :: "int list \<Rightarrow> bool" where
  "all_digits \<equiv> list_all (\<lambda>d. 0 \<le> d \<and> d < 10)"

lemma digits_number_snoc: "digits_number (ds @ [d]) = digits_number ds * 10 + d"
  by (simp add: digits_number_def)

lemma digits_number_zeros: "digits_number (ds @ replicate n 0) = digits_number ds * 10 ^ n"
proof (induction n)
  case (Suc n)
  have "ds @ replicate (Suc n) 0 = (ds @ replicate n 0) @ [0]" by (simp add: replicate_append_same)
  then show ?case using Suc by (simp only: digits_number_snoc) simp
qed simp

lemma digits_number_bounds: "all_digits ds \<Longrightarrow> 0 \<le> digits_number ds \<and> digits_number ds < 10 ^ length ds"
  by (induction ds rule: rev_induct) (auto simp: digits_number_snoc digits_number_def [of "[]"])

lemma show_dec_text:
  "0 \<le> n \<Longrightarrow> \<exists>ds. show_dec n = digits_text ds \<and> all_digits ds \<and> digits_number ds = n \<and> ds \<noteq> []"
proof (induction n rule: show_dec.induct)
  case (1 n)
  show ?case
  proof (cases "n < 10")
    case True
    then have "show_dec n = digits_text [n]" by (subst show_dec.simps) (simp add: digits_text_def)
    then show ?thesis using True "1.prems" by (intro exI [of _ "[n]"]) (simp add: digits_number_def)
  next
    case False
    have "0 \<le> n div 10" using "1.prems" by simp
    then obtain ds where ds: "show_dec (n div 10) = digits_text ds" "all_digits ds" "digits_number ds = n div 10"
      using "1.IH" [OF False] by blast
    then have "show_dec n = digits_text (ds @ [n mod 10])"
      using False by (subst show_dec.simps) (simp add: digits_text_def)
    then show ?thesis using ds by (intro exI [of _ "ds @ [n mod 10]"]) (simp add: digits_number_snoc)
  qed
qed

lemma digits_text_digits: "all_digits ds \<Longrightarrow> list_all is_digit (digits_text ds)"
  by (induction ds) (simp_all add: digits_text_def is_digit_def)

lemma show_dec_head: "0 \<le> n \<Longrightarrow> is_digit (hd (show_dec n @ s)) \<and> show_dec n \<noteq> []"
  using show_dec_text [of n] digits_text_digits by (auto simp: digits_text_def neq_Nil_conv is_digit_def)

lemma show_dec_nonempty: "0 \<le> n \<Longrightarrow> show_dec n \<noteq> []"
  using show_dec_head [of n "[]"] by simp

lemma show_dec_hd: "0 \<le> n \<Longrightarrow> is_digit (hd (show_dec n))"
  using show_dec_head [of n "[]"] by simp

lemma fmul_power: "j \<le> 9 \<Longrightarrow> fmul (Num (10 ^ j)) (Num 10) = Num (10 ^ Suc j)"
proof -
  assume "j \<le> 9"
  then have "(10 :: int) ^ Suc j \<le> 10 ^ 10" by (intro power_increasing) simp_all
  then have "f64_of_int (10 ^ Suc j) = Num (of_int (10 ^ Suc j))" by (intro f64_of_int_exact) simp
  then show ?thesis by (simp add: fmul_def f64_of_int_def mult.commute)
qed

lemma digits_number_Cons: "digits_number (d # ds) = d * 10 ^ length ds + digits_number ds"
proof (induction ds rule: rev_induct)
  case (snoc e ds)
  have "digits_number (d # ds @ [e]) = digits_number (d # ds) * 10 + e" using digits_number_snoc [of "d # ds" e] by simp
  then show ?case using snoc by (simp add: digits_number_snoc algebra_simps)
qed (simp add: digits_number_def)

lemma leading_fraction_digits:
  assumes "all_digits ds" "stops s" "0 \<le> x" "x < 10 ^ j" "j + length ds \<le> 9"
  shows "leading_fraction x (Num (10 ^ j)) False (digits_text ds @ s)
    = (x * 10 ^ length ds + digits_number ds, Num (10 ^ (j + length ds)), s)"
  using assms
proof (induction ds arbitrary: x j)
  case Nil
  then show ?case by (cases s) (simp_all add: stops_def digits_text_def is_digit_def digits_number_def)
next
  case (Cons d ds)
  then have d: "0 \<le> d" "d < 10" and j: "j \<le> 9" by simp_all
  have "(10 :: int) ^ j \<le> 10 ^ 9" using j by (intro power_increasing) simp_all
  then have x: "x < 1000000000" using Cons.prems(4) by simp
  have "leading_fraction x (Num (10 ^ j)) False (digits_text (d # ds) @ s)
    = leading_fraction (x * 10 + d) (Num (10 ^ Suc j)) False (digits_text ds @ s)"
    using x d by (simp add: digits_text_def fmul_power [OF j] del: power_Suc)
  also have "\<dots> = ((x * 10 + d) * 10 ^ length ds + digits_number ds, Num (10 ^ (Suc j + length ds)), s)"
    using Cons.prems d by (intro Cons.IH) (auto simp del: power_Suc simp: power_Suc [of _ j])
  finally show ?case by (simp add: digits_number_Cons algebra_simps)
qed

text \<open>The fraction of a duration is a list of at most nine digits with its scale.\<close>

lemma digit_char_0: "digit_char 0 = CHR ''0''"
  by code_simp

lemma digit_char_zero: "0 \<le> d \<Longrightarrow> d < 10 \<Longrightarrow> digit_char d = CHR ''0'' \<longleftrightarrow> d = 0"
  using digit_val_char [of d] digit_val_char [of 0] digit_char_0 by (metis option.inject zero_less_numeral order_refl)

lemma strip_zeros_digits:
  "all_digits ds \<Longrightarrow> \<exists>ds' m. ds = ds' @ replicate m 0 \<and> strip_zeros (digits_text ds) = digits_text ds'"
proof (induction ds rule: rev_induct)
  case (snoc d ds)
  then have d: "0 \<le> d" "d < 10" and "all_digits ds" by simp_all
  with snoc.IH obtain ds' m where IH: "ds = ds' @ replicate m 0" "strip_zeros (digits_text ds) = digits_text ds'" by blast
  show ?case
  proof (cases "d = 0")
    case True
    then have "strip_zeros (digits_text (ds @ [d])) = digits_text ds'" using IH(2)
      by (simp add: strip_zeros_def digits_text_def digit_char_0)
    moreover have "ds @ [d] = ds' @ replicate (Suc m) 0" using True IH(1) by (simp add: replicate_append_same)
    ultimately show ?thesis by blast
  next
    case False
    then have "strip_zeros (digits_text (ds @ [d])) = digits_text (ds @ [d])"
      using digit_char_zero [OF d] by (simp add: strip_zeros_def digits_text_def)
    then show ?thesis by (intro exI [of _ "ds @ [d]"] exI [of _ 0]) simp
  qed
qed (simp add: strip_zeros_def digits_text_def)

lemma length_show_dec: "0 \<le> n \<Longrightarrow> n < 10 ^ p \<Longrightarrow> 1 \<le> p \<Longrightarrow> length (show_dec n) \<le> p"
proof (induction n arbitrary: p rule: show_dec.induct)
  case (1 n)
  show ?case
  proof (cases "n < 10")
    case True
    then show ?thesis using "1.prems" by (subst show_dec.simps) simp
  next
    case False
    obtain q where q: "p = Suc q" using "1.prems"(3) by (cases p) auto
    have "n div 10 < 10 ^ q" using "1.prems"(2) q by simp
    moreover have "q \<noteq> 0" using False "1.prems"(2) q by (cases q) auto
    ultimately have "length (show_dec (n div 10)) \<le> q" using "1.IH" [OF False, of q] "1.prems"(1) by simp
    then show ?thesis using False q by (subst show_dec.simps) simp
  qed
qed

lemma digits_number_leading: "digits_number (replicate k 0 @ ds) = digits_number ds"
  by (induction k) (simp_all add: digits_number_Cons)

lemma frac_text_digits:
  assumes "1 \<le> p" "v mod 10 ^ p \<noteq> 0"
  shows "\<exists>ds m. frac_text p v = CHR ''.'' # digits_text ds \<and> all_digits ds \<and> length ds + m = p
    \<and> digits_number ds * 10 ^ m = v mod 10 ^ p \<and> ds \<noteq> []"
proof -
  let ?r = "v mod 10 ^ p"
  obtain ds where ds: "show_dec ?r = digits_text ds" "all_digits ds" "digits_number ds = ?r"
    using show_dec_text [of ?r] by auto
  have len: "length ds \<le> p" using length_show_dec [of ?r p] ds(1) assms(1) by (simp add: digits_text_def)
  define es where "es = replicate (p - length ds) 0 @ ds"
  have pad: "show_padded p ?r = digits_text es"
    using ds(1) by (simp add: show_padded_def es_def digits_text_def digit_char_0)
  have es: "all_digits es" "digits_number es = ?r" "length es = p"
    using ds len by (auto simp: es_def digits_number_leading list_all_iff)
  obtain ds' m where z: "es = ds' @ replicate m 0" "strip_zeros (digits_text es) = digits_text ds'"
    using strip_zeros_digits [OF es(1)] by blast
  have "frac_text p v = CHR ''.'' # digits_text ds'" using assms(2) pad z(2) by (simp add: frac_text_def Let_def)
  moreover have "all_digits ds'" "length ds' + m = p" using es(1,3) z(1) by auto
  moreover have "digits_number ds' * 10 ^ m = ?r" using es(2) z(1) digits_number_zeros by simp
  moreover have "ds' \<noteq> []" using calculation(4) assms(2) by (auto simp: digits_number_def)
  ultimately show ?thesis by blast
qed

lemma fraction_value:
  assumes "p \<le> 9" "k + m = p" "0 < f" "f * 10 ^ m < 10 ^ p"
  shows "int64_of_f64 (fmul (f64_of_int f) (fdiv (f64_of_int (10 ^ p)) (Num (10 ^ k)))) = f * 10 ^ m"
proof -
  have b: "(10 :: int) ^ n \<le> 1000000000" if "n \<le> 9" for n :: nat
    using power_increasing [OF that, of "10 :: int"] by simp
  have e: "f64_of_int n = Num (of_int n)" if "0 \<le> n" "n \<le> 1000000000" for n
    using that by (intro f64_of_int_exact) simp
  have v: "f * 10 ^ m \<le> 1000000000" using assms(4) b [OF assms(1)] by simp
  have "f * 1 \<le> f * 10 ^ m" using assms(3) by (intro mult_left_mono) simp_all
  then have "f \<le> 1000000000" using v by linarith
  then have f: "f64_of_int f = Num (of_int f)" using assms(3) by (intro e) simp_all
  have "(10 :: rat) ^ p / 10 ^ k = 10 ^ m" using assms(2) by (auto simp: power_add)
  then have "fdiv (f64_of_int (10 ^ p)) (Num (10 ^ k)) = f64_of_int (10 ^ m)"
    using b [OF assms(1)] by (simp add: e fdiv_def f64_of_int_def [of "10 ^ m"])
  also have "\<dots> = Num (10 ^ m)" using b [of m] assms(1,2) by (simp add: e)
  finally have "fmul (f64_of_int f) (fdiv (f64_of_int (10 ^ p)) (Num (10 ^ k))) = f64_of_int (f * 10 ^ m)"
    using f assms(3) by (simp add: fmul_def f64_of_int_def [of "f * 10 ^ m"] not_less)
  moreover have "f64_of_int (f * 10 ^ m) = Num (of_int (f * 10 ^ m))" using v assms(3) by (intro e) simp_all
  moreover have "0 \<le> f * 10 ^ m" using assms(3) by simp
  ultimately show ?thesis using v by (intro int64_of_f64_fin) auto
qed

section \<open>A number with its unit\<close>

definition unit_name :: "string \<Rightarrow> bool" where
  "unit_name name \<longleftrightarrow> name \<noteq> [] \<and> list_all (\<lambda>c. \<not> is_numeric c) name"

lemma take_unit:
  assumes "unit_name name" "rest = [] \<or> is_digit (hd rest)"
  shows "takeWhile (\<lambda>c. \<not> is_numeric c) (name @ rest) = name"
proof -
  have "takeWhile (\<lambda>c. \<not> is_numeric c) rest = []"
    using assms(2) by (cases rest) (auto simp: is_numeric_def)
  then show ?thesis using assms(1) by (subst takeWhile_append2) (auto simp: unit_name_def list_all_iff)
qed

lemma unit_stops: "unit_name name \<Longrightarrow> stops (name @ rest) \<and> parse_fraction (name @ rest) = (False, 0, Num 1, name @ rest)"
  by (cases name) (auto simp: unit_name_def stops_def is_numeric_def parse_fraction_def)

lemma div_bound: "0 \<le> v \<Longrightarrow> 0 < unit \<Longrightarrow> v * unit \<le> b \<Longrightarrow> v \<le> b div (unit :: int)"
  using zdiv_mono1 [of "v * unit" b unit] by simp

lemma number_bound: "0 \<le> v \<Longrightarrow> 0 < unit \<Longrightarrow> v * unit \<le> (b :: int) \<Longrightarrow> v \<le> b"
proof -
  assume "0 \<le> v" "0 < unit" "v * unit \<le> b"
  moreover from this have "v * 1 \<le> v * unit" by (intro mult_left_mono) simp_all
  ultimately show ?thesis by simp
qed

lemma numeric_head: "0 \<le> v \<Longrightarrow> is_numeric (hd (show_dec v @ s)) \<and> show_dec v @ s \<noteq> []"
  using show_dec_head [of v s] by (cases "show_dec v") (auto simp: is_numeric_def)

lemma parse_unit_whole:
  assumes "0 \<le> v" "unit_name name" "map_of unitMap name = Some unit" "0 < unit" "v * unit \<le> 2 ^ 63"
    and "rest = [] \<or> is_digit (hd rest)"
  shows "parse_unit orig (show_dec v @ name @ rest) = Inr (v * unit, rest)"
proof -
  have "leading_int 0 (show_dec v @ name @ rest) = Some (v, name @ rest)"
    using number_bound [OF assms(1,4,5)] unit_stops [OF assms(2)] by (intro leading_number assms(1)) simp_all
  moreover have "v \<le> 2 ^ 63 div unit" using div_bound [OF assms(1,4,5)] .
  ultimately show ?thesis
    using numeric_head [OF assms(1), of "name @ rest"] show_dec_head [OF assms(1), of "[]"] unit_stops [OF assms(2), of rest]
      take_unit [OF assms(2,6)] assms(2,3)
    by (simp add: parse_unit_def Let_def unit_name_def)
qed

lemma parse_unit_frac:
  assumes "0 \<le> v" "unit_name name" "map_of unitMap name = Some (10 ^ p)" "1 \<le> p" "p \<le> 9"
    and "v * 10 ^ p + u mod 10 ^ p \<le> 2 ^ 63" "rest = [] \<or> is_digit (hd rest)"
  shows "parse_unit orig (show_dec v @ frac_text p u @ name @ rest) = Inr (v * 10 ^ p + u mod 10 ^ p, rest)"
proof (cases "u mod 10 ^ p = 0")
  case True
  then show ?thesis using parse_unit_whole [OF assms(1-3)] assms(6,7) by (simp add: frac_text_def)
next
  case False
  then obtain ds m where ds: "frac_text p u = CHR ''.'' # digits_text ds" "all_digits ds" "length ds + m = p"
    "digits_number ds * 10 ^ m = u mod 10 ^ p" "ds \<noteq> []"
    using frac_text_digits [OF assms(4)] by blast
  let ?f = "digits_number ds"
  have "0 \<le> u mod 10 ^ p" by simp
  then have "0 < u mod 10 ^ p" using False by linarith
  then have f: "0 < ?f" using ds(4) by (metis zero_less_mult_pos2 zero_less_numeral zero_less_power)
  have v: "v * 10 ^ p \<le> 2 ^ 63" using assms(6) \<open>0 \<le> u mod 10 ^ p\<close> by linarith
  have "leading_int 0 (show_dec v @ CHR ''.'' # digits_text ds @ name @ rest) = Some (v, CHR ''.'' # digits_text ds @ name @ rest)"
    using number_bound [OF assms(1) _ v] by (intro leading_number assms(1)) (simp_all add: stops_def is_digit_def digit_val_def)
  moreover have "leading_fraction 0 (Num (10 ^ 0)) False (digits_text ds @ name @ rest)
      = (0 * 10 ^ length ds + ?f, Num (10 ^ (0 + length ds)), name @ rest)"
    using ds(2,3) unit_stops [OF assms(2)] assms(5) by (intro leading_fraction_digits) simp_all
  then have "parse_fraction (CHR ''.'' # digits_text ds @ name @ rest) = (True, ?f, Num (10 ^ length ds), name @ rest)"
    using ds(5) by (simp add: parse_fraction_def digits_text_def)
  moreover have "int64_of_f64 (fmul (f64_of_int ?f) (fdiv (f64_of_int (10 ^ p)) (Num (10 ^ length ds)))) = u mod 10 ^ p"
    using fraction_value [OF assms(5) ds(3) f] ds(4) by simp
  moreover have "v \<le> 2 ^ 63 div 10 ^ p" using div_bound [OF assms(1) _ v] by simp
  ultimately show ?thesis
    using numeric_head [OF assms(1), of "CHR ''.'' # digits_text ds @ name @ rest"] take_unit [OF assms(2,7)]
      assms(2,3,6) f
    by (simp add: parse_unit_def Let_def unit_name_def ds(1) not_less)
qed

section \<open>Every duration is read back\<close>

lemma units:
  "unit_name ''ns'' \<and> map_of unitMap ''ns'' = Some 1" "unit_name microUnit \<and> map_of unitMap microUnit = Some (10 ^ 3)"
  "unit_name ''ms'' \<and> map_of unitMap ''ms'' = Some (10 ^ 6)" "unit_name ''s'' \<and> map_of unitMap ''s'' = Some (10 ^ 9)"
  "unit_name ''m'' \<and> map_of unitMap ''m'' = Some (60 * 10 ^ 9)" "unit_name ''h'' \<and> map_of unitMap ''h'' = Some (3600 * 10 ^ 9)"
  by code_simp+

lemma parse_units_more:
  assumes "parse_unit orig s = Inr (v, r)" "s \<noteq> []" "0 \<le> acc + v" "acc + v \<le> 2 ^ 63"
  shows "parse_units orig acc s = parse_units orig (acc + v) r"
proof -
  have "(acc + v) mod 2 ^ 64 = acc + v" using assms(3,4) by (intro mod_pos_pos_trivial) simp_all
  then show ?thesis using assms by (subst parse_units.simps) (simp add: Let_def)
qed

lemma parse_units_last:
  assumes "parse_unit orig s = Inr (v, [])" "s \<noteq> []" "0 \<le> acc + v" "acc + v \<le> 2 ^ 63"
  shows "parse_units orig acc s = Inr (acc + v)"
  using parse_units_more [OF assms] by (simp add: parse_units.simps [of orig _ "[]"])

text \<open>The three kinds of text.\<close>

lemma parse_small:
  assumes "0 \<le> u" "u \<le> 2 ^ 63" "unit_name name \<and> map_of unitMap name = Some (10 ^ p)" "1 \<le> p" "p \<le> 9"
  shows "parse_units orig 0 (show_dec (u div 10 ^ p) @ frac_text p u @ name) = Inr u"
proof -
  have u: "u div 10 ^ p * 10 ^ p + u mod 10 ^ p = u" by (rule div_mult_mod_eq)
  have v: "0 \<le> u div 10 ^ p" using assms(1) by (simp add: pos_imp_zdiv_nonneg_iff)
  have "parse_unit orig (show_dec (u div 10 ^ p) @ frac_text p u @ name @ []) = Inr (u, [])"
    using parse_unit_frac [OF v, of name p u "[]" orig] assms(2-5) u by simp
  then show ?thesis using parse_units_last [of orig _ u 0] assms(1,2) numeric_head [OF v] by simp
qed

lemma parse_large:
  assumes "0 \<le> u" "u \<le> 2 ^ 63" "s = u div 10 ^ 9" "m = s div 60" "h = m div 60"
  shows "parse_units orig 0 ((if 0 < h then show_dec h @ ''h'' else []) @ (if 0 < m then show_dec (m mod 60) @ ''m'' else [])
    @ show_dec (s mod 60) @ frac_text 9 u @ ''s'') = Inr u"
proof -
  let ?ss = "show_dec (s mod 60) @ frac_text 9 u @ ''s''"
  let ?ms = "show_dec (m mod 60) @ ''m'' @ ?ss"
  have nn: "0 \<le> s" "0 \<le> m" "0 \<le> h" using assms by (simp_all add: pos_imp_zdiv_nonneg_iff)
  have "s * 1000000000 + u mod 1000000000 = u" using assms(3) by simp
  moreover have "m * 60 + s mod 60 = s" "h * 60 + m mod 60 = m" unfolding assms(4,5) by simp_all
  ultimately have "h * 3600000000000 + m mod 60 * 60000000000 + (s mod 60 * 1000000000 + u mod 1000000000) = u" by linarith
  then have sum: "h * (3600 * 10 ^ 9) + m mod 60 * (60 * 10 ^ 9) + (s mod 60 * 10 ^ 9 + u mod 10 ^ 9) = u" by simp
  define x where "x = h * (3600 * 10 ^ 9)"
  define y where "y = m mod 60 * (60 * 10 ^ 9)"
  define z where "z = s mod 60 * 10 ^ 9 + u mod 10 ^ 9"
  have xyz: "x + y + z = u" "0 \<le> x" "0 \<le> y" "0 \<le> z" using sum nn by (simp_all add: x_def y_def z_def)
  have S: "parse_units orig acc ?ss = Inr (acc + z)" if "acc + z \<le> 2 ^ 63" "0 \<le> acc" for acc
  proof -
    have "z \<le> 2 ^ 63" using that by linarith
    then have "parse_unit orig (show_dec (s mod 60) @ frac_text 9 u @ ''s'' @ []) = Inr (z, [])"
      unfolding z_def by (intro parse_unit_frac) (use units(4) in auto)
    then show ?thesis using that xyz(4) numeric_head [of "s mod 60"] by (intro parse_units_last) simp_all
  qed
  have ms: "?ss = [] \<or> is_digit (hd ?ss)" by (simp add: show_dec_nonempty show_dec_hd)
  have M: "parse_units orig acc ?ms = Inr (acc + y + z)" if "acc + y + z \<le> 2 ^ 63" "0 \<le> acc" for acc
  proof -
    have b: "m mod 60 * (60 * 10 ^ 9) \<le> 2 ^ 63" using that xyz unfolding y_def by linarith
    have "parse_unit orig ?ms = Inr (y, ?ss)"
      unfolding y_def by (intro parse_unit_whole b ms) (use units(5) in auto)
    then have "parse_units orig acc ?ms = parse_units orig (acc + y) ?ss"
      using that xyz numeric_head [of "m mod 60"] by (intro parse_units_more) simp_all
    then show ?thesis using S [of "acc + y"] that xyz(3) by simp
  qed
  have hs: "?ms = [] \<or> is_digit (hd ?ms)" by (simp add: show_dec_nonempty show_dec_hd)
  show ?thesis
  proof (cases "0 < h")
    case True
    then have m: "0 < m" using assms(5) by (cases "m < 60") (simp_all add: div_pos_pos_trivial)
    have b: "h * (3600 * 10 ^ 9) \<le> 2 ^ 63" using xyz assms(2) unfolding x_def by linarith
    have "parse_unit orig (show_dec h @ ''h'' @ ?ms) = Inr (x, ?ms)"
      unfolding x_def by (intro parse_unit_whole b hs nn(3)) (use units(6) in auto)
    then have "parse_units orig 0 (show_dec h @ ''h'' @ ?ms) = parse_units orig x ?ms"
      using b nn(3) numeric_head [OF nn(3)] by (subst parse_units_more) (simp_all add: x_def)
    then show ?thesis using M [of x] xyz assms(2) True m by simp
  next
    case False
    then have x: "x = 0" using nn(3) by (simp add: x_def)
    then show ?thesis
      using M [of 0] S [of 0] xyz assms(2) False nn(2) by (cases "m = 0") (auto simp: y_def)
  qed
qed

lemma parse_body:
  assumes "0 \<le> u" "u \<le> 2 ^ 63"
  shows "parse_units orig 0 (duration_body u) = Inr u"
proof -
  consider "u = 0" | "0 < u" "u < 1000" | "1000 \<le> u" "u < 1000000" | "1000000 \<le> u" "u < second" | "second \<le> u"
    using assms(1) by fastforce
  then show ?thesis
  proof cases
    case 1
    have "parse_unit orig (show_dec 0 @ ''s'' @ []) = Inr (0 * 10 ^ 9, [])"
      by (intro parse_unit_whole) (use units(4) in auto)
    moreover have "show_dec 0 = ''0''" by code_simp
    ultimately show ?thesis using 1 parse_units_last [of orig "''0s''" 0 0] by (simp add: duration_body_def)
  next
    case 2
    have "parse_unit orig (show_dec u @ ''ns'' @ []) = Inr (u * 1, [])"
      by (intro parse_unit_whole) (use 2 assms units(1) in auto)
    then show ?thesis using 2 assms parse_units_last [of orig _ u 0] numeric_head [OF assms(1)] by (simp add: duration_body_def)
  next
    case 3
    then show ?thesis using parse_small [OF assms units(2)] by (simp add: duration_body_def)
  next
    case 4
    then show ?thesis using parse_small [OF assms units(3)] by (simp add: duration_body_def)
  next
    case 5
    then have "\<not> u = 0" "\<not> u < 1000" "\<not> u < 1000000" "\<not> u < second" by (auto simp: second_def)
    then show ?thesis
      unfolding duration_body_def Let_def if_False using parse_large [OF assms refl refl refl] by simp
  qed
qed

lemma duration_body_ends:
  assumes "0 \<le> u"
  shows "is_digit (hd (duration_body u)) \<and> duration_body u \<noteq> [] \<and> last (duration_body u) = CHR ''s''"
proof -
  consider "u = 0" | "0 < u" "u < 1000" | "1000 \<le> u" "u < 1000000" | "1000000 \<le> u" "u < second" | "second \<le> u"
    using assms by fastforce
  then show ?thesis
  proof cases
    case 1
    have "is_digit (CHR ''0'')" by code_simp
    then show ?thesis using 1 by (simp add: duration_body_def)
  next
    case 2
    then show ?thesis by (simp add: duration_body_def show_dec_nonempty show_dec_hd)
  next
    case 3
    then show ?thesis
      by (simp add: duration_body_def microUnit_def show_dec_nonempty show_dec_hd pos_imp_zdiv_nonneg_iff)
  next
    case 4
    then show ?thesis by (simp add: duration_body_def show_dec_nonempty show_dec_hd pos_imp_zdiv_nonneg_iff)
  next
    case 5
    then have "\<not> u = 0" "\<not> u < 1000" "\<not> u < 1000000" "\<not> u < second" by (auto simp: second_def)
    then show ?thesis
      unfolding duration_body_def Let_def if_False
      by (simp add: show_dec_nonempty show_dec_hd pos_imp_zdiv_nonneg_iff)
  qed
qed

lemma digit_plain: "is_digit c \<Longrightarrow> plain_char c \<and> c \<noteq> CHR ''-'' \<and> c \<noteq> CHR ''+''"
  by (auto simp: is_digit_def digit_val_def plain_char_def Let_def split: if_splits)

lemma parse_duration_string:
  assumes "- (2 ^ 63) \<le> d" "d < 2 ^ 63"
  shows "parse_duration (duration_string d) = Inr d" "trim_space (duration_string d) = duration_string d"
proof -
  define u where "u = \<bar>d\<bar>"
  have u: "0 \<le> u" "u \<le> 2 ^ 63" using assms by (auto simp: u_def)
  note e = duration_body_ends [OF u(1)]
  have p: "plain_char (CHR ''-'')" "plain_char (CHR ''s'')" by code_simp+
  have t: "duration_string d = (if d < 0 then CHR ''-'' # duration_body u else duration_body u)"
    by (simp add: duration_string_def u_def)
  have "split_sign (duration_string d) = (d < 0, duration_body u)"
    using e digit_plain [of "hd (duration_body u)"] by (cases "duration_body u") (auto simp: t)
  moreover have "duration_body u \<noteq> ''0''" using e by auto
  moreover have "wrap64 d = d" using assms by (intro wrap64_id) simp_all
  ultimately show "parse_duration (duration_string d) = Inr d"
    using e parse_body [OF u, of "duration_string d"] assms by (auto simp: parse_duration_def u_def not_less)
  show "trim_space (duration_string d) = duration_string d"
    using e p digit_plain [of "hd (duration_body u)"] by (intro trim_space_id) (auto simp: t)
qed

text \<open>C40: every duration a configuration or a session can hold is read back exactly from what is written
  of it, in YAML and in JSON, down to the nanosecond, although the parser computes fractions in binary64.\<close>

theorem duration_round_trip:
  assumes "- (2 ^ 63) \<le> d" "d < 2 ^ 63" "\<forall>s data. enc s = Inr data \<longrightarrow> dec data = Inr s"
  shows "unmarshal_yaml_duration (ScalarNode (marshal_yaml_duration d)) = Inr d
    \<and> (\<forall>data. marshal_json_duration enc d = Inr data \<longrightarrow> unmarshal_json_duration dec data = Inr d)"
  using parse_duration_string [OF assms(1,2)] assms(3)
  by (simp add: unmarshal_yaml_duration_def marshal_yaml_duration_def unmarshal_json_duration_def marshal_json_duration_def)

theorem duration_round_trip_witness:
  "unmarshal_yaml_duration (ScalarNode (marshal_yaml_duration (- 90061001002003))) = Inr (- 90061001002003)
   \<and> unmarshal_json_duration Inr ''1.5h'' = Inr (90 * minute)"
proof -
  have "unmarshal_json_duration Inr ''1.5h'' = Inr (90 * minute)" by code_simp
  then show ?thesis using duration_round_trip [of "- 90061001002003" Inr Inr] by simp
qed

end
