(* ===== verification/ConfigYaml.thy ===== *)
theory ConfigYaml
  imports Config Durations
begin

text \<open>
  The configuration file of \<^verbatim>\<open>internal/config/config.go\<close> as a document: the sections and keys that the
  tags of the structs name, the durations through their hooks, and the reading of a document over the
  default configuration, as \<^verbatim>\<open>Load\<close> has it. \<^verbatim>\<open>gopkg.in/yaml.v3\<close> itself is a parameter: how it writes
  and reads a value of a basic type as a node, and a document as a text. What is relied on
  (\<open>yaml_reads_back\<close>) is that it reads back a document that it wrote, and a text, number or
  truth value from the node it made of it; that the keys, the nesting, the widths and the durations of
  the configuration come back is proved. The witness has a library of its own.
\<close>

section \<open>The library\<close>

text \<open>Sections of keys with nodes. A key or section that is left empty in a file is one without entries, a
  section that is no mapping is refused by the parser.\<close>

type_synonym 'n yaml_section = "(string \<times> 'n) list"
type_synonym 'n yaml_document = "(string \<times> 'n yaml_section) list"

text \<open>A reader gets the node and the value before, which a null node leaves. \<open>ylNode\<close> is what a hook
  sees of a node; for a null node it is not called.\<close>

record 'n yaml_lib =
  ylOfText :: "string \<Rightarrow> 'n"
  ylOfInt :: "int \<Rightarrow> 'n"
  ylOfFloat :: "f64 \<Rightarrow> 'n"
  ylOfBool :: "bool \<Rightarrow> 'n"
  ylText :: "'n \<Rightarrow> string \<Rightarrow> string result"
  ylInt :: "'n \<Rightarrow> int \<Rightarrow> int result"
  ylFloat :: "'n \<Rightarrow> f64 \<Rightarrow> f64 result"
  ylBool :: "'n \<Rightarrow> bool \<Rightarrow> bool result"
  ylNode :: "'n \<Rightarrow> yaml_node option"
  ylEmit :: "'n yaml_document \<Rightarrow> string result"
  ylParse :: "string \<Rightarrow> 'n yaml_document result"

definition in64 :: "int \<Rightarrow> bool" where
  "in64 n \<longleftrightarrow> - (2 ^ 63) \<le> n \<and> n < 2 ^ 63"

definition document_ok :: "'n yaml_document \<Rightarrow> bool" where
  "document_ok doc \<longleftrightarrow> distinct (map fst doc) \<and> list_all (\<lambda>(name, sec). distinct (map fst sec)) doc"

definition yaml_reads_back :: "'n yaml_lib \<Rightarrow> bool" where
  "yaml_reads_back lib \<longleftrightarrow>
     (\<forall>doc data. document_ok doc \<longrightarrow> ylEmit lib doc = Inr data \<longrightarrow> ylParse lib data = Inr doc)
     \<and> (\<forall>s old. ylText lib (ylOfText lib s) old = Inr s)
     \<and> (\<forall>n old. in64 n \<longrightarrow> ylInt lib (ylOfInt lib n) old = Inr n)
     \<and> (\<forall>x old. ylFloat lib (ylOfFloat lib x) old = Inr x)
     \<and> (\<forall>b old. ylBool lib (ylOfBool lib b) old = Inr b)
     \<and> (\<forall>d. ylNode lib (ylOfText lib (duration_string d)) = Some (ScalarNode (duration_string d)))"

section \<open>Writing\<close>

definition duration_node :: "'n yaml_lib \<Rightarrow> duration \<Rightarrow> 'n" where
  "duration_node lib d = ylOfText lib (marshal_yaml_duration d)"

definition config_document :: "'n yaml_lib \<Rightarrow> config \<Rightarrow> 'n yaml_document" where
  "config_document lib c =
     [(''device'',
         [(''name'', ylOfText lib (dcName (cfDevice c))), (''slave_id'', ylOfInt lib (uint (dcSlaveID (cfDevice c)))),
          (''inverter_type'', ylOfText lib (dcInverterType (cfDevice c)))]),
      (''serial'',
         [(''port'', ylOfText lib (scPort (cfSerial c))), (''network_protocol'', ylOfText lib (scNetworkProtocol (cfSerial c))),
          (''baud_rate'', ylOfInt lib (scBaudRate (cfSerial c))), (''data_bits'', ylOfInt lib (scDataBits (cfSerial c))),
          (''parity'', ylOfText lib (scParity (cfSerial c))), (''stop_bits'', ylOfInt lib (scStopBits (cfSerial c))),
          (''timeout'', duration_node lib (scTimeout (cfSerial c)))]),
      (''polling'',
         [(''fast_interval'', duration_node lib (pcFastInterval (cfPolling c))),
          (''slow_interval'', duration_node lib (pcSlowInterval (cfPolling c))),
          (''reconnect_delay'', duration_node lib (pcReconnectDelay (cfPolling c)))]),
      (''mqtt'',
         [(''broker'', ylOfText lib (mcBroker (cfMQTT c))), (''username'', ylOfText lib (mcUsername (cfMQTT c))),
          (''password'', ylOfText lib (mcPassword (cfMQTT c))), (''client_id'', ylOfText lib (mcClientID (cfMQTT c))),
          (''topic_prefix'', ylOfText lib (mcTopicPrefix (cfMQTT c))),
          (''discovery_prefix'', ylOfText lib (mcDiscoveryPrefix (cfMQTT c))), (''retain'', ylOfBool lib (mcRetain (cfMQTT c)))]),
      (''http'', [(''listen'', ylOfText lib (cfListen c))]),
      (''logging'', [(''level'', ylOfText lib (cfLevel c))]),
      (''storm_charge'',
         [(''target_soc'', ylOfInt lib (smTargetSOC (cfStorm c))), (''max_current_a'', ylOfFloat lib (smMaxCurrentA (cfStorm c))),
          (''timeout'', duration_node lib (smTimeout (cfStorm c)))])]"

definition marshal_config :: "'n yaml_lib \<Rightarrow> config \<Rightarrow> string result" where
  "marshal_config lib c = ylEmit lib (config_document lib c)"

section \<open>Reading\<close>

text \<open>A field is read from its key; a key that is missing leaves it.\<close>

definition read_field :: "('n \<Rightarrow> 'a \<Rightarrow> 'a result) \<Rightarrow> 'n yaml_section \<Rightarrow> string \<Rightarrow> 'a \<Rightarrow> 'a result" where
  "read_field reader sec key old = (case map_of sec key of None \<Rightarrow> Inr old | Some n \<Rightarrow> reader n old)"

definition section_of :: "'n yaml_document \<Rightarrow> string \<Rightarrow> 'n yaml_section" where
  "section_of doc name = (case map_of doc name of None \<Rightarrow> [] | Some sec \<Rightarrow> sec)"

text \<open>A \<^verbatim>\<open>uint8\<close> is refused outside its range.\<close>

definition read_byte :: "'n yaml_lib \<Rightarrow> 'n \<Rightarrow> byte \<Rightarrow> byte result" where
  "read_byte lib n old =
     (case ylInt lib n (uint old) of
        Inl e \<Rightarrow> Inl e
      | Inr v \<Rightarrow> if 0 \<le> v \<and> v < 256 then Inr (word_of_int v) else Inl (External ''cannot unmarshal into uint8''))"

definition read_duration :: "'n yaml_lib \<Rightarrow> 'n \<Rightarrow> duration \<Rightarrow> duration result" where
  "read_duration lib n old = (case ylNode lib n of None \<Rightarrow> Inr old | Some node \<Rightarrow> unmarshal_yaml_duration node)"

definition read_device :: "'n yaml_lib \<Rightarrow> 'n yaml_section \<Rightarrow> device_config \<Rightarrow> device_config result" where
  "read_device lib sec d =
     (case read_field (ylText lib) sec ''name'' (dcName d) of Inl e \<Rightarrow> Inl e | Inr name \<Rightarrow>
      case read_field (read_byte lib) sec ''slave_id'' (dcSlaveID d) of Inl e \<Rightarrow> Inl e | Inr slaveID \<Rightarrow>
      case read_field (ylText lib) sec ''inverter_type'' (dcInverterType d) of Inl e \<Rightarrow> Inl e | Inr inverterType \<Rightarrow>
      Inr \<lparr>dcName = name, dcSlaveID = slaveID, dcInverterType = inverterType\<rparr>)"

definition read_serial :: "'n yaml_lib \<Rightarrow> 'n yaml_section \<Rightarrow> serial_config \<Rightarrow> serial_config result" where
  "read_serial lib sec c =
     (case read_field (ylText lib) sec ''port'' (scPort c) of Inl e \<Rightarrow> Inl e | Inr port \<Rightarrow>
      case read_field (ylText lib) sec ''network_protocol'' (scNetworkProtocol c) of Inl e \<Rightarrow> Inl e | Inr protocol \<Rightarrow>
      case read_field (ylInt lib) sec ''baud_rate'' (scBaudRate c) of Inl e \<Rightarrow> Inl e | Inr baudRate \<Rightarrow>
      case read_field (ylInt lib) sec ''data_bits'' (scDataBits c) of Inl e \<Rightarrow> Inl e | Inr dataBits \<Rightarrow>
      case read_field (ylText lib) sec ''parity'' (scParity c) of Inl e \<Rightarrow> Inl e | Inr parity \<Rightarrow>
      case read_field (ylInt lib) sec ''stop_bits'' (scStopBits c) of Inl e \<Rightarrow> Inl e | Inr stopBits \<Rightarrow>
      case read_field (read_duration lib) sec ''timeout'' (scTimeout c) of Inl e \<Rightarrow> Inl e | Inr timeout \<Rightarrow>
      Inr \<lparr>scPort = port, scNetworkProtocol = protocol, scBaudRate = baudRate, scDataBits = dataBits,
        scParity = parity, scStopBits = stopBits, scTimeout = timeout\<rparr>)"

definition read_polling :: "'n yaml_lib \<Rightarrow> 'n yaml_section \<Rightarrow> polling_config \<Rightarrow> polling_config result" where
  "read_polling lib sec c =
     (case read_field (read_duration lib) sec ''fast_interval'' (pcFastInterval c) of Inl e \<Rightarrow> Inl e | Inr fast \<Rightarrow>
      case read_field (read_duration lib) sec ''slow_interval'' (pcSlowInterval c) of Inl e \<Rightarrow> Inl e | Inr slow \<Rightarrow>
      case read_field (read_duration lib) sec ''reconnect_delay'' (pcReconnectDelay c) of Inl e \<Rightarrow> Inl e | Inr delay \<Rightarrow>
      Inr \<lparr>pcFastInterval = fast, pcSlowInterval = slow, pcReconnectDelay = delay\<rparr>)"

definition read_mqtt :: "'n yaml_lib \<Rightarrow> 'n yaml_section \<Rightarrow> mqtt_config \<Rightarrow> mqtt_config result" where
  "read_mqtt lib sec c =
     (case read_field (ylText lib) sec ''broker'' (mcBroker c) of Inl e \<Rightarrow> Inl e | Inr broker \<Rightarrow>
      case read_field (ylText lib) sec ''username'' (mcUsername c) of Inl e \<Rightarrow> Inl e | Inr username \<Rightarrow>
      case read_field (ylText lib) sec ''password'' (mcPassword c) of Inl e \<Rightarrow> Inl e | Inr password \<Rightarrow>
      case read_field (ylText lib) sec ''client_id'' (mcClientID c) of Inl e \<Rightarrow> Inl e | Inr clientID \<Rightarrow>
      case read_field (ylText lib) sec ''topic_prefix'' (mcTopicPrefix c) of Inl e \<Rightarrow> Inl e | Inr topicPrefix \<Rightarrow>
      case read_field (ylText lib) sec ''discovery_prefix'' (mcDiscoveryPrefix c) of Inl e \<Rightarrow> Inl e | Inr discoveryPrefix \<Rightarrow>
      case read_field (ylBool lib) sec ''retain'' (mcRetain c) of Inl e \<Rightarrow> Inl e | Inr retain \<Rightarrow>
      Inr \<lparr>mcBroker = broker, mcUsername = username, mcPassword = password, mcClientID = clientID,
        mcTopicPrefix = topicPrefix, mcDiscoveryPrefix = discoveryPrefix, mcRetain = retain\<rparr>)"

definition read_storm :: "'n yaml_lib \<Rightarrow> 'n yaml_section \<Rightarrow> storm_config \<Rightarrow> storm_config result" where
  "read_storm lib sec c =
     (case read_field (ylInt lib) sec ''target_soc'' (smTargetSOC c) of Inl e \<Rightarrow> Inl e | Inr targetSOC \<Rightarrow>
      case read_field (ylFloat lib) sec ''max_current_a'' (smMaxCurrentA c) of Inl e \<Rightarrow> Inl e | Inr maxCurrent \<Rightarrow>
      case read_field (read_duration lib) sec ''timeout'' (smTimeout c) of Inl e \<Rightarrow> Inl e | Inr timeout \<Rightarrow>
      Inr \<lparr>smTargetSOC = targetSOC, smMaxCurrentA = maxCurrent, smTimeout = timeout\<rparr>)"

definition read_config :: "'n yaml_lib \<Rightarrow> 'n yaml_document \<Rightarrow> config \<Rightarrow> config result" where
  "read_config lib doc c =
     (case read_device lib (section_of doc ''device'') (cfDevice c) of Inl e \<Rightarrow> Inl e | Inr device \<Rightarrow>
      case read_serial lib (section_of doc ''serial'') (cfSerial c) of Inl e \<Rightarrow> Inl e | Inr serial \<Rightarrow>
      case read_polling lib (section_of doc ''polling'') (cfPolling c) of Inl e \<Rightarrow> Inl e | Inr polling \<Rightarrow>
      case read_mqtt lib (section_of doc ''mqtt'') (cfMQTT c) of Inl e \<Rightarrow> Inl e | Inr mqtt \<Rightarrow>
      case read_field (ylText lib) (section_of doc ''http'') ''listen'' (cfListen c) of Inl e \<Rightarrow> Inl e | Inr listen \<Rightarrow>
      case read_field (ylText lib) (section_of doc ''logging'') ''level'' (cfLevel c) of Inl e \<Rightarrow> Inl e | Inr level \<Rightarrow>
      case read_storm lib (section_of doc ''storm_charge'') (cfStorm c) of Inl e \<Rightarrow> Inl e | Inr storm \<Rightarrow>
      Inr \<lparr>cfDevice = device, cfSerial = serial, cfPolling = polling, cfMQTT = mqtt, cfListen = listen,
        cfLevel = level, cfStorm = storm\<rparr>)"

definition unmarshal_config :: "'n yaml_lib \<Rightarrow> string \<Rightarrow> config \<Rightarrow> config result" where
  "unmarshal_config lib data old = (case ylParse lib data of Inl e \<Rightarrow> Inl e | Inr doc \<Rightarrow> read_config lib doc old)"

section \<open>What was written is read\<close>

text \<open>The integers of a configuration are those of Go.\<close>

definition machine_ints :: "config \<Rightarrow> bool" where
  "machine_ints c \<longleftrightarrow>
     list_all in64 [scBaudRate (cfSerial c), scDataBits (cfSerial c), scStopBits (cfSerial c), smTargetSOC (cfStorm c),
       scTimeout (cfSerial c), pcFastInterval (cfPolling c), pcSlowInterval (cfPolling c),
       pcReconnectDelay (cfPolling c), smTimeout (cfStorm c)]"

lemma read_field_simps [simp]:
  "read_field reader [] key old = Inr old"
  "read_field reader ((k, n) # sec) key old = (if k = key then reader n old else read_field reader sec key old)"
  by (simp_all add: read_field_def)

lemma section_of_simps [simp]:
  "section_of [] name = []"
  "section_of ((k, sec) # doc) name = (if k = name then sec else section_of doc name)"
  by (simp_all add: section_of_def)

text \<open>A file may leave out what it does not change.\<close>

lemma read_empty: "read_config lib [] c = Inr c"
  by (simp add: read_config_def read_device_def read_serial_def read_polling_def read_mqtt_def read_storm_def)

lemma read_back:
  assumes "yaml_reads_back lib"
  shows "ylText lib (ylOfText lib s) told = Inr s" "in64 n \<Longrightarrow> ylInt lib (ylOfInt lib n) iold = Inr n"
    "ylFloat lib (ylOfFloat lib x) xold = Inr x" "ylBool lib (ylOfBool lib b) bold = Inr b"
    "read_byte lib (ylOfInt lib (uint w)) wold = Inr w" "in64 d \<Longrightarrow> read_duration lib (duration_node lib d) dold = Inr d"
proof -
  have "0 \<le> uint w" "uint w < 256" using uint_lt2p [of w] by simp_all
  moreover from this have "in64 (uint w)" unfolding in64_def by (intro conjI order_trans [OF _ \<open>0 \<le> uint w\<close>]) simp_all
  ultimately show "read_byte lib (ylOfInt lib (uint w)) wold = Inr w"
    using assms by (simp add: yaml_reads_back_def read_byte_def)
  show "in64 d \<Longrightarrow> read_duration lib (duration_node lib d) dold = Inr d"
    using assms parse_duration_string [of d]
    by (simp add: yaml_reads_back_def read_duration_def duration_node_def marshal_yaml_duration_def
        unmarshal_yaml_duration_def in64_def)
qed (use assms in \<open>simp_all add: yaml_reads_back_def\<close>)

lemma read_document:
  assumes "yaml_reads_back lib" "machine_ints c"
  shows "read_config lib (config_document lib c) old = Inr c"
  using assms(2)
  by (simp add: read_config_def read_device_def read_serial_def read_polling_def read_mqtt_def read_storm_def
      config_document_def machine_ints_def read_back [OF assms(1)])

lemma config_document_ok: "document_ok (config_document lib c)"
  by (simp add: document_ok_def config_document_def)

text \<open>C17: a configuration that was saved is loaded again as it was, every field of it, when the library reads
  back the documents and the single values that it wrote.\<close>

theorem save_load_round_trip:
  assumes "yaml_reads_back lib" "machine_ints cfg"
    and "save_config (marshal_config lib) env path cfg files = (Inr (), files')" "feRead env' = None"
  shows "load_config (unmarshal_config lib) env' path files' = Inr cfg"
proof -
  have "unmarshal_config lib data default_config = Inr cfg" if "marshal_config lib cfg = Inr data" for data
  proof -
    have "ylParse lib data = Inr (config_document lib cfg)"
      using that assms(1) config_document_ok [of lib cfg] unfolding marshal_config_def yaml_reads_back_def by blast
    then show ?thesis by (simp add: unmarshal_config_def read_document [OF assms(1,2)])
  qed
  then show ?thesis
    using assms(3,4) by (auto simp: save_config_def load_config_def Let_def split: sum.splits option.splits)
qed

section \<open>A library\<close>

text \<open>Nodes with the kind of their value, and texts that begin with their length: a count is a row of
  ones that a zero ends.\<close>

datatype scalar = SText string | SInt int | SFloat f64 | SBool bool

text \<open>A reader takes what a writer wrote off the front.\<close>

definition codes :: "('a \<Rightarrow> string) \<Rightarrow> (string \<Rightarrow> 'a \<times> string) \<Rightarrow> bool" where
  "codes put get \<longleftrightarrow> (\<forall>x t. get (put x @ t) = (x, t))"

lemma codesD: "codes put get \<Longrightarrow> get (put x @ t) = (x, t)"
  by (simp add: codes_def)

definition put_nat :: "nat \<Rightarrow> string" where
  "put_nat n = replicate n (CHR ''1'') @ ''0''"

definition get_nat :: "string \<Rightarrow> nat \<times> string" where
  "get_nat s = (length (takeWhile (\<lambda>c. c = CHR ''1'') s), tl (dropWhile (\<lambda>c. c = CHR ''1'') s))"

definition put_text :: "string \<Rightarrow> string" where
  "put_text s = put_nat (length s) @ s"

definition get_text :: "string \<Rightarrow> string \<times> string" where
  "get_text s = (case get_nat s of (n, t) \<Rightarrow> (take n t, drop n t))"

definition put_int :: "int \<Rightarrow> string" where
  "put_int n = (if n < 0 then CHR ''-'' else CHR ''+'') # put_nat (nat \<bar>n\<bar>)"

definition get_int :: "string \<Rightarrow> int \<times> string" where
  "get_int s = (case get_nat (tl s) of (n, t) \<Rightarrow> (if hd s = CHR ''-'' then - int n else int n, t))"

fun put_float :: "f64 \<Rightarrow> string" where
  "put_float (Num q) = (case quotient_of q of (n, d) \<Rightarrow> CHR ''q'' # put_int n @ put_int d)"
| "put_float NegZero = ''z''"
| "put_float PosInf = ''p''"
| "put_float NegInf = ''n''"
| "put_float NaN = ''x''"

definition get_float :: "string \<Rightarrow> f64 \<times> string" where
  "get_float s =
     (if hd s = CHR ''q'' then
        (case get_int (tl s) of (n, t) \<Rightarrow> (case get_int t of (d, u) \<Rightarrow> (Num (of_int n / of_int d), u)))
      else (if hd s = CHR ''z'' then NegZero else if hd s = CHR ''p'' then PosInf
            else if hd s = CHR ''n'' then NegInf else NaN, tl s))"

fun put_scalar :: "scalar \<Rightarrow> string" where
  "put_scalar (SText s) = CHR ''s'' # put_text s"
| "put_scalar (SInt n) = CHR ''i'' # put_int n"
| "put_scalar (SFloat x) = CHR ''f'' # put_float x"
| "put_scalar (SBool b) = (if b then ''y'' else ''n'')"

definition get_scalar :: "string \<Rightarrow> scalar \<times> string" where
  "get_scalar s =
     (if hd s = CHR ''s'' then apfst SText (get_text (tl s))
      else if hd s = CHR ''i'' then apfst SInt (get_int (tl s))
      else if hd s = CHR ''f'' then apfst SFloat (get_float (tl s))
      else (SBool (hd s = CHR ''y''), tl s))"

definition put_pair :: "('b \<Rightarrow> string) \<Rightarrow> string \<times> 'b \<Rightarrow> string" where
  "put_pair put p = put_text (fst p) @ put (snd p)"

definition get_pair :: "(string \<Rightarrow> 'b \<times> string) \<Rightarrow> string \<Rightarrow> (string \<times> 'b) \<times> string" where
  "get_pair get s = (case get_text s of (k, t) \<Rightarrow> apfst (Pair k) (get t))"

definition put_list :: "('a \<Rightarrow> string) \<Rightarrow> 'a list \<Rightarrow> string" where
  "put_list put xs = put_nat (length xs) @ concat (map put xs)"

fun get_many :: "(string \<Rightarrow> 'a \<times> string) \<Rightarrow> nat \<Rightarrow> string \<Rightarrow> 'a list \<times> string" where
  "get_many get 0 s = ([], s)"
| "get_many get (Suc n) s = (case get s of (x, t) \<Rightarrow> apfst (Cons x) (get_many get n t))"

definition get_list :: "(string \<Rightarrow> 'a \<times> string) \<Rightarrow> string \<Rightarrow> 'a list \<times> string" where
  "get_list get s = (case get_nat s of (n, t) \<Rightarrow> get_many get n t)"

lemma get_put_nat [simp]: "get_nat (put_nat n @ t) = (n, t)"
proof -
  have "takeWhile (\<lambda>c. c = CHR ''1'') (put_nat n @ t) = replicate n (CHR ''1'')"
    "dropWhile (\<lambda>c. c = CHR ''1'') (put_nat n @ t) = CHR ''0'' # t"
    by (induction n) (simp_all add: put_nat_def)
  then show ?thesis by (simp add: get_nat_def)
qed

lemma get_put_text [simp]: "get_text (put_text s @ t) = (s, t)"
  by (simp add: get_text_def put_text_def)

lemma get_put_int [simp]: "get_int (put_int n @ t) = (n, t)"
  by (simp add: get_int_def put_int_def)

lemma get_put_float [simp]: "get_float (put_float x @ t) = (x, t)"
proof (cases x)
  case (Num q)
  obtain n d where "quotient_of q = (n, d)" by fastforce
  then show ?thesis using quotient_of_div by (simp add: Num get_float_def)
qed (simp_all add: get_float_def)

lemma codes_scalar: "codes put_scalar get_scalar"
proof -
  have "get_scalar (put_scalar x @ t) = (x, t)" for x t by (cases x) (simp_all add: get_scalar_def)
  then show ?thesis by (simp add: codes_def)
qed

lemma codes_pair: "codes put get \<Longrightarrow> codes (put_pair put) (get_pair get)"
  by (simp add: codes_def put_pair_def get_pair_def)

lemma codes_list:
  assumes "codes put get"
  shows "codes (put_list put) (get_list get)"
proof -
  have "get_many get (length xs) (concat (map put xs) @ t) = (xs, t)" for xs t
    by (induction xs) (simp_all add: codesD [OF assms])
  then show ?thesis by (simp add: codes_def put_list_def get_list_def)
qed

definition demo_yaml :: "scalar yaml_lib" where
  "demo_yaml =
     \<lparr>ylOfText = SText, ylOfInt = SInt, ylOfFloat = SFloat, ylOfBool = SBool,
      ylText = (\<lambda>n old. case n of SText s \<Rightarrow> Inr s | _ \<Rightarrow> Inl (External ''cannot unmarshal into string'')),
      ylInt = (\<lambda>n old. case n of SInt i \<Rightarrow> Inr i | _ \<Rightarrow> Inl (External ''cannot unmarshal into int'')),
      ylFloat = (\<lambda>n old. case n of SFloat x \<Rightarrow> Inr x | _ \<Rightarrow> Inl (External ''cannot unmarshal into float64'')),
      ylBool = (\<lambda>n old. case n of SBool b \<Rightarrow> Inr b | _ \<Rightarrow> Inl (External ''cannot unmarshal into bool'')),
      ylNode = (\<lambda>n. Some (case n of SText s \<Rightarrow> ScalarNode s | _ \<Rightarrow> OtherNode)),
      ylEmit = (\<lambda>doc. Inr (put_list (put_pair (put_list (put_pair put_scalar))) doc)),
      ylParse = (\<lambda>data. Inr (fst (get_list (get_pair (get_list (get_pair get_scalar))) data)))\<rparr>"

lemma demo_yaml_reads_back: "yaml_reads_back demo_yaml"
proof -
  have "codes (put_list (put_pair (put_list (put_pair put_scalar)))) (get_list (get_pair (get_list (get_pair get_scalar))))"
    by (intro codes_list codes_pair codes_scalar)
  from codesD [OF this, of _ "[]"] show ?thesis by (simp add: yaml_reads_back_def demo_yaml_def)
qed

theorem save_load_round_trip_witness:
  "\<exists>files. load_config (unmarshal_config demo_yaml) \<lparr>feRead = None, feMkdir = None, feWrite = None, fePartial = None,
       feRename = None\<rparr> ''c.yaml'' files
     = Inr (default_config\<lparr>cfPolling := (cfPolling default_config)\<lparr>pcFastInterval := 1500000000\<rparr>\<rparr>)"
proof -
  let ?env = "\<lparr>feRead = None, feMkdir = None, feWrite = None, fePartial = None, feRename = None\<rparr>"
  let ?cfg = "default_config\<lparr>cfPolling := (cfPolling default_config)\<lparr>pcFastInterval := 1500000000\<rparr>\<rparr>"
  have "validate_config ?cfg = Inr ()" using default_valid unfolding valid_iff by simp
  then obtain f where "save_config (marshal_config demo_yaml) ?env ''c.yaml'' ?cfg Map.empty = (Inr (), f)"
    by (simp add: save_config_def marshal_config_def demo_yaml_def Let_def)
  moreover have "machine_ints ?cfg"
    by (simp add: machine_ints_def in64_def default_config_def second_def minute_def hour_def)
  ultimately have "load_config (unmarshal_config demo_yaml) ?env ''c.yaml'' f = Inr ?cfg"
    by (intro save_load_round_trip [OF demo_yaml_reads_back]) simp_all
  then show ?thesis by blast
qed

end
