(* ===== verification/Store.thy ===== *)
theory Store
  imports Registers "HOL-Library.AList" "HOL-Library.Sublist"
begin

text \<open>
  \<^verbatim>\<open>internal/state/store.go\<close>: the runtime state the services share. \<open>store\<close> is the
  struct \<^verbatim>\<open>Store\<close>; \<open>set_service_status\<close>, \<open>upsert_telemetry\<close> and
  \<open>snapshot\<close> are its methods, each one critical section of its mutex, so a step of the model is
  a call. A Go map is an association list with distinct keys (\<open>store_ok\<close>), in any order: the
  iteration order of a map is unspecified. The current time is the argument \<open>now\<close>. The zero
  value of \<^verbatim>\<open>DecodedValue\<close>, which a lookup of a missing key gives, is \<open>value0\<close>.
\<close>

record service_status =
  ssName :: string
  ssStatus :: string
  ssConnected :: bool
  ssLastError :: go_error
  ssLastSuccess :: gotime
  ssUpdatedAt :: gotime

record snapshot_data =
  snServices :: "(string \<times> service_status) list"
  snTelemetry :: "decoded_value list"

record switch_event =
  seAt :: gotime
  seSOC :: f64
  seUpdatedAt :: gotime

record store =
  stServices :: "(string \<times> service_status) list"
  stValues :: "(string \<times> decoded_value) list"
  stSwitchGrid :: switch_event
  stSwitchBatt :: switch_event

text \<open>A text made from an error is the error itself; \<open>no_error\<close> is the empty text.\<close>

definition no_error :: go_error where
  "no_error = Errorf '''' []"

definition status0 :: service_status where
  "status0 = \<lparr>ssName = '''', ssStatus = '''', ssConnected = False, ssLastError = no_error,
     ssLastSuccess = 0, ssUpdatedAt = 0\<rparr>"

definition value0 :: decoded_value where
  "value0 = \<lparr>dID = '''', dName = '''', dAddress = 0, dGroup = GroupFast, dComponent = '''',
     dEntity = '''', dEntityCategory = '''', dWritable = False, dWriteOnly = False,
     dSynthetic = False, dRawOnly = False, dUnit = '''', dDeviceClass = '''', dStateClass = '''',
     dIcon = '''', dRaw = 0, dRawWords = [], dValue = VNil, dRendered = '''', dWriteMin = Num 0,
     dWriteMax = Num 0, dWriteStep = Num 0, dOptions = [], dUpdatedAt = 0\<rparr>"

definition event0 :: switch_event where
  "event0 = \<lparr>seAt = 0, seSOC = Num 0, seUpdatedAt = 0\<rparr>"

definition new_store :: store where
  "new_store = \<lparr>stServices = [], stValues = [], stSwitchGrid = event0, stSwitchBatt = event0\<rparr>"

text \<open>A lookup with the zero value of the element type for a missing key.\<close>

definition lookup_or :: "'b \<Rightarrow> ('a \<times> 'b) list \<Rightarrow> 'a \<Rightarrow> 'b" where
  "lookup_or z m k = (case map_of m k of Some v \<Rightarrow> v | None \<Rightarrow> z)"

section \<open>Service status\<close>

definition set_service_status ::
  "gotime \<Rightarrow> string \<Rightarrow> string \<Rightarrow> bool \<Rightarrow> go_error \<Rightarrow> gotime \<Rightarrow> store \<Rightarrow> store" where
  "set_service_status now name status isConnected lastError lastSuccess s =
     (let existing = lookup_or status0 (stServices s) name;
          ls = (if lastSuccess = 0 then ssLastSuccess existing else lastSuccess)
      in s\<lparr>stServices := AList.update name
             \<lparr>ssName = name, ssStatus = status, ssConnected = isConnected, ssLastError = lastError,
              ssLastSuccess = ls, ssUpdatedAt = now\<rparr> (stServices s)\<rparr>)"

section \<open>Numbers and times of values\<close>

definition numeric_value :: "decoded_value \<Rightarrow> f64 option" where
  "numeric_value v =
     (case dValue v of
        VFloat x \<Rightarrow> Some x
      | VInt n \<Rightarrow> Some (f64_of_int n)
      | VInt64 n \<Rightarrow> Some (f64_of_int n)
      | VUint64 n \<Rightarrow> Some (f64_of_int n)
      | VStr t \<Rightarrow> parse_float t
      | _ \<Rightarrow> None)"

definition newest_updated_at :: "decoded_value list \<Rightarrow> gotime" where
  "newest_updated_at values =
     fold (\<lambda>v newest. if newest < dUpdatedAt v then dUpdatedAt v else newest) values 0"

definition state_round_float :: "f64 \<Rightarrow> int \<Rightarrow> f64" where
  "state_round_float value precision =
     (if precision < 0 then value
      else let factor = math_pow10 precision in fdiv (math_round (fmul value factor)) factor)"

section \<open>Telemetry\<close>

definition switch_event_of :: "decoded_value list \<Rightarrow> decoded_value \<Rightarrow> (string \<times> decoded_value) list \<Rightarrow> switch_event" where
  "switch_event_of values machineState stored =
     (let battery = lookup_or value0 stored ''battery_soc'';
          soc0 = (case numeric_value battery of Some x \<Rightarrow> x | None \<Rightarrow> Num 0);
          soc = (case find_first (\<lambda>v. dID v = ''battery_soc'') values of
                   None \<Rightarrow> soc0
                 | Some v \<Rightarrow> (case numeric_value v of Some x \<Rightarrow> x | None \<Rightarrow> soc0));
          newest = newest_updated_at [machineState, battery]
      in \<lparr>seAt = dUpdatedAt machineState, seSOC = soc,
          seUpdatedAt = (if newest = 0 then dUpdatedAt machineState else newest)\<rparr>)"

definition put_values :: "decoded_value list \<Rightarrow> (string \<times> decoded_value) list \<Rightarrow> (string \<times> decoded_value) list" where
  "put_values values m = fold (\<lambda>v. AList.update (dID v) v) values m"

definition upsert_telemetry :: "decoded_value list \<Rightarrow> store \<Rightarrow> store" where
  "upsert_telemetry values s =
     (let previous = dRendered (lookup_or value0 (stValues s) ''machine_state'');
          s1 = s\<lparr>stValues := put_values values (stValues s)\<rparr>;
          machineState = lookup_or value0 (stValues s1) ''machine_state'';
          current = dRendered machineState
      in if previous = '''' \<or> current = '''' \<or> current = previous then s1
         else let event = switch_event_of values machineState (stValues s1) in
           if current = ''AC Power Operation'' then s1\<lparr>stSwitchGrid := event\<rparr>
           else if current = ''Inverter Operation'' then s1\<lparr>stSwitchBatt := event\<rparr>
           else s1)"

section \<open>Derived telemetry\<close>

text \<open>The index of the stored values by identifier; a later value replaces an earlier one.\<close>

definition index_values :: "decoded_value list \<Rightarrow> (string \<times> decoded_value) list" where
  "index_values values = rev (map (\<lambda>v. (dID v, v)) values)"

text \<open>\<^verbatim>\<open>time.RFC3339\<close> of an instant in UTC.\<close>

definition format_rfc3339 :: "gotime \<Rightarrow> string" where
  "format_rfc3339 t =
     (let secs = t div 1000000000; day = secs div 86400; sod = secs mod 86400;
          (y, mo, d) = norm_day 1 1 (day + 1)
      in show_padded 4 y @ ''-'' @ show_padded 2 mo @ ''-'' @ show_padded 2 d @ ''T''
         @ show_padded 2 (sod div 3600) @ '':'' @ show_padded 2 (sod div 60 mod 60) @ '':''
         @ show_padded 2 (sod mod 60) @ ''Z'')"

definition energyTelemetry :: "(string \<times> decoded_value) list \<Rightarrow> decoded_value list" where
  "energyTelemetry ix =
     (case (numeric_value (lookup_or value0 ix ''total_production''),
            numeric_value (lookup_or value0 ix ''total_energy_import''),
            numeric_value (lookup_or value0 ix ''total_load_consumption''),
            numeric_value (lookup_or value0 ix ''total_energy_export'')) of
        (Some produced, Some imported, Some consumed, Some exported) \<Rightarrow>
          (if flt (Num 0) (fadd produced imported) then
             let updatedAt = newest_updated_at
                   [lookup_or value0 ix ''total_production'', lookup_or value0 ix ''total_energy_import'',
                    lookup_or value0 ix ''total_load_consumption'', lookup_or value0 ix ''total_energy_export''];
                 energyInput = fadd produced imported;
                 energyOutput = fadd consumed exported;
                 losses = state_round_float (fsub energyInput energyOutput) 1;
                 efficiency = state_round_float (fmul (fdiv energyOutput energyInput) (Num 100)) 1
             in [value0\<lparr>dID := ''system_energy_losses_total'', dName := ''System Energy Losses Total'',
                   dAddress := 0xFFF0, dGroup := GroupSlow, dComponent := ''sensor'',
                   dEntity := ''diagnostic'', dUnit := ''kWh'', dDeviceClass := ''energy'',
                   dStateClass := ''total_increasing'', dIcon := ''mdi:transmission-tower-off'',
                   dValue := VFloat losses, dRendered := format_float losses 1,
                   dUpdatedAt := updatedAt\<rparr>,
                 value0\<lparr>dID := ''system_energy_efficiency_total'',
                   dName := ''System Energy Efficiency Total'', dAddress := 0xFFF1,
                   dGroup := GroupSlow, dComponent := ''sensor'', dEntity := ''diagnostic'',
                   dUnit := ''%'', dIcon := ''mdi:percent-outline'', dValue := VFloat efficiency,
                   dRendered := format_float efficiency 1, dUpdatedAt := updatedAt\<rparr>]
           else [])
      | _ \<Rightarrow> [])"

definition phasePowerSumTelemetry ::
  "string \<Rightarrow> string \<Rightarrow> u16 \<Rightarrow> string \<Rightarrow> (string \<times> decoded_value) list \<Rightarrow> string list \<Rightarrow> decoded_value list" where
  "phasePowerSumTelemetry ident name address icon ix phaseIDs =
     (let (total, found, updatedAt) =
            fold (\<lambda>phaseID (total, found, updatedAt).
                case map_of ix phaseID of
                  None \<Rightarrow> (total, found, updatedAt)
                | Some phase \<Rightarrow>
                    (case numeric_value phase of
                       None \<Rightarrow> (total, found, updatedAt)
                     | Some v \<Rightarrow> (fadd total v, True,
                         if updatedAt < dUpdatedAt phase then dUpdatedAt phase else updatedAt)))
              phaseIDs (Num 0, False, 0)
      in if \<not> found then []
         else let rounded = int64_of_f64 (math_round total) in
           [value0\<lparr>dID := ident, dName := name, dAddress := address, dGroup := GroupFast,
              dComponent := ''sensor'', dEntity := ''diagnostic'', dUnit := ''W'',
              dDeviceClass := ''power'', dStateClass := ''measurement'', dIcon := icon,
              dRaw := rounded, dValue := VInt64 rounded, dRendered := show_int rounded,
              dUpdatedAt := updatedAt\<rparr>])"

definition threePhasePowerTelemetry :: "(string \<times> decoded_value) list \<Rightarrow> decoded_value list" where
  "threePhasePowerTelemetry ix =
     phasePowerSumTelemetry ''pv_power'' ''PV Power'' 0xFFFA ''mdi:white-balance-sunny'' ix
       [''pv1_power'', ''pv2_power'']
     @ phasePowerSumTelemetry ''load_power'' ''Load Power'' 0xFFF8 ''mdi:home-lightning-bolt-outline'' ix
       [''load_power_phase_a'', ''load_power_phase_b'', ''load_power_phase_c'']
     @ phasePowerSumTelemetry ''grid_power'' ''Grid Power'' 0xFFF9 ''mdi:transmission-tower'' ix
       [''grid_power_phase_a'', ''grid_power_phase_b'', ''grid_power_phase_c'']"

definition batteryEnergyValue ::
  "string \<Rightarrow> string \<Rightarrow> u16 \<Rightarrow> string \<Rightarrow> f64 \<Rightarrow> f64 \<Rightarrow> gotime \<Rightarrow> decoded_value" where
  "batteryEnergyValue ident name address icon ampHours nominalVoltage updatedAt =
     (let kwh = state_round_float (fdiv (fmul ampHours nominalVoltage) (Num 1000)) 1 in
      value0\<lparr>dID := ident, dName := name, dAddress := address, dGroup := GroupSlow,
        dComponent := ''sensor'', dEntity := ''diagnostic'', dUnit := ''kWh'',
        dDeviceClass := ''energy'', dStateClass := ''total_increasing'', dIcon := icon,
        dValue := VFloat kwh, dRendered := format_float kwh 1, dUpdatedAt := updatedAt\<rparr>)"

text \<open>\<^verbatim>\<open>strings.Fields\<close>\<close>

function fields_from :: "string \<Rightarrow> string \<Rightarrow> string list" where
  "fields_from acc s =
     (case match_seq (map (\<lambda>w. (w, [])) space_seqs) s of
        Some (r, t) \<Rightarrow> (if acc = [] then fields_from [] t else acc # fields_from [] t)
      | None \<Rightarrow>
          (case s of
             [] \<Rightarrow> if acc = [] then [] else [acc]
           | c # t \<Rightarrow> fields_from (acc @ [c]) t))"
  by pat_completeness auto
termination
  by (relation "measure (\<lambda>(acc, s). length s)") (auto dest: match_seq_shorter)

declare fields_from.simps [simp del]

definition go_fields :: "string \<Rightarrow> string list" where
  "go_fields s = fields_from [] s"

definition nominalBatteryVoltage :: "decoded_value \<Rightarrow> f64 option" where
  "nominalBatteryVoltage v =
     (let label = (if dRendered v = '''' then (case dValue v of VStr t \<Rightarrow> t | _ \<Rightarrow> '''') else dRendered v);
          fs = go_fields label
      in if length fs < 2 then None
         else let cellToken = last fs in
           if \<not> has_prefix cellToken ''x'' then None
           else case parse_int (trim_prefix cellToken ''x'') of
             None \<Rightarrow> None
           | Some cells \<Rightarrow>
               if cells \<le> 0 then None
               else if has_prefix label ''LFP '' then Some (fmul (f64_of_int cells) (flit (16 / 5)))
               else if has_prefix label ''Ternary Li '' then Some (fmul (f64_of_int cells) (flit (37 / 10)))
               else None)"

definition batteryEnergyTelemetry :: "(string \<times> decoded_value) list \<Rightarrow> decoded_value list" where
  "batteryEnergyTelemetry ix =
     (case nominalBatteryVoltage (lookup_or value0 ix ''battery_type'') of
        None \<Rightarrow> []
      | Some nominalVoltage \<Rightarrow>
          (case numeric_value (lookup_or value0 ix ''total_battery_charge_ah'') of
             None \<Rightarrow> []
           | Some ah \<Rightarrow>
               [batteryEnergyValue ''battery_charge_energy_total_estimate''
                  ''Battery Charge Energy Total Estimate'' 0xFFF6 ''mdi:battery-plus'' ah nominalVoltage
                  (dUpdatedAt (lookup_or value0 ix ''total_battery_charge_ah''))])
          @ (case numeric_value (lookup_or value0 ix ''total_battery_discharge_ah'') of
             None \<Rightarrow> []
           | Some ah \<Rightarrow>
               [batteryEnergyValue ''battery_discharge_energy_total_estimate''
                  ''Battery Discharge Energy Total Estimate'' 0xFFF7 ''mdi:battery-minus'' ah nominalVoltage
                  (dUpdatedAt (lookup_or value0 ix ''total_battery_discharge_ah''))]))"

definition switchTelemetry :: "string \<Rightarrow> string \<Rightarrow> u16 \<Rightarrow> string \<Rightarrow> switch_event \<Rightarrow> decoded_value list" where
  "switchTelemetry ident name address icon event =
     (if seAt event = 0 then []
      else let rendered = format_rfc3339 (seAt event) in
        [value0\<lparr>dID := ident, dName := name, dAddress := address, dGroup := GroupSlow,
           dComponent := ''sensor'', dEntity := ''diagnostic'', dDeviceClass := ''timestamp'',
           dIcon := icon, dValue := VStr rendered, dRendered := rendered,
           dUpdatedAt := seUpdatedAt event\<rparr>])"

definition switchSOCTelemetry :: "string \<Rightarrow> string \<Rightarrow> u16 \<Rightarrow> string \<Rightarrow> switch_event \<Rightarrow> decoded_value list" where
  "switchSOCTelemetry ident name address icon event =
     (if seAt event = 0 then []
      else let soc = state_round_float (seSOC event) 0 in
        [value0\<lparr>dID := ident, dName := name, dAddress := address, dGroup := GroupSlow,
           dComponent := ''sensor'', dEntity := ''diagnostic'', dUnit := ''%'',
           dDeviceClass := ''battery'', dIcon := icon, dValue := VFloat soc,
           dRendered := format_float soc 0, dUpdatedAt := seUpdatedAt event\<rparr>])"

definition derivedTelemetry :: "decoded_value list \<Rightarrow> switch_event \<Rightarrow> switch_event \<Rightarrow> decoded_value list" where
  "derivedTelemetry values lastSwitchGrid lastSwitchBatt =
     (let ix = index_values values in
      map (\<lambda>v. v\<lparr>dSynthetic := True\<rparr>)
        (energyTelemetry ix @ threePhasePowerTelemetry ix @ batteryEnergyTelemetry ix
         @ switchTelemetry ''last_switch_to_grid_at'' ''Last Switch To Grid At'' 0xFFF2
             ''mdi:transmission-tower-import'' lastSwitchGrid
         @ switchSOCTelemetry ''last_switch_to_grid_soc'' ''Last Switch To Grid SOC'' 0xFFF3
             ''mdi:battery-arrow-down'' lastSwitchGrid
         @ switchTelemetry ''last_switch_to_battery_at'' ''Last Switch To Battery At'' 0xFFF4
             ''mdi:battery-arrow-up'' lastSwitchBatt
         @ switchSOCTelemetry ''last_switch_to_battery_soc'' ''Last Switch To Battery SOC'' 0xFFF5
             ''mdi:battery-heart-variant'' lastSwitchBatt))"

definition snapshot :: "store \<Rightarrow> snapshot_data" where
  "snapshot s =
     (let telemetry = map snd (stValues s) in
      \<lparr>snServices = stServices s,
       snTelemetry = sort_values (telemetry @ derivedTelemetry telemetry (stSwitchGrid s) (stSwitchBatt s))\<rparr>)"

section \<open>The store as a map\<close>

text \<open>Keys are distinct and every value is stored under its identifier.\<close>

definition store_ok :: "store \<Rightarrow> bool" where
  "store_ok s \<longleftrightarrow> distinct (map fst (stValues s)) \<and> distinct (map fst (stServices s))
     \<and> list_all (\<lambda>(k, v). k = dID v) (stValues s) \<and> list_all (\<lambda>(k, v). k = ssName v) (stServices s)"

lemma list_all_update:
  "list_all (\<lambda>(k, v). P k v) m \<Longrightarrow> P k v \<Longrightarrow> list_all (\<lambda>(k, v). P k v) (AList.update k v m)"
  by (induction m) auto

lemma put_values_ok:
  assumes "distinct (map fst m)" "list_all (\<lambda>(k, v). k = dID v) m"
  shows "distinct (map fst (put_values vs m)) \<and> list_all (\<lambda>(k, v). k = dID v) (put_values vs m)"
  using assms unfolding put_values_def
proof (induction vs arbitrary: m)
  case (Cons v vs)
  have "distinct (map fst (AList.update (dID v) v m))" using Cons.prems(1) by (rule distinct_update)
  moreover have "list_all (\<lambda>(k, v). k = dID v) (AList.update (dID v) v m)"
    using Cons.prems(2) by (intro list_all_update [where P = "\<lambda>k v. k = dID v"]) auto
  ultimately show ?case using Cons.IH by simp
qed simp

text \<open>The abstract specification of a batch: the last value with an identifier wins.\<close>

definition last_value :: "decoded_value list \<Rightarrow> string \<Rightarrow> decoded_value option" where
  "last_value vs i = find_first (\<lambda>v. dID v = i) (rev vs)"

lemma map_of_put_values:
  "map_of (put_values vs m) i = (case last_value vs i of Some v \<Rightarrow> Some v | None \<Rightarrow> map_of m i)"
  unfolding put_values_def last_value_def
  by (induction vs arbitrary: m) (auto simp: find_first_append update_conv' split: option.splits)

lemma upsert_values: "stValues (upsert_telemetry vs s) = put_values vs (stValues s)"
  "stServices (upsert_telemetry vs s) = stServices s"
  by (simp_all add: upsert_telemetry_def Let_def)

lemma new_store_ok: "store_ok new_store"
  by (simp add: store_ok_def new_store_def)

lemma upsert_ok: "store_ok s \<Longrightarrow> store_ok (upsert_telemetry vs s)"
  using put_values_ok [of "stValues s" vs] by (simp add: store_ok_def upsert_values)

lemma status_ok: "store_ok s \<Longrightarrow> store_ok (set_service_status now n st c e ls s)"
  by (auto simp: store_ok_def set_service_status_def Let_def distinct_update
      intro!: list_all_update [where P = "\<lambda>k v. k = ssName v"])

section \<open>Derived values\<close>

text \<open>The identifiers derived values can have, with the address of each.\<close>

definition derivedIDs :: "(string \<times> u16) list" where
  "derivedIDs =
     [(''system_energy_losses_total'', 0xFFF0), (''system_energy_efficiency_total'', 0xFFF1),
      (''pv_power'', 0xFFFA), (''load_power'', 0xFFF8), (''grid_power'', 0xFFF9),
      (''battery_charge_energy_total_estimate'', 0xFFF6),
      (''battery_discharge_energy_total_estimate'', 0xFFF7),
      (''last_switch_to_grid_at'', 0xFFF2), (''last_switch_to_grid_soc'', 0xFFF3),
      (''last_switch_to_battery_at'', 0xFFF4), (''last_switch_to_battery_soc'', 0xFFF5)]"

lemma energy_ids: "map (\<lambda>v. (dID v, dAddress v)) (energyTelemetry ix) \<in>
    {[], [(''system_energy_losses_total'', 0xFFF0), (''system_energy_efficiency_total'', 0xFFF1)]}"
  by (simp add: energyTelemetry_def Let_def split: option.split)

lemma phase_ids: "map (\<lambda>v. (dID v, dAddress v)) (phasePowerSumTelemetry i n a c ix ps) \<in> {[], [(i, a)]}"
  by (simp add: phasePowerSumTelemetry_def Let_def split: prod.split)

lemma switch_ids:
  "map (\<lambda>v. (dID v, dAddress v)) (switchTelemetry i n a c e) \<in> {[], [(i, a)]}"
  "map (\<lambda>v. (dID v, dAddress v)) (switchSOCTelemetry i n a c e) \<in> {[], [(i, a)]}"
  by (simp_all add: switchTelemetry_def switchSOCTelemetry_def Let_def)

lemma battery_ids: "map (\<lambda>v. (dID v, dAddress v)) (batteryEnergyTelemetry ix) \<in>
    {[], [(''battery_charge_energy_total_estimate'', 0xFFF6)], [(''battery_discharge_energy_total_estimate'', 0xFFF7)],
     [(''battery_charge_energy_total_estimate'', 0xFFF6), (''battery_discharge_energy_total_estimate'', 0xFFF7)]}"
  by (simp add: batteryEnergyTelemetry_def batteryEnergyValue_def Let_def split: option.split)

text \<open>The derived values are a subsequence of that table.\<close>

lemma subseq_piece: "xs \<in> {[], ys} \<Longrightarrow> subseq xs ys"
  by auto

lemma derived_ids: "subseq (map (\<lambda>v. (dID v, dAddress v)) (derivedTelemetry vs g b)) derivedIDs"
proof -
  let ?f = "\<lambda>v. (dID v, dAddress v)"
  have syn: "map ?f (map (\<lambda>v. v\<lparr>dSynthetic := True\<rparr>) xs) = map ?f xs" for xs by simp
  have bat: "subseq (map ?f (batteryEnergyTelemetry ix))
      ([(''battery_charge_energy_total_estimate'', 0xFFF6)] @ [(''battery_discharge_energy_total_estimate'', 0xFFF7)])" for ix
    using battery_ids [of ix] by auto
  have "subseq (map ?f (derivedTelemetry vs g b))
      ([(''system_energy_losses_total'', 0xFFF0), (''system_energy_efficiency_total'', 0xFFF1)]
       @ (([(''pv_power'', 0xFFFA)] @ [(''load_power'', 0xFFF8)] @ [(''grid_power'', 0xFFF9)])
       @ (([(''battery_charge_energy_total_estimate'', 0xFFF6)] @ [(''battery_discharge_energy_total_estimate'', 0xFFF7)])
       @ [(''last_switch_to_grid_at'', 0xFFF2)] @ [(''last_switch_to_grid_soc'', 0xFFF3)]
       @ [(''last_switch_to_battery_at'', 0xFFF4)] @ [(''last_switch_to_battery_soc'', 0xFFF5)])))"
    unfolding derivedTelemetry_def Let_def threePhasePowerTelemetry_def syn map_append
    by (intro list_emb_append_mono bat subseq_piece energy_ids phase_ids switch_ids)
  then show ?thesis by (simp add: derivedIDs_def)
qed

lemma derived_fields:
  "v \<in> set (derivedTelemetry vs g b) \<Longrightarrow> dSynthetic v \<and> (dID v, dAddress v) \<in> set derivedIDs"
proof -
  assume v: "v \<in> set (derivedTelemetry vs g b)"
  have "(dID v, dAddress v) \<in> set (map (\<lambda>v. (dID v, dAddress v)) (derivedTelemetry vs g b))" using v by simp
  then have "(dID v, dAddress v) \<in> set derivedIDs"
    using derived_ids [of vs g b] set_nths_subset unfolding subseq_conv_nths by (metis subsetD)
  moreover have "dSynthetic v" using v by (auto simp: derivedTelemetry_def Let_def)
  ultimately show ?thesis by blast
qed

lemma derived_distinct: "distinct (map dID (derivedTelemetry vs g b))"
proof -
  have "distinct (map fst derivedIDs)" by (simp add: derivedIDs_def)
  moreover have "subseq (map fst (map (\<lambda>v. (dID v, dAddress v)) (derivedTelemetry vs g b))) (map fst derivedIDs)"
    using derived_ids by (rule subseq_map)
  ultimately show ?thesis by (auto simp: comp_def subseq_conv_nths intro: distinct_nthsI)
qed

section \<open>Reachable stores\<close>

text \<open>One call of a method that changes the store.\<close>

inductive store_step :: "store \<Rightarrow> store \<Rightarrow> bool" where
  status: "store_step s (set_service_status now name st c e ls s)"
| upsert: "store_step s (upsert_telemetry vs s)"

inductive_cases store_stepE: "store_step s s'"

lemma store_step_ok: "store_step s s' \<Longrightarrow> store_ok s \<Longrightarrow> store_ok s'"
  by (auto elim!: store_stepE intro: status_ok upsert_ok)

lemma reachable_ok: "store_step\<^sup>*\<^sup>* new_store s \<Longrightarrow> store_ok s"
  by (induction rule: rtranclp_induct) (auto intro: new_store_ok store_step_ok)

lemma upsert_reachable: "store_step\<^sup>*\<^sup>* new_store (upsert_telemetry vs new_store)"
  by (rule r_into_rtranclp) (rule store_step.upsert)

lemma store_ok_ids: "store_ok s \<Longrightarrow> map dID (map snd (stValues s)) = map fst (stValues s)"
  by (auto simp: store_ok_def list_all_iff)

lemma set_snapshot:
  "mset (snTelemetry (snapshot s)) = mset (map snd (stValues s))
     + mset (derivedTelemetry (map snd (stValues s)) (stSwitchGrid s) (stSwitchBatt s))"
  by (simp add: snapshot_def sort_values_def Let_def)

lemma store_ok_entry:
  assumes "store_ok s"
  shows "(k, v) \<in> set (stValues s) \<longleftrightarrow> v \<in> snd ` set (stValues s) \<and> k = dID v"
    and "(k, v) \<in> set (stValues s) \<longleftrightarrow> map_of (stValues s) k = Some v"
proof -
  have ids: "\<forall>p \<in> set (stValues s). fst p = dID (snd p)"
    using assms by (auto simp: store_ok_def list_all_iff)
  show "(k, v) \<in> set (stValues s) \<longleftrightarrow> v \<in> snd ` set (stValues s) \<and> k = dID v"
  proof
    assume "(k, v) \<in> set (stValues s)"
    then show "v \<in> snd ` set (stValues s) \<and> k = dID v" using bspec [OF ids] by (metis fst_conv image_eqI snd_conv)
  next
    assume "v \<in> snd ` set (stValues s) \<and> k = dID v"
    then obtain p where "p \<in> set (stValues s)" "v = snd p" "k = fst p" using ids by fastforce
    then show "(k, v) \<in> set (stValues s)" by simp
  qed
  have "distinct (map fst (stValues s))" using assms by (simp add: store_ok_def)
  then show "(k, v) \<in> set (stValues s) \<longleftrightarrow> map_of (stValues s) k = Some v"
    by (simp add: map_of_eq_Some_iff)
qed

text \<open>What the first match of an identifier in a snapshot is: the stored value, unless the identifier
  is one of the derived ones.\<close>

lemma snapshot_lookup:
  assumes "store_ok s" "i \<notin> fst ` set derivedIDs"
  shows "find_first (\<lambda>v. dID v = i) (snTelemetry (snapshot s)) = map_of (stValues s) i"
proof -
  let ?d = "derivedTelemetry (map snd (stValues s)) (stSwitchGrid s) (stSwitchBatt s)"
  have elems: "set (snTelemetry (snapshot s)) = snd ` set (stValues s) \<union> set ?d"
    using arg_cong [OF set_snapshot [of s], of set_mset] by simp
  have old: "map_of (stValues s) i = Some v" if v: "v \<in> set (snTelemetry (snapshot s))" "dID v = i" for v
  proof -
    have "(dID v, dAddress v) \<in> set derivedIDs" if "v \<in> set ?d"
      using derived_fields [OF that] by (rule conjunct2)
    then have "v \<notin> set ?d" using assms(2) v(2) by (metis fst_conv image_eqI)
    then have "v \<in> snd ` set (stValues s)" using v(1) elems by blast
    then show ?thesis using store_ok_entry [OF assms(1), of i v] v(2) by simp
  qed
  show ?thesis
  proof (cases "find_first (\<lambda>v. dID v = i) (snTelemetry (snapshot s))")
    case (Some v)
    then show ?thesis using old [of v] find_first_Some [OF Some] by simp
  next
    case None
    have "map_of (stValues s) i \<noteq> Some v" for v
      using None elems store_ok_entry [OF assms(1), of i v] by (auto simp: find_first_None)
    then show ?thesis using None by (metis not_None_eq)
  qed
qed

section \<open>Properties of the store\<close>

text \<open>After a batch, looking an identifier up gives the last value of the batch with that
  identifier, or what was stored before; the store stays well formed.\<close>

theorem upsert_lookup:
  assumes "store_ok s"
  shows "store_ok (upsert_telemetry vs s)
    \<and> map_of (stValues (upsert_telemetry vs s)) i =
        (case last_value vs i of Some v \<Rightarrow> Some v | None \<Rightarrow> map_of (stValues s) i)"
  using upsert_ok [OF assms] by (simp add: upsert_values map_of_put_values)

theorem upsert_lookup_witness:
  "map_of (stValues (upsert_telemetry [value0\<lparr>dID := ''a'', dRaw := 1\<rparr>, value0\<lparr>dID := ''a'', dRaw := 2\<rparr>] new_store)) ''a''
   = Some (value0\<lparr>dID := ''a'', dRaw := 2\<rparr>)"
  using upsert_lookup [OF new_store_ok, of "[value0\<lparr>dID := ''a'', dRaw := 1\<rparr>, value0\<lparr>dID := ''a'', dRaw := 2\<rparr>]" "''a''"]
  by (simp add: last_value_def)

section \<open>What is derived\<close>

text \<open>The number that is stored under an identifier.\<close>

definition stored_number :: "store \<Rightarrow> string \<Rightarrow> f64 option" where
  "stored_number s i = Option.bind (map_of (stValues s) i) numeric_value"

text \<open>The energy balance: what was produced and imported, against what was consumed and exported. It is known
  when all four counters are, and the first two are not zero.\<close>

definition energy_balance :: "store \<Rightarrow> (f64 \<times> f64) option" where
  "energy_balance s =
     (case map (stored_number s) [''total_production'', ''total_energy_import'', ''total_load_consumption'', ''total_energy_export''] of
        [Some produced, Some imported, Some consumed, Some exported] \<Rightarrow>
          (if flt (Num 0) (fadd produced imported) then Some (fadd produced imported, fadd consumed exported) else None)
      | _ \<Rightarrow> None)"

text \<open>A number with so many decimals, and the watts of those of some phases that are known.\<close>

definition to_decimals :: "nat \<Rightarrow> f64 \<Rightarrow> go_value \<times> string" where
  "to_decimals n x = (VFloat (state_round_float x (int n)), format_float (state_round_float x (int n)) n)"

definition phases_sum :: "store \<Rightarrow> string list \<Rightarrow> (go_value \<times> string) option" where
  "phases_sum s phases =
     (case List.map_filter (stored_number s) phases of
        [] \<Rightarrow> None
      | xs \<Rightarrow> (let n = int64_of_f64 (math_round (foldl fadd (Num 0) xs)) in Some (VInt64 n, show_int n)))"

definition battery_kwh :: "store \<Rightarrow> string \<Rightarrow> (go_value \<times> string) option" where
  "battery_kwh s counter =
     (case (Option.bind (map_of (stValues s) ''battery_type'') nominalBatteryVoltage, stored_number s counter) of
        (Some volts, Some ah) \<Rightarrow> Some (to_decimals 1 (fdiv (fmul ah volts) (Num 1000)))
      | _ \<Rightarrow> None)"

text \<open>The derived value with an identifier and its rendering, if there is one.\<close>

definition derived_value :: "store \<Rightarrow> string \<Rightarrow> (go_value \<times> string) option" where
  "derived_value s i =
     (let moment = (\<lambda>ev. if seAt ev = 0 then None else Some (VStr (format_rfc3339 (seAt ev)), format_rfc3339 (seAt ev)));
          soc = (\<lambda>ev. if seAt ev = 0 then None else Some (to_decimals 0 (seSOC ev))) in
      if i = ''system_energy_losses_total'' then
        map_option (\<lambda>(input, output). to_decimals 1 (fsub input output)) (energy_balance s)
      else if i = ''system_energy_efficiency_total'' then
        map_option (\<lambda>(input, output). to_decimals 1 (fmul (fdiv output input) (Num 100))) (energy_balance s)
      else if i = ''pv_power'' then phases_sum s [''pv1_power'', ''pv2_power'']
      else if i = ''load_power'' then phases_sum s [''load_power_phase_a'', ''load_power_phase_b'', ''load_power_phase_c'']
      else if i = ''grid_power'' then phases_sum s [''grid_power_phase_a'', ''grid_power_phase_b'', ''grid_power_phase_c'']
      else if i = ''battery_charge_energy_total_estimate'' then battery_kwh s ''total_battery_charge_ah''
      else if i = ''battery_discharge_energy_total_estimate'' then battery_kwh s ''total_battery_discharge_ah''
      else if i = ''last_switch_to_grid_at'' then moment (stSwitchGrid s)
      else if i = ''last_switch_to_grid_soc'' then soc (stSwitchGrid s)
      else if i = ''last_switch_to_battery_at'' then moment (stSwitchBatt s)
      else if i = ''last_switch_to_battery_soc'' then soc (stSwitchBatt s)
      else None)"

text \<open>What is shown of a value.\<close>

abbreviation shown :: "decoded_value \<Rightarrow> string \<times> go_value \<times> string" where
  "shown v \<equiv> (dID v, dValue v, dRendered v)"

text \<open>At most one value, as a list.\<close>

definition derived_entry :: "string \<Rightarrow> (go_value \<times> string) option \<Rightarrow> (string \<times> go_value \<times> string) list" where
  "derived_entry i x = (case x of None \<Rightarrow> [] | Some (v, text) \<Rightarrow> [(i, v, text)])"

lemma derived_entry_simps [simp]: "derived_entry i None = []" "derived_entry i (Some (v, text)) = [(i, v, text)]"
  by (simp_all add: derived_entry_def)

lemma index_lookup:
  assumes "store_ok s"
  shows "map_of (index_values (map snd (stValues s))) = map_of (stValues s)"
proof -
  have "map (\<lambda>v. (dID v, v)) (map snd (stValues s)) = stValues s"
    using assms by (auto simp: store_ok_def list_all_iff intro!: map_idI)
  moreover have "distinct (map fst (stValues s))" using assms by (simp add: store_ok_def)
  ultimately show ?thesis
    unfolding index_values_def by (simp add: map_of_inject_set rev_map [symmetric])
qed

lemma lookup_number:
  assumes "map_of ix = map_of (stValues s)"
  shows "numeric_value (lookup_or value0 ix i) = stored_number s i"
  by (simp add: assms lookup_or_def stored_number_def value0_def numeric_value_def split: option.split)

lemma shown_energy:
  assumes "map_of ix = map_of (stValues s)"
  shows "map shown (energyTelemetry ix) =
    derived_entry ''system_energy_losses_total'' (map_option (\<lambda>(input, output). to_decimals 1 (fsub input output)) (energy_balance s))
    @ derived_entry ''system_energy_efficiency_total''
        (map_option (\<lambda>(input, output). to_decimals 1 (fmul (fdiv output input) (Num 100))) (energy_balance s))"
  by (simp add: energyTelemetry_def energy_balance_def lookup_number [OF assms] to_decimals_def Let_def split: option.split)

lemma phases_fold:
  assumes "map_of ix = map_of (stValues s)"
  shows "\<exists>t. fold (\<lambda>phaseID (total, found, updatedAt).
      case map_of ix phaseID of
        None \<Rightarrow> (total, found, updatedAt)
      | Some phase \<Rightarrow>
          (case numeric_value phase of
             None \<Rightarrow> (total, found, updatedAt)
           | Some v \<Rightarrow> (fadd total v, True, if updatedAt < dUpdatedAt phase then dUpdatedAt phase else updatedAt)))
      phases (x, b, u)
    = (foldl fadd x (List.map_filter (stored_number s) phases), b \<or> List.map_filter (stored_number s) phases \<noteq> [], t)"
proof (induction phases arbitrary: x b u)
  case (Cons i phases)
  show ?case
  proof (cases "stored_number s i")
    case None
    then show ?thesis using Cons.IH [of x b u]
      by (auto simp: assms stored_number_def split: option.splits bind_splits)
  next
    case (Some v)
    then obtain p where "map_of (stValues s) i = Some p" "numeric_value p = Some v"
      by (auto simp: stored_number_def bind_eq_Some_conv)
    then show ?thesis using Cons.IH [of "fadd x v" True] by (simp add: assms Some)
  qed
qed simp

lemma shown_phases:
  assumes "map_of ix = map_of (stValues s)"
  shows "map shown (phasePowerSumTelemetry i n a c ix phases) = derived_entry i (phases_sum s phases)"
proof -
  obtain t where t: "phasePowerSumTelemetry i n a c ix phases =
      (let (total, found, updatedAt) = (foldl fadd (Num 0) (List.map_filter (stored_number s) phases),
             List.map_filter (stored_number s) phases \<noteq> [], t)
       in if \<not> found then []
          else let rounded = int64_of_f64 (math_round total) in
            [value0\<lparr>dID := i, dName := n, dAddress := a, dGroup := GroupFast,
               dComponent := ''sensor'', dEntity := ''diagnostic'', dUnit := ''W'',
               dDeviceClass := ''power'', dStateClass := ''measurement'', dIcon := c,
               dRaw := rounded, dValue := VInt64 rounded, dRendered := show_int rounded,
               dUpdatedAt := updatedAt\<rparr>])"
    using phases_fold [OF assms, of phases "Num 0" False 0] unfolding phasePowerSumTelemetry_def by auto
  show ?thesis by (cases "List.map_filter (stored_number s) phases") (simp_all add: t phases_sum_def Let_def)
qed

lemma shown_battery:
  assumes "map_of ix = map_of (stValues s)"
  shows "map shown (batteryEnergyTelemetry ix) =
    derived_entry ''battery_charge_energy_total_estimate'' (battery_kwh s ''total_battery_charge_ah'')
    @ derived_entry ''battery_discharge_energy_total_estimate'' (battery_kwh s ''total_battery_discharge_ah'')"
proof -
  have "nominalBatteryVoltage value0 = None" by code_simp
  then have volts: "nominalBatteryVoltage (lookup_or value0 ix ''battery_type'')
      = Option.bind (map_of (stValues s) ''battery_type'') nominalBatteryVoltage"
    by (simp add: assms lookup_or_def split: option.split)
  show ?thesis
    by (simp add: batteryEnergyTelemetry_def batteryEnergyValue_def battery_kwh_def volts lookup_number [OF assms]
        to_decimals_def Let_def split: option.split)
qed

lemma shown_switch:
  "map shown (switchTelemetry i n a c ev) =
     derived_entry i (if seAt ev = 0 then None else Some (VStr (format_rfc3339 (seAt ev)), format_rfc3339 (seAt ev)))"
  "map shown (switchSOCTelemetry i n a c ev) = derived_entry i (if seAt ev = 0 then None else Some (to_decimals 0 (seSOC ev)))"
  by (simp_all add: switchTelemetry_def switchSOCTelemetry_def to_decimals_def Let_def)

text \<open>The derived values are those of the specification, in the order of the table.\<close>

lemma derived_shown:
  assumes "store_ok s"
  shows "map shown (derivedTelemetry (map snd (stValues s)) (stSwitchGrid s) (stSwitchBatt s))
    = concat (map (\<lambda>(i, a). derived_entry i (derived_value s i)) derivedIDs)"
proof -
  have syn: "map shown (map (\<lambda>v. v\<lparr>dSynthetic := True\<rparr>) xs) = map shown xs" for xs by simp
  note ix = index_lookup [OF assms]
  show ?thesis
    unfolding derivedTelemetry_def Let_def threePhasePowerTelemetry_def syn map_append
      shown_energy [OF ix] shown_phases [OF ix] shown_battery [OF ix] shown_switch
    by (simp add: derivedIDs_def derived_value_def Let_def)
qed

text \<open>C13: a snapshot of a reachable store is sorted by group and address, and holds every stored
  value once and besides exactly the derived values that the stored ones and the recorded switches give
  (\<open>derived_value\<close>: the losses and the efficiency of the energy balance, the sums of the phases, the
  estimated energy of the battery, the time and the state of charge of the last switches), each once and
  with its value and rendering; they are marked synthetic and have the addresses of a fixed table.\<close>

theorem snapshot_complete:
  assumes "store_step\<^sup>*\<^sup>* new_store s"
  shows "sorted (map (\<lambda>v. (dGroup v, dAddress v)) (snTelemetry (snapshot s)))
    \<and> (\<exists>derived. mset (snTelemetry (snapshot s)) = mset (map snd (stValues s)) + mset derived
        \<and> distinct (map dID (map snd (stValues s)))
        \<and> map (\<lambda>v. (dID v, dValue v, dRendered v)) derived = concat (map (\<lambda>(i, a). derived_entry i (derived_value s i)) derivedIDs)
        \<and> list_all (\<lambda>v. dSynthetic v \<and> map_of derivedIDs (dID v) = Some (dAddress v)) derived)"
proof -
  have ok: "store_ok s" using assms by (rule reachable_ok)
  let ?d = "derivedTelemetry (map snd (stValues s)) (stSwitchGrid s) (stSwitchBatt s)"
  have "sorted (map (\<lambda>v. (dGroup v, dAddress v)) (snTelemetry (snapshot s)))"
    by (simp add: snapshot_def sort_values_def Let_def)
  moreover have "distinct (map dID (map snd (stValues s)))"
    unfolding store_ok_ids [OF ok] using ok by (simp add: store_ok_def)
  moreover have "distinct (map fst derivedIDs)" by (simp add: derivedIDs_def)
  then have "list_all (\<lambda>v. dSynthetic v \<and> map_of derivedIDs (dID v) = Some (dAddress v)) ?d"
    by (auto simp: list_all_iff dest!: derived_fields)
  ultimately show ?thesis using set_snapshot derived_shown [OF ok] by blast
qed

theorem snapshot_complete_witness:
  "\<exists>v \<in> set (snTelemetry (snapshot (upsert_telemetry
      [value0\<lparr>dID := ''pv1_power'', dValue := VInt64 900\<rparr>, value0\<lparr>dID := ''pv2_power'', dValue := VInt64 600\<rparr>] new_store))).
    dID v = ''pv_power'' \<and> dRendered v = ''1500''"
proof -
  let ?s = "upsert_telemetry [value0\<lparr>dID := ''pv1_power'', dValue := VInt64 900\<rparr>, value0\<lparr>dID := ''pv2_power'', dValue := VInt64 600\<rparr>] new_store"
  obtain derived where d: "mset (snTelemetry (snapshot ?s)) = mset (map snd (stValues ?s)) + mset derived"
    "map (\<lambda>v. (dID v, dValue v, dRendered v)) derived = concat (map (\<lambda>(i, a). derived_entry i (derived_value ?s i)) derivedIDs)"
    using snapshot_complete [OF upsert_reachable, of
        "[value0\<lparr>dID := ''pv1_power'', dValue := VInt64 900\<rparr>, value0\<lparr>dID := ''pv2_power'', dValue := VInt64 600\<rparr>]"] by blast
  have "phases_sum ?s [''pv1_power'', ''pv2_power''] = Some (VInt64 1500, ''1500'')" by code_simp
  then have "derived_entry ''pv_power'' (derived_value ?s ''pv_power'') = [(''pv_power'', VInt64 1500, ''1500'')]"
    by (simp add: derived_value_def)
  then have "(''pv_power'', VInt64 1500, ''1500'') \<in> set (map (\<lambda>v. (dID v, dValue v, dRendered v)) derived)"
    unfolding d(2) by (force simp: derivedIDs_def)
  then obtain v where "v \<in> set derived" "dID v = ''pv_power''" "dRendered v = ''1500''" by auto
  moreover have "set derived \<subseteq> set (snTelemetry (snapshot ?s))"
    using arg_cong [OF d(1), of set_mset] by auto
  ultimately show ?thesis by blast
qed

text \<open>The identifiers of a snapshot of a reachable store are distinct exactly when no derived
  value has the identifier of a stored one.\<close>

theorem snapshot_ids_distinct:
  assumes "store_step\<^sup>*\<^sup>* new_store s"
  shows "distinct (map dID (snTelemetry (snapshot s))) \<longleftrightarrow>
    dID ` set (derivedTelemetry (map snd (stValues s)) (stSwitchGrid s) (stSwitchBatt s)) \<inter> dom (map_of (stValues s)) = {}"
proof -
  have ok: "store_ok s" using assms by (rule reachable_ok)
  let ?d = "derivedTelemetry (map snd (stValues s)) (stSwitchGrid s) (stSwitchBatt s)"
  have "mset (map dID (snTelemetry (snapshot s))) = mset (map dID (map snd (stValues s) @ ?d))"
    by (simp only: mset_map set_snapshot map_append mset_append image_mset_union)
  then have "distinct (map dID (snTelemetry (snapshot s))) \<longleftrightarrow> distinct (map dID (map snd (stValues s) @ ?d))"
    by (rule mset_eq_imp_distinct_iff)
  also have "\<dots> \<longleftrightarrow> fst ` set (stValues s) \<inter> dID ` set ?d = {}"
    unfolding map_append store_ok_ids [OF ok]
    using ok derived_distinct [of "map snd (stValues s)" "stSwitchGrid s" "stSwitchBatt s"]
    by (simp add: store_ok_def)
  finally show ?thesis by (simp add: dom_map_of_conv_image_fst Int_commute)
qed

theorem snapshot_ids_distinct_witness:
  "distinct (map dID (snTelemetry (snapshot (upsert_telemetry [value0\<lparr>dID := ''battery_soc''\<rparr>] new_store)))) \<longleftrightarrow>
    dID ` set (derivedTelemetry (map snd (stValues (upsert_telemetry [value0\<lparr>dID := ''battery_soc''\<rparr>] new_store)))
      (stSwitchGrid (upsert_telemetry [value0\<lparr>dID := ''battery_soc''\<rparr>] new_store))
      (stSwitchBatt (upsert_telemetry [value0\<lparr>dID := ''battery_soc''\<rparr>] new_store)))
    \<inter> dom (map_of (stValues (upsert_telemetry [value0\<lparr>dID := ''battery_soc''\<rparr>] new_store))) = {}"
  by (rule snapshot_ids_distinct [OF upsert_reachable])

text \<open>C14: the store is not cleared when the inverter type changes. A stored \<^verbatim>\<open>pv_power\<close> of the
  single-phase catalog and a later numeric \<^verbatim>\<open>pv1_power\<close> of a three-phase catalog give a
  snapshot with two values called \<^verbatim>\<open>pv_power\<close>.\<close>

theorem profile_change_duplicates:
  assumes "dID old = ''pv_power''" "dID new = ''pv1_power''" "numeric_value new = Some x"
  shows "\<not> distinct (map dID (snTelemetry (snapshot (upsert_telemetry [new] (upsert_telemetry [old] new_store)))))"
proof -
  let ?s = "upsert_telemetry [new] (upsert_telemetry [old] new_store)"
  have vals: "stValues ?s = [(''pv_power'', old), (''pv1_power'', new)]"
    by (simp add: upsert_values put_values_def new_store_def assms)
  have "phasePowerSumTelemetry ''pv_power'' n a c (index_values [old, new]) [''pv1_power'', ''pv2_power''] \<noteq> []
      \<and> dID (hd (phasePowerSumTelemetry ''pv_power'' n a c (index_values [old, new]) [''pv1_power'', ''pv2_power''])) = ''pv_power''" for n a c
    by (simp add: phasePowerSumTelemetry_def index_values_def assms Let_def)
  then have "\<exists>v \<in> set (threePhasePowerTelemetry (index_values [old, new])). dID v = ''pv_power''"
    unfolding threePhasePowerTelemetry_def by (metis UnI1 hd_in_set set_append)
  then have "''pv_power'' \<in> dID ` set (derivedTelemetry [old, new] g b)" for g b
    by (force simp: derivedTelemetry_def Let_def image_iff)
  then have "\<not> distinct (map dID ([old, new] @ derivedTelemetry [old, new] g b))" for g b
    using assms(1) by simp
  moreover have "mset (map dID (snTelemetry (snapshot ?s))) =
      mset (map dID ([old, new] @ derivedTelemetry [old, new] (stSwitchGrid ?s) (stSwitchBatt ?s)))"
    using set_snapshot [of ?s] unfolding vals by (simp add: mset_map)
  ultimately show ?thesis using mset_eq_imp_distinct_iff by blast
qed

theorem profile_change_duplicates_witness:
  "\<not> distinct (map dID (snTelemetry (snapshot
      (upsert_telemetry [value0\<lparr>dID := ''pv1_power'', dValue := VInt64 1500\<rparr>]
        (upsert_telemetry [value0\<lparr>dID := ''pv_power'', dValue := VInt64 900\<rparr>] new_store)))))"
  by (rule profile_change_duplicates [where x = "f64_of_int 1500"]) (simp_all add: numeric_value_def)

text \<open>C15: a switch to the grid or to the battery is recorded exactly when a batch changes the machine
  state to the one it stands for; the event carries the time of the new state. The first state
  ever seen, and an empty one, record nothing.\<close>

theorem switch_recorded:
  assumes "last_value vs ''machine_state'' = Some m"
  shows "let previous = dRendered (lookup_or value0 (stValues s) ''machine_state'');
             changed = (previous \<noteq> '''' \<and> dRendered m \<noteq> '''' \<and> dRendered m \<noteq> previous);
             s' = upsert_telemetry vs s
    in (if changed \<and> dRendered m = ''AC Power Operation'' then seAt (stSwitchGrid s') = dUpdatedAt m
        else stSwitchGrid s' = stSwitchGrid s)
     \<and> (if changed \<and> dRendered m = ''Inverter Operation'' then seAt (stSwitchBatt s') = dUpdatedAt m
        else stSwitchBatt s' = stSwitchBatt s)"
proof -
  have "lookup_or value0 (put_values vs (stValues s)) ''machine_state'' = m"
    using assms by (simp add: lookup_or_def map_of_put_values)
  then show ?thesis
    by (simp add: upsert_telemetry_def Let_def switch_event_of_def)
qed

theorem switch_recorded_witness:
  "seAt (stSwitchGrid (upsert_telemetry [value0\<lparr>dID := ''machine_state'', dRendered := ''AC Power Operation'', dUpdatedAt := 9\<rparr>]
      (upsert_telemetry [value0\<lparr>dID := ''machine_state'', dRendered := ''Inverter Operation'', dUpdatedAt := 5\<rparr>] new_store))) = 9"
proof -
  let ?a = "value0\<lparr>dID := ''machine_state'', dRendered := ''AC Power Operation'', dUpdatedAt := 9\<rparr>"
  let ?s = "upsert_telemetry [value0\<lparr>dID := ''machine_state'', dRendered := ''Inverter Operation'', dUpdatedAt := 5\<rparr>] new_store"
  have "last_value [?a] ''machine_state'' = Some ?a" by (simp add: last_value_def)
  from switch_recorded [OF this, of ?s] show ?thesis
    by (simp add: Let_def upsert_values put_values_def new_store_def lookup_or_def)
qed

text \<open>A sequence of status updates, each with its time and arguments.\<close>

type_synonym status_call = "gotime \<times> string \<times> string \<times> bool \<times> go_error \<times> gotime"

definition run_statuses :: "status_call list \<Rightarrow> store \<Rightarrow> store" where
  "run_statuses calls s =
     fold (\<lambda>(now, name, st, c, e, ls). set_service_status now name st c e ls) calls s"

definition last_success :: "store \<Rightarrow> string \<Rightarrow> gotime" where
  "last_success s name = ssLastSuccess (lookup_or status0 (stServices s) name)"

lemma last_success_set:
  "last_success (set_service_status now n st c e ls s) name =
     (if n = name \<and> ls \<noteq> 0 then ls else last_success s name)"
  by (simp add: last_success_def set_service_status_def lookup_or_def update_conv' Let_def)

text \<open>The time of the last success of a service is never lost: after any sequence of status
  updates it is the last time given that is not zero, or else the one it had.\<close>

theorem last_success_kept:
  "last_success (run_statuses calls s) name =
     (case find_first (\<lambda>(_, n, _, _, _, ls). n = name \<and> ls \<noteq> 0) (rev calls) of
        Some (_, _, _, _, _, ls) \<Rightarrow> ls
      | None \<Rightarrow> last_success s name)"
  unfolding run_statuses_def
proof (induction calls arbitrary: s)
  case (Cons a calls)
  obtain now n st c e ls where a: "a = (now, n, st, c, e, ls)" by (cases a) auto
  show ?case
    using Cons.IH [of "set_service_status now n st c e ls s"]
    by (auto simp: a find_first_append last_success_set split: option.splits)
qed simp

end
