(* ===== verification/StormCharge.thy ===== *)
theory StormCharge
  imports Store Config
begin

text \<open>
  \<^verbatim>\<open>internal/stormcharge/manager.go\<close>: the manager that charges the battery from the grid
  before a storm and restores the previous settings afterwards. \<open>manager\<close> is the struct
  \<^verbatim>\<open>Manager\<close> with the world it acts on; \<open>start\<close>, \<open>cancel\<close> and
  \<open>evaluate\<close> (the body of the loop of \<^verbatim>\<open>Run\<close>) hold the mutex and are one step each;
  \<open>new_manager\<close> is a start of the process.

  \<open>storm_env\<close> has what the manager calls: the interface \<^verbatim>\<open>RegisterWriter\<close>, the snapshot
  of the store, the clock, the file system and YAML. Every call but the snapshot, the clock and the
  file contents can change the world \<open>'w\<close>. The error text of a runtime is the error it was made
  from, as in the store. A text that does not parse as a number counts as no value; in
  \<open>status\<close>, which ignores the error, such a value is 0.
\<close>

section \<open>Data\<close>

record settings =
  sgTargetSOC :: int
  sgMaxCurrentA :: f64
  sgTimeout :: duration

record previous_settings =
  psCutoffSOC :: int
  psMainsCurrentA :: f64
  psSchedule :: "u16 list"

record runtime =
  rtVersion :: int
  rtActive :: bool
  rtPhase :: string
  rtSettings :: settings
  rtPrevious :: previous_settings
  rtStartedAt :: gotime
  rtDeadline :: gotime
  rtUpdatedAt :: gotime
  rtReason :: string
  rtLastError :: go_error

record storm_status =
  saActive :: bool
  saPhase :: string
  saSettings :: settings
  saPrevious :: previous_settings
  saStartedAt :: "gotime option"
  saDeadline :: "gotime option"
  saRemaining :: "duration option"
  saCurrentSOC :: f64
  saBatteryVoltage :: f64
  saPowerWatts :: int
  saBMSLimitA :: f64
  saReason :: string
  saError :: go_error
  saStamp :: gotime

record 'w storm_env =
  evWriteRegister :: "string \<Rightarrow> go_value \<Rightarrow> 'w \<Rightarrow> unit result \<times> 'w"
  evReadWords :: "u16 \<Rightarrow> u16 \<Rightarrow> 'w \<Rightarrow> u16 list result \<times> 'w"
  evWriteWords :: "u16 \<Rightarrow> u16 list \<Rightarrow> 'w \<Rightarrow> unit result \<times> 'w"
  evSnapshot :: "'w \<Rightarrow> snapshot_data"
  evNow :: "'w \<Rightarrow> gotime"
  evReadFile :: "string \<Rightarrow> 'w \<Rightarrow> load_error + string"
  evMkdirFor :: "string \<Rightarrow> 'w \<Rightarrow> unit result \<times> 'w"
  evWriteFile :: "string \<Rightarrow> string \<Rightarrow> 'w \<Rightarrow> unit result \<times> 'w"
  evRename :: "string \<Rightarrow> string \<Rightarrow> 'w \<Rightarrow> unit result \<times> 'w"
  evMarshal :: "runtime \<Rightarrow> string result"
  evUnmarshal :: "string \<Rightarrow> runtime \<Rightarrow> runtime result"

record 'w manager =
  mgPath :: string
  mgRuntime :: runtime
  mgResumePending :: bool
  mgWorld :: 'w

definition phaseIdle :: string where "phaseIdle = ''idle''"
definition phaseStarting :: string where "phaseStarting = ''starting''"
definition phaseCharging :: string where "phaseCharging = ''charging''"
definition phaseRestoring :: string where "phaseRestoring = ''restoring''"
definition phaseCompleted :: string where "phaseCompleted = ''completed''"
definition phaseCancelled :: string where "phaseCancelled = ''cancelled''"
definition phaseTimedOut :: string where "phaseTimedOut = ''timed_out''"
definition phaseError :: string where "phaseError = ''error''"

definition managedRegisters :: "string set" where
  "managedRegisters = {''battery_charge_cutoff_soc'', ''mains_charge_current_limit''}"

definition isManagedRegister :: "string \<Rightarrow> bool" where
  "isManagedRegister i \<longleftrightarrow> i \<in> managedRegisters"

definition timedChargeAddress :: u16 where "timedChargeAddress = 0xE026"
definition timedChargeWords :: nat where "timedChargeWords = 7"

definition settings0 :: settings where
  "settings0 = \<lparr>sgTargetSOC = 0, sgMaxCurrentA = Num 0, sgTimeout = 0\<rparr>"

definition previous0 :: previous_settings where
  "previous0 = \<lparr>psCutoffSOC = 0, psMainsCurrentA = Num 0, psSchedule = []\<rparr>"

definition runtime0 :: runtime where
  "runtime0 = \<lparr>rtVersion = 2, rtActive = False, rtPhase = phaseIdle, rtSettings = settings0,
     rtPrevious = previous0, rtStartedAt = 0, rtDeadline = 0, rtUpdatedAt = 0, rtReason = '''',
     rtLastError = no_error\<rparr>"

definition runtimePath :: "string \<Rightarrow> string" where
  "runtimePath configPath = configPath @ ''.storm-charge-state.yaml''"

definition settingsFromConfig :: "storm_config \<Rightarrow> settings" where
  "settingsFromConfig cfg =
     \<lparr>sgTargetSOC = smTargetSOC cfg, sgMaxCurrentA = smMaxCurrentA cfg, sgTimeout = smTimeout cfg\<rparr>"

definition validateSettings :: "settings \<Rightarrow> unit result" where
  "validateSettings g =
     (if sgTargetSOC g < 50 \<or> sgTargetSOC g > 100
        then Inl (Errorf ''target SOC must be between 50 and 100 percent'' [])
      else if fle (sgMaxCurrentA g) (Num 0) \<or> flt (Num 120) (sgMaxCurrentA g)
        then Inl (Errorf ''maximum grid charge current must be greater than 0 and at most 120 A'' [])
      else if sgTimeout g < 5 * minute \<or> sgTimeout g > 24 * hour
        then Inl (Errorf ''timeout must be between 5 minutes and 24 hours'' [])
      else Inr ())"

section \<open>Telemetry\<close>

definition optionalNumeric :: "snapshot_data \<Rightarrow> string \<Rightarrow> f64 option" where
  "optionalNumeric snap i =
     (case find_first (\<lambda>v. dID v = i) (snTelemetry snap) of
        None \<Rightarrow> None
      | Some v \<Rightarrow>
          (case dValue v of
             VFloat x \<Rightarrow> Some x
           | VInt64 n \<Rightarrow> Some (f64_of_int n)
           | VInt n \<Rightarrow> Some (f64_of_int n)
           | _ \<Rightarrow> parse_float (dRendered v)))"

definition requiredNumeric :: "snapshot_data \<Rightarrow> string \<Rightarrow> f64 result" where
  "requiredNumeric snap i =
     (case optionalNumeric snap i of
        None \<Rightarrow> Inl (Errorf ''telemetry %s is not available'' [AStr i])
      | Some x \<Rightarrow> Inr x)"

text \<open>A float in the text of an error; a value that is not finite is kept as a text.\<close>

definition arg_f64 :: "f64 \<Rightarrow> err_arg" where
  "arg_f64 x = (if is_fin x then ARat (fval x) else AStr (format_float x 1))"

fun require_phases :: "snapshot_data \<Rightarrow> string list \<Rightarrow> unit result" where
  "require_phases snap [] = Inr ()"
| "require_phases snap (i # is) =
     (case requiredNumeric snap i of
        Inl e \<Rightarrow> Inl e
      | Inr voltage \<Rightarrow>
          (if flt voltage (Num 170) \<or> flt (Num 280) voltage
           then Inl (Errorf ''grid is unavailable: %s is %.1f V'' [AStr i, arg_f64 voltage])
           else require_phases snap is))"

definition requireGrid :: "snapshot_data \<Rightarrow> unit result" where
  "requireGrid snap =
     (case require_phases snap [''grid_voltage_phase_a'', ''grid_voltage_phase_b'', ''grid_voltage_phase_c''] of
        Inl e \<Rightarrow> Inl e
      | Inr _ \<Rightarrow>
          (case requiredNumeric snap ''grid_frequency'' of
             Inl e \<Rightarrow> Inl e
           | Inr frequency \<Rightarrow>
               (if flt frequency (Num 45) \<or> flt (Num 65) frequency
                then Inl (Errorf ''grid is unavailable: frequency is %.2f Hz'' [arg_f64 frequency])
                else Inr ())))"

definition hasRequiredTelemetry :: "snapshot_data \<Rightarrow> bool" where
  "hasRequiredTelemetry snap =
     list_all (\<lambda>i. list_ex (\<lambda>v. dID v = i) (snTelemetry snap))
       [''battery_soc'', ''battery_charge_cutoff_soc'', ''mains_charge_current_limit'',
        ''grid_voltage_phase_a'', ''grid_voltage_phase_b'', ''grid_voltage_phase_c'', ''grid_frequency'']"

definition activeFault :: "snapshot_data \<Rightarrow> (int \<times> string) option" where
  "activeFault snap =
     (case find_first (\<lambda>v. dID v = ''fault_code_1'' \<and> dRaw v \<noteq> 0) (snTelemetry snap) of
        Some v \<Rightarrow> Some (dRaw v, ''fault_code_1'')
      | None \<Rightarrow>
          (case find_first (\<lambda>v. dID v = ''fault_code_2'' \<and> dRaw v \<noteq> 0) (snTelemetry snap) of
             Some v \<Rightarrow> Some (dRaw v, ''fault_code_2'')
           | None \<Rightarrow> None))"

definition finalPhaseForReason :: "string \<Rightarrow> string" where
  "finalPhaseForReason reason =
     (if reason = ''target_reached'' then phaseCompleted
      else if reason = ''timeout'' then phaseTimedOut
      else if reason \<in> {''manual_cancel'', ''grid_lost''} then phaseCancelled
      else phaseError)"

section \<open>Calls on the world\<close>

definition now_of :: "'w storm_env \<Rightarrow> 'w manager \<Rightarrow> gotime" where
  "now_of env m = evNow env (mgWorld m)"

definition call :: "('w \<Rightarrow> 'a \<times> 'w) \<Rightarrow> 'w manager \<Rightarrow> 'a \<times> 'w manager" where
  "call f m = (case f (mgWorld m) of (r, w) \<Rightarrow> (r, m\<lparr>mgWorld := w\<rparr>))"

definition set_runtime :: "(runtime \<Rightarrow> runtime) \<Rightarrow> 'w manager \<Rightarrow> 'w manager" where
  "set_runtime f m = m\<lparr>mgRuntime := f (mgRuntime m)\<rparr>"

definition save_locked :: "'w storm_env \<Rightarrow> 'w manager \<Rightarrow> unit result \<times> 'w manager" where
  "save_locked env m =
     (case call (evMkdirFor env (mgPath m)) m of
        (Inl e, m1) \<Rightarrow> (Inl (Errorf ''create storm charge state directory: %w'' [AErr e]), m1)
      | (Inr _, m1) \<Rightarrow>
      (case evMarshal env (mgRuntime m1) of
        Inl e \<Rightarrow> (Inl (Errorf ''marshal storm charge runtime state: %w'' [AErr e]), m1)
      | Inr data \<Rightarrow>
          let tmpPath = mgPath m1 @ ''.tmp'' in
          (case call (evWriteFile env tmpPath data) m1 of
             (Inl e, m2) \<Rightarrow> (Inl (Errorf ''write storm charge runtime state: %w'' [AErr e]), m2)
           | (Inr _, m2) \<Rightarrow>
               (case call (evRename env tmpPath (mgPath m2)) m2 of
                  (Inl e, m3) \<Rightarrow> (Inl (Errorf ''replace storm charge runtime state: %w'' [AErr e]), m3)
                | (Inr _, m3) \<Rightarrow> (Inr (), m3)))))"

text \<open>A save whose error is dropped.\<close>

definition try_save :: "'w storm_env \<Rightarrow> 'w manager \<Rightarrow> 'w manager" where
  "try_save env m = snd (save_locked env m)"

section \<open>The timed charge schedule\<close>

definition write_enable :: "'w storm_env \<Rightarrow> u16 \<Rightarrow> 'w manager \<Rightarrow> unit result \<times> 'w manager" where
  "write_enable env v m =
     (case call (evWriteWords env (timedChargeAddress + 6) [v]) m of
        (Inl e, m1) \<Rightarrow> (Inl (Errorf ''write OnTimeChargeEn: %w'' [AErr e]), m1)
      | (Inr _, m1) \<Rightarrow> (Inr (), m1))"

fun write_slots :: "'w storm_env \<Rightarrow> nat \<Rightarrow> u16 list \<Rightarrow> 'w manager \<Rightarrow> unit result \<times> 'w manager" where
  "write_slots env offset [] m = (Inr (), m)"
| "write_slots env offset (v # vs) m =
     (case call (evWriteWords env (timedChargeAddress + of_nat offset) [v]) m of
        (Inl e, m1) \<Rightarrow>
          (Inl (Errorf ''write timed charge slot register 0x%04X: %w''
             [AInt (uint (timedChargeAddress + of_nat offset)), AErr e]), m1)
      | (Inr _, m1) \<Rightarrow> write_slots env (Suc offset) vs m1)"

definition write_schedule :: "'w storm_env \<Rightarrow> u16 list \<Rightarrow> 'w manager \<Rightarrow> unit result \<times> 'w manager" where
  "write_schedule env vs m =
     (if length vs \<noteq> timedChargeWords
      then (Inl (Errorf ''timed utility charging requires %d words'' [AInt (int timedChargeWords)]), m)
      else case (if vs ! 6 = 0 then write_enable env (vs ! 6) m else (Inr (), m)) of
        (Inl e, m1) \<Rightarrow> (Inl e, m1)
      | (Inr _, m1) \<Rightarrow>
          (case write_slots env 0 (take 6 vs) m1 of
             (Inl e, m2) \<Rightarrow> (Inl e, m2)
           | (Inr _, m2) \<Rightarrow> (if vs ! 6 \<noteq> 0 then write_enable env (vs ! 6) m2 else (Inr (), m2))))"

definition stormSchedule :: "u16 list" where
  "stormSchedule = [0x0001, 0x173B, 0x0001, 0x173B, 0x0001, 0x173B, 1]"

section \<open>Applying and restoring\<close>

fun apply_writes :: "'w storm_env \<Rightarrow> (string \<times> go_value) list \<Rightarrow> 'w manager \<Rightarrow> unit result \<times> 'w manager" where
  "apply_writes env [] m = (Inr (), m)"
| "apply_writes env ((i, v) # ws) m =
     (case call (evWriteRegister env i v) m of
        (Inl e, m1) \<Rightarrow> (Inl (Errorf ''write %s: %w'' [AStr i, AErr e]), m1)
      | (Inr _, m1) \<Rightarrow> apply_writes env ws m1)"

definition apply_storm_settings :: "'w storm_env \<Rightarrow> 'w manager \<Rightarrow> unit result \<times> 'w manager" where
  "apply_storm_settings env m =
     (case apply_writes env
             [(''battery_charge_cutoff_soc'', VInt (sgTargetSOC (rtSettings (mgRuntime m)))),
              (''mains_charge_current_limit'', VFloat (sgMaxCurrentA (rtSettings (mgRuntime m))))] m of
        (Inl e, m1) \<Rightarrow> (Inl e, m1)
      | (Inr _, m1) \<Rightarrow>
          (case write_schedule env stormSchedule m1 of
             (Inl e, m2) \<Rightarrow> (Inl (Errorf ''enable timed utility charging: %w'' [AErr e]), m2)
           | (Inr _, m2) \<Rightarrow> (Inr (), m2)))"

text \<open>Every write is attempted, whatever the ones before gave; the errors are collected.\<close>

fun restore_writes :: "'w storm_env \<Rightarrow> (string \<times> go_value) list \<Rightarrow> 'w manager \<Rightarrow> go_error list \<times> 'w manager" where
  "restore_writes env [] m = ([], m)"
| "restore_writes env ((i, v) # ws) m =
     (case call (evWriteRegister env i v) m of
        (r, m1) \<Rightarrow>
          (case restore_writes env ws m1 of
             (es, m2) \<Rightarrow>
               ((case r of Inl e \<Rightarrow> Errorf ''%s: %v'' [AStr i, AErr e] # es | Inr _ \<Rightarrow> es), m2)))"

definition restore_schedule :: "'w storm_env \<Rightarrow> 'w manager \<Rightarrow> go_error list \<times> 'w manager" where
  "restore_schedule env m =
     (let vs = psSchedule (rtPrevious (mgRuntime m)) in
      if length vs \<noteq> timedChargeWords then ([], m)
      else case write_schedule env vs m of
        (Inl e, m1) \<Rightarrow> ([Errorf ''timed utility charging: %v'' [AErr e]], m1)
      | (Inr _, m1) \<Rightarrow> ([], m1))"

definition restore_all :: "'w storm_env \<Rightarrow> 'w manager \<Rightarrow> go_error list \<times> 'w manager" where
  "restore_all env m =
     (case restore_schedule env m of
        (es1, m1) \<Rightarrow>
          (case restore_writes env
                  [(''mains_charge_current_limit'', VFloat (psMainsCurrentA (rtPrevious (mgRuntime m1)))),
                   (''battery_charge_cutoff_soc'', VInt (psCutoffSOC (rtPrevious (mgRuntime m1))))] m1 of
             (es2, m2) \<Rightarrow> (es1 @ es2, m2)))"

definition restore_locked ::
  "'w storm_env \<Rightarrow> string \<Rightarrow> string \<Rightarrow> 'w manager \<Rightarrow> unit result \<times> 'w manager" where
  "restore_locked env finalPhase reason m =
     (let m1 = set_runtime (\<lambda>r. r\<lparr>rtPhase := phaseRestoring, rtReason := reason, rtUpdatedAt := now_of env m\<rparr>) m;
          m2 = try_save env m1
      in case restore_all env m2 of
        (errorsFound, m3) \<Rightarrow>
          if errorsFound \<noteq> [] then
            (let e = Joined ''; '' errorsFound;
                 m4 = set_runtime (\<lambda>r. r\<lparr>rtLastError := e, rtUpdatedAt := now_of env m3\<rparr>) m3
             in (Inl e, try_save env m4))
          else
            (let m4 = set_runtime (\<lambda>r. r\<lparr>rtActive := False, rtPhase := finalPhase, rtLastError := no_error,
                        rtDeadline := 0, rtUpdatedAt := now_of env m3\<rparr>) m3
             in case save_locked env m4 of
               (Inl e, m5) \<Rightarrow>
                 (Inl e, set_runtime (\<lambda>r. r\<lparr>rtActive := True, rtPhase := phaseRestoring, rtLastError := e\<rparr>) m5)
             | (Inr _, m5) \<Rightarrow> (Inr (), m5)))"

section \<open>Operations\<close>

definition previous_of :: "'w storm_env \<Rightarrow> snapshot_data \<Rightarrow> 'w manager \<Rightarrow> previous_settings result \<times> 'w manager" where
  "previous_of env snap m =
     (case requiredNumeric snap ''battery_charge_cutoff_soc'' of
        Inl e \<Rightarrow> (Inl e, m)
      | Inr cutoff \<Rightarrow>
      (case requiredNumeric snap ''mains_charge_current_limit'' of
        Inl e \<Rightarrow> (Inl e, m)
      | Inr current \<Rightarrow>
      (case call (evReadWords env timedChargeAddress (of_nat timedChargeWords)) m of
        (Inl e, m1) \<Rightarrow> (Inl (Errorf ''read timed utility charging settings: %w'' [AErr e]), m1)
      | (Inr schedule, m1) \<Rightarrow>
          (Inr \<lparr>psCutoffSOC = int64_of_f64 cutoff, psMainsCurrentA = current, psSchedule = schedule\<rparr>, m1))))"

text \<open>The checks of \<^verbatim>\<open>Start\<close> on the snapshot.\<close>

definition start_checks :: "settings \<Rightarrow> snapshot_data \<Rightarrow> unit result" where
  "start_checks g snap =
     (case requiredNumeric snap ''battery_soc'' of
        Inl e \<Rightarrow> Inl e
      | Inr currentSOC \<Rightarrow>
      if fle (f64_of_int (sgTargetSOC g)) currentSOC
      then Inl (Errorf ''battery SOC is already %.0f%%, target must be higher'' [arg_f64 currentSOC])
      else case requireGrid snap of
        Inl e \<Rightarrow> Inl e
      | Inr _ \<Rightarrow>
          (case optionalNumeric snap ''maximum_charge_current'' of
             None \<Rightarrow> Inr ()
           | Some limit \<Rightarrow>
               (if flt (Num 0) limit \<and> flt limit (sgMaxCurrentA g)
                then Inl (Errorf ''requested %.1f A exceeds the current BMS charge limit of %.1f A''
                        [arg_f64 (sgMaxCurrentA g), arg_f64 limit])
                else Inr ())))"

text \<open>The session once it is saved: the settings are applied, or else restored.\<close>

definition start_session :: "'w storm_env \<Rightarrow> 'w manager \<Rightarrow> unit result \<times> 'w manager" where
  "start_session env m =
     (case apply_storm_settings env m of
        (Inl e, m1) \<Rightarrow>
          (let m2 = set_runtime (\<lambda>r. r\<lparr>rtPhase := phaseRestoring, rtReason := ''start_failed'', rtLastError := e,
                      rtUpdatedAt := now_of env m1\<rparr>) m1
           in case restore_locked env phaseError ''start_failed'' (try_save env m2) of
             (Inl re, m3) \<Rightarrow> (Inl (Errorf ''start storm charge: %v; restore previous settings: %w'' [AErr e, AErr re]), m3)
           | (Inr _, m3) \<Rightarrow> (Inl (Errorf ''start storm charge: %w'' [AErr e]), m3))
      | (Inr _, m1) \<Rightarrow>
          (let m2 = set_runtime (\<lambda>r. r\<lparr>rtPhase := phaseCharging, rtUpdatedAt := now_of env m1, rtLastError := no_error\<rparr>) m1
           in case save_locked env m2 of
             (Inr _, m3) \<Rightarrow> (Inr (), m3)
           | (Inl e, m3) \<Rightarrow>
               (let m4 = set_runtime (\<lambda>r. r\<lparr>rtPhase := phaseRestoring, rtReason := ''persistence_failed'', rtLastError := e\<rparr>) m3
                in case restore_locked env phaseError ''persistence_failed'' m4 of
                  (Inl re, m5) \<Rightarrow>
                    (Inl (Errorf ''persist active storm charge: %v; restore previous settings: %w'' [AErr e, AErr re]), m5)
                | (Inr _, m5) \<Rightarrow> (Inl (Errorf ''persist active storm charge: %w'' [AErr e]), m5))))"

definition start_runtime :: "settings \<Rightarrow> previous_settings \<Rightarrow> gotime \<Rightarrow> runtime" where
  "start_runtime g previous now =
     \<lparr>rtVersion = 2, rtActive = True, rtPhase = phaseStarting, rtSettings = g, rtPrevious = previous,
      rtStartedAt = now, rtDeadline = now + sgTimeout g, rtUpdatedAt = now, rtReason = '''',
      rtLastError = no_error\<rparr>"

definition start :: "'w storm_env \<Rightarrow> settings \<Rightarrow> 'w manager \<Rightarrow> unit result \<times> 'w manager" where
  "start env g m =
     (case validateSettings g of
        Inl e \<Rightarrow> (Inl e, m)
      | Inr _ \<Rightarrow>
      if rtActive (mgRuntime m) then (Inl (Errorf ''storm charge is already active'' []), m)
      else let snap = evSnapshot env (mgWorld m) in
      (case start_checks g snap of
        Inl e \<Rightarrow> (Inl e, m)
      | Inr _ \<Rightarrow>
      (case previous_of env snap m of
        (Inl e, m1) \<Rightarrow> (Inl e, m1)
      | (Inr previous, m1) \<Rightarrow>
          (let m2 = set_runtime (\<lambda>_. start_runtime g previous (now_of env m1)) m1
           in case save_locked env m2 of
             (Inl e, m3) \<Rightarrow> (Inl e, set_runtime (\<lambda>_. runtime0) m3)
           | (Inr _, m3) \<Rightarrow> start_session env m3))))"

definition cancel :: "'w storm_env \<Rightarrow> 'w manager \<Rightarrow> unit result \<times> 'w manager" where
  "cancel env m =
     (if \<not> rtActive (mgRuntime m) then (Inr (), m)
      else restore_locked env phaseCancelled ''manual_cancel'' m)"

definition is_active :: "'w manager \<Rightarrow> bool" where
  "is_active m = rtActive (mgRuntime m)"

definition modbus_connected :: "snapshot_data \<Rightarrow> bool" where
  "modbus_connected snap =
     (case map_of (snServices snap) ''modbus'' of None \<Rightarrow> False | Some st \<Rightarrow> ssConnected st)"

text \<open>The last part of \<^verbatim>\<open>evaluate\<close>: the conditions that end a session.\<close>

definition check_session :: "'w storm_env \<Rightarrow> snapshot_data \<Rightarrow> 'w manager \<Rightarrow> 'w manager" where
  "check_session env snap m =
     (case activeFault snap of
        Some (fault, i) \<Rightarrow> snd (restore_locked env phaseError (i @ ''_'' @ show_int fault) m)
      | None \<Rightarrow>
      (case requireGrid snap of
        Inl e \<Rightarrow> snd (restore_locked env phaseCancelled ''grid_lost'' m)
      | Inr _ \<Rightarrow>
      (case requiredNumeric snap ''battery_soc'' of
        Inl e \<Rightarrow> m
      | Inr soc \<Rightarrow>
          (if fle (f64_of_int (sgTargetSOC (rtSettings (mgRuntime m)))) soc
           then snd (restore_locked env phaseCompleted ''target_reached'' m)
           else m))))"

definition evaluate :: "'w storm_env \<Rightarrow> 'w manager \<Rightarrow> 'w manager" where
  "evaluate env m =
     (let r = mgRuntime m; snap = evSnapshot env (mgWorld m); now = now_of env m in
      if \<not> rtActive r then m
      else if \<not> modbus_connected snap then
        (if mgResumePending m then m
         else if rtPhase r \<noteq> phaseRestoring
         then try_save env (set_runtime (\<lambda>r. r\<lparr>rtPhase := phaseRestoring, rtReason := ''modbus_lost'',
                rtLastError := Errorf ''waiting for Modbus to restore previous settings'' [],
                rtUpdatedAt := now\<rparr>) m)
         else m)
      else if rtPhase r = phaseRestoring then
        (case restore_locked env (finalPhaseForReason (rtReason r)) (rtReason r) m of
           (Inr _, m1) \<Rightarrow> m1
         | (Inl e, m1) \<Rightarrow> try_save env (set_runtime (\<lambda>r. r\<lparr>rtLastError := e, rtUpdatedAt := now_of env m1\<rparr>) m1))
      else if rtDeadline r \<noteq> 0 \<and> rtDeadline r \<le> now
      then snd (restore_locked env phaseTimedOut ''timeout'' m)
      else if \<not> hasRequiredTelemetry snap then m
      else if mgResumePending m then
        (case apply_storm_settings env m of
           (Inl e, m1) \<Rightarrow>
             try_save env (set_runtime (\<lambda>r. r\<lparr>rtPhase := phaseRestoring, rtReason := ''resume_failed'',
                rtLastError := e, rtUpdatedAt := now\<rparr>) m1)
         | (Inr _, m1) \<Rightarrow>
             check_session env snap (try_save env (set_runtime (\<lambda>r. r\<lparr>rtPhase := phaseCharging,
                rtLastError := no_error, rtUpdatedAt := now\<rparr>) (m1\<lparr>mgResumePending := False\<rparr>))))
      else check_session env snap m)"

text \<open>\<^verbatim>\<open>load\<close> on the manager that \<^verbatim>\<open>New\<close> has made.\<close>

definition load :: "'w storm_env \<Rightarrow> 'w manager \<Rightarrow> 'w manager result" where
  "load env m =
     (case evReadFile env (mgPath m) (mgWorld m) of
        Inl NotExist \<Rightarrow> Inr m
      | Inl (LoadFailed e) \<Rightarrow> Inl (Errorf ''read storm charge runtime state: %w'' [AErr e])
      | Inr data \<Rightarrow>
          (case evUnmarshal env data (mgRuntime m) of
             Inl e \<Rightarrow> Inl (Errorf ''parse storm charge runtime state: %w'' [AErr e])
           | Inr r0 \<Rightarrow>
               (let r1 = (if rtVersion r0 = 1 \<and> \<not> rtActive r0 then r0\<lparr>rtVersion := 2\<rparr> else r0) in
                if rtVersion r1 \<noteq> 2
                then Inl (Errorf ''unsupported storm charge runtime state version %d'' [AInt (rtVersion r1)])
                else let r2 = (if rtPhase r1 = '''' then r1\<lparr>rtPhase := phaseIdle\<rparr> else r1)
                     in Inr (m\<lparr>mgRuntime := r2, mgResumePending := rtActive r2\<rparr>))))"

definition new_manager :: "'w storm_env \<Rightarrow> string \<Rightarrow> 'w \<Rightarrow> 'w manager result" where
  "new_manager env statePath w =
     load env \<lparr>mgPath = statePath, mgRuntime = runtime0, mgResumePending = False, mgWorld = w\<rparr>"

text \<open>Rounding a duration to seconds, half away from zero (\<^verbatim>\<open>Duration.Round\<close>).\<close>

definition round_seconds :: "duration \<Rightarrow> duration" where
  "round_seconds d = (let r = d mod second in if r + r < second then d - r else d + (second - r))"

definition status :: "'w storm_env \<Rightarrow> settings \<Rightarrow> 'w manager \<Rightarrow> storm_status" where
  "status env defaults m =
     (let r = mgRuntime m; g = (if rtActive r then rtSettings r else defaults);
          snap = evSnapshot env (mgWorld m);
          value_of = (\<lambda>i. case optionalNumeric snap i of None \<Rightarrow> Num 0 | Some x \<Rightarrow> x);
          voltage = value_of ''battery_voltage''
      in \<lparr>saActive = rtActive r, saPhase = rtPhase r, saSettings = g, saPrevious = rtPrevious r,
          saStartedAt = (if rtStartedAt r = 0 then None else Some (rtStartedAt r)),
          saDeadline = (if rtActive r \<and> rtDeadline r \<noteq> 0 then Some (rtDeadline r) else None),
          saRemaining = (if rtActive r \<and> rtDeadline r \<noteq> 0
             then Some (round_seconds (max 0 (rtDeadline r - now_of env m))) else None),
          saCurrentSOC = value_of ''battery_soc'', saBatteryVoltage = voltage,
          saPowerWatts = int64_of_f64 (fadd (fmul (sgMaxCurrentA g) voltage) (flit (1 / 2))),
          saBMSLimitA = value_of ''maximum_charge_current'', saReason = rtReason r,
          saError = rtLastError r, saStamp = rtUpdatedAt r\<rparr>)"

end
