(* ===== verification/Mqtt.thy ===== *)
theory Mqtt
  imports Registers Catalog StormCharge GoTime
begin

text \<open>
  \<^verbatim>\<open>internal/mqtt/service.go\<close>: topics, discovery payloads, the publication of what changed, the
  routing of commands, and the life of the connection. \<open>mqtt\<close> is the struct \<^verbatim>\<open>Service\<close> with the
  world it acts on. \<open>mqtt_env\<close> has what it calls: the interface \<^verbatim>\<open>ConfigProvider\<close> of the
  application, the store, the clock, and the client library with its broker. A call of the library
  gives a token: it times out or is done, with or without an error.

  \<open>mqtt_sync\<close>, \<open>on_connect\<close>, \<open>on_connection_lost\<close> and \<open>on_message\<close> are one step each.
  A JSON body is kept as its value; Go serialises it in one way, and fails only for a number that is
  not finite. The order in which Go ranges over a map is the function \<open>qeOrder\<close>.
\<close>

section \<open>Data\<close>

datatype token = Timeout | Done "go_error option"

datatype json = JStr string | JNum f64 | JInt int | JList "json list" | JObj "(string \<times> json) list"

datatype payload = Text string | Json json

record client_options =
  coBroker :: string
  coClientID :: string
  coUsername :: "string option"
  coPassword :: "string option"
  coAutoReconnect :: bool
  coConnectRetry :: bool
  coConnectTimeout :: duration
  coRetryInterval :: duration
  coOrderMatters :: bool
  coKeepAlive :: duration
  coPingTimeout :: duration
  coCleanSession :: bool

record 'w mqtt_env =
  qeConfig :: "'w \<Rightarrow> config"
  qeWriteRegister :: "string \<Rightarrow> go_value \<Rightarrow> 'w \<Rightarrow> unit result \<times> 'w"
  qeStormStatus :: "'w \<Rightarrow> storm_status"
  qeUpdateSettings :: "settings \<Rightarrow> 'w \<Rightarrow> unit result \<times> 'w"
  qeStartStorm :: "settings \<Rightarrow> 'w \<Rightarrow> unit result \<times> 'w"
  qeCancelStorm :: "'w \<Rightarrow> unit result \<times> 'w"
  qeSnapshot :: "'w \<Rightarrow> snapshot_data"
  qeSetStatus :: "string \<Rightarrow> bool \<Rightarrow> go_error \<Rightarrow> gotime \<Rightarrow> 'w \<Rightarrow> 'w"
  qeNow :: "'w \<Rightarrow> gotime"
  qeVersion :: string
  qeOrder :: "(string \<times> string) list \<Rightarrow> 'w \<Rightarrow> (string \<times> string) list"
  qeNewClient :: "client_options \<Rightarrow> 'w \<Rightarrow> nat \<times> 'w"
  qeConnect :: "nat \<Rightarrow> 'w \<Rightarrow> token \<times> 'w"
  qeIsOpen :: "nat \<Rightarrow> 'w \<Rightarrow> bool"
  qePublish :: "nat \<Rightarrow> string \<Rightarrow> bool \<Rightarrow> payload \<Rightarrow> 'w \<Rightarrow> token \<times> 'w"
  qeSubscribe :: "nat \<Rightarrow> string list \<Rightarrow> 'w \<Rightarrow> token \<times> 'w"
  qeDisconnect :: "nat \<Rightarrow> 'w \<Rightarrow> 'w"

record 'w mqtt =
  qsKey :: string
  qsClient :: "nat option"
  qsDiscoveryKey :: string
  qsLast :: "string \<Rightarrow> string option"
  qsUnhealthySince :: gotime
  qsWorld :: 'w

definition new_mqtt :: "'w \<Rightarrow> 'w mqtt" where
  "new_mqtt w =
     \<lparr>qsKey = '''', qsClient = None, qsDiscoveryKey = '''', qsLast = (\<lambda>_. None), qsUnhealthySince = 0, qsWorld = w\<rparr>"

definition mqttClientResetAfter :: duration where "mqttClientResetAfter = 2 * minute"

section \<open>Topics and names\<close>

definition topic_prefix :: "config \<Rightarrow> string" where
  "topic_prefix cfg = trim_suffix (mcTopicPrefix (cfMQTT cfg)) ''/''"

definition availability_topic :: "config \<Rightarrow> string" where
  "availability_topic cfg = topic_prefix cfg @ ''/availability''"

definition state_topic :: "config \<Rightarrow> string \<Rightarrow> string" where
  "state_topic cfg i = topic_prefix cfg @ ''/state/'' @ i"

definition command_topic :: "config \<Rightarrow> string \<Rightarrow> string" where
  "command_topic cfg i = topic_prefix cfg @ ''/command/'' @ i"

definition discovery_topic :: "config \<Rightarrow> string \<Rightarrow> string \<Rightarrow> string \<Rightarrow> string" where
  "discovery_topic cfg component deviceID objectID =
     mcDiscoveryPrefix (cfMQTT cfg) @ ''/'' @ component @ ''/'' @ deviceID @ ''/'' @ objectID @ ''/config''"

definition control_object_id :: "register \<Rightarrow> string" where
  "control_object_id reg = rID reg @ ''_control''"

text \<open>The text of the inverter type; an error gives the empty text.\<close>

definition inverter_type_text :: "config \<Rightarrow> string" where
  "inverter_type_text cfg = (case normalized_inverter_type (cfDevice cfg) of Inl _ \<Rightarrow> '''' | Inr t \<Rightarrow> t)"

definition mqtt_key :: "config \<Rightarrow> string" where
  "mqtt_key cfg =
     (let m = cfMQTT cfg in
      mcBroker m @ ''|'' @ mcClientID m @ ''|'' @ mcUsername m @ ''|'' @ mcTopicPrefix m @ ''|''
      @ mcDiscoveryPrefix m @ ''|'' @ (if mcRetain m then ''true'' else ''false'') @ ''|'' @ inverter_type_text cfg)"

definition catalog_for_config :: "config \<Rightarrow> register list" where
  "catalog_for_config cfg =
     (case normalized_inverter_type (cfDevice cfg) of
        Inl _ \<Rightarrow> catalogForInverterType inverterTypeSinglePhase
      | Inr t \<Rightarrow> catalogForInverterType t)"

text \<open>A name is UTF-8: a byte that continues a character is skipped, so that each character outside
  a to z and 0 to 9 gives one underscore.\<close>

definition continues_char :: "char \<Rightarrow> bool" where
  "continues_char c \<longleftrightarrow> (let n = of_char c :: int in 128 \<le> n \<and> n < 192)"

definition id_char :: "char \<Rightarrow> bool" where
  "id_char c \<longleftrightarrow> (let n = of_char c :: int in 97 \<le> n \<and> n \<le> 122 \<or> 48 \<le> n \<and> n \<le> 57)"

definition trim_underscores :: "string \<Rightarrow> string" where
  "trim_underscores s = rev (dropWhile (\<lambda>c. c = CHR ''_'') (rev (dropWhile (\<lambda>c. c = CHR ''_'') s)))"

definition sanitize_id :: "string \<Rightarrow> string" where
  "sanitize_id name =
     (let r = trim_underscores (map (\<lambda>c. if id_char c then c else CHR ''_'')
                (filter (\<lambda>c. \<not> continues_char c) (to_lower name)))
      in if r = '''' then ''srne_device'' else r)"

section \<open>Discovery payloads\<close>

definition marshal :: "(string \<times> json) list \<Rightarrow> payload result" where
  "marshal kvs =
     (if list_all (\<lambda>(k, j). case j of JNum x \<Rightarrow> is_fin x | _ \<Rightarrow> True) kvs
      then Inr (Json (JObj kvs)) else Inl (External ''json: unsupported value''))"

definition device_json :: "string \<Rightarrow> config \<Rightarrow> string \<Rightarrow> json" where
  "device_json version cfg deviceID =
     JObj [(''identifiers'', JList [JStr deviceID]), (''name'', JStr (dcName (cfDevice cfg))),
           (''manufacturer'', JStr ''SRNE''), (''model'', JStr ''SRNE Inverter''), (''sw_version'', JStr version)]"

text \<open>A field that is left out when its text is empty.\<close>

definition optional :: "string \<Rightarrow> string \<Rightarrow> (string \<times> json) list" where
  "optional k v = (if v = '''' then [] else [(k, JStr v)])"

definition sensor_payload :: "string \<Rightarrow> config \<Rightarrow> string \<Rightarrow> register \<Rightarrow> (string \<times> json) list" where
  "sensor_payload version cfg deviceID reg =
     [(''name'', JStr (rName reg)), (''unique_id'', JStr (deviceID @ ''_'' @ rID reg)),
      (''state_topic'', JStr (state_topic cfg (rID reg))), (''availability_topic'', JStr (availability_topic cfg)),
      (''icon'', JStr (rIcon reg)), (''device'', device_json version cfg deviceID)]
     @ optional ''unit_of_measurement'' (rUnit reg) @ optional ''device_class'' (rDeviceClass reg)
     @ optional ''state_class'' (rStateClass reg) @ optional ''entity_category'' (rEntityCategory reg)"

definition single_enum_raw :: "enum_map \<Rightarrow> int option" where
  "single_enum_raw mapping = (case mapping of [(raw, _)] \<Rightarrow> Some raw | _ \<Rightarrow> None)"

definition sorted_enum_options :: "enum_map \<Rightarrow> string list" where
  "sorted_enum_options mapping = map snd (sort_key fst mapping)"

definition writable_discovery_payload ::
  "string \<Rightarrow> config \<Rightarrow> string \<Rightarrow> register \<Rightarrow> (string \<times> json) list \<times> string" where
  "writable_discovery_payload version cfg deviceID reg =
     (let base =
        [(''name'', JStr (rName reg)), (''unique_id'', JStr (deviceID @ ''_'' @ rID reg @ ''_control'')),
         (''command_topic'', JStr (command_topic cfg (rID reg))),
         (''availability_topic'', JStr (availability_topic cfg)), (''icon'', JStr (rIcon reg)),
         (''device'', device_json version cfg deviceID)]
        @ (if rEntityCategory reg \<noteq> '''' then [(''entity_category'', JStr (rEntityCategory reg))]
           else if rEntity reg = ''config'' then [(''entity_category'', JStr ''config'')] else [])
      in if rWriteOnly reg \<and> length (rEnum reg) = 1 then
           (base @ (case single_enum_raw (rEnum reg) of None \<Rightarrow> [] | Some raw \<Rightarrow> [(''payload_press'', JStr (show_int raw))])
             @ optional ''device_class'' (rButtonClass reg), ''button'')
         else let stated = base @ [(''state_topic'', JStr (state_topic cfg (rID reg)))] in
           if rEnum reg \<noteq> [] then
             (stated @ [(''options'', JList (map JStr (sorted_enum_options (rEnum reg))))], ''select'')
           else
             (stated @ optional ''unit_of_measurement'' (rUnit reg) @ optional ''device_class'' (rDeviceClass reg)
               @ [(''min'', JNum (rWriteMin reg)), (''max'', JNum (rWriteMax reg)), (''step'', JNum (rWriteStep reg)),
                  (''mode'', JStr ''box'')], ''number''))"

text \<open>The messages of \<^verbatim>\<open>publishDiscovery\<close> for one register, in order; all are retained.\<close>

definition register_messages :: "string \<Rightarrow> config \<Rightarrow> string \<Rightarrow> register \<Rightarrow> (string \<times> payload result) list" where
  "register_messages version cfg deviceID reg =
     [(discovery_topic cfg ''sensor'' deviceID (rID reg),
       if rWriteOnly reg then Inr (Text '''') else marshal (sensor_payload version cfg deviceID reg))]
     @ (if \<not> rWritable reg then []
        else case writable_discovery_payload version cfg deviceID reg of
          (kvs, component) \<Rightarrow>
            (case marshal kvs of
               Inl e \<Rightarrow> [(discovery_topic cfg component deviceID (control_object_id reg), Inl e)]
             | Inr body \<Rightarrow>
                 (if component = ''button''
                  then map (\<lambda>c. (discovery_topic cfg c deviceID (control_object_id reg), Inr (Text ''''))) [''select'', ''number'']
                  else [])
                 @ [(discovery_topic cfg component deviceID (control_object_id reg), Inr body)]))"

definition stale_discovery_topics :: "config \<Rightarrow> string \<Rightarrow> string list" where
  "stale_discovery_topics cfg deviceID =
     (if normalized_inverter_type (cfDevice cfg) \<noteq> Inr inverterTypeSPIH3P then []
      else concat (map (\<lambda>(i, component).
             [discovery_topic cfg ''sensor'' deviceID i, discovery_topic cfg component deviceID (i @ ''_control'')])
           [(''grid_operating_mode'', ''select''), (''on_grid_max_power'', ''number''), (''zero_export_power'', ''number'')]))"

text \<open>The entities of the storm charge: component, object and fields, before the common ones.\<close>

definition storm_entities :: "config \<Rightarrow> (string \<times> string \<times> (string \<times> json) list) list" where
  "storm_entities cfg =
     (let t = (\<lambda>i. (''state_topic'', JStr (state_topic cfg i)));
          c = (\<lambda>i. (''command_topic'', JStr (command_topic cfg i)));
          number = (\<lambda>name icon i lo hi step unit.
             [(''name'', JStr name), (''icon'', JStr icon), t i, c i, (''min'', JInt lo), (''max'', JInt hi),
              (''step'', JInt step), (''mode'', JStr ''box''), (''unit_of_measurement'', JStr unit)])
      in
      [(''switch'', ''storm_charge'',
          [(''name'', JStr ''Storm Charge''), (''icon'', JStr ''mdi:weather-lightning''), t ''storm_charge_active'',
           c ''storm_charge'', (''payload_on'', JStr ''ON''), (''payload_off'', JStr ''OFF''),
           (''state_on'', JStr ''ON''), (''state_off'', JStr ''OFF''), (''entity_category'', JStr ''config'')]),
       (''number'', ''storm_charge_target_soc'',
          number ''Storm Charge Target SOC'' ''mdi:battery-charging-100'' ''storm_charge_target_soc'' 50 100 1 ''%''
          @ [(''entity_category'', JStr ''config'')]),
       (''number'', ''storm_charge_max_current'',
          number ''Storm Charge Maximum Current'' ''mdi:current-dc'' ''storm_charge_max_current'' 1 120 1 ''A''
          @ [(''device_class'', JStr ''current''), (''entity_category'', JStr ''config'')]),
       (''number'', ''storm_charge_timeout_minutes'',
          number ''Storm Charge Timeout'' ''mdi:timer-alert-outline'' ''storm_charge_timeout_minutes'' 5 1440 5 ''min''
          @ [(''entity_category'', JStr ''config'')]),
       (''sensor'', ''storm_charge_status'',
          [(''name'', JStr ''Storm Charge Status''), (''icon'', JStr ''mdi:weather-lightning-rainy''), t ''storm_charge_status'']),
       (''sensor'', ''storm_charge_estimated_power'',
          [(''name'', JStr ''Storm Charge Estimated Power''), (''icon'', JStr ''mdi:flash''),
           t ''storm_charge_estimated_power'', (''unit_of_measurement'', JStr ''W''),
           (''device_class'', JStr ''power''), (''state_class'', JStr ''measurement'')]),
       (''sensor'', ''storm_charge_deadline'',
          [(''name'', JStr ''Storm Charge Deadline''), (''icon'', JStr ''mdi:calendar-clock''),
           t ''storm_charge_deadline'', (''device_class'', JStr ''timestamp'')]),
       (''sensor'', ''storm_charge_remaining'',
          [(''name'', JStr ''Storm Charge Remaining''), (''icon'', JStr ''mdi:timer-sand''), t ''storm_charge_remaining'']),
       (''sensor'', ''storm_charge_reason'',
          [(''name'', JStr ''Storm Charge Last Result''), (''icon'', JStr ''mdi:information-outline''),
           t ''storm_charge_reason'', (''entity_category'', JStr ''diagnostic'')])])"

definition storm_messages :: "string \<Rightarrow> config \<Rightarrow> string \<Rightarrow> (string \<times> payload result) list" where
  "storm_messages version cfg deviceID =
     map (\<lambda>(component, objectID, kvs).
        (discovery_topic cfg component deviceID objectID,
         marshal (kvs @ [(''unique_id'', JStr (deviceID @ ''_'' @ objectID)),
            (''availability_topic'', JStr (availability_topic cfg)), (''device'', device_json version cfg deviceID)])))
       (storm_entities cfg)"

definition storm_objects :: "(string \<times> string) list" where
  "storm_objects =
     [(''switch'', ''storm_charge''), (''number'', ''storm_charge_target_soc''), (''number'', ''storm_charge_max_current''),
      (''number'', ''storm_charge_timeout_minutes''), (''sensor'', ''storm_charge_status''),
      (''sensor'', ''storm_charge_estimated_power''), (''sensor'', ''storm_charge_deadline''),
      (''sensor'', ''storm_charge_remaining''), (''sensor'', ''storm_charge_reason'')]"

definition clear_storm_messages :: "config \<Rightarrow> string \<Rightarrow> (string \<times> payload result) list" where
  "clear_storm_messages cfg deviceID =
     map (\<lambda>(component, objectID). (discovery_topic cfg component deviceID objectID, Inr (Text ''''))) storm_objects"

definition discovery_messages :: "string \<Rightarrow> config \<Rightarrow> (string \<times> payload result) list" where
  "discovery_messages version cfg =
     (let deviceID = sanitize_id (dcName (cfDevice cfg)) in
      map (\<lambda>topic. (topic, Inr (Text ''''))) (stale_discovery_topics cfg deviceID)
      @ concat (map (register_messages version cfg deviceID) (catalog_for_config cfg))
      @ (if inverter_type_text cfg = inverterTypeSPIH3P then storm_messages version cfg deviceID
         else clear_storm_messages cfg deviceID))"

section \<open>Publishing\<close>

definition set_mqtt_status ::
  "'w mqtt_env \<Rightarrow> string \<Rightarrow> bool \<Rightarrow> go_error \<Rightarrow> gotime \<Rightarrow> 'w mqtt \<Rightarrow> 'w mqtt" where
  "set_mqtt_status env text ok e lastSuccess s = s\<lparr>qsWorld := qeSetStatus env text ok e lastSuccess (qsWorld s)\<rparr>"

definition publish :: "'w mqtt_env \<Rightarrow> string \<Rightarrow> payload \<Rightarrow> bool \<Rightarrow> 'w mqtt \<Rightarrow> unit result \<times> 'w mqtt" where
  "publish env topic body retained s =
     (case qsClient s of
        None \<Rightarrow> (Inl (Errorf ''mqtt client is not initialized'' []), s)
      | Some c \<Rightarrow>
          (case qePublish env c topic retained body (qsWorld s) of
             (Timeout, w) \<Rightarrow> (Inl (Errorf ''mqtt publish timeout for %s'' [AStr topic]), s\<lparr>qsWorld := w\<rparr>)
           | (Done (Some e), w) \<Rightarrow> (Inl e, s\<lparr>qsWorld := w\<rparr>)
           | (Done None, w) \<Rightarrow> (Inr (), s\<lparr>qsWorld := w\<rparr>)))"

definition publish_availability :: "'w mqtt_env \<Rightarrow> config \<Rightarrow> string \<Rightarrow> 'w mqtt \<Rightarrow> unit result \<times> 'w mqtt" where
  "publish_availability env cfg text = publish env (availability_topic cfg) (Text text) True"

fun publish_all :: "'w mqtt_env \<Rightarrow> (string \<times> payload result) list \<Rightarrow> 'w mqtt \<Rightarrow> unit result \<times> 'w mqtt" where
  "publish_all env [] s = (Inr (), s)"
| "publish_all env ((topic, Inl e) # ms) s = (Inl e, s)"
| "publish_all env ((topic, Inr body) # ms) s =
     (case publish env topic body True s of
        (Inl e, s1) \<Rightarrow> (Inl e, s1)
      | (Inr _, s1) \<Rightarrow> publish_all env ms s1)"

definition publish_discovery :: "'w mqtt_env \<Rightarrow> config \<Rightarrow> 'w mqtt \<Rightarrow> unit result \<times> 'w mqtt" where
  "publish_discovery env cfg = publish_all env (discovery_messages (qeVersion env) cfg)"

definition set_last :: "string \<Rightarrow> string \<Rightarrow> 'w mqtt \<Rightarrow> 'w mqtt" where
  "set_last topic text s = s\<lparr>qsLast := (qsLast s)(topic := Some text)\<rparr>"

text \<open>The state of an entity, sent and remembered.\<close>

definition publish_state :: "'w mqtt_env \<Rightarrow> config \<Rightarrow> string \<Rightarrow> string \<Rightarrow> 'w mqtt \<Rightarrow> unit result \<times> 'w mqtt" where
  "publish_state env cfg i text s =
     (case publish env (state_topic cfg i) (Text text) (mcRetain (cfMQTT cfg)) s of
        (Inl e, s1) \<Rightarrow> (Inl e, s1)
      | (Inr _, s1) \<Rightarrow> (Inr (), set_last (state_topic cfg i) text s1))"

text \<open>The loop of \<^verbatim>\<open>publishTelemetry\<close> and of \<^verbatim>\<open>publishStormCharge\<close>: what was sent last is not
  sent again.\<close>

fun publish_changed :: "'w mqtt_env \<Rightarrow> config \<Rightarrow> (string \<times> string) list \<Rightarrow> 'w mqtt \<Rightarrow> unit result \<times> 'w mqtt" where
  "publish_changed env cfg [] s = (Inr (), s)"
| "publish_changed env cfg ((i, text) # vs) s =
     (if qsLast s (state_topic cfg i) = Some text then publish_changed env cfg vs s
      else case publish_state env cfg i text s of
        (Inl e, s1) \<Rightarrow> (Inl e, s1)
      | (Inr _, s1) \<Rightarrow> publish_changed env cfg vs s1)"

definition publish_telemetry :: "'w mqtt_env \<Rightarrow> config \<Rightarrow> 'w mqtt \<Rightarrow> unit result \<times> 'w mqtt" where
  "publish_telemetry env cfg s =
     publish_changed env cfg (map (\<lambda>v. (dID v, dRendered v)) (snTelemetry (qeSnapshot env (qsWorld s)))) s"

definition storm_values :: "storm_status \<Rightarrow> (string \<times> string) list" where
  "storm_values st =
     [(''storm_charge_active'', if saActive st then ''ON'' else ''OFF''),
      (''storm_charge_status'', saPhase st),
      (''storm_charge_target_soc'', show_int (sgTargetSOC (saSettings st))),
      (''storm_charge_max_current'', format_float (sgMaxCurrentA (saSettings st)) 1),
      (''storm_charge_timeout_minutes'', format_float (duration_minutes (sgTimeout (saSettings st))) 0),
      (''storm_charge_estimated_power'', show_int (saPowerWatts st)),
      (''storm_charge_remaining'', (case saRemaining st of None \<Rightarrow> '''' | Some d \<Rightarrow> duration_string d)),
      (''storm_charge_reason'', saReason st),
      (''storm_charge_deadline'', (case saDeadline st of None \<Rightarrow> '''' | Some t \<Rightarrow> rfc3339 t))]"

definition publish_storm :: "'w mqtt_env \<Rightarrow> config \<Rightarrow> 'w mqtt \<Rightarrow> unit result \<times> 'w mqtt" where
  "publish_storm env cfg s =
     publish_changed env cfg (qeOrder env (storm_values (qeStormStatus env (qsWorld s))) (qsWorld s)) s"

definition publish_current_value :: "'w mqtt_env \<Rightarrow> config \<Rightarrow> string \<Rightarrow> 'w mqtt \<Rightarrow> unit result \<times> 'w mqtt" where
  "publish_current_value env cfg i s =
     (case find_first (\<lambda>v. dID v = i) (snTelemetry (qeSnapshot env (qsWorld s))) of
        None \<Rightarrow> (Inr (), s)
      | Some v \<Rightarrow> publish_state env cfg (dID v) (dRendered v) s)"

definition publish_command_state ::
  "'w mqtt_env \<Rightarrow> config \<Rightarrow> register \<Rightarrow> string \<Rightarrow> 'w mqtt \<Rightarrow> unit result \<times> 'w mqtt" where
  "publish_command_state env cfg reg text s =
     (if rWriteOnly reg then (Inr (), s)
      else case encode_write reg (VStr text) of
        Inl e \<Rightarrow> publish_current_value env cfg (rID reg) s
      | Inr encoded \<Rightarrow>
          (if rCount reg \<noteq> 1 then publish_current_value env cfg (rID reg) s
           else case decode reg [encoded] (qeNow env (qsWorld s)) of
             Inl e \<Rightarrow> publish_current_value env cfg (rID reg) s
           | Inr v \<Rightarrow> publish_state env cfg (rID reg) (dRendered v) s))"


section \<open>Commands\<close>

definition handle_command :: "'w mqtt_env \<Rightarrow> register \<Rightarrow> string \<Rightarrow> 'w mqtt \<Rightarrow> 'w mqtt" where
  "handle_command env reg body s =
     (let text = trim_space body in
      if text = '''' then s
      else case qeWriteRegister env (rID reg) (VStr text) (qsWorld s) of
        (Inl e, w) \<Rightarrow> s\<lparr>qsWorld := w\<rparr>
      | (Inr _, w) \<Rightarrow> snd (publish_command_state env (qeConfig env w) reg text (s\<lparr>qsWorld := w\<rparr>)))"

text \<open>What a command of the storm charge asks of the application; \<open>None\<close> is an unknown topic.\<close>

definition storm_request :: "'w mqtt_env \<Rightarrow> config \<Rightarrow> string \<Rightarrow> string \<Rightarrow> 'w \<Rightarrow> (unit result \<times> 'w) option" where
  "storm_request env cfg topic text w =
     (let g = saSettings (qeStormStatus env w) in
      if topic = command_topic cfg ''storm_charge'' then
        Some (if to_upper text = ''ON'' then qeStartStorm env g w
              else if to_upper text = ''OFF'' then qeCancelStorm env w
              else (Inl (Errorf ''storm_charge accepts ON or OFF'' []), w))
      else if topic = command_topic cfg ''storm_charge_target_soc'' then
        Some (case parse_int text of
                None \<Rightarrow> (Inl (Errorf ''invalid target SOC %q'' [AStr text]), w)
              | Some n \<Rightarrow> qeUpdateSettings env (g\<lparr>sgTargetSOC := n\<rparr>) w)
      else if topic = command_topic cfg ''storm_charge_max_current'' then
        Some (case parse_float text of
                None \<Rightarrow> (Inl (Errorf ''invalid maximum current %q'' [AStr text]), w)
              | Some x \<Rightarrow> qeUpdateSettings env (g\<lparr>sgMaxCurrentA := x\<rparr>) w)
      else if topic = command_topic cfg ''storm_charge_timeout_minutes'' then
        Some (case parse_float text of
                None \<Rightarrow> (Inl (Errorf ''invalid timeout %q'' [AStr text]), w)
              | Some x \<Rightarrow> qeUpdateSettings env (g\<lparr>sgTimeout := int64_of_f64 (fmul x (f64_of_int minute))\<rparr>) w)
      else None)"

definition handle_storm_command :: "'w mqtt_env \<Rightarrow> config \<Rightarrow> string \<Rightarrow> string \<Rightarrow> 'w mqtt \<Rightarrow> bool \<times> 'w mqtt" where
  "handle_storm_command env cfg topic body s =
     (let text = trim_space body in
      if text = '''' then (True, s)
      else case storm_request env cfg topic text (qsWorld s) of
        None \<Rightarrow> (False, s)
      | Some (Inl e, w) \<Rightarrow> (True, s\<lparr>qsWorld := w\<rparr>)
      | Some (Inr _, w) \<Rightarrow> (True, snd (publish_storm env (qeConfig env w) (s\<lparr>qsWorld := w\<rparr>))))"

text \<open>The subscriptions of a connection, made with the configuration it was made for.\<close>

definition routes :: "config \<Rightarrow> (string \<times> register) list" where
  "routes cfg = map (\<lambda>reg. (command_topic cfg (rID reg), reg)) (filter rWritable (catalog_for_config cfg))"

definition stormCommandIDs :: "string list" where
  "stormCommandIDs =
     [''storm_charge'', ''storm_charge_target_soc'', ''storm_charge_max_current'', ''storm_charge_timeout_minutes'']"

definition subscriptions :: "config \<Rightarrow> string list" where
  "subscriptions cfg =
     map fst (routes cfg)
     @ (if inverter_type_text cfg = inverterTypeSPIH3P then map (command_topic cfg) stormCommandIDs else [])"

definition subscribe_commands :: "'w mqtt_env \<Rightarrow> config \<Rightarrow> nat \<Rightarrow> 'w mqtt \<Rightarrow> unit result \<times> 'w mqtt" where
  "subscribe_commands env cfg c s =
     (if subscriptions cfg = [] then (Inr (), s)
      else case qeSubscribe env c (subscriptions cfg) (qsWorld s) of
        (Timeout, w) \<Rightarrow> (Inl (Errorf ''mqtt subscribe timeout for command topics'' []), s\<lparr>qsWorld := w\<rparr>)
      | (Done (Some e), w) \<Rightarrow> (Inl (Errorf ''mqtt subscribe command topics: %w'' [AErr e]), s\<lparr>qsWorld := w\<rparr>)
      | (Done None, w) \<Rightarrow> (Inr (), s\<lparr>qsWorld := w\<rparr>))"

text \<open>A message on a connection made for \<open>cfg\<close>; the last register with a topic has it.\<close>

definition on_message :: "'w mqtt_env \<Rightarrow> config \<Rightarrow> string \<Rightarrow> string \<Rightarrow> 'w mqtt \<Rightarrow> 'w mqtt" where
  "on_message env cfg topic body s =
     (case map_of (rev (routes cfg)) topic of
        Some reg \<Rightarrow> handle_command env reg body s
      | None \<Rightarrow> snd (handle_storm_command env cfg topic body s))"

section \<open>The connection\<close>

definition client_options_of :: "config \<Rightarrow> client_options" where
  "client_options_of cfg =
     (let m = cfMQTT cfg in
      \<lparr>coBroker = mcBroker m, coClientID = mcClientID m,
       coUsername = (if mcUsername m = '''' then None else Some (mcUsername m)),
       coPassword = (if mcPassword m = '''' then None else Some (mcPassword m)),
       coAutoReconnect = True, coConnectRetry = False, coConnectTimeout = 3 * second, coRetryInterval = 5 * second,
       coOrderMatters = False, coKeepAlive = 30 * second, coPingTimeout = 10 * second, coCleanSession = True\<rparr>)"

definition mqtt_now :: "'w mqtt_env \<Rightarrow> 'w mqtt \<Rightarrow> gotime" where
  "mqtt_now env s = qeNow env (qsWorld s)"

definition mark_healthy :: "'w mqtt \<Rightarrow> 'w mqtt" where
  "mark_healthy s = s\<lparr>qsUnhealthySince := 0\<rparr>"

definition mark_unhealthy :: "gotime \<Rightarrow> 'w mqtt \<Rightarrow> duration \<times> 'w mqtt" where
  "mark_unhealthy now s =
     (if qsUnhealthySince s = 0 then (0, s\<lparr>qsUnhealthySince := now\<rparr>) else (now - qsUnhealthySince s, s))"

text \<open>The client and what was sent through it are forgotten.\<close>

definition forget_client :: "gotime \<Rightarrow> 'w mqtt \<Rightarrow> 'w mqtt" where
  "forget_client since s =
     s\<lparr>qsClient := None, qsKey := '''', qsDiscoveryKey := '''', qsLast := (\<lambda>_. None), qsUnhealthySince := since\<rparr>"

definition drop_client :: "'w mqtt_env \<Rightarrow> nat \<Rightarrow> 'w mqtt \<Rightarrow> 'w mqtt" where
  "drop_client env c s = s\<lparr>qsWorld := qeDisconnect env c (qsWorld s)\<rparr>"

definition reset_client :: "'w mqtt_env \<Rightarrow> nat option \<Rightarrow> 'w mqtt \<Rightarrow> 'w mqtt" where
  "reset_client env expected s =
     (if expected \<noteq> None \<and> qsClient s \<noteq> expected then drop_client env (the expected) s
      else let s1 = forget_client (mqtt_now env s) s in
        (case qsClient s of None \<Rightarrow> s1 | Some c \<Rightarrow> drop_client env c s1))"

definition record_error :: "'w mqtt_env \<Rightarrow> go_error \<Rightarrow> 'w mqtt \<Rightarrow> 'w mqtt" where
  "record_error env e s =
     (case mark_unhealthy (mqtt_now env s) s of
        (stalledFor, s1) \<Rightarrow>
          let s2 = set_mqtt_status env ''error'' False e 0 s1 in
          if stalledFor < mqttClientResetAfter then s2 else reset_client env None s2)"

definition ensure_mqtt_client :: "'w mqtt_env \<Rightarrow> config \<Rightarrow> 'w mqtt \<Rightarrow> nat option \<times> 'w mqtt" where
  "ensure_mqtt_client env cfg s =
     (if qsClient s \<noteq> None \<and> qsKey s = mqtt_key cfg then (qsClient s, s)
      else
        let s1 = forget_client 0 s;
            s2 = (case qsClient s of None \<Rightarrow> s1 | Some old \<Rightarrow> drop_client env old s1)
        in case qeNewClient env (client_options_of cfg) (qsWorld s2) of
          (c, w) \<Rightarrow>
            let s3 = (forget_client (qeNow env w) s2)\<lparr>qsClient := Some c, qsKey := mqtt_key cfg, qsWorld := w\<rparr> in
            (case qeConnect env c w of
               (Timeout, w1) \<Rightarrow>
                 (None, reset_client env (Some c)
                    (set_mqtt_status env ''error'' False (Errorf ''mqtt connect timeout'' []) 0 (s3\<lparr>qsWorld := w1\<rparr>)))
             | (Done (Some e), w1) \<Rightarrow>
                 (None, reset_client env (Some c) (set_mqtt_status env ''error'' False e 0 (s3\<lparr>qsWorld := w1\<rparr>)))
             | (Done None, w1) \<Rightarrow> (Some c, s3\<lparr>qsWorld := w1\<rparr>)))"

definition mqtt_disconnect :: "'w mqtt_env \<Rightarrow> 'w mqtt \<Rightarrow> 'w mqtt" where
  "mqtt_disconnect env s =
     (let cfg = qeConfig env (qsWorld s); s1 = forget_client 0 s in
      case qsClient s of
        None \<Rightarrow> s1
      | Some c \<Rightarrow>
          (if \<not> qeIsOpen env c (qsWorld s1) then s1
           else drop_client env c (s1\<lparr>qsWorld := snd (qePublish env c (availability_topic cfg) True (Text ''offline'') (qsWorld s1))\<rparr>)))"

definition announce :: "'w mqtt_env \<Rightarrow> config \<Rightarrow> 'w mqtt \<Rightarrow> unit result \<times> 'w mqtt" where
  "announce env cfg s =
     (if qsDiscoveryKey s = mqtt_key cfg then (Inr (), s)
      else case publish_discovery env cfg s of
        (Inl e, s1) \<Rightarrow> (Inl e, s1)
      | (Inr _, s1) \<Rightarrow> (Inr (), s1\<lparr>qsDiscoveryKey := mqtt_key cfg\<rparr>))"

text \<open>What is published on an open connection, in order.\<close>

definition publish_round :: "'w mqtt_env \<Rightarrow> config \<Rightarrow> 'w mqtt \<Rightarrow> unit result \<times> 'w mqtt" where
  "publish_round env cfg s =
     (case publish_availability env cfg ''online'' s of
        (Inl e, s1) \<Rightarrow> (Inl e, s1)
      | (Inr _, s1) \<Rightarrow>
     (case announce env cfg s1 of
        (Inl e, s2) \<Rightarrow> (Inl e, s2)
      | (Inr _, s2) \<Rightarrow>
     (case publish_telemetry env cfg s2 of
        (Inl e, s3) \<Rightarrow> (Inl e, s3)
      | (Inr _, s3) \<Rightarrow> publish_storm env cfg s3)))"

definition mqtt_sync :: "'w mqtt_env \<Rightarrow> 'w mqtt \<Rightarrow> 'w mqtt" where
  "mqtt_sync env s =
     (let cfg = qeConfig env (qsWorld s) in
      if trim_space (mcBroker (cfMQTT cfg)) = '''' then
        set_mqtt_status env ''disabled'' False (Errorf ''mqtt broker is empty'' []) 0 (mqtt_disconnect env s)
      else case ensure_mqtt_client env cfg s of
        (None, s1) \<Rightarrow> s1
      | (Some c, s1) \<Rightarrow>
          if \<not> qeIsOpen env c (qsWorld s1) then
            (case mark_unhealthy (mqtt_now env s1) s1 of
               (stalledFor, s2) \<Rightarrow>
                 set_mqtt_status env ''connecting'' False no_error 0
                   (if mqttClientResetAfter \<le> stalledFor then reset_client env (Some c) s2 else s2))
          else case publish_round env cfg s1 of
            (Inl e, s2) \<Rightarrow> record_error env e s2
          | (Inr _, s2) \<Rightarrow> set_mqtt_status env ''connected'' True no_error (mqtt_now env s2) (mark_healthy s2))"

text \<open>The callbacks of the client; the flag says that a reset of the client is started.\<close>

definition on_connect :: "'w mqtt_env \<Rightarrow> config \<Rightarrow> nat \<Rightarrow> 'w mqtt \<Rightarrow> bool \<times> 'w mqtt" where
  "on_connect env cfg c s =
     (case subscribe_commands env cfg c s of
        (Inl e, s1) \<Rightarrow>
          (True, snd (mark_unhealthy (qeNow env (qsWorld s1)) (set_mqtt_status env ''error'' False e 0 s1)))
      | (Inr _, s1) \<Rightarrow>
          (False, set_mqtt_status env ''connected'' True no_error (mqtt_now env s1) (mark_healthy s1)))"

definition on_connection_lost :: "'w mqtt_env \<Rightarrow> go_error \<Rightarrow> 'w mqtt \<Rightarrow> 'w mqtt" where
  "on_connection_lost env e s =
     set_mqtt_status env ''error'' False e 0 (snd (mark_unhealthy (mqtt_now env s) s))"

text \<open>The start of \<^verbatim>\<open>Run\<close>; then a synchronisation at every tick.\<close>

definition mqtt_start :: "'w mqtt_env \<Rightarrow> 'w \<Rightarrow> 'w mqtt" where
  "mqtt_start env w = mqtt_sync env (set_mqtt_status env ''starting'' False no_error 0 (new_mqtt w))"


end
