(* ===== verification/Discovery.thy ===== *)
theory Discovery
  imports Mqtt CatalogProofs
begin

text \<open>
  What discovery offers is what the bridge accepts: the options of a select and the payload of a button,
  as messages on the command topic, are encoded, and an option that was written is shown as it was chosen
  (\<open>discovery_controls_accepted\<close>).
\<close>

section \<open>The labels of the catalogs\<close>

definition plain_label :: "string \<Rightarrow> bool" where
  "plain_label s \<longleftrightarrow> s \<noteq> '''' \<and> plain_char (hd s) \<and> plain_char (last s)"

lemma trim_label: "plain_label s \<Longrightarrow> trim_space s = s"
  by (simp add: plain_label_def trim_space_id)

definition menu_ok :: "register \<Rightarrow> bool" where
  "menu_ok r \<longleftrightarrow> rWritable r \<longrightarrow>
     (rWriteOnly r \<longrightarrow> rEnum r = [(1, ''Reset'')]) \<and> list_all (\<lambda>e. plain_label (snd e)) (rEnum r)"

lemma plain_labels:
  "plain_label ''Disabled''" "plain_label ''Enabled''" "plain_label ''Solar''" "plain_label ''Utility''"
  "plain_label ''Solar, Battery, Utility''" "plain_label ''Setting''" "plain_label ''BMS''"
  "plain_label ''Inverter Logic''" "plain_label ''Reset''" "plain_label ''PV Priority''"
  "plain_label ''Utility Priority''" "plain_label ''Hybrid''" "plain_label ''PV Only''"
  "plain_label ''Grid-connected Export''" "plain_label ''Anti-backflow''"
  by code_simp+

lemma base_menus:
  "list_all menu_ok baseCatalog1" "list_all menu_ok baseCatalog2" "list_all menu_ok baseCatalog3"
  "list_all menu_ok baseCatalog4" "list_all menu_ok baseCatalog5" "list_all menu_ok baseCatalog6"
  "list_all menu_ok baseCatalog7" "list_all menu_ok baseCatalog8" "list_all menu_ok baseCatalog9"
  by (simp_all add: baseCatalog1_def baseCatalog2_def baseCatalog3_def baseCatalog4_def baseCatalog5_def
      baseCatalog6_def baseCatalog7_def baseCatalog8_def baseCatalog9_def menu_ok_def reg0_def plain_labels)

lemma three_menus: "list_all menu_ok threePhaseRegisters" "list_all menu_ok gridControls"
  by (simp_all add: threePhaseRegisters_def gridControls_def constructor_defs menu_ok_def reg0_def plain_labels)

lemma adjusted_menu: "menu_ok (adjustThreePhase r) = menu_ok r"
  by (simp add: menu_ok_def adjustThreePhase_def)

lemma catalog_menu: "r \<in> set (catalogForInverterType t) \<Longrightarrow> menu_ok r"
proof -
  assume r: "r \<in> set (catalogForInverterType t)"
  have base: "list_all menu_ok baseCatalog" by (simp add: baseCatalog_def base_menus)
  then have "list_all menu_ok (threePhaseCatalog baseCatalog b)" for b
    using three_menus by (auto simp: threePhaseCatalog_def list_all_iff adjusted_menu)
  with base show ?thesis using catalog_cases [of t] r by (metis list_all_iff)
qed

section \<open>Options and payloads\<close>

lemma option_encoded:
  assumes "register_wf r" "rWritable r" "(k, label) \<in> set (rEnum r)" "\<not> rWriteOnly r"
  shows "encode_write r (VStr label) = Inr (word_of_int k)"
    "rCount r = 1 \<and> (\<exists>v. decode r [word_of_int k] now = Inr v \<and> dRendered v = label)"
proof -
  have ne: "rEnum r \<noteq> []" using assms(3) by auto
  with assms(1,2) have e: "rCount r = 1" "rType r = TypeUint16" "enum_wf (rEnum r)" "\<not> rSynthetic r"
    by (simp_all add: register_wf_def)
  then have l: "map_of (rEnum r) k = Some label" "0 \<le> k" "k \<le> 65535"
    using assms(3) by (auto simp: enum_wf_def list_all_iff)
  show enc: "encode_write r (VStr label) = Inr (word_of_int k)"
    using e(1) ne l assms(2) enum_round_trip [OF e(3) l(1)] by (simp add: encode_write_def)
  obtain v where v: "decode r [word_of_int k] now = Inr v"
    using decode_ok [OF assms(1) e(4), of "[word_of_int k]" now] e(1) by auto
  have "dRaw v = k"
    using decode_single(1) [OF e(1) v] raw_single(1) [OF e(2)] l by (simp add: unsigned_of_int take_bit_int_eq_self)
  then have "dRendered v = label"
    using decode_single(2) [OF e(1) v] e(2) ne l(1) by (simp add: decode_value_def enum_value_def)
  with e(1) v show "rCount r = 1 \<and> (\<exists>v. decode r [word_of_int k] now = Inr v \<and> dRendered v = label)" by blast
qed

lemma option_command:
  assumes "register_wf r" "rWritable r" "(k, label) \<in> set (rEnum r)" "\<not> rWriteOnly r" "plain_label label"
    and "qeWriteRegister env (rID r) (VStr label) (qsWorld s) = (Inr u, w)"
  shows "handle_command env r label s = snd (publish_state env (qeConfig env w) (rID r) label (s\<lparr>qsWorld := w\<rparr>))"
proof -
  note o = option_encoded [OF assms(1-4)]
  obtain v where v: "decode r [word_of_int k] (qeNow env w) = Inr v" "dRendered v = label" using o(2) by blast
  show ?thesis
    using assms(4-6) o(1) o(2) [of 0] v trim_label [OF assms(5)]
    by (simp add: handle_command_def publish_command_state_def plain_label_def Let_def)
qed

lemma reset_encoded:
  assumes "rWritable r" "rCount r = 1" "rEnum r = [(1, ''Reset'')]"
  shows "encode_write r (VStr (trim_space (show_int 1))) = Inr 1"
proof -
  have "enum_raw_value [(1, ''Reset'')] (VStr (trim_space (show_int 1))) = Inr 1" by code_simp
  then show ?thesis using assms by (simp add: encode_write_def)
qed

lemma select_payload:
  assumes "rEnum r \<noteq> []" "\<not> (rWriteOnly r \<and> length (rEnum r) = 1)"
  shows "\<exists>kvs. writable_discovery_payload version cfg deviceID r = (kvs, ''select'')
    \<and> map_of kvs ''options'' = Some (JList (map JStr (sorted_enum_options (rEnum r))))"
  using assms by (auto simp: writable_discovery_payload_def Let_def)

lemma button_payload:
  assumes "rEnum r = [(raw, label)]" "rWriteOnly r"
  shows "\<exists>kvs. writable_discovery_payload version cfg deviceID r = (kvs, ''button'')
    \<and> map_of kvs ''payload_press'' = Some (JStr (show_int raw))"
  using assms by (auto simp: writable_discovery_payload_def single_enum_raw_def optional_def Let_def)

section \<open>Controls are accepted\<close>

text \<open>C38: discovery offers only what the bridge accepts. For a writable register with an enum table, of any
  inverter type, the discovery message is a select whose options are the labels of the table, each of
  them is encoded, and when the write succeeds the state topic shows the option that was chosen; or it is
  a button whose payload, as it arrives, is encoded.\<close>

theorem discovery_controls_accepted:
  assumes "r \<in> set (catalogForInverterType t)" "rWritable r" "rEnum r \<noteq> []"
    and "writable_discovery_payload version cfg deviceID r = (kvs, component)"
  shows "(if rWriteOnly r
      then component = ''button'' \<and> (\<exists>body x. map_of kvs ''payload_press'' = Some (JStr body)
        \<and> encode_write r (VStr (trim_space body)) = Inr x)
      else component = ''select'' \<and> (\<exists>labels. map_of kvs ''options'' = Some (JList (map JStr labels))
        \<and> set labels = snd ` set (rEnum r)
        \<and> (\<forall>label\<in>set labels. (\<exists>x. encode_write r (VStr label) = Inr x)
          \<and> (\<forall>(env :: 'w mqtt_env) s u w. qeWriteRegister env (rID r) (VStr label) (qsWorld s) = (Inr u, w) \<longrightarrow>
               handle_command env r label s
                 = snd (publish_state env (qeConfig env w) (rID r) label (s\<lparr>qsWorld := w\<rparr>))))))"
proof -
  have wf: "register_wf r" and menu: "menu_ok r" using catalog_wf catalog_menu assms(1) by blast+
  show ?thesis
  proof (cases "rWriteOnly r")
    case True
    then have e: "rEnum r = [(1, ''Reset'')]" using menu assms(2) by (simp add: menu_ok_def)
    have "rCount r = 1" using wf assms(2) by (simp add: register_wf_def)
    then show ?thesis
      using button_payload [OF e True, of version cfg deviceID] reset_encoded [OF assms(2) _ e] assms(4) True by auto
  next
    case False
    have labels: "set (sorted_enum_options (rEnum r)) = snd ` set (rEnum r)" by (simp add: sorted_enum_options_def)
    have ok: "\<exists>k. (k, label) \<in> set (rEnum r) \<and> plain_label label" if "label \<in> snd ` set (rEnum r)" for label
      using that menu assms(2) by (auto simp: menu_ok_def list_all_iff)
    have "(\<exists>x. encode_write r (VStr label) = Inr x)
      \<and> (\<forall>(env :: 'w mqtt_env) s u w. qeWriteRegister env (rID r) (VStr label) (qsWorld s) = (Inr u, w) \<longrightarrow>
           handle_command env r label s = snd (publish_state env (qeConfig env w) (rID r) label (s\<lparr>qsWorld := w\<rparr>)))"
      if "label \<in> snd ` set (rEnum r)" for label
    proof -
      obtain k where k: "(k, label) \<in> set (rEnum r)" "plain_label label" using ok [OF \<open>label \<in> snd ` set (rEnum r)\<close>] by blast
      show ?thesis
        using option_encoded(1) [OF wf assms(2) k(1) False]
        by (intro conjI allI impI option_command [OF wf assms(2) k(1) False k(2)]) auto
    qed
    then show ?thesis
      using select_payload [OF assms(3), of version cfg deviceID] assms(4) False labels by auto
  qed
qed

theorem discovery_controls_accepted_witness:
  "\<exists>kvs. writable_discovery_payload ''1.0'' default_config ''srne'' gridOperatingModeRegister = (kvs, ''select'')
     \<and> map_of kvs ''options'' = Some (JList [JStr ''Disabled'', JStr ''Grid-connected Export'', JStr ''Anti-backflow''])
     \<and> (\<exists>x. encode_write gridOperatingModeRegister (VStr ''Anti-backflow'') = Inr x)"
proof -
  obtain kvs component where p: "writable_discovery_payload ''1.0'' default_config ''srne'' gridOperatingModeRegister = (kvs, component)"
    by fastforce
  have "isThreePhaseInverterType inverterTypeHESPSH3" by code_simp
  then have mem: "gridOperatingModeRegister \<in> set (catalogForInverterType inverterTypeHESPSH3)"
    by (simp add: catalogForInverterType_def normalize_fixed threePhaseCatalog_def gridControls_def)
  have r: "rWritable gridOperatingModeRegister" "\<not> rWriteOnly gridOperatingModeRegister"
    "rEnum gridOperatingModeRegister = [(0, ''Disabled''), (1, ''Grid-connected Export''), (2, ''Anti-backflow'')]"
    by (simp_all add: gridOperatingModeRegister_def reg0_def)
  from r(3) have ne: "rEnum gridOperatingModeRegister \<noteq> []" by simp
  note accepted = discovery_controls_accepted [where 'w = unit, OF mem r(1) ne p, unfolded if_not_P [OF r(2)]]
  then obtain labels where labels: "component = ''select''"
    "set labels = snd ` set (rEnum gridOperatingModeRegister)"
    "\<forall>label\<in>set labels. \<exists>x. encode_write gridOperatingModeRegister (VStr label) = Inr x"
    by auto
  have "''Anti-backflow'' \<in> set labels" by (simp add: labels(2) r(3))
  with labels(3) have "\<exists>x. encode_write gridOperatingModeRegister (VStr ''Anti-backflow'') = Inr x" by blast
  moreover have "map_of kvs ''options'' = Some (JList (map JStr (sorted_enum_options (rEnum gridOperatingModeRegister))))"
    using select_payload [OF ne, of "''1.0''" default_config "''srne''"] p r(2) by simp
  ultimately show ?thesis using p labels(1) r(3) by (simp add: sorted_enum_options_def)
qed

end
