(* ===== verification/MqttProofs.thy ===== *)
theory MqttProofs
  imports Mqtt CatalogProofs
begin

text \<open>
  Properties of the MQTT service: what it believes to have published is what was last published with
  success, a message that timed out can leave the broker with another value, and a connection that
  stays closed is given up two minutes after it became unhealthy, never before.
\<close>

section \<open>Topics\<close>

definition last_segment :: "string \<Rightarrow> string" where
  "last_segment t = rev (takeWhile (\<lambda>c. c \<noteq> CHR ''/'') (rev t))"

text \<open>Identifiers that can be the last part of a state topic and of no other.\<close>

definition plain_id :: "string \<Rightarrow> bool" where
  "plain_id i \<longleftrightarrow> CHR ''/'' \<notin> set i \<and> i \<noteq> ''config'' \<and> i \<noteq> ''availability''"

lemma last_segment_append: "CHR ''/'' \<notin> set i \<Longrightarrow> last_segment (p @ CHR ''/'' # i) = i"
proof -
  assume "CHR ''/'' \<notin> set i"
  then have "takeWhile (\<lambda>c. c \<noteq> CHR ''/'') (rev i @ [CHR ''/''] @ rev p) = rev i"
    by (subst takeWhile_append2) auto
  then show ?thesis by (simp add: last_segment_def)
qed

lemma last_segments:
  "CHR ''/'' \<notin> set i \<Longrightarrow> last_segment (state_topic cfg i) = i"
  "last_segment (availability_topic cfg) = ''availability''"
  "last_segment (discovery_topic cfg component deviceID objectID) = ''config''"
  using last_segment_append [of i "topic_prefix cfg @ ''/state''"]
    last_segment_append [of "''availability''" "topic_prefix cfg"]
    last_segment_append [of "''config''" "mcDiscoveryPrefix (cfMQTT cfg) @ ''/'' @ component @ ''/'' @ deviceID @ ''/'' @ objectID"]
  by (simp_all add: state_topic_def availability_topic_def discovery_topic_def)

lemma topics_inject [simp]:
  "state_topic cfg i = state_topic cfg j \<longleftrightarrow> i = j" "command_topic cfg i = command_topic cfg j \<longleftrightarrow> i = j"
  by (simp_all add: state_topic_def command_topic_def)

lemma topics_image [simp]: "state_topic cfg i \<in> state_topic cfg ` A \<longleftrightarrow> i \<in> A"
  by auto

text \<open>Discovery messages go to discovery topics.\<close>

lemma register_topics:
  assumes "m \<in> set (register_messages version cfg deviceID reg)"
  shows "last_segment (fst m) = ''config''"
proof -
  obtain kvs component where w: "writable_discovery_payload version cfg deviceID reg = (kvs, component)" by fastforce
  show ?thesis
    using assms w by (cases "marshal kvs") (auto simp: register_messages_def last_segments(3) split: if_splits)
qed

lemma storm_topics:
  "m \<in> set (storm_messages version cfg deviceID) \<Longrightarrow> last_segment (fst m) = ''config''"
  "m \<in> set (clear_storm_messages cfg deviceID) \<Longrightarrow> last_segment (fst m) = ''config''"
  by (auto simp: storm_messages_def clear_storm_messages_def last_segments(3))

lemma stale_topics:
  "t \<in> set (stale_discovery_topics cfg deviceID) \<Longrightarrow> last_segment t = ''config''"
  by (auto simp: stale_discovery_topics_def last_segments(3) split: if_splits)

lemma discovery_topics:
  assumes "m \<in> set (discovery_messages version cfg)"
  shows "last_segment (fst m) = ''config''"
proof -
  let ?d = "sanitize_id (dcName (cfDevice cfg))"
  have "m \<in> (\<lambda>t. (t, Inr (Text ''''))) ` set (stale_discovery_topics cfg ?d)
    \<or> (\<exists>reg. m \<in> set (register_messages version cfg ?d reg))
    \<or> m \<in> set (storm_messages version cfg ?d) \<or> m \<in> set (clear_storm_messages cfg ?d)"
    using assms by (fastforce simp: discovery_messages_def Let_def split: if_splits)
  then show ?thesis by (elim disjE exE imageE) (auto dest: register_topics storm_topics stale_topics)
qed

section \<open>The log of publications\<close>

text \<open>A publication as a log remembers it: topic, message, and the token it ended with. The last completed
  one of a topic is the last whose token was done without an error; whether a publication that timed out
  or failed is delivered nevertheless, and what the broker does with any of them, is left open.\<close>

type_synonym publication = "string \<times> payload \<times> token"

fun last_completed :: "publication list \<Rightarrow> string \<Rightarrow> payload option" where
  "last_completed [] t = None"
| "last_completed ((t', p, tok) # ps) t = (if t' = t \<and> tok = Done None then Some p else last_completed ps t)"

lemma last_completed_Cons:
  "last_completed ((t, p, tok) # ps) = (if tok = Done None then (last_completed ps)(t := Some p) else last_completed ps)"
  by (auto simp: fun_eq_iff)

text \<open>What a round of publications reports.\<close>

definition reports :: "'w mqtt_env \<Rightarrow> 'w \<Rightarrow> snapshot_data \<times> storm_status" where
  "reports env w = (qeSnapshot env w, qeStormStatus env w)"

text \<open>\<open>completed\<close> reads the last completed publication of each topic off the world, as a log does: only
  publications change it; publishing does not change what is reported; \<open>qeOrder\<close> gives a permutation.
  Theory \<open>Bridge\<close> shows it of the application with any client library (\<open>bridge_records\<close>).\<close>

definition records_completed :: "'w mqtt_env \<Rightarrow> ('w \<Rightarrow> string \<Rightarrow> payload option) \<Rightarrow> bool" where
  "records_completed env completed \<longleftrightarrow>
     (\<forall>c t r p w. completed (snd (qePublish env c t r p w)) =
        (if fst (qePublish env c t r p w) = Done None then (completed w)(t := Some p) else completed w))
     \<and> (\<forall>c t r p w. reports env (snd (qePublish env c t r p w)) = reports env w)
     \<and> (\<forall>opts w. completed (snd (qeNewClient env opts w)) = completed w)
     \<and> (\<forall>c w. completed (snd (qeConnect env c w)) = completed w)
     \<and> (\<forall>c ts w. completed (snd (qeSubscribe env c ts w)) = completed w)
     \<and> (\<forall>c w. completed (qeDisconnect env c w) = completed w)
     \<and> (\<forall>v ok e t w. completed (qeSetStatus env v ok e t w) = completed w)
     \<and> (\<forall>i v w. completed (snd (qeWriteRegister env i v w)) = completed w)
     \<and> (\<forall>g w. completed (snd (qeUpdateSettings env g w)) = completed w)
     \<and> (\<forall>g w. completed (snd (qeStartStorm env g w)) = completed w)
     \<and> (\<forall>w. completed (snd (qeCancelStorm env w)) = completed w)
     \<and> (\<forall>vs w. mset (qeOrder env vs w) = mset vs)"

text \<open>One fact for each call, with its result named.\<close>

lemma records_completedD:
  assumes "records_completed env completed"
  shows "qePublish env c t r p w = (tok, w') \<Longrightarrow> completed w' = (if tok = Done None then (completed w)(t := Some p) else completed w)"
    and "qePublish env c t r p w = (tok, w') \<Longrightarrow> reports env w' = reports env w"
    and "qeNewClient env opts w = (new, w') \<Longrightarrow> completed w' = completed w"
    and "qeConnect env c w = (tok, w') \<Longrightarrow> completed w' = completed w"
    and "qeSubscribe env c ts w = (tok, w') \<Longrightarrow> completed w' = completed w"
    and "completed (qeDisconnect env c w) = completed w" "completed (qeSetStatus env v ok e now w) = completed w"
    and "qeWriteRegister env i x w = (res, w') \<Longrightarrow> completed w' = completed w"
    and "qeUpdateSettings env g w = (res, w') \<Longrightarrow> completed w' = completed w"
    and "qeStartStorm env g w = (res, w') \<Longrightarrow> completed w' = completed w"
    and "qeCancelStorm env w = (res, w') \<Longrightarrow> completed w' = completed w"
    and "set (qeOrder env vs w) = set vs"
  using assms unfolding records_completed_def by (metis fst_conv snd_conv set_mset_mset)+

text \<open>What the service remembers to have sent is the last completed publication, on every topic no other
  message goes to.\<close>

definition sent_ok :: "('w \<Rightarrow> string \<Rightarrow> payload option) \<Rightarrow> 'w mqtt \<Rightarrow> bool" where
  "sent_ok completed s \<longleftrightarrow>
     (\<forall>t v. qsLast s t = Some v \<longrightarrow> plain_id (last_segment t) \<longrightarrow> completed (qsWorld s) t = Some (Text v))"

lemma sent_ok_empty: "qsLast s = (\<lambda>_. None) \<Longrightarrow> sent_ok completed s"
  by (simp add: sent_ok_def)

lemma sent_ok_cong:
  "sent_ok completed s \<Longrightarrow> qsLast s' = qsLast s \<Longrightarrow> completed (qsWorld s') = completed (qsWorld s) \<Longrightarrow> sent_ok completed s'"
  by (simp add: sent_ok_def)

lemma publish_shown:
  assumes "records_completed env completed" "publish env topic body retained s = (r, s')"
  shows "qsLast s' = qsLast s"
    and "completed (qsWorld s') = (if r = Inr () then (completed (qsWorld s))(topic := Some body) else completed (qsWorld s))"
    and "reports env (qsWorld s') = reports env (qsWorld s)"
  using assms(2) records_completedD(1,2) [OF assms(1)]
  by (auto simp: publish_def split: option.splits prod.splits token.splits)

lemma publish_elsewhere:
  assumes "records_completed env completed" "publish env topic body retained s = (r, s')" "sent_ok completed s"
    and "\<not> plain_id (last_segment topic)"
  shows "sent_ok completed s'"
  using publish_shown [OF assms(1,2)] assms(3,4) by (auto simp: sent_ok_def)

lemma publish_state_shown:
  assumes "records_completed env completed" "publish_state env cfg i v s = (r, s')" "sent_ok completed s"
  shows "sent_ok completed s'"
    and "r = Inr () \<Longrightarrow> completed (qsWorld s') = (completed (qsWorld s))(state_topic cfg i := Some (Text v))"
    and "reports env (qsWorld s') = reports env (qsWorld s)"
proof -
  obtain r1 s1 where 1: "publish env (state_topic cfg i) (Text v) (mcRetain (cfMQTT cfg)) s = (r1, s1)" by fastforce
  note p = publish_shown [OF assms(1) 1]
  show "sent_ok completed s'" "r = Inr () \<Longrightarrow> completed (qsWorld s') = (completed (qsWorld s))(state_topic cfg i := Some (Text v))"
    "reports env (qsWorld s') = reports env (qsWorld s)"
    using assms(2,3) 1 p by (auto simp: publish_state_def set_last_def sent_ok_def split: sum.splits if_splits)
qed

text \<open>After the loop that sends what changed, every value of the list is completed, and no topic but those
  of the list has changed.\<close>

lemma publish_changed_shown:
  assumes "records_completed env completed" "publish_changed env cfg vs s = (r, s')" "sent_ok completed s"
  shows "sent_ok completed s' \<and> reports env (qsWorld s') = reports env (qsWorld s)
    \<and> (r = Inr () \<longrightarrow> distinct (map fst vs) \<longrightarrow>
        (\<forall>(i, v) \<in> set vs. plain_id i \<longrightarrow> completed (qsWorld s') (state_topic cfg i) = Some (Text v)))
    \<and> (r = Inr () \<longrightarrow> (\<forall>t. t \<notin> state_topic cfg ` fst ` set vs \<longrightarrow> completed (qsWorld s') t = completed (qsWorld s) t))"
  using assms(2,3)
proof (induction vs arbitrary: s)
  case (Cons x vs)
  obtain i v where x: "x = (i, v)" by fastforce
  show ?case
  proof (cases "qsLast s (state_topic cfg i) = Some v")
    case True
    then have s: "publish_changed env cfg vs s = (r, s')" using Cons.prems(1) x by simp
    have "plain_id i \<longrightarrow> completed (qsWorld s) (state_topic cfg i) = Some (Text v)"
      using True Cons.prems(2) by (simp add: sent_ok_def last_segments plain_id_def)
    then show ?thesis using Cons.IH [OF s Cons.prems(2)] by (auto simp: x)
  next
    case False
    obtain r1 s1 where 1: "publish_state env cfg i v s = (r1, s1)" by fastforce
    note p = publish_state_shown [OF assms(1) 1 Cons.prems(2)]
    show ?thesis
    proof (cases r1)
      case (Inl e)
      then show ?thesis using False Cons.prems(1) x 1 p(1,3) by auto
    next
      case (Inr u)
      then have s: "publish_changed env cfg vs s1 = (r, s')" using False Cons.prems(1) x 1 by simp
      have "completed (qsWorld s1) = (completed (qsWorld s))(state_topic cfg i := Some (Text v))" using p(2) Inr by simp
      with Cons.IH [OF s p(1)] p(3) show ?thesis by (auto simp: x)
    qed
  qed
qed simp

section \<open>Every step keeps what is remembered true\<close>

named_theorems sent_intros

lemma sent_status [sent_intros]: "records_completed env completed \<Longrightarrow> sent_ok completed s \<Longrightarrow> sent_ok completed (set_mqtt_status env v ok er t s)"
  by (simp add: set_mqtt_status_def sent_ok_def records_completedD(7))

lemma sent_drop [sent_intros]: "records_completed env completed \<Longrightarrow> sent_ok completed s \<Longrightarrow> sent_ok completed (drop_client env c s)"
  by (simp add: drop_client_def sent_ok_def records_completedD(6))

lemma sent_forget [sent_intros]: "sent_ok completed (forget_client t s)"
  by (simp add: forget_client_def sent_ok_empty)

lemma sent_marks [sent_intros]:
  "sent_ok completed s \<Longrightarrow> sent_ok completed (mark_healthy s)" "sent_ok completed s \<Longrightarrow> sent_ok completed (snd (mark_unhealthy t s))"
  by (simp_all add: mark_healthy_def mark_unhealthy_def sent_ok_def)

lemma sent_reset [sent_intros]: "records_completed env completed \<Longrightarrow> sent_ok completed s \<Longrightarrow> sent_ok completed (reset_client env c s)"
  by (auto simp: reset_client_def Let_def intro!: sent_intros split: option.split)

lemma sent_record [sent_intros]: "records_completed env completed \<Longrightarrow> sent_ok completed s \<Longrightarrow> sent_ok completed (record_error env er s)"
  by (simp add: record_error_def Let_def case_prod_beta sent_intros)

lemma sent_world:
  "sent_ok completed s \<Longrightarrow> completed w = completed (qsWorld s) \<Longrightarrow> sent_ok completed (s\<lparr>qsWorld := w\<rparr>)"
  by (simp add: sent_ok_def)

lemma sent_all:
  assumes "records_completed env completed" "publish_all env ms s = (r, s')" "sent_ok completed s"
    and "\<forall>m \<in> set ms. \<not> plain_id (last_segment (fst m))"
  shows "sent_ok completed s' \<and> qsLast s' = qsLast s \<and> reports env (qsWorld s') = reports env (qsWorld s)
    \<and> (\<forall>t. t \<notin> fst ` set ms \<longrightarrow> completed (qsWorld s') t = completed (qsWorld s) t)"
  using assms(2-4)
proof (induction ms arbitrary: s)
  case (Cons m ms)
  obtain topic res where m: "m = (topic, res)" by fastforce
  show ?case
  proof (cases res)
    case (Inl er)
    then show ?thesis using Cons.prems m by simp
  next
    case (Inr body)
    obtain r1 s1 where 1: "publish env topic body True s = (r1, s1)" by fastforce
    note p = publish_shown [OF assms(1) 1] publish_elsewhere [OF assms(1) 1 Cons.prems(2)]
    show ?thesis
    proof (cases r1)
      case (Inl er)
      then show ?thesis using Cons.prems 1 p m Inr by auto
    next
      case Inr1: (Inr u)
      then have *: "publish_all env ms s1 = (r, s')" using Cons.prems(1) 1 m Inr by simp
      show ?thesis using Cons.IH [OF *] Inr1 p Cons.prems(3) m by auto
    qed
  qed
qed simp

lemma sent_discovery:
  assumes "records_completed env completed" "publish_discovery env cfg s = (r, s')" "sent_ok completed s"
  shows "sent_ok completed s' \<and> reports env (qsWorld s') = reports env (qsWorld s)
    \<and> (\<forall>t. last_segment t \<noteq> ''config'' \<longrightarrow> completed (qsWorld s') t = completed (qsWorld s) t)"
proof -
  have *: "last_segment (fst m) = ''config''" if "m \<in> set (discovery_messages (qeVersion env) cfg)" for m
    using that by (rule discovery_topics)
  then have "\<forall>m \<in> set (discovery_messages (qeVersion env) cfg). \<not> plain_id (last_segment (fst m))"
    by (simp add: plain_id_def)
  moreover have "t \<notin> fst ` set (discovery_messages (qeVersion env) cfg)" if "last_segment t \<noteq> ''config''" for t
    using that * by fastforce
  ultimately show ?thesis using sent_all [OF assms(1) assms(2) [unfolded publish_discovery_def] assms(3)] by blast
qed

lemma sent_availability:
  assumes "records_completed env completed" "publish_availability env cfg v s = (r, s')" "sent_ok completed s"
  shows "sent_ok completed s' \<and> reports env (qsWorld s') = reports env (qsWorld s)
    \<and> (r = Inr () \<longrightarrow> completed (qsWorld s') (availability_topic cfg) = Some (Text v))"
  using assms publish_elsewhere [OF assms(1) assms(2) [unfolded publish_availability_def]]
    publish_shown [OF assms(1) assms(2) [unfolded publish_availability_def]]
  by (simp add: last_segments plain_id_def)

lemma sent_announce:
  assumes "records_completed env completed" "announce env cfg s = (r, s')" "sent_ok completed s"
  shows "sent_ok completed s' \<and> reports env (qsWorld s') = reports env (qsWorld s)
    \<and> (\<forall>t. last_segment t \<noteq> ''config'' \<longrightarrow> completed (qsWorld s') t = completed (qsWorld s) t)"
proof -
  obtain r1 s1 where 1: "publish_discovery env cfg s = (r1, s1)" by fastforce
  from sent_discovery [OF assms(1) 1 assms(3)] assms(2,3) 1 show ?thesis
    by (auto simp: announce_def sent_ok_def split: if_splits sum.splits)
qed

lemma sent_changed [sent_intros]:
  "records_completed env completed \<Longrightarrow> sent_ok completed s \<Longrightarrow> sent_ok completed (snd (publish_changed env cfg vs s))"
  "records_completed env completed \<Longrightarrow> sent_ok completed s \<Longrightarrow> sent_ok completed (snd (publish_storm env cfg s))"
  "records_completed env completed \<Longrightarrow> sent_ok completed s \<Longrightarrow> sent_ok completed (snd (publish_telemetry env cfg s))"
  "records_completed env completed \<Longrightarrow> sent_ok completed s \<Longrightarrow> sent_ok completed (snd (publish_state env cfg i v s))"
  unfolding publish_storm_def publish_telemetry_def
  using publish_changed_shown [OF _ surjective_pairing] publish_state_shown(1) [OF _ surjective_pairing] by metis+

lemma sent_command [sent_intros]:
  assumes "records_completed env completed" "sent_ok completed s"
  shows "sent_ok completed (snd (publish_current_value env cfg i s))" "sent_ok completed (snd (publish_command_state env cfg reg v s))"
proof -
  show *: "sent_ok completed (snd (publish_current_value env cfg i s))" for i
    using assms by (auto simp: publish_current_value_def intro!: sent_intros split: option.split)
  show "sent_ok completed (snd (publish_command_state env cfg reg v s))"
    using assms * by (auto simp: publish_command_state_def intro!: sent_intros split: sum.split)
qed

lemma sent_handle_command [sent_intros]:
  assumes "records_completed env completed" "sent_ok completed s"
  shows "sent_ok completed (handle_command env reg body s)"
proof -
  obtain r w where w: "qeWriteRegister env (rID reg) (VStr (trim_space body)) (qsWorld s) = (r, w)" by fastforce
  have "sent_ok completed (s\<lparr>qsWorld := w\<rparr>)" by (rule sent_world [OF assms(2) records_completedD(8) [OF assms(1) w]])
  then show ?thesis using assms w by (auto simp: handle_command_def Let_def intro!: sent_intros split: sum.split)
qed

lemma storm_request_shown:
  assumes "records_completed env completed" "storm_request env cfg topic v w = Some (r, w')"
  shows "completed w' = completed w"
  using assms(2) records_completedD(9,10,11) [OF assms(1)]
  by (auto simp: storm_request_def Let_def split: if_splits option.splits)

lemma sent_storm_command [sent_intros]:
  assumes "records_completed env completed" "sent_ok completed s"
  shows "sent_ok completed (snd (handle_storm_command env cfg topic body s))"
proof (cases "storm_request env cfg topic (trim_space body) (qsWorld s)")
  case None
  then show ?thesis using assms(2) by (simp add: handle_storm_command_def Let_def)
next
  case (Some p)
  obtain r w where p: "p = (r, w)" by fastforce
  have "sent_ok completed (s\<lparr>qsWorld := w\<rparr>)"
    by (rule sent_world [OF assms(2) storm_request_shown [OF assms(1) Some [unfolded p]]])
  then show ?thesis
    using assms Some p by (auto simp: handle_storm_command_def Let_def intro!: sent_intros split: sum.split)
qed

lemma sent_message [sent_intros]:
  "records_completed env completed \<Longrightarrow> sent_ok completed s \<Longrightarrow> sent_ok completed (on_message env cfg topic body s)"
  by (auto simp: on_message_def intro!: sent_intros split: option.split)

lemma sent_round [sent_intros]:
  assumes "records_completed env completed" "sent_ok completed s"
  shows "sent_ok completed (snd (publish_round env cfg s))"
proof -
  obtain r1 s1 where 1: "publish_availability env cfg ''online'' s = (r1, s1)" by fastforce
  have s1: "sent_ok completed s1" using sent_availability [OF assms(1) 1 assms(2)] by blast
  obtain r2 s2 where 2: "announce env cfg s1 = (r2, s2)" by fastforce
  have s2: "sent_ok completed s2" using sent_announce [OF assms(1) 2 s1] by blast
  obtain r3 s3 where 3: "publish_telemetry env cfg s2 = (r3, s3)" by fastforce
  have s3: "sent_ok completed s3" using sent_changed(3) [OF assms(1) s2, of cfg] 3 by simp
  show ?thesis using 1 2 3 s1 s2 s3 assms(1) by (auto simp: publish_round_def intro!: sent_intros split: sum.split)
qed

lemma sent_ensure [sent_intros]:
  assumes "records_completed env completed" "sent_ok completed s"
  shows "sent_ok completed (snd (ensure_mqtt_client env cfg s))"
proof -
  have f: "sent_ok completed ((forget_client t s2)\<lparr>qsClient := c, qsKey := k, qsWorld := w\<rparr>)" for t s2 c k w
    by (rule sent_ok_empty) (simp add: forget_client_def)
  show ?thesis
    using assms f by (auto simp: ensure_mqtt_client_def Let_def case_prod_beta intro!: sent_intros split: token.split option.split)
qed

lemma sent_disconnect [sent_intros]: "sent_ok completed (mqtt_disconnect env s)"
  by (rule sent_ok_empty) (simp add: mqtt_disconnect_def Let_def forget_client_def drop_client_def split: option.split)

lemma sent_sync [sent_intros]:
  assumes "records_completed env completed" "sent_ok completed s"
  shows "sent_ok completed (mqtt_sync env s)"
proof -
  let ?cfg = "qeConfig env (qsWorld s)"
  obtain c s1 where 1: "ensure_mqtt_client env ?cfg s = (c, s1)" by fastforce
  have s1: "sent_ok completed s1" using sent_ensure [OF assms, of ?cfg] 1 by simp
  obtain r s2 where 2: "publish_round env ?cfg s1 = (r, s2)" by fastforce
  have s2: "sent_ok completed s2" using sent_round [OF assms(1) s1, of ?cfg] 2 by simp
  show ?thesis
    using 1 2 s1 s2 assms
    by (auto simp: mqtt_sync_def Let_def case_prod_beta intro!: sent_intros split: option.split sum.split)
qed

lemma sent_callbacks [sent_intros]:
  assumes "records_completed env completed" "sent_ok completed s"
  shows "sent_ok completed (snd (on_connect env cfg c s))" "sent_ok completed (on_connection_lost env er s)"
proof -
  obtain r s1 where 1: "subscribe_commands env cfg c s = (r, s1)" by fastforce
  have "sent_ok completed s1"
    using 1 assms(2) records_completedD(5) [OF assms(1)]
    by (auto simp: subscribe_commands_def sent_ok_def split: if_splits prod.splits token.splits option.splits)
  then show "sent_ok completed (snd (on_connect env cfg c s))"
    using 1 assms(1) by (auto simp: on_connect_def intro!: sent_intros split: sum.split)
  show "sent_ok completed (on_connection_lost env er s)"
    using assms by (auto simp: on_connection_lost_def intro!: sent_intros)
qed

section \<open>The service as a step relation\<close>

text \<open>A tick, a message, a callback of the client, the reset a callback started, the end of the process,
  or anything outside that does not publish on the topics of the service.\<close>

inductive mqtt_step :: "'w mqtt_env \<Rightarrow> ('w \<Rightarrow> string \<Rightarrow> payload option) \<Rightarrow> 'w mqtt \<Rightarrow> 'w mqtt \<Rightarrow> bool" for env completed where
  tick: "mqtt_step env completed s (mqtt_sync env s)"
| message: "mqtt_step env completed s (on_message env cfg topic body s)"
| connected: "mqtt_step env completed s (snd (on_connect env cfg c s))"
| lost: "mqtt_step env completed s (on_connection_lost env er s)"
| reset: "mqtt_step env completed s (reset_client env (Some c) s)"
| stopped: "mqtt_step env completed s (mqtt_disconnect env s)"
| outside: "completed w = completed (qsWorld s) \<Longrightarrow> mqtt_step env completed s (s\<lparr>qsWorld := w\<rparr>)"

inductive_cases mqtt_stepE: "mqtt_step env completed s s'"

lemma mqtt_step_sent: "mqtt_step env completed s s' \<Longrightarrow> records_completed env completed \<Longrightarrow> sent_ok completed s \<Longrightarrow> sent_ok completed s'"
  by (elim mqtt_stepE) (auto intro: sent_intros sent_world)

lemma reachable_sent:
  assumes "records_completed env completed" "(mqtt_step env completed)\<^sup>*\<^sup>* (mqtt_start env w) s"
  shows "sent_ok completed s"
  using assms(2)
proof (induction rule: rtranclp_induct)
  case base
  show ?case unfolding mqtt_start_def
    by (intro sent_intros assms(1)) (simp add: new_mqtt_def sent_ok_empty)
qed (use mqtt_step_sent assms(1) in blast)

section \<open>After a round\<close>

lemma state_not_availability: "state_topic cfg i \<noteq> availability_topic cfg"
  by (simp add: state_topic_def availability_topic_def)

definition stormStateIDs :: "string list" where
  "stormStateIDs =
     [''storm_charge_active'', ''storm_charge_status'', ''storm_charge_target_soc'', ''storm_charge_max_current'',
      ''storm_charge_timeout_minutes'', ''storm_charge_estimated_power'', ''storm_charge_remaining'',
      ''storm_charge_reason'', ''storm_charge_deadline'']"

lemma storm_ids: "map fst (storm_values st) = stormStateIDs" "distinct stormStateIDs" "list_all plain_id stormStateIDs"
  by (simp_all add: storm_values_def stormStateIDs_def plain_id_def)

lemma storm_shown:
  assumes "records_completed env completed" "publish_storm env cfg s = (Inr (), s')" "sent_ok completed s"
  shows "(\<forall>(i, v) \<in> set (storm_values (qeStormStatus env (qsWorld s))). completed (qsWorld s') (state_topic cfg i) = Some (Text v))
    \<and> (\<forall>t. t \<notin> state_topic cfg ` set stormStateIDs \<longrightarrow> completed (qsWorld s') t = completed (qsWorld s) t)"
proof -
  let ?vs = "storm_values (qeStormStatus env (qsWorld s))"
  let ?os = "qeOrder env ?vs (qsWorld s)"
  have m: "mset ?os = mset ?vs" using assms(1) by (simp add: records_completed_def)
  then have "mset (map fst ?os) = mset stormStateIDs" using storm_ids(1) by (metis mset_map)
  then have d: "distinct (map fst ?os)" using storm_ids(2) by (metis mset_eq_imp_distinct_iff)
  have ids: "fst ` set ?vs = set stormStateIDs" using storm_ids(1) by (metis set_map)
  have o: "set ?os = set ?vs" using m by (metis set_mset_mset)
  have p: "plain_id i" if "(i, v) \<in> set ?vs" for i v
    using that ids storm_ids(3) by (force simp: list_all_iff)
  show ?thesis
    using publish_changed_shown [OF assms(1) assms(2) [unfolded publish_storm_def] assms(3)] d p
    unfolding o ids by fastforce
qed

text \<open>After a round of publications that succeeded, in any reachable state of the service, the last completed
  publications are of the device being available, of the rendering of every value of the snapshot and of
  the values of the storm charge status, although only what changed since the last publication is sent.\<close>

lemma round_current:
  assumes "records_completed env completed" "(mqtt_step env completed)\<^sup>*\<^sup>* (mqtt_start env w) s"
    and "publish_round env cfg s = (Inr (), s')"
    and "distinct (map dID (snTelemetry (qeSnapshot env (qsWorld s))) @ stormStateIDs)"
  shows "completed (qsWorld s') (availability_topic cfg) = Some (Text ''online'')
    \<and> (\<forall>v \<in> set (snTelemetry (qeSnapshot env (qsWorld s))). plain_id (dID v) \<longrightarrow>
        completed (qsWorld s') (state_topic cfg (dID v)) = Some (Text (dRendered v)))
    \<and> (\<forall>(i, text) \<in> set (storm_values (qeStormStatus env (qsWorld s))).
        completed (qsWorld s') (state_topic cfg i) = Some (Text text))"
proof -
  have s: "sent_ok completed s" using assms(1,2) by (rule reachable_sent)
  obtain r1 s1 where 1: "publish_availability env cfg ''online'' s = (r1, s1)" by fastforce
  obtain r2 s2 where 2: "announce env cfg s1 = (r2, s2)" by fastforce
  obtain r3 s3 where 3: "publish_telemetry env cfg s2 = (r3, s3)" by fastforce
  have r: "r1 = Inr ()" "r3 = Inr ()" and 4: "publish_storm env cfg s3 = (Inr (), s')"
    using assms(3) 1 2 3 by (auto simp: publish_round_def split: sum.splits)
  note p1 = sent_availability [OF assms(1) 1 s]
  note p2 = sent_announce [OF assms(1) 2 conjunct1 [OF p1]]
  note p3 = publish_changed_shown [OF assms(1) 3 [unfolded publish_telemetry_def] conjunct1 [OF p2]]
  note p4 = storm_shown [OF assms(1) 4 conjunct1 [OF p3]]
  let ?vs = "snTelemetry (qeSnapshot env (qsWorld s))"
  have vs: "qeSnapshot env (qsWorld s2) = qeSnapshot env (qsWorld s)"
    "qeStormStatus env (qsWorld s3) = qeStormStatus env (qsWorld s)"
    using p1 p2 p3 by (simp_all add: reports_def)
  have tele: "plain_id (dID v) \<longrightarrow> completed (qsWorld s3) (state_topic cfg (dID v)) = Some (Text (dRendered v))" if "v \<in> set ?vs" for v
    using p3 r(2) that assms(4) unfolding vs by (auto simp: comp_def)
  have apart: "dID v \<notin> set stormStateIDs" if "v \<in> set ?vs" for v
    using that assms(4) by auto
  have "availability_topic cfg \<notin> state_topic cfg ` A" for A using state_not_availability by (metis imageE)
  then have "completed (qsWorld s3) (availability_topic cfg) = completed (qsWorld s2) (availability_topic cfg)"
    using p3 r(2) by blast
  also have "\<dots> = completed (qsWorld s1) (availability_topic cfg)" using p2 by (simp add: last_segments)
  finally have a3: "completed (qsWorld s3) (availability_topic cfg) = Some (Text ''online'')" using p1 r(1) by simp
  have "completed (qsWorld s') (availability_topic cfg) = Some (Text ''online'')"
    using p4 a3 state_not_availability by (metis imageE)
  moreover have "\<forall>v \<in> set ?vs. plain_id (dID v) \<longrightarrow> completed (qsWorld s') (state_topic cfg (dID v)) = Some (Text (dRendered v))"
    using p4 tele apart by simp
  ultimately show ?thesis using p4 unfolding vs(2) by blast
qed

section \<open>A message that timed out\<close>

text \<open>The service remembers only what was done. A value whose publication times out may reach the broker
  all the same; when the value is then again the one remembered, nothing is sent, and the broker is left
  with what it has.\<close>

theorem timed_out_value_stays:
  assumes "qsClient s = Some c" "qsLast s (state_topic cfg i) = Some old" "new \<noteq> old"
    and "qePublish env c (state_topic cfg i) (mcRetain (cfMQTT cfg)) (Text new) (qsWorld s) = (Timeout, w)"
  shows "\<exists>e s1. publish_changed env cfg [(i, new)] s = (Inl e, s1)
    \<and> publish_changed env cfg [(i, old)] s1 = (Inr (), s1) \<and> qsLast s1 = qsLast s \<and> qsWorld s1 = w"
  using assms by (simp add: publish_state_def publish_def)

section \<open>Giving up a connection\<close>

text \<open>A tick while the connection is not open.\<close>

lemma sync_not_open:
  assumes "qsClient s = Some c" "qsKey s = mqtt_key (qeConfig env (qsWorld s))" "\<not> qeIsOpen env c (qsWorld s)"
    and "trim_space (mcBroker (cfMQTT (qeConfig env (qsWorld s)))) \<noteq> ''''"
  shows "if qsUnhealthySince s \<noteq> 0 \<and> mqttClientResetAfter \<le> qeNow env (qsWorld s) - qsUnhealthySince s
    then qsClient (mqtt_sync env s) = None
    else qsClient (mqtt_sync env s) = Some c \<and> qsKey (mqtt_sync env s) = qsKey s
      \<and> qsUnhealthySince (mqtt_sync env s) =
          (if qsUnhealthySince s = 0 then qeNow env (qsWorld s) else qsUnhealthySince s)"
  using assms
  by (simp add: mqtt_sync_def ensure_mqtt_client_def mark_unhealthy_def mqtt_now_def set_mqtt_status_def
      reset_client_def forget_client_def drop_client_def mqttClientResetAfter_def minute_def second_def Let_def)

text \<open>What a command and its publications leave of the connection.\<close>

definition same_connection :: "'w mqtt \<Rightarrow> 'w mqtt \<Rightarrow> bool" where
  "same_connection s s' \<longleftrightarrow> qsClient s' = qsClient s \<and> qsKey s' = qsKey s \<and> qsUnhealthySince s' = qsUnhealthySince s"

lemma same_connection_refl [simp]: "same_connection s s"
  by (simp add: same_connection_def)

lemma same_connection_trans: "same_connection s s1 \<Longrightarrow> same_connection s1 s2 \<Longrightarrow> same_connection s s2"
  by (simp add: same_connection_def)

lemma same_connection_world [simp]: "same_connection s (s1\<lparr>qsWorld := w\<rparr>) = same_connection s s1"
  "same_connection (s\<lparr>qsWorld := w\<rparr>) s1 = same_connection s s1" "same_connection s (set_last t v s1) = same_connection s s1"
  by (simp_all add: same_connection_def set_last_def)

lemma same_connection_state: "same_connection s (snd (publish_state env cfg i v s))"
  by (simp add: publish_state_def publish_def case_prod_beta split: option.split token.split sum.split)

lemma same_connection_changed: "same_connection s (snd (publish_changed env cfg vs s))"
proof (induction vs arbitrary: s)
  case (Cons x vs)
  show ?case
    using same_connection_state [of s env cfg "fst x" "snd x"] Cons.IH
    by (cases x) (auto simp: case_prod_beta split: sum.split intro: same_connection_trans)
qed simp

lemma same_connection_message: "same_connection s (on_message env cfg topic body s)"
proof -
  have current: "same_connection s' (snd (publish_current_value env cfg' i s'))" for s' cfg' i
    by (simp add: publish_current_value_def same_connection_state split: option.split)
  have "same_connection s' (snd (publish_command_state env cfg' reg v s'))" for s' cfg' reg v
    by (simp add: publish_command_state_def current same_connection_state split: sum.split)
  from this [of "s\<lparr>qsWorld := w\<rparr>" for w] have command: "same_connection s (handle_command env reg body s)" for reg
    by (simp add: handle_command_def Let_def split: sum.split prod.split)
  have "same_connection s (snd (publish_storm env cfg' (s\<lparr>qsWorld := w\<rparr>)))" for cfg' w
    using same_connection_changed [of "s\<lparr>qsWorld := w\<rparr>"] by (simp add: publish_storm_def)
  then have "same_connection s (snd (handle_storm_command env cfg topic body s))"
    by (simp add: handle_storm_command_def Let_def split: sum.split prod.split option.split)
  with command show ?thesis by (simp add: on_message_def split: option.split)
qed

text \<open>What happens to the service while the connection of a client stays closed, each event with the world
  it finds: a tick, the callback that says that the connection is lost, a command that is being handled.\<close>

datatype 'w closed_event = Tick 'w | Lost go_error 'w | Command config string string 'w

fun after_event :: "'w mqtt_env \<Rightarrow> 'w closed_event \<Rightarrow> 'w mqtt \<Rightarrow> 'w mqtt" where
  "after_event env (Tick w) s = mqtt_sync env (s\<lparr>qsWorld := w\<rparr>)"
| "after_event env (Lost er w) s = on_connection_lost env er (s\<lparr>qsWorld := w\<rparr>)"
| "after_event env (Command cfg topic body w) s = on_message env cfg topic body (s\<lparr>qsWorld := w\<rparr>)"

fun stays_closed :: "'w mqtt_env \<Rightarrow> nat \<Rightarrow> string \<Rightarrow> 'w closed_event \<Rightarrow> bool" where
  "stays_closed env c key (Tick w) \<longleftrightarrow> \<not> qeIsOpen env c w \<and> mqtt_key (qeConfig env w) = key
     \<and> trim_space (mcBroker (cfMQTT (qeConfig env w))) \<noteq> '''' \<and> qeNow env w \<noteq> 0"
| "stays_closed env c key (Lost er w) \<longleftrightarrow> qeNow env w \<noteq> 0"
| "stays_closed env c key (Command cfg topic body w) \<longleftrightarrow> True"

text \<open>The time since which the connection counts as unhealthy: the one it has, or else that of the first
  tick or loss.\<close>

fun unhealthy_mark :: "'w mqtt_env \<Rightarrow> gotime \<Rightarrow> 'w closed_event list \<Rightarrow> gotime" where
  "unhealthy_mark env mark [] = mark"
| "unhealthy_mark env mark (Tick w # evs) = (if mark = 0 then qeNow env w else mark)"
| "unhealthy_mark env mark (Lost er w # evs) = (if mark = 0 then qeNow env w else mark)"
| "unhealthy_mark env mark (Command cfg topic body w # evs) = unhealthy_mark env mark evs"

lemma unhealthy_mark_set [simp]: "mark \<noteq> 0 \<Longrightarrow> unhealthy_mark env mark evs = mark"
  by (induction evs rule: unhealthy_mark.induct) simp_all

lemma closed_kept:
  assumes "qsClient s = Some c" "\<forall>ev \<in> set evs. stays_closed env c (qsKey s) ev"
    and "\<forall>w. Tick w \<in> set evs \<longrightarrow> qeNow env w < unhealthy_mark env (qsUnhealthySince s) evs + 2 * minute"
  shows "qsClient (fold (after_event env) evs s) = Some c \<and> qsKey (fold (after_event env) evs s) = qsKey s
    \<and> qsUnhealthySince (fold (after_event env) evs s) = unhealthy_mark env (qsUnhealthySince s) evs"
  using assms
proof (induction evs arbitrary: s)
  case (Cons ev evs)
  let ?s = "after_event env ev s"
  have "qsClient ?s = Some c \<and> qsKey ?s = qsKey s
    \<and> unhealthy_mark env (qsUnhealthySince ?s) evs = unhealthy_mark env (qsUnhealthySince s) (ev # evs)"
  proof (cases ev)
    case (Tick w)
    let ?t = "if qsUnhealthySince s = 0 then qeNow env w else qsUnhealthySince s"
    have "qeNow env w < ?t + 2 * minute" "?t \<noteq> 0" using Cons.prems(2,3) Tick by auto
    then show ?thesis
      using sync_not_open [of "s\<lparr>qsWorld := w\<rparr>" c env] Cons.prems(1,2) Tick
      by (auto simp: mqttClientResetAfter_def split: if_splits)
  next
    case (Lost er w)
    then show ?thesis using Cons.prems(1,2)
      by (simp add: on_connection_lost_def set_mqtt_status_def mark_unhealthy_def mqtt_now_def)
  next
    case (Command cfg topic body w)
    then show ?thesis
      using same_connection_message [of "s\<lparr>qsWorld := w\<rparr>" env cfg topic body] Cons.prems(1)
      by (simp add: same_connection_def)
  qed
  then show ?case using Cons.IH [of ?s] Cons.prems(2,3) by simp
qed simp

text \<open>C39: a client whose connection stays closed is given up at the first tick that comes two minutes or
  more after the time since which the connection counts as unhealthy, and at no event before. That time
  is the one the service already has (from the attempt to connect, the loss of the connection or the
  first of the failed publications), or else the first tick or loss that follows; no tick, loss or
  command in between moves it.\<close>

theorem mqtt_reset_due:
  assumes "qsClient s = Some c" "\<forall>ev \<in> set (evs @ [Tick w]). stays_closed env c (qsKey s) ev"
    and "since = unhealthy_mark env (qsUnhealthySince s) (evs @ [Tick w])"
    and "\<forall>w'. Tick w' \<in> set evs \<longrightarrow> qeNow env w' < since + 2 * minute"
  shows "qsClient (fold (after_event env) evs s) = Some c
    \<and> qsClient (fold (after_event env) (evs @ [Tick w]) s) = (if since + 2 * minute \<le> qeNow env w then None else Some c)"
proof -
  let ?s = "fold (after_event env) evs s"
  have extend: "unhealthy_mark env m (evs @ [Tick w]) =
      (if unhealthy_mark env m evs = 0 then qeNow env w else unhealthy_mark env m evs)" if "\<forall>ev \<in> set evs. stays_closed env c key ev" for m key
    using that by (induction env m evs rule: unhealthy_mark.induct) auto
  have since: "since = (if unhealthy_mark env (qsUnhealthySince s) evs = 0 then qeNow env w
      else unhealthy_mark env (qsUnhealthySince s) evs)"
    unfolding assms(3) by (rule extend [of "qsKey s"]) (use assms(2) in simp)
  have marked: "unhealthy_mark env m evs \<noteq> 0" if "Tick w' \<in> set evs" "\<forall>ev \<in> set evs. stays_closed env c key ev" for m w' key
    using that by (induction env m evs rule: unhealthy_mark.induct) auto
  have kept: "qsClient ?s = Some c \<and> qsKey ?s = qsKey s \<and> qsUnhealthySince ?s = unhealthy_mark env (qsUnhealthySince s) evs"
    by (rule closed_kept) (use assms(1,2,4) since marked [of _ "qsKey s"] in auto)
  have "qeNow env w \<noteq> 0" using assms(2) by simp
  then show ?thesis
    using kept sync_not_open [of "?s\<lparr>qsWorld := w\<rparr>" c env] assms(2) since
    by (auto simp: mqttClientResetAfter_def minute_def second_def split: if_splits)
qed

section \<open>Discovery is total\<close>

text \<open>Every number of a payload is finite, so no message of the discovery fails to be encoded.\<close>

lemma sensor_body: "\<exists>b. marshal (sensor_payload version cfg deviceID reg) = Inr b"
  by (simp add: marshal_def sensor_payload_def device_json_def optional_def)

lemma control_body:
  assumes "register_wf reg" "rWritable reg"
  shows "\<exists>b. marshal (fst (writable_discovery_payload version cfg deviceID reg)) = Inr b"
proof -
  have "is_fin (flit (1 / 10))" by code_simp
  then have "rEnum reg = [] \<longrightarrow> is_fin (rWriteMin reg) \<and> is_fin (rWriteMax reg) \<and> is_fin (rWriteStep reg)"
    using assms by (auto simp: register_wf_def tenths_control_def units_control_def split: f64.splits)
  then show ?thesis
    by (auto simp: marshal_def writable_discovery_payload_def Let_def device_json_def optional_def split: option.split)
qed

lemma register_bodies:
  assumes "register_wf reg" "m \<in> set (register_messages version cfg deviceID reg)"
  shows "\<exists>b. snd m = Inr b"
proof (cases "rWritable reg")
  case True
  obtain kvs component where w: "writable_discovery_payload version cfg deviceID reg = (kvs, component)" by fastforce
  obtain b where "marshal kvs = Inr b" using control_body [OF assms(1) True, of version cfg deviceID] w by auto
  then show ?thesis
    using assms(2) w sensor_body [of version cfg deviceID reg] by (auto simp: register_messages_def split: if_splits)
qed (use assms(2) sensor_body [of version cfg deviceID reg] in \<open>auto simp: register_messages_def split: if_splits\<close>)

lemma storm_bodies: "m \<in> set (storm_messages version cfg deviceID) \<Longrightarrow> \<exists>b. snd m = Inr b"
  by (auto simp: storm_messages_def storm_entities_def marshal_def device_json_def Let_def)

lemma discovery_bodies:
  assumes "m \<in> set (discovery_messages version cfg)"
  shows "\<exists>b. snd m = Inr b"
proof -
  have wf: "register_wf reg" if "reg \<in> set (catalog_for_config cfg)" for reg
    using that catalog_wf by (auto simp: catalog_for_config_def split: sum.splits)
  let ?d = "sanitize_id (dcName (cfDevice cfg))"
  have "(\<exists>t. m = (t, Inr (Text ''''))) \<or> (\<exists>reg \<in> set (catalog_for_config cfg). m \<in> set (register_messages version cfg ?d reg))
    \<or> m \<in> set (storm_messages version cfg ?d) \<or> m \<in> set (clear_storm_messages cfg ?d)"
    using assms by (fastforce simp: discovery_messages_def Let_def split: if_splits)
  then show ?thesis
  proof (elim disjE exE bexE)
    fix reg assume "reg \<in> set (catalog_for_config cfg)" "m \<in> set (register_messages version cfg ?d reg)"
    then show ?thesis using wf register_bodies by blast
  qed (use storm_bodies in \<open>auto simp: clear_storm_messages_def\<close>)
qed

text \<open>Over a library that never fails, a round of publications succeeds.\<close>

definition publishes :: "'w mqtt_env \<Rightarrow> bool" where
  "publishes env \<longleftrightarrow> (\<forall>c t r p w. fst (qePublish env c t r p w) = Done None)"

lemma publish_works:
  assumes "publishes env" "qsClient s = Some c"
  shows "fst (publish env topic body r s) = Inr ()" "qsClient (snd (publish env topic body r s)) = Some c"
  using assms by (simp_all add: publishes_def publish_def case_prod_beta)

lemma publish_all_works:
  assumes "publishes env" "qsClient s = Some c" "\<forall>m \<in> set ms. \<exists>b. snd m = Inr b"
  shows "fst (publish_all env ms s) = Inr () \<and> qsClient (snd (publish_all env ms s)) = Some c"
  using assms(2,3)
proof (induction ms arbitrary: s)
  case (Cons m ms)
  obtain topic b where "m = (topic, Inr b)" using Cons.prems(2) by (cases m) auto
  then show ?case
    using Cons publish_works [OF assms(1) Cons.prems(1), of topic b True] by (simp add: case_prod_beta)
qed simp

lemma publish_changed_works:
  assumes "publishes env" "qsClient s = Some c"
  shows "fst (publish_changed env cfg vs s) = Inr () \<and> qsClient (snd (publish_changed env cfg vs s)) = Some c"
  using assms(2)
proof (induction vs arbitrary: s)
  case (Cons x vs)
  obtain i v where x: "x = (i, v)" by fastforce
  have "fst (publish_state env cfg i v s) = Inr ()" "qsClient (snd (publish_state env cfg i v s)) = Some c"
    using publish_works [OF assms(1) Cons.prems] by (simp_all add: publish_state_def set_last_def case_prod_beta)
  then show ?case using Cons x by (simp add: case_prod_beta)
qed simp

lemma publish_round_works:
  assumes "publishes env" "qsClient s = Some c"
  shows "fst (publish_round env cfg s) = Inr () \<and> qsClient (snd (publish_round env cfg s)) = Some c"
proof -
  let ?s1 = "snd (publish_availability env cfg ''online'' s)"
  have 1: "fst (publish_availability env cfg ''online'' s) = Inr ()" "qsClient ?s1 = Some c"
    using publish_works [OF assms] by (simp_all add: publish_availability_def)
  let ?s2 = "snd (announce env cfg ?s1)"
  have 2: "fst (announce env cfg ?s1) = Inr () \<and> qsClient ?s2 = Some c"
    using publish_all_works [OF assms(1) 1(2), of "discovery_messages (qeVersion env) cfg"] discovery_bodies 1(2)
    by (auto simp: announce_def publish_discovery_def case_prod_beta)
  let ?s3 = "snd (publish_telemetry env cfg ?s2)"
  have 3: "fst (publish_telemetry env cfg ?s2) = Inr () \<and> qsClient ?s3 = Some c"
    unfolding publish_telemetry_def by (rule publish_changed_works) (use assms(1) 2 in auto)
  have "fst (publish_storm env cfg ?s3) = Inr () \<and> qsClient (snd (publish_storm env cfg ?s3)) = Some c"
    unfolding publish_storm_def using publish_changed_works [OF assms(1)] 3 by blast
  then show ?thesis using 1 2 3 by (simp add: publish_round_def case_prod_beta)
qed

section \<open>A demonstration\<close>

text \<open>A broker that shows what is published, a clock, and one value in the store.\<close>

definition demo_value :: decoded_value where
  "demo_value = value0\<lparr>dID := ''battery_soc'', dRendered := ''57''\<rparr>"

definition demo_mqtt :: "(gotime \<times> (string \<Rightarrow> payload option)) mqtt_env" where
  "demo_mqtt =
     \<lparr>qeConfig = (\<lambda>w. default_config), qeWriteRegister = (\<lambda>i v w. (Inr (), w)),
      qeStormStatus = (\<lambda>w. \<lparr>saActive = False, saPhase = phaseIdle, saSettings = settingsFromConfig (cfStorm default_config),
        saPrevious = previous0, saStartedAt = None, saDeadline = None, saRemaining = None, saCurrentSOC = Num 0,
        saBatteryVoltage = Num 0, saPowerWatts = 0, saBMSLimitA = Num 0, saReason = '''', saError = no_error, saStamp = 0\<rparr>),
      qeUpdateSettings = (\<lambda>g w. (Inr (), w)), qeStartStorm = (\<lambda>g w. (Inr (), w)), qeCancelStorm = (\<lambda>w. (Inr (), w)),
      qeSnapshot = (\<lambda>w. \<lparr>snServices = [], snTelemetry = [demo_value]\<rparr>), qeSetStatus = (\<lambda>v ok er t w. w),
      qeNow = fst, qeVersion = ''dev'', qeOrder = (\<lambda>vs w. vs), qeNewClient = (\<lambda>opts w. (0, w)),
      qeConnect = (\<lambda>c w. (Done None, w)), qeIsOpen = (\<lambda>c w. False),
      qePublish = (\<lambda>c t r p w. (Done None, (fst w, (snd w)(t := Some p)))),
      qeSubscribe = (\<lambda>c ts w. (Done None, w)), qeDisconnect = (\<lambda>c w. w)\<rparr>"

definition late_mqtt :: "(gotime \<times> (string \<Rightarrow> payload option)) mqtt_env" where
  "late_mqtt = demo_mqtt\<lparr>qePublish := (\<lambda>c t r p w. (Timeout, (fst w, (snd w)(t := Some p))))\<rparr>"

lemma demo_mqtt_client:
  "qsClient (mqtt_start demo_mqtt (7, Map.empty)) = Some 0" "qsKey (mqtt_start demo_mqtt (7, Map.empty)) = mqtt_key default_config"
  "qsUnhealthySince (mqtt_start demo_mqtt (7, Map.empty)) = 7"
proof -
  have "trim_space (mcBroker (cfMQTT default_config)) \<noteq> ''''" by code_simp
  then show "qsClient (mqtt_start demo_mqtt (7, Map.empty)) = Some 0"
    "qsKey (mqtt_start demo_mqtt (7, Map.empty)) = mqtt_key default_config"
    "qsUnhealthySince (mqtt_start demo_mqtt (7, Map.empty)) = 7"
    by (simp_all add: mqtt_start_def mqtt_sync_def ensure_mqtt_client_def set_mqtt_status_def mark_unhealthy_def
        new_mqtt_def forget_client_def mqttClientResetAfter_def demo_mqtt_def mqtt_now_def minute_def second_def)
qed

text \<open>The client is made at time 7; its connection never opens, is reported lost once, and a command is
  handled meanwhile.\<close>

theorem mqtt_reset_due_witness:
  "qsClient (fold (after_event demo_mqtt)
     [Lost (External ''EOF'') (8, Map.empty), Tick (minute, Map.empty), Command default_config ''x'' ''1'' (minute, Map.empty),
      Tick (2 * minute, Map.empty), Tick (7 + 2 * minute, Map.empty)]
     (mqtt_start demo_mqtt (7, Map.empty))) = None"
proof -
  let ?s = "mqtt_start demo_mqtt (7, Map.empty)"
  let ?evs = "[Lost (External ''EOF'') (8, Map.empty), Tick (minute, Map.empty),
      Command default_config ''x'' ''1'' (minute, Map.empty), Tick (2 * minute, Map.empty)]"
  have b: "trim_space (mcBroker (cfMQTT default_config)) \<noteq> ''''" by code_simp
  have e: "qeConfig demo_mqtt w = default_config" "\<not> qeIsOpen demo_mqtt c w" "qeNow demo_mqtt w = fst w" for w c
    by (simp_all add: demo_mqtt_def)
  have "qsClient (fold (after_event demo_mqtt) (?evs @ [Tick (7 + 2 * minute, Map.empty)]) ?s)
      = (if 7 + 2 * minute \<le> qeNow demo_mqtt (7 + 2 * minute, Map.empty) then None else Some 0)"
    by (rule conjunct2 [OF mqtt_reset_due [where c = 0]])
      (use b in \<open>auto simp: e demo_mqtt_client minute_def second_def\<close>)
  then show ?thesis by (simp add: e)
qed

text \<open>A broker that gets a message although its publication times out is left with 58 while the service
  and the store hold 57.\<close>

theorem timed_out_value_stays_witness:
  "\<exists>s1. publish_changed late_mqtt default_config [(''battery_soc'', ''57'')] s1 = (Inr (), s1)
     \<and> qsLast s1 (state_topic default_config ''battery_soc'') = Some ''57''
     \<and> snd (qsWorld s1) (state_topic default_config ''battery_soc'') = Some (Text ''58'')"
proof -
  let ?t = "state_topic default_config ''battery_soc''"
  let ?s = "(new_mqtt (7, Map.empty))\<lparr>qsClient := Some 0, qsLast := [?t \<mapsto> ''57'']\<rparr>"
  have "qePublish late_mqtt 0 ?t r (Text ''58'') w = (Timeout, (fst w, (snd w)(?t := Some (Text ''58''))))" for r w
    by (simp add: late_mqtt_def demo_mqtt_def)
  from timed_out_value_stays [OF _ _ _ this, of ?s "''57''"] show ?thesis
    by (fastforce simp: new_mqtt_def simp del: publish_changed.simps)
qed

end
