(* ===== verification/MqttWorld.thy ===== *)
theory MqttWorld
  imports Mqtt
begin

text \<open>
  What the MQTT service does to the world it acts on, for any world: a predicate of the world that the
  calls of the interface keep is kept by every operation of the service. \<open>publisher\<close> needs it of
  publications only and covers the operations that only publish; \<open>mqtt_world\<close> needs it of every
  call and covers all.
\<close>

locale publisher =
  fixes env :: "'w mqtt_env" and P :: "'w \<Rightarrow> bool"
  assumes on_publish: "P w \<Longrightarrow> P (snd (qePublish env c topic r body w))"
begin

lemma publish_keeps: "P (qsWorld s) \<Longrightarrow> P (qsWorld (snd (publish env topic body r s)))"
  using on_publish [of "qsWorld s" _ topic r body]
  by (auto simp: publish_def case_prod_beta split: option.split token.split)

lemma all_keeps: "P (qsWorld s) \<Longrightarrow> P (qsWorld (snd (publish_all env ms s)))"
proof (induction ms arbitrary: s)
  case (Cons m ms)
  obtain topic res where m: "m = (topic, res)" by fastforce
  show ?case
  proof (cases res)
    case (Inr body)
    have "P (qsWorld (snd (publish env topic body True s)))" using Cons.prems by (rule publish_keeps)
    then show ?thesis using Cons.IH m Inr by (simp add: case_prod_beta split: sum.split)
  qed (use Cons.prems m in simp)
qed simp

lemma state_keeps: "P (qsWorld s) \<Longrightarrow> P (qsWorld (snd (publish_state env cfg i v s)))"
  using publish_keeps [of s "state_topic cfg i" "Text v" "mcRetain (cfMQTT cfg)"]
  by (simp add: publish_state_def set_last_def case_prod_beta split: sum.split)

lemma changed_keeps: "P (qsWorld s) \<Longrightarrow> P (qsWorld (snd (publish_changed env cfg vs s)))"
proof (induction vs arbitrary: s)
  case (Cons x vs)
  obtain i v where x: "x = (i, v)" by fastforce
  show ?case using Cons.IH [OF state_keeps [OF Cons.prems]] Cons.IH [OF Cons.prems] state_keeps [OF Cons.prems]
    by (simp add: x case_prod_beta split: sum.split)
qed simp

lemma publications_keep:
  assumes "P (qsWorld s)"
  shows "P (qsWorld (snd (publish_availability env cfg v s)))" "P (qsWorld (snd (announce env cfg s)))"
    "P (qsWorld (snd (publish_telemetry env cfg s)))" "P (qsWorld (snd (publish_storm env cfg s)))"
    "P (qsWorld (snd (publish_current_value env cfg i s)))" "P (qsWorld (snd (publish_command_state env cfg reg v s)))"
  using assms publish_keeps all_keeps changed_keeps state_keeps
  by (auto simp: publish_availability_def announce_def publish_discovery_def publish_telemetry_def publish_storm_def
      publish_current_value_def publish_command_state_def case_prod_beta split: sum.split option.split)

lemma round_keeps:
  assumes "P (qsWorld s)"
  shows "P (qsWorld (snd (publish_round env cfg s)))"
proof -
  define s1 where "s1 = snd (publish_availability env cfg ''online'' s)"
  define s2 where "s2 = snd (announce env cfg s1)"
  define s3 where "s3 = snd (publish_telemetry env cfg s2)"
  have 1: "P (qsWorld s1)" using assms publications_keep(1) by (simp add: s1_def)
  then have 2: "P (qsWorld s2)" using publications_keep(2) by (simp add: s2_def)
  then have 3: "P (qsWorld s3)" using publications_keep(3) by (simp add: s3_def)
  then have 4: "P (qsWorld (snd (publish_storm env cfg s3)))" by (rule publications_keep(4))
  show ?thesis
    using 1 2 3 4 unfolding s1_def s2_def s3_def publish_round_def by (simp add: case_prod_beta split: sum.split)
qed

end

locale mqtt_world = publisher +
  assumes on_status: "P w \<Longrightarrow> P (qeSetStatus env v ok er t w)"
    and on_write: "P w \<Longrightarrow> P (snd (qeWriteRegister env i x w))"
    and on_settings: "P w \<Longrightarrow> P (snd (qeUpdateSettings env g w))"
    and on_start: "P w \<Longrightarrow> P (snd (qeStartStorm env g w))"
    and on_cancel: "P w \<Longrightarrow> P (snd (qeCancelStorm env w))"
    and on_new: "P w \<Longrightarrow> P (snd (qeNewClient env opts w))"
    and on_connect: "P w \<Longrightarrow> P (snd (qeConnect env c w))"
    and on_subscribe: "P w \<Longrightarrow> P (snd (qeSubscribe env c ts w))"
    and on_disconnect: "P w \<Longrightarrow> P (qeDisconnect env c w)"
begin

lemma marks_keep:
  assumes "P (qsWorld s)"
  shows "P (qsWorld (set_mqtt_status env v ok er t s))" "P (qsWorld (drop_client env c s))"
    "P (qsWorld (forget_client t s))" "P (qsWorld (mark_healthy s))" "P (qsWorld (snd (mark_unhealthy t s)))"
  using assms on_status on_disconnect
  by (simp_all add: set_mqtt_status_def drop_client_def forget_client_def mark_healthy_def mark_unhealthy_def)

lemma reset_keeps: "P (qsWorld s) \<Longrightarrow> P (qsWorld (reset_client env c s))"
  using marks_keep by (auto simp: reset_client_def Let_def split: option.split)

lemma record_keeps: "P (qsWorld s) \<Longrightarrow> P (qsWorld (record_error env er s))"
  using marks_keep reset_keeps by (simp add: record_error_def Let_def case_prod_beta)

lemma ensure_keeps:
  assumes "P (qsWorld s)"
  shows "P (qsWorld (snd (ensure_mqtt_client env cfg s)))"
proof -
  define s2 where "s2 = (case qsClient s of None \<Rightarrow> forget_client 0 s | Some old \<Rightarrow> drop_client env old (forget_client 0 s))"
  have s2: "P (qsWorld s2)" using marks_keep assms by (auto simp: s2_def split: option.split)
  obtain c w where c: "qeNewClient env (client_options_of cfg) (qsWorld s2) = (c, w)" by fastforce
  have w: "P w" using on_new [OF s2] c by (metis snd_conv)
  obtain tok w1 where tok: "qeConnect env c w = (tok, w1)" by fastforce
  have w1: "P w1" using on_connect [OF w] tok by (metis snd_conv)
  show ?thesis
    unfolding ensure_mqtt_client_def Let_def s2_def [symmetric]
    using assms c tok w1 by (auto intro!: reset_keeps marks_keep split: token.split option.split)
qed

lemma disconnect_keeps: "P (qsWorld s) \<Longrightarrow> P (qsWorld (mqtt_disconnect env s))"
  using marks_keep on_publish on_disconnect
  by (auto simp: mqtt_disconnect_def Let_def drop_client_def forget_client_def split: option.split)

lemma sync_keeps:
  assumes "P (qsWorld s)"
  shows "P (qsWorld (mqtt_sync env s))"
proof -
  let ?cfg = "qeConfig env (qsWorld s)"
  have e: "P (qsWorld (snd (ensure_mqtt_client env ?cfg s)))" using assms by (rule ensure_keeps)
  have r: "P (qsWorld (snd (publish_round env ?cfg (snd (ensure_mqtt_client env ?cfg s)))))" using e by (rule round_keeps)
  show ?thesis
    using assms e r by (auto simp: mqtt_sync_def Let_def case_prod_beta
        intro!: marks_keep reset_keeps record_keeps disconnect_keeps split: option.split sum.split)
qed

lemma callbacks_keep:
  assumes "P (qsWorld s)"
  shows "P (qsWorld (snd (Mqtt.on_connect env cfg c s)))" "P (qsWorld (on_connection_lost env er s))"
proof -
  have "P (qsWorld (snd (subscribe_commands env cfg c s)))"
    using on_subscribe [OF assms, of c "subscriptions cfg"] assms
    by (auto simp: subscribe_commands_def case_prod_beta split: token.split option.split)
  then show "P (qsWorld (snd (Mqtt.on_connect env cfg c s)))"
    by (auto simp: on_connect_def case_prod_beta intro!: marks_keep split: sum.split)
  show "P (qsWorld (on_connection_lost env er s))"
    using assms by (simp add: on_connection_lost_def marks_keep)
qed

lemma command_keeps:
  assumes "P (qsWorld s)"
  shows "P (qsWorld (handle_command env reg body s))"
proof -
  obtain r w where w: "qeWriteRegister env (rID reg) (VStr (trim_space body)) (qsWorld s) = (r, w)" by fastforce
  have "P w" using on_write [OF assms] w by (metis snd_conv)
  then show ?thesis using assms w
    by (auto simp: handle_command_def Let_def intro!: publications_keep split: sum.split)
qed

lemma request_keeps:
  assumes "P w" "storm_request env cfg topic v w = Some (r, w')"
  shows "P w'"
proof -
  have "w' \<in> {w, snd (qeStartStorm env (saSettings (qeStormStatus env w)) w), snd (qeCancelStorm env w)}
    \<or> (\<exists>g. w' = snd (qeUpdateSettings env g w))"
    using assms(2) by (auto simp: storm_request_def Let_def split: if_splits option.splits) (metis snd_conv)+
  then show ?thesis using assms(1) on_start on_cancel on_settings by auto
qed

lemma message_keeps:
  assumes "P (qsWorld s)"
  shows "P (qsWorld (on_message env cfg topic body s))"
proof -
  have "P (qsWorld (snd (handle_storm_command env cfg topic body s)))"
    using assms request_keeps [OF assms]
    by (auto simp: handle_storm_command_def Let_def intro!: publications_keep split: option.split sum.split)
  then show ?thesis using assms command_keeps by (simp add: on_message_def split: option.split)
qed

lemma begin_keeps: "P w \<Longrightarrow> P (qsWorld (mqtt_start env w))"
  unfolding mqtt_start_def by (intro sync_keeps marks_keep) (simp add: new_mqtt_def)

end

end
