(* ===== verification/Modbus.thy ===== *)
theory Modbus
  imports Store Config ReadPlan
begin

text \<open>
  \<^verbatim>\<open>internal/modbus/service.go\<close>: the service that owns the Modbus connection. \<open>service\<close> is
  the struct \<^verbatim>\<open>Service\<close> with the shared store and the world outside; every method that
  takes the mutex is one step. The configuration a method reads at its start is its argument
  \<open>cfg\<close>.

  The Modbus client library, the serial port and the network are outside the program:
  \<open>modbus_env\<close> has the operations the code calls on them, over a world \<open>'w\<close> of any type. A
  client is known by the number of its handler, so that a call on a client that was closed can be
  told from one on the current client. \<open>dial\<close> says how \<^verbatim>\<open>OpenClient\<close> sets a handler up
  and connects. Sleeping and logging have no effect on the state. The key of a connection
  (\<^verbatim>\<open>serialKey\<close>) is the tuple of the fields it renders.
\<close>

section \<open>Clients\<close>

datatype dial =
    DialRTU string int int string int duration byte
  | DialRTUOverTCP string byte duration
  | DialModbusTCP string duration byte

record 'w modbus_env =
  meDial :: "dial \<Rightarrow> 'w \<Rightarrow> nat result \<times> 'w"
  meClose :: "nat \<Rightarrow> 'w \<Rightarrow> 'w"
  meRead :: "nat \<Rightarrow> u16 \<Rightarrow> u16 \<Rightarrow> 'w \<Rightarrow> byte list result \<times> 'w"
  meWriteSingle :: "nat \<Rightarrow> u16 \<Rightarrow> u16 \<Rightarrow> 'w \<Rightarrow> unit result \<times> 'w"
  meWriteMultiple :: "nat \<Rightarrow> u16 \<Rightarrow> u16 \<Rightarrow> byte list \<Rightarrow> 'w \<Rightarrow> unit result \<times> 'w"
  meNow :: "'w \<Rightarrow> gotime"

type_synonym serial_key =
  "string \<times> connection_mode option \<times> int \<times> int \<times> int \<times> string \<times> byte \<times> duration"

record 'w service =
  svStore :: store
  svKey :: "serial_key option"
  svClient :: "nat option"
  svWorld :: 'w

definition serial_key_of :: "config \<Rightarrow> serial_key" where
  "serial_key_of cfg =
     (scPort (cfSerial cfg),
      (case connection_mode_of (cfSerial cfg) of Inl _ \<Rightarrow> None | Inr m \<Rightarrow> Some m),
      scBaudRate (cfSerial cfg), scDataBits (cfSerial cfg), scStopBits (cfSerial cfg),
      to_upper (trim_space (scParity (cfSerial cfg))), dcSlaveID (cfDevice cfg),
      scTimeout (cfSerial cfg))"

text \<open>How \<^verbatim>\<open>OpenClient\<close> sets up the handler of a connection mode, and its error.\<close>

definition dial_of :: "config \<Rightarrow> connection_mode \<Rightarrow> dial" where
  "dial_of cfg m =
     (case m of
        ModeRTU \<Rightarrow>
          DialRTU (scPort (cfSerial cfg)) (scBaudRate (cfSerial cfg)) (scDataBits (cfSerial cfg))
            (to_upper (trim_space (scParity (cfSerial cfg)))) (scStopBits (cfSerial cfg))
            (scTimeout (cfSerial cfg)) (dcSlaveID (cfDevice cfg))
      | ModeRTUOverTCP \<Rightarrow>
          DialRTUOverTCP (fst (tcp_address (scPort (cfSerial cfg)))) (dcSlaveID (cfDevice cfg))
            (scTimeout (cfSerial cfg))
      | ModeModbusTCP \<Rightarrow>
          DialModbusTCP (fst (tcp_address (scPort (cfSerial cfg)))) (scTimeout (cfSerial cfg))
            (dcSlaveID (cfDevice cfg)))"

definition connect_error :: "config \<Rightarrow> connection_mode \<Rightarrow> go_error \<Rightarrow> go_error" where
  "connect_error cfg m e =
     (case m of
        ModeRTU \<Rightarrow> Errorf ''connect serial %s: %w'' [AStr (scPort (cfSerial cfg)), AErr e]
      | ModeRTUOverTCP \<Rightarrow>
          Errorf ''connect rtu-over-tcp %s: %w'' [AStr (fst (tcp_address (scPort (cfSerial cfg)))), AErr e]
      | ModeModbusTCP \<Rightarrow>
          Errorf ''connect modbus-tcp %s: %w'' [AStr (fst (tcp_address (scPort (cfSerial cfg)))), AErr e])"

definition open_client :: "'w modbus_env \<Rightarrow> config \<Rightarrow> 'w \<Rightarrow> nat result \<times> 'w" where
  "open_client env cfg w =
     (case connection_mode_of (cfSerial cfg) of
        Inl e \<Rightarrow> (Inl e, w)
      | Inr m \<Rightarrow>
          (case meDial env (dial_of cfg m) w of
             (Inl e, w1) \<Rightarrow> (Inl (connect_error cfg m e), w1)
           | (Inr h, w1) \<Rightarrow> (Inr h, w1)))"

definition close_locked :: "'w modbus_env \<Rightarrow> 'w service \<Rightarrow> 'w service" where
  "close_locked env s =
     s\<lparr>svWorld := (case svClient s of Some h \<Rightarrow> meClose env h (svWorld s) | None \<Rightarrow> svWorld s),
       svClient := None, svKey := None\<rparr>"

definition ensure_client :: "'w modbus_env \<Rightarrow> config \<Rightarrow> 'w service \<Rightarrow> nat result \<times> 'w service" where
  "ensure_client env cfg s =
     (if svClient s \<noteq> None \<and> svKey s = Some (serial_key_of cfg) then (Inr (the (svClient s)), s)
      else let s1 = close_locked env s in
        (case open_client env cfg (svWorld s1) of
           (Inl e, w) \<Rightarrow> (Inl e, s1\<lparr>svWorld := w\<rparr>)
         | (Inr h, w) \<Rightarrow> (Inr h, s1\<lparr>svWorld := w, svClient := Some h, svKey := Some (serial_key_of cfg)\<rparr>)))"

definition client_read :: "'w modbus_env \<Rightarrow> nat \<Rightarrow> u16 \<Rightarrow> u16 \<Rightarrow> 'w service \<Rightarrow> byte list result \<times> 'w service" where
  "client_read env h address n s =
     (case meRead env h address n (svWorld s) of (r, w) \<Rightarrow> (r, s\<lparr>svWorld := w\<rparr>))"

definition client_write :: "'w modbus_env \<Rightarrow> nat \<Rightarrow> u16 \<Rightarrow> u16 \<Rightarrow> 'w service \<Rightarrow> unit result \<times> 'w service" where
  "client_write env h address v s =
     (case meWriteSingle env h address v (svWorld s) of (r, w) \<Rightarrow> (r, s\<lparr>svWorld := w\<rparr>))"

definition client_write_multiple ::
  "'w modbus_env \<Rightarrow> nat \<Rightarrow> u16 \<Rightarrow> u16 \<Rightarrow> byte list \<Rightarrow> 'w service \<Rightarrow> unit result \<times> 'w service" where
  "client_write_multiple env h address n payload s =
     (case meWriteMultiple env h address n payload (svWorld s) of (r, w) \<Rightarrow> (r, s\<lparr>svWorld := w\<rparr>))"

text \<open>\<^verbatim>\<open>readHoldingWithRetryLocked\<close>: one more attempt on a new connection.\<close>

definition read_with_retry ::
  "'w modbus_env \<Rightarrow> config \<Rightarrow> nat \<Rightarrow> u16 \<Rightarrow> u16 \<Rightarrow> 'w service \<Rightarrow> byte list result \<times> 'w service" where
  "read_with_retry env cfg h address n s =
     (case client_read env h address n s of
        (Inr payload, s1) \<Rightarrow> (Inr payload, s1)
      | (Inl e, s1) \<Rightarrow>
          (case ensure_client env cfg (close_locked env s1) of
             (Inl re, s2) \<Rightarrow> (Inl (Errorf ''%v; reconnect failed: %w'' [AErr e, AErr re]), s2)
           | (Inr h', s2) \<Rightarrow>
               (case client_read env h' address n s2 of
                  (Inl e2, s3) \<Rightarrow> (Inl e2, s3)
                | (Inr payload, s3) \<Rightarrow> (Inr payload, s3))))"

section \<open>Status and store\<close>

definition put_status ::
  "'w modbus_env \<Rightarrow> string \<Rightarrow> bool \<Rightarrow> go_error \<Rightarrow> gotime \<Rightarrow> 'w service \<Rightarrow> 'w service" where
  "put_status env st ok e ls s =
     s\<lparr>svStore := set_service_status (meNow env (svWorld s)) ''modbus'' st ok e ls (svStore s)\<rparr>"

definition put_error :: "'w modbus_env \<Rightarrow> go_error \<Rightarrow> 'w service \<Rightarrow> 'w service" where
  "put_error env e = put_status env ''error'' False e 0"

definition put_telemetry :: "decoded_value list \<Rightarrow> 'w service \<Rightarrow> 'w service" where
  "put_telemetry vs s = s\<lparr>svStore := upsert_telemetry vs (svStore s)\<rparr>"

section \<open>Battery thresholds\<close>

definition raw_from_snapshot :: "snapshot_data \<Rightarrow> string \<Rightarrow> u16 option" where
  "raw_from_snapshot snap i =
     (case find_first (\<lambda>v. dID v = i) (snTelemetry snap) of
        None \<Rightarrow> None
      | Some v \<Rightarrow> if dRaw v < 0 \<or> dRaw v > 65535 then None else Some (word_of_int (dRaw v)))"

definition current_register_raw :: "'w modbus_env \<Rightarrow> config \<Rightarrow> string \<Rightarrow> 'w service \<Rightarrow> u16 result \<times> 'w service" where
  "current_register_raw env cfg i s =
     (case raw_from_snapshot (snapshot (svStore s)) i of
        Some v \<Rightarrow> (Inr v, s)
      | None \<Rightarrow>
      (case normalized_inverter_type (cfDevice cfg) of
        Inl e \<Rightarrow> (Inl e, s)
      | Inr t \<Rightarrow>
      (case findByIDForInverterType i t of
        None \<Rightarrow> (Inl (Errorf ''unknown register %q'' [AStr i]), s)
      | Some reg \<Rightarrow>
      (case ensure_client env cfg s of
        (Inl e, s1) \<Rightarrow> (Inl e, s1)
      | (Inr h, s1) \<Rightarrow>
      (case read_with_retry env cfg h (rAddress reg) (rCount reg) s1 of
        (Inl e, s2) \<Rightarrow> (Inl e, s2)
      | (Inr payload, s2) \<Rightarrow>
      (case words_from_bytes payload (rCount reg) of
        Inl e \<Rightarrow> (Inl e, s2)
      | Inr words \<Rightarrow>
      (case decode reg (take (unat (rCount reg)) words) (meNow env (svWorld s2)) of
        Inl e \<Rightarrow> (Inl e, s2)
      | Inr v \<Rightarrow>
          (if dRaw v < 0 \<or> dRaw v > 65535
           then (Inl (Errorf ''register %s raw value %d is out of uint16 range'' [AStr (rID reg), AInt (dRaw v)]), s2)
           else (Inr (word_of_int (dRaw v)), s2)))))))))"

definition batterySOCThresholdGap :: u16 where
  "batterySOCThresholdGap = 5"

definition validate_write :: "'w modbus_env \<Rightarrow> config \<Rightarrow> register \<Rightarrow> u16 \<Rightarrow> 'w service \<Rightarrow> unit result \<times> 'w service" where
  "validate_write env cfg reg encoded s =
     (if rID reg = ''battery_discharge_cutoff_soc'' then
        (case current_register_raw env cfg ''battery_low_soc_alarm'' s of
           (Inl e, s1) \<Rightarrow> (Inl e, s1)
         | (Inr alarmValue, s1) \<Rightarrow>
             (if encoded + batterySOCThresholdGap > alarmValue
              then (Inl (Errorf ''battery_discharge_cutoff_soc must be at least %d percentage points below battery_low_soc_alarm (%d%%)''
                      [AInt (uint batterySOCThresholdGap), AInt (uint alarmValue)]), s1)
              else (Inr (), s1)))
      else if rID reg = ''battery_low_soc_alarm'' then
        (case current_register_raw env cfg ''battery_discharge_cutoff_soc'' s of
           (Inl e, s1) \<Rightarrow> (Inl e, s1)
         | (Inr cutoffValue, s1) \<Rightarrow>
             (if encoded < cutoffValue + batterySOCThresholdGap
              then (Inl (Errorf ''battery_low_soc_alarm must be at least %d percentage points above battery_discharge_cutoff_soc (%d%%)''
                      [AInt (uint batterySOCThresholdGap), AInt (uint cutoffValue)]), s1)
              else case current_register_raw env cfg ''battery_discharge_start'' s1 of
                (Inl e, s2) \<Rightarrow> (Inl e, s2)
              | (Inr startValue, s2) \<Rightarrow>
                  (if encoded + batterySOCThresholdGap > startValue
                   then (Inl (Errorf ''battery_low_soc_alarm must be at least %d percentage points below battery_discharge_start (%d%%)''
                           [AInt (uint batterySOCThresholdGap), AInt (uint startValue)]), s2)
                   else (Inr (), s2))))
      else if rID reg = ''battery_discharge_stop'' then
        (case current_register_raw env cfg ''battery_discharge_start'' s of
           (Inl e, s1) \<Rightarrow> (Inl e, s1)
         | (Inr startValue, s1) \<Rightarrow>
             (if encoded > startValue
              then (Inl (Errorf ''battery_discharge_stop must be less than or equal to battery_discharge_start (%d%%)''
                      [AInt (uint startValue)]), s1)
              else (Inr (), s1)))
      else if rID reg = ''battery_discharge_start'' then
        (case current_register_raw env cfg ''battery_discharge_stop'' s of
           (Inl e, s1) \<Rightarrow> (Inl e, s1)
         | (Inr stopValue, s1) \<Rightarrow>
             (if encoded < stopValue
              then (Inl (Errorf ''battery_discharge_start must be greater than or equal to battery_discharge_stop (%d%%)''
                      [AInt (uint stopValue)]), s1)
              else case current_register_raw env cfg ''battery_low_soc_alarm'' s1 of
                (Inl e, s2) \<Rightarrow> (Inl e, s2)
              | (Inr alarmValue, s2) \<Rightarrow>
                  (if encoded < alarmValue + batterySOCThresholdGap
                   then (Inl (Errorf ''battery_discharge_start must be at least %d percentage points above battery_low_soc_alarm (%d%%)''
                           [AInt (uint batterySOCThresholdGap), AInt (uint alarmValue)]), s2)
                   else (Inr (), s2))))
      else (Inr (), s))"

section \<open>Writing a register\<close>

definition unlockRegisterAddress :: u16 where
  "unlockRegisterAddress = 0xE203"

text \<open>The unlock write is only logged when it fails.\<close>

definition unlock_before_write :: "'w modbus_env \<Rightarrow> nat \<Rightarrow> 'w service \<Rightarrow> 'w service" where
  "unlock_before_write env h s = snd (client_write env h unlockRegisterAddress 0 s)"

text \<open>\<^verbatim>\<open>verifyWriteLocked\<close>: \<open>Inr\<close> whether the register holds the expected word.\<close>

definition verify_write ::
  "'w modbus_env \<Rightarrow> config \<Rightarrow> register \<Rightarrow> u16 \<Rightarrow> 'w service \<Rightarrow> bool result \<times> 'w service" where
  "verify_write env cfg reg expected s =
     (case ensure_client env cfg (close_locked env s) of
        (Inl e, s1) \<Rightarrow> (Inl e, s1)
      | (Inr h, s1) \<Rightarrow>
      (case read_with_retry env cfg h (rAddress reg) (rCount reg) s1 of
        (Inl e, s2) \<Rightarrow> (Inl e, s2)
      | (Inr payload, s2) \<Rightarrow>
      (case words_from_bytes payload (rCount reg) of
        Inl e \<Rightarrow> (Inl e, s2)
      | Inr words \<Rightarrow>
          (if words = [] then (Inl (Errorf ''empty verification payload'' []), s2)
           else (Inr (words ! 0 = expected), s2)))))"

definition write_error :: "register \<Rightarrow> go_error \<Rightarrow> go_error" where
  "write_error reg e = Errorf ''write 0x%04X: %w'' [AInt (uint (rAddress reg)), AErr e]"

text \<open>The write itself, and its verification by reading when the client reports an error.\<close>

definition write_verified ::
  "'w modbus_env \<Rightarrow> config \<Rightarrow> register \<Rightarrow> nat \<Rightarrow> u16 \<Rightarrow> 'w service \<Rightarrow> unit result \<times> 'w service" where
  "write_verified env cfg reg h encoded s =
     (case client_write env h (rAddress reg) encoded s of
        (Inr _, s1) \<Rightarrow> (Inr (), s1)
      | (Inl e, s1) \<Rightarrow>
          (if rWriteOnly reg then (Inl (write_error reg e), put_error env e s1)
           else case verify_write env cfg reg encoded s1 of
             (Inr True, s2) \<Rightarrow> (Inr (), s2)
           | (Inr False, s2) \<Rightarrow> (Inl (write_error reg e), put_error env e s2)
           | (Inl ve, s2) \<Rightarrow> (Inl (write_error reg e), put_error env ve s2)))"

text \<open>What follows a write that went through: the optimistic value, and the value read back.\<close>

definition confirm_write ::
  "'w modbus_env \<Rightarrow> config \<Rightarrow> register \<Rightarrow> nat \<Rightarrow> u16 \<Rightarrow> 'w service \<Rightarrow> unit result \<times> 'w service" where
  "confirm_write env cfg reg h encoded s =
     (let now = meNow env (svWorld s) in
      if rWriteOnly reg then (Inr (), put_status env ''connected'' True no_error now s)
      else case decode reg [encoded] now of
        Inl e \<Rightarrow> (Inl e, s)
      | Inr optimistic \<Rightarrow>
      (case read_with_retry env cfg h (rAddress reg) (rCount reg) (put_telemetry [optimistic] s) of
        (Inl e, s1) \<Rightarrow>
          (Inl (Errorf ''write 0x%04X readback: %w'' [AInt (uint (rAddress reg)), AErr e]), put_error env e s1)
      | (Inr payload, s1) \<Rightarrow>
      (case words_from_bytes payload (rCount reg) of
        Inl e \<Rightarrow>
          (Inl (Errorf ''write 0x%04X readback decode: %w'' [AInt (uint (rAddress reg)), AErr e]), put_error env e s1)
      | Inr words \<Rightarrow>
      (case decode reg (take (unat (rCount reg)) words) now of
        Inl e \<Rightarrow>
          (Inl (Errorf ''write 0x%04X readback decode: %w'' [AInt (uint (rAddress reg)), AErr e]), put_error env e s1)
      | Inr decoded \<Rightarrow>
          (if dRaw decoded \<noteq> uint encoded
           then let e = Errorf ''write 0x%04X readback mismatch: wrote raw %d, read raw %d (%s)''
                          [AInt (uint (rAddress reg)), AInt (uint encoded), AInt (dRaw decoded), AStr (dRendered decoded)]
                in (Inl e, put_error env e (put_telemetry [decoded] s1))
           else (Inr (), put_status env ''connected'' True no_error now (put_telemetry [decoded] s1)))))))"

definition write_register ::
  "'w modbus_env \<Rightarrow> config \<Rightarrow> string \<Rightarrow> go_value \<Rightarrow> 'w service \<Rightarrow> unit result \<times> 'w service" where
  "write_register env cfg i v s =
     (case normalized_inverter_type (cfDevice cfg) of
        Inl e \<Rightarrow> (Inl e, s)
      | Inr inverterType \<Rightarrow>
      (case findByIDForInverterType i inverterType of
        None \<Rightarrow> (Inl (Errorf ''unknown register %q'' [AStr i]), s)
      | Some reg \<Rightarrow>
      if \<not> rWritable reg then (Inl (Errorf ''register %q is not writable'' [AStr i]), s)
      else if trim_space (scPort (cfSerial cfg)) = '''' then (Inl (Errorf ''serial port is empty'' []), s)
      else case ensure_client env cfg s of
        (Inl e, s1) \<Rightarrow> (Inl e, put_error env e s1)
      | (Inr h, s1) \<Rightarrow>
      (case encode_write reg v of
        Inl e \<Rightarrow> (Inl e, s1)
      | Inr encoded \<Rightarrow>
      (case validate_write env cfg reg encoded s1 of
        (Inl e, s2) \<Rightarrow> (Inl e, s2)
      | (Inr _, s2) \<Rightarrow>
      (case write_verified env cfg reg h encoded (unlock_before_write env h s2) of
        (Inl e, s3) \<Rightarrow> (Inl e, s3)
      | (Inr _, s3) \<Rightarrow> confirm_write env cfg reg h encoded s3)))))"

section \<open>Blocks of words\<close>

definition read_holding_words ::
  "'w modbus_env \<Rightarrow> config \<Rightarrow> u16 \<Rightarrow> u16 \<Rightarrow> 'w service \<Rightarrow> u16 list result \<times> 'w service" where
  "read_holding_words env cfg address n s =
     (if n = 0 then (Inl (Errorf ''holding register count must be greater than zero'' []), s)
      else if trim_space (scPort (cfSerial cfg)) = '''' then (Inl (Errorf ''serial port is empty'' []), s)
      else case ensure_client env cfg s of
        (Inl e, s1) \<Rightarrow> (Inl e, put_error env e s1)
      | (Inr h, s1) \<Rightarrow>
      (case read_with_retry env cfg h address n s1 of
        (Inl e, s2) \<Rightarrow>
          (Inl (Errorf ''read 0x%04X/%d: %w'' [AInt (uint address), AInt (uint n), AErr e]), put_error env e s2)
      | (Inr payload, s2) \<Rightarrow>
      (case words_from_bytes payload n of
        Inl e \<Rightarrow> (Inl (Errorf ''decode 0x%04X/%d: %w'' [AInt (uint address), AInt (uint n), AErr e]), s2)
      | Inr words \<Rightarrow>
          (Inr (take (unat n) words), put_status env ''connected'' True no_error (meNow env (svWorld s2)) s2))))"

text \<open>The first word that differs from what was written; indexing past the words read panics.\<close>

fun compare_readback :: "u16 \<Rightarrow> nat \<Rightarrow> u16 list \<Rightarrow> u16 list \<Rightarrow> unit result" where
  "compare_readback address i [] readback = Inr ()"
| "compare_readback address i (v # vs) [] = Inl (GoPanic ''index out of range'')"
| "compare_readback address i (v # vs) (r # rs) =
     (if r \<noteq> v
      then Inl (Errorf ''write 0x%04X readback mismatch at offset %d: wrote %d, read %d''
             [AInt (uint address), AInt (int i), AInt (uint v), AInt (uint r)])
      else compare_readback address (Suc i) vs rs)"

definition write_holding_words ::
  "'w modbus_env \<Rightarrow> config \<Rightarrow> u16 \<Rightarrow> u16 list \<Rightarrow> 'w service \<Rightarrow> unit result \<times> 'w service" where
  "write_holding_words env cfg address vs s =
     (let n = length vs; block = (\<lambda>what e. Errorf what [AInt (uint address), AInt (int n), AErr e]) in
      if n = 0 \<or> n > 65535
      then (Inl (Errorf ''holding register values must contain between 1 and 65535 words'' []), s)
      else if trim_space (scPort (cfSerial cfg)) = '''' then (Inl (Errorf ''serial port is empty'' []), s)
      else case ensure_client env cfg s of
        (Inl e, s1) \<Rightarrow> (Inl e, put_error env e s1)
      | (Inr h, s1) \<Rightarrow>
      (case (if n = 1 then client_write env h address (vs ! 0) (unlock_before_write env h s1)
             else client_write_multiple env h address (of_nat n) (bytes_of_words vs)
                    (unlock_before_write env h s1)) of
        (Inl e, s2) \<Rightarrow> (Inl (block ''write 0x%04X/%d: %w'' e), put_error env e s2)
      | (Inr _, s2) \<Rightarrow>
      (case read_with_retry env cfg h address (of_nat n) s2 of
        (Inl e, s3) \<Rightarrow> (Inl (block ''write 0x%04X/%d readback: %w'' e), s3)
      | (Inr payload, s3) \<Rightarrow>
      (case words_from_bytes payload (of_nat n) of
        Inl e \<Rightarrow> (Inl (block ''write 0x%04X/%d readback decode: %w'' e), s3)
      | Inr readback \<Rightarrow>
      (case compare_readback address 0 vs readback of
        Inl e \<Rightarrow> (Inl e, s3)
      | Inr _ \<Rightarrow> (Inr (), put_status env ''connected'' True no_error (meNow env (svWorld s3)) s3))))))"

section \<open>Polling\<close>

definition maxOpenFailuresPerCycle :: nat where
  "maxOpenFailuresPerCycle = 2"

definition should_reopen_per_range :: "config \<Rightarrow> bool" where
  "should_reopen_per_range cfg =
     (case connection_mode_of (cfSerial cfg) of Inl _ \<Rightarrow> True | Inr m \<Rightarrow> m = ModeRTU)"

definition read_plan_for_group :: "poll_group \<Rightarrow> config \<Rightarrow> read_range list" where
  "read_plan_for_group grp cfg =
     (case normalized_inverter_type (cfDevice cfg) of
        Inl _ \<Rightarrow> []
      | Inr t \<Rightarrow>
          (if grp = GroupFast then buildCriticalFastReadPlanForInverterType t
           else buildReadPlanForInverterType grp t))"

definition range_error :: "read_range \<Rightarrow> go_error \<Rightarrow> go_error" where
  "range_error rr e =
     Errorf ''0x%04X/%d: %v'' [AInt (uint (rrStart rr)), AInt (uint (rrCount rr)), AErr e]"

text \<open>Decoding one register of a range from the words of the range.\<close>

definition decode_from_range :: "read_range \<Rightarrow> u16 list \<Rightarrow> gotime \<Rightarrow> register \<Rightarrow> decoded_value result" where
  "decode_from_range rr words now reg =
     (let offset = unat (rAddress reg - rrStart rr); rangeEnd = offset + unat (rCount reg) in
      if rangeEnd > length words
      then Inl (Errorf ''0x%04X: range decode overflow'' [AInt (uint (rAddress reg))])
      else case decode reg (take (unat (rCount reg)) (drop offset words)) now of
        Inl e \<Rightarrow> Inl (Errorf ''0x%04X: %v'' [AInt (uint (rAddress reg)), AErr e])
      | Inr v \<Rightarrow> Inr v)"

text \<open>One range: the values it adds, the errors it adds, and whether the connection could be opened.\<close>

definition poll_range ::
  "'w modbus_env \<Rightarrow> config \<Rightarrow> gotime \<Rightarrow> read_range \<Rightarrow> 'w service
    \<Rightarrow> (decoded_value list \<times> go_error list \<times> bool) \<times> 'w service" where
  "poll_range env cfg now rr s =
     (case ensure_client env cfg s of
        (Inl e, s1) \<Rightarrow> (([], [range_error rr e], False), s1)
      | (Inr h, s1) \<Rightarrow>
          (case read_with_retry env cfg h (rrStart rr) (rrCount rr) s1 of
             (r, s2) \<Rightarrow>
               let s3 = (if should_reopen_per_range cfg then close_locked env s2 else s2) in
               (case r of
                  Inl e \<Rightarrow> (([], [range_error rr e], True), s3)
                | Inr payload \<Rightarrow>
                    (case words_from_bytes payload (rrCount rr) of
                       Inl e \<Rightarrow> (([], [range_error rr e], True), s3)
                     | Inr words \<Rightarrow>
                         let rs = map (decode_from_range rr words now) (rrRegisters rr) in
                         ((concat (map (\<lambda>r. case r of Inr v \<Rightarrow> [v] | Inl _ \<Rightarrow> []) rs),
                           concat (map (\<lambda>r. case r of Inl e \<Rightarrow> [e] | Inr _ \<Rightarrow> []) rs), True), s3)))))"

fun poll_ranges ::
  "'w modbus_env \<Rightarrow> config \<Rightarrow> gotime \<Rightarrow> read_range list \<Rightarrow> nat \<Rightarrow> 'w service
    \<Rightarrow> (decoded_value list \<times> go_error list) \<times> 'w service" where
  "poll_ranges env cfg now [] failures s = (([], []), s)"
| "poll_ranges env cfg now (rr # plan) failures s =
     (case poll_range env cfg now rr s of
        ((vs, es, opened), s1) \<Rightarrow>
          if \<not> opened \<and> failures + 1 \<ge> maxOpenFailuresPerCycle
          then ((vs, es @ [Errorf ''serial port could not be reopened, aborting poll cycle early'' []]), s1)
          else case poll_ranges env cfg now plan (if opened then 0 else failures + 1) s1 of
            ((vs', es'), s2) \<Rightarrow> ((vs @ vs', es @ es'), s2))"

definition poll_group :: "'w modbus_env \<Rightarrow> config \<Rightarrow> poll_group \<Rightarrow> 'w service \<Rightarrow> 'w service" where
  "poll_group env cfg grp s =
     (let now = meNow env (svWorld s) in
      if trim_space (scPort (cfSerial cfg)) = ''''
      then put_status env ''disabled'' False (Errorf ''serial port is empty'' []) 0 s
      else let reopen = should_reopen_per_range cfg;
               s0 = (if reopen then close_locked env s else s);
               finish = (\<lambda>s. if reopen then close_locked env s else s) in
        case normalized_inverter_type (cfDevice cfg) of
          Inl e \<Rightarrow> finish (put_error env e s0)
        | Inr _ \<Rightarrow>
            (case poll_ranges env cfg now (read_plan_for_group grp cfg) 0 s0 of
               ((vs, es), s1) \<Rightarrow>
                 finish
                   (if vs \<noteq> [] then
                      let s2 = put_telemetry vs s1 in
                      (if es \<noteq> [] then put_status env ''degraded'' True (Joined '' | '' es) now s2
                       else put_status env ''connected'' True no_error now s2)
                    else let es1 = (if es = [] then [Errorf ''no registers configured'' []] else es) in
                      put_error env (Joined '' | '' es1) s1)))"

definition initial_slow_offset :: "config \<Rightarrow> duration" where
  "initial_slow_offset cfg =
     (let offset = pcFastInterval (cfPolling cfg) div 2 in if offset \<le> 0 then second else offset)"

text \<open>One round of \<^verbatim>\<open>pollScheduler\<close>, without the wait: the groups that are due are polled, and
  their next time is set from the clock after the poll. The result says how long to wait when
  nothing was due.\<close>

record scheduler =
  sdNextFast :: gotime
  sdNextSlow :: gotime

definition scheduler_start :: "config \<Rightarrow> gotime \<Rightarrow> scheduler" where
  "scheduler_start cfg now = \<lparr>sdNextFast = now, sdNextSlow = now + initial_slow_offset cfg\<rparr>"

definition scheduler_round ::
  "'w modbus_env \<Rightarrow> config \<Rightarrow> scheduler \<Rightarrow> 'w service \<Rightarrow> (duration option \<times> scheduler) \<times> 'w service" where
  "scheduler_round env cfg sd s =
     (let fast = sdNextFast sd \<le> meNow env (svWorld s);
          s1 = (if fast then poll_group env cfg GroupFast s else s);
          sd1 = (if fast then sd\<lparr>sdNextFast := meNow env (svWorld s1) + pcFastInterval (cfPolling cfg)\<rparr> else sd);
          slow = sdNextSlow sd1 \<le> meNow env (svWorld s1);
          s2 = (if slow then poll_group env cfg GroupSlow s1 else s1);
          sd2 = (if slow then sd1\<lparr>sdNextSlow := meNow env (svWorld s2) + pcSlowInterval (cfPolling cfg)\<rparr> else sd1)
      in if fast \<or> slow then ((None, sd2), s2)
         else ((Some (max 0 (min (sdNextFast sd2 - meNow env (svWorld s2)) (sdNextSlow sd2 - meNow env (svWorld s2)))), sd2), s2))"

end
