(* ===== verification/App.thy ===== *)
theory App
  imports Modbus StormCharge InverterClock
begin

text \<open>
  \<^verbatim>\<open>internal/app/app.go\<close>: the application, which owns the configuration and the services and
  guards what the HTTP interface and MQTT ask for. \<open>app\<close> is the struct \<^verbatim>\<open>App\<close> once
  \<^verbatim>\<open>Run\<close> has loaded the configuration: \<open>apStorm\<close> is the storm charge manager, or
  \<open>None\<close> before \<^verbatim>\<open>Run\<close> has created the services (the Modbus service and the clock are
  created with it). The services share one world, a \<open>site\<close>: the Modbus service with the store it
  reports to and the device behind it, and the files. Every method is one step (theory \<open>Interleaving\<close> cuts
  it into the pieces that other calls can come between); \<open>site_env\<close> wires
  the manager to the Modbus service and the file system, as \<^verbatim>\<open>Run\<close> does.

  The outcome of each file operation is a function \<open>aeFs\<close> of the world; YAML is a parameter in
  both directions for the configuration and for the runtime of the storm charge.
\<close>

record 'w site =
  siService :: "'w service"
  siFiles :: files

record 'w app_env =
  aeModbus :: "'w modbus_env"
  aeFs :: "'w site \<Rightarrow> fs_env"
  aeMarshalConfig :: "config \<Rightarrow> string result"
  aeUnmarshalConfig :: "string \<Rightarrow> config \<Rightarrow> config result"
  aeMarshalRuntime :: "runtime \<Rightarrow> string result"
  aeUnmarshalRuntime :: "string \<Rightarrow> runtime \<Rightarrow> runtime result"

record 'w app =
  apConfigPath :: string
  apConfig :: config
  apStorm :: "(string \<times> runtime \<times> bool) option"
  apSite :: "'w site"

section \<open>Wiring\<close>

definition on_service :: "('w service \<Rightarrow> 'a \<times> 'w service) \<Rightarrow> 'w site \<Rightarrow> 'a \<times> 'w site" where
  "on_service f s = (case f (siService s) of (r, sv) \<Rightarrow> (r, s\<lparr>siService := sv\<rparr>))"

definition site_now :: "'w app_env \<Rightarrow> 'w site \<Rightarrow> gotime" where
  "site_now e s = meNow (aeModbus e) (svWorld (siService s))"

definition file_outcome :: "go_error option \<Rightarrow> 'w site \<Rightarrow> 'w site \<Rightarrow> unit result \<times> 'w site" where
  "file_outcome failed s s' = (case failed of Some e \<Rightarrow> (Inl e, s) | None \<Rightarrow> (Inr (), s'))"

definition site_env :: "'w app_env \<Rightarrow> config \<Rightarrow> 'w site storm_env" where
  "site_env e cfg =
     \<lparr>evWriteRegister = (\<lambda>i v. on_service (write_register (aeModbus e) cfg i v)),
      evReadWords = (\<lambda>a n. on_service (read_holding_words (aeModbus e) cfg a n)),
      evWriteWords = (\<lambda>a vs. on_service (write_holding_words (aeModbus e) cfg a vs)),
      evSnapshot = (\<lambda>s. snapshot (svStore (siService s))),
      evNow = site_now e,
      evReadFile = (\<lambda>p s. case feRead (aeFs e s) of
          Some er \<Rightarrow> Inl (LoadFailed er)
        | None \<Rightarrow> (case siFiles s p of None \<Rightarrow> Inl NotExist | Some data \<Rightarrow> Inr data)),
      evMkdirFor = (\<lambda>p s. file_outcome (feMkdir (aeFs e s)) s s),
      evWriteFile = (\<lambda>p data s. case feWrite (aeFs e s) of
          Some er \<Rightarrow> (Inl er, s\<lparr>siFiles := (siFiles s)(p := fePartial (aeFs e s))\<rparr>)
        | None \<Rightarrow> (Inr (), s\<lparr>siFiles := (siFiles s)(p := Some data)\<rparr>)),
      evRename = (\<lambda>p q s. file_outcome (feRename (aeFs e s)) s
        (s\<lparr>siFiles := (siFiles s)(q := siFiles s p, p := None)\<rparr>)),
      evMarshal = aeMarshalRuntime e,
      evUnmarshal = aeUnmarshalRuntime e\<rparr>"

text \<open>The manager as a step of the application.\<close>

definition manager_of :: "'w app \<Rightarrow> (string \<times> runtime \<times> bool) \<Rightarrow> 'w site manager" where
  "manager_of a c = (case c of (path, r, b) \<Rightarrow>
     \<lparr>mgPath = path, mgRuntime = r, mgResumePending = b, mgWorld = apSite a\<rparr>)"

definition put_manager :: "'w site manager \<Rightarrow> 'w app \<Rightarrow> 'w app" where
  "put_manager m a =
     a\<lparr>apStorm := Some (mgPath m, mgRuntime m, mgResumePending m), apSite := mgWorld m\<rparr>"

definition storm_active :: "'w app \<Rightarrow> bool" where
  "storm_active a = (case apStorm a of None \<Rightarrow> False | Some c \<Rightarrow> is_active (manager_of a c))"

definition put_site :: "'w site \<Rightarrow> 'w app \<Rightarrow> 'w app" where
  "put_site s a = a\<lparr>apSite := s\<rparr>"

definition on_site :: "('w site \<Rightarrow> 'a \<times> 'w site) \<Rightarrow> 'w app \<Rightarrow> 'a \<times> 'w app" where
  "on_site f a = (case f (apSite a) of (r, s) \<Rightarrow> (r, put_site s a))"

section \<open>Start of the process\<close>

text \<open>The first part of \<^verbatim>\<open>Run\<close>: the configuration is loaded or created, the web service is
  reported running, the services are created.\<close>

definition run_init :: "'w app_env \<Rightarrow> string \<Rightarrow> 'w site \<Rightarrow> go_error + 'w app" where
  "run_init e path s =
     (case load_or_create (aeUnmarshalConfig e) (aeMarshalConfig e) (aeFs e s) path (siFiles s) of
        (Inl er, files) \<Rightarrow> Inl (Errorf ''load config: %w'' [AErr er])
      | (Inr (cfg, created), files) \<Rightarrow>
          (let now = site_now e s;
               sv = siService s;
               s1 = s\<lparr>siFiles := files,
                      siService := sv\<lparr>svStore := set_service_status now ''web'' ''running'' True no_error now (svStore sv)\<rparr>\<rparr>
           in case new_manager (site_env e cfg) (runtimePath path) s1 of
             Inl er \<Rightarrow> Inl (Errorf ''initialize storm charge: %w'' [AErr er])
           | Inr m \<Rightarrow> Inr (put_manager m \<lparr>apConfigPath = path, apConfig = cfg, apStorm = None, apSite = s1\<rparr>)))"

section \<open>Guarded operations\<close>

definition update_config :: "'w app_env \<Rightarrow> config \<Rightarrow> 'w app \<Rightarrow> unit result \<times> 'w app" where
  "update_config e cfg a =
     (if storm_active a
      then (Inl (Errorf ''service configuration cannot be changed while storm charge is active'' []), a)
      else case save_config (aeMarshalConfig e) (aeFs e (apSite a)) (apConfigPath a) cfg (siFiles (apSite a)) of
        (Inl er, files) \<Rightarrow> (Inl er, put_site ((apSite a)\<lparr>siFiles := files\<rparr>) a)
      | (Inr _, files) \<Rightarrow> (Inr (), (put_site ((apSite a)\<lparr>siFiles := files\<rparr>) a)\<lparr>apConfig := cfg\<rparr>))"

definition app_write_register :: "'w app_env \<Rightarrow> string \<Rightarrow> go_value \<Rightarrow> 'w app \<Rightarrow> unit result \<times> 'w app" where
  "app_write_register e i v a =
     (if apStorm a = None then (Inl (Errorf ''modbus service is not initialized'' []), a)
      else if storm_active a \<and> isManagedRegister i
      then (Inl (Errorf ''register %q is managed by active storm charge; cancel storm charge first'' [AStr i]), a)
      else on_site (on_service (write_register (aeModbus e) (apConfig a) i v)) a)"

definition get_state_snapshot :: "'w app \<Rightarrow> snapshot_data" where
  "get_state_snapshot a = snapshot (svStore (siService (apSite a)))"

definition storm_status0 :: "settings \<Rightarrow> storm_status" where
  "storm_status0 g =
     \<lparr>saActive = False, saPhase = phaseIdle, saSettings = g, saPrevious = previous0, saStartedAt = None,
      saDeadline = None, saRemaining = None, saCurrentSOC = Num 0, saBatteryVoltage = Num 0,
      saPowerWatts = 0, saBMSLimitA = Num 0, saReason = '''', saError = no_error, saStamp = 0\<rparr>"

definition get_storm_status :: "'w app_env \<Rightarrow> 'w app \<Rightarrow> storm_status" where
  "get_storm_status e a =
     (let g = settingsFromConfig (cfStorm (apConfig a)) in
      case apStorm a of None \<Rightarrow> storm_status0 g | Some c \<Rightarrow> status (site_env e (apConfig a)) g (manager_of a c))"

definition update_storm_settings :: "'w app_env \<Rightarrow> settings \<Rightarrow> 'w app \<Rightarrow> unit result \<times> 'w app" where
  "update_storm_settings e g a =
     (case validateSettings g of
        Inl er \<Rightarrow> (Inl er, a)
      | Inr _ \<Rightarrow>
          (if storm_active a
           then (Inl (Errorf ''storm charge settings cannot be changed while charging is active'' []), a)
           else update_config e ((apConfig a)\<lparr>cfStorm := \<lparr>smTargetSOC = sgTargetSOC g,
                  smMaxCurrentA = sgMaxCurrentA g, smTimeout = sgTimeout g\<rparr>\<rparr>) a))"

text \<open>A call of the manager, with the configuration of the moment.\<close>

definition on_manager :: "('w site manager \<Rightarrow> 'a \<times> 'w site manager) \<Rightarrow> (string \<times> runtime \<times> bool) \<Rightarrow> 'w app \<Rightarrow> 'a \<times> 'w app" where
  "on_manager f c a = (case f (manager_of a c) of (r, m) \<Rightarrow> (r, put_manager m a))"

definition start_storm :: "'w app_env \<Rightarrow> settings \<Rightarrow> 'w app \<Rightarrow> unit result \<times> 'w app" where
  "start_storm e g a =
     (case apStorm a of
        None \<Rightarrow> (Inl (Errorf ''storm charge manager is not initialized'' []), a)
      | Some _ \<Rightarrow>
      (case normalized_inverter_type (cfDevice (apConfig a)) of
        Inl er \<Rightarrow> (Inl er, a)
      | Inr t \<Rightarrow>
      if t \<noteq> ''spi_h3p''
      then (Inl (Errorf ''storm charge is currently supported only for the SPI H3P profile'' []), a)
      else if storm_active a then (Inl (Errorf ''storm charge is already active'' []), a)
      else case update_storm_settings e g a of
        (Inl er, a1) \<Rightarrow> (Inl er, a1)
      | (Inr _, a1) \<Rightarrow>
          (case apStorm a1 of
             None \<Rightarrow> (Inl (GoPanic ''nil pointer dereference''), a1)
           | Some c \<Rightarrow> on_manager (start (site_env e (apConfig a1)) g) c a1)))"

definition cancel_storm :: "'w app_env \<Rightarrow> 'w app \<Rightarrow> unit result \<times> 'w app" where
  "cancel_storm e a =
     (case apStorm a of
        None \<Rightarrow> (Inl (Errorf ''storm charge manager is not initialized'' []), a)
      | Some c \<Rightarrow> on_manager (cancel (site_env e (apConfig a))) c a)"

text \<open>One round of the loop of the manager.\<close>

definition evaluate_storm :: "'w app_env \<Rightarrow> 'w app \<Rightarrow> 'w app" where
  "evaluate_storm e a =
     (case apStorm a of
        None \<Rightarrow> a
      | Some c \<Rightarrow> put_manager (evaluate (site_env e (apConfig a)) (manager_of a c)) a)"

definition get_clock :: "'w app_env \<Rightarrow> 'w app \<Rightarrow> date_time result \<times> 'w app" where
  "get_clock e a =
     (if apStorm a = None then (Inl (Errorf ''inverter clock service is not initialized'' []), a)
      else on_site (clock_read (evReadWords (site_env e (apConfig a)))) a)"

definition set_clock :: "'w app_env \<Rightarrow> date_time \<Rightarrow> 'w app \<Rightarrow> date_time result \<times> 'w app" where
  "set_clock e v a =
     (if apStorm a = None then (Inl (Errorf ''inverter clock service is not initialized'' []), a)
      else if storm_active a
      then (Inl (Errorf ''inverter clock cannot be changed while storm charge is active'' []), a)
      else on_site (clock_set (evReadWords (site_env e (apConfig a))) (evWriteWords (site_env e (apConfig a))) v) a)"

section \<open>Watchdog\<close>

definition watchdog_interval :: "config \<Rightarrow> duration" where
  "watchdog_interval cfg =
     (let interval = pcFastInterval (cfPolling cfg) in
      if interval \<le> 0 then 15 * second else if interval > 15 * second then 15 * second else interval)"

definition watchdog_threshold :: "config \<Rightarrow> duration" where
  "watchdog_threshold cfg =
     (let threshold = wrap64 (pcSlowInterval (cfPolling cfg) * 2) in
      if threshold < 90 * second then 90 * second else threshold)"

definition should_trigger :: "gotime \<Rightarrow> 'w app \<Rightarrow> bool \<times> duration \<times> service_status" where
  "should_trigger now a =
     (case map_of (snServices (get_state_snapshot a)) ''modbus'' of
        None \<Rightarrow> (False, 0, status0)
      | Some st \<Rightarrow>
          (if ssConnected st \<or> ssStatus st \<in> {''connected'', ''starting'', ''disabled''} then (False, 0, st)
           else if ssLastSuccess st = 0 then (False, 0, st)
           else let stalledFor = now - ssLastSuccess st in
             (if stalledFor < watchdog_threshold (apConfig a) then (False, stalledFor, st)
              else (True, stalledFor, st))))"

end
