(* ===== verification/HttpApi.thy ===== *)
theory HttpApi
  imports App GoTime "HOL-Library.List_Lexorder" "HOL-Library.Char_ord"
begin

text \<open>
  \<^verbatim>\<open>internal/httpapi/server.go\<close> and \<^verbatim>\<open>internal/serialdetect/ports.go\<close>: the routes,
  the handlers with their replies, and the static assets. \<open>http_env\<close> is the struct
  \<^verbatim>\<open>Handler\<close> as \<^verbatim>\<open>Run\<close> makes it: its five interfaces are all the application, so a
  handler is a step of \<open>app\<close> that also gives a reply.

  A request has the segments of its path, each decoded; the multiplexer redirects a path that is not
  clean before any of this. JSON is the parameters \<open>heConfigOf\<close>, \<open>heClockOf\<close>, \<open>heValueOf\<close>
  and \<open>heSettingsOf\<close>, which read a body, and \<open>encodable\<close>: Go encodes every value of these
  types in one way, except that a number which is not finite has no encoding; the reply is then empty,
  since the error is dropped. The embedded files and the file server are parameters.
\<close>

section \<open>Requests and replies\<close>

record build_info =
  biVersion :: string
  biCommit :: string
  biDate :: string

text \<open>The body of a request: its bytes, and whether reading past them fails.\<close>

record http_request =
  rqMethod :: string
  rqSegments :: "string list"
  rqBody :: string
  rqBroken :: bool

record status_page =
  spBuild :: build_info
  spStartedAt :: gotime
  spUptime :: string
  spConfigPath :: string
  spConfigReady :: bool
  spServices :: "(string \<times> service_status) list"
  spDeviceName :: string
  spSlaveID :: byte
  spInverterType :: string
  spPort :: string
  spMode :: "connection_mode option"
  spTelemetry :: "decoded_value list"
  spStorm :: storm_status

datatype reply_value =
    StatusText string
  | ErrorValue go_error
  | ClockValue date_time
  | ConfigValue config
  | StormValue storm_status
  | PageValue status_page
  | PortsValue "string list"

datatype reply_body = JsonBody reply_value | Bytes string | Empty

record http_reply =
  rpStatus :: int
  rpHeaders :: "(string \<times> string) list"
  rpBody :: reply_body

datatype opened = Opened | Missing | Unreadable

record 'w http_env =
  heApp :: "'w app_env"
  heBuild :: build_info
  heStartedAt :: gotime
  heReady :: bool
  heZone :: "date_time \<Rightarrow> date_time"
  heConfigOf :: "string \<Rightarrow> config option"
  heClockOf :: "string \<Rightarrow> string option"
  heValueOf :: "string \<Rightarrow> go_value option"
  heSettingsOf :: "string \<Rightarrow> settings option"
  heGlob :: "string \<Rightarrow> string list result"
  heExists :: "string \<Rightarrow> bool"
  heOpen :: "string \<Rightarrow> opened"
  heServeFile :: "http_request \<Rightarrow> http_reply"
  heIndex :: "string option"

section \<open>Writing a reply\<close>

definition storm_finite :: "storm_status \<Rightarrow> bool" where
  "storm_finite st \<longleftrightarrow> is_fin (sgMaxCurrentA (saSettings st)) \<and> is_fin (psMainsCurrentA (saPrevious st))
     \<and> is_fin (saCurrentSOC st) \<and> is_fin (saBatteryVoltage st) \<and> is_fin (saBMSLimitA st)"

definition value_finite :: "decoded_value \<Rightarrow> bool" where
  "value_finite v \<longleftrightarrow> (case dValue v of VFloat x \<Rightarrow> is_fin x | _ \<Rightarrow> True)
     \<and> is_fin (dWriteMin v) \<and> is_fin (dWriteMax v) \<and> is_fin (dWriteStep v)"

fun encodable :: "reply_value \<Rightarrow> bool" where
  "encodable (ConfigValue c) \<longleftrightarrow> is_fin (smMaxCurrentA (cfStorm c))"
| "encodable (StormValue st) \<longleftrightarrow> storm_finite st"
| "encodable (PageValue p) \<longleftrightarrow> list_all value_finite (spTelemetry p) \<and> storm_finite (spStorm p)"
| "encodable _ \<longleftrightarrow> True"

definition write_json :: "int \<Rightarrow> reply_value \<Rightarrow> http_reply" where
  "write_json code v =
     \<lparr>rpStatus = code, rpHeaders = [(''Content-Type'', ''application/json; charset=utf-8'')],
      rpBody = (if encodable v then JsonBody v else Empty)\<rparr>"

definition write_error :: "int \<Rightarrow> go_error \<Rightarrow> http_reply" where
  "write_error code er = write_json code (ErrorValue er)"

text \<open>A reply of \<^verbatim>\<open>http.Error\<close>, which is plain text.\<close>

definition plain_error :: "int \<Rightarrow> string \<Rightarrow> http_reply" where
  "plain_error code s =
     \<lparr>rpStatus = code, rpHeaders = [(''Content-Type'', ''text/plain; charset=utf-8'')],
      rpBody = Bytes (s @ [CHR 0x0A])\<rparr>"

definition with_common_headers :: "http_reply \<Rightarrow> http_reply" where
  "with_common_headers rp =
     rp\<lparr>rpHeaders := [(''X-Content-Type-Options'', ''nosniff''), (''Referrer-Policy'', ''same-origin'')] @ rpHeaders rp\<rparr>"

section \<open>Serial ports\<close>

definition portPatterns :: "string list" where
  "portPatterns =
     [''/dev/ttyUSB*'', ''/dev/ttyACM*'', ''/dev/ttyS*'', ''/dev/ttyAMA*'', ''/dev/serial/by-id/*'']"

text \<open>The matches of one pattern, without those that do not exist or were seen.\<close>

fun add_matches :: "(string \<Rightarrow> bool) \<Rightarrow> string list \<Rightarrow> string list \<Rightarrow> string list" where
  "add_matches ex [] ports = ports"
| "add_matches ex (p # ps) ports =
     add_matches ex ps (if \<not> ex p \<or> p \<in> set ports then ports else ports @ [p])"

fun collect_ports ::
  "(string \<Rightarrow> string list result) \<Rightarrow> (string \<Rightarrow> bool) \<Rightarrow> string list \<Rightarrow> string list \<Rightarrow> string list result" where
  "collect_ports glob ex [] ports = Inr ports"
| "collect_ports glob ex (q # qs) ports =
     (case glob q of
        Inl er \<Rightarrow> Inl er
      | Inr ps \<Rightarrow> collect_ports glob ex qs (add_matches ex ps ports))"

definition list_ports :: "(string \<Rightarrow> string list result) \<Rightarrow> (string \<Rightarrow> bool) \<Rightarrow> string list result" where
  "list_ports glob ex =
     (case collect_ports glob ex portPatterns [] of Inl er \<Rightarrow> Inl er | Inr ports \<Rightarrow> Inr (sort ports))"

section \<open>Handlers\<close>

definition bodyLimit :: nat where "bodyLimit = 2 ^ 20"

definition limited :: "http_request \<Rightarrow> string" where
  "limited rq = take bodyLimit (rqBody rq)"

definition bad_request :: "string \<Rightarrow> http_reply" where
  "bad_request s = write_error 400 (Errorf s [])"

definition handle_get_clock :: "'w http_env \<Rightarrow> 'w app \<Rightarrow> http_reply \<times> 'w app" where
  "handle_get_clock h a =
     (case get_clock (heApp h) a of
        (Inl er, a1) \<Rightarrow> (write_error 400 er, a1)
      | (Inr v, a1) \<Rightarrow> (write_json 200 (ClockValue v), a1))"

definition handle_set_clock :: "'w http_env \<Rightarrow> http_request \<Rightarrow> 'w app \<Rightarrow> http_reply \<times> 'w app" where
  "handle_set_clock h rq a =
     (case heClockOf h (limited rq) of
        None \<Rightarrow> (bad_request ''invalid JSON payload'', a)
      | Some s \<Rightarrow>
      (case parse_local (heZone h) (trim_space s) of
        Inl er \<Rightarrow> (write_error 400 er, a)
      | Inr v \<Rightarrow>
      (case set_clock (heApp h) v a of
        (Inl er, a1) \<Rightarrow> (write_error 400 er, a1)
      | (Inr written, a1) \<Rightarrow> (write_json 200 (ClockValue written), a1))))"

definition handle_health :: "'w app \<Rightarrow> http_reply \<times> 'w app" where
  "handle_health a = (write_json 200 (StatusText ''ok''), a)"

definition status_page_of :: "'w http_env \<Rightarrow> 'w app \<Rightarrow> status_page" where
  "status_page_of h a =
     (let cfg = apConfig a;
          mode = (case connection_mode_of (cfSerial cfg) of Inl _ \<Rightarrow> None | Inr m \<Rightarrow> Some m);
          t = (case normalized_inverter_type (cfDevice cfg) of Inl _ \<Rightarrow> '''' | Inr t \<Rightarrow> t);
          now = site_now (heApp h) (apSite a);
          snap = get_state_snapshot a
      in \<lparr>spBuild = heBuild h, spStartedAt = heStartedAt h,
          spUptime = duration_string (round_seconds (now - heStartedAt h)),
          spConfigPath = apConfigPath a, spConfigReady = heReady h, spServices = snServices snap,
          spDeviceName = dcName (cfDevice cfg), spSlaveID = dcSlaveID (cfDevice cfg), spInverterType = t,
          spPort = scPort (cfSerial cfg), spMode = mode,
          spTelemetry = merge_write_only_controls (snTelemetry snap) now (catalogForInverterType t),
          spStorm = get_storm_status (heApp h) a\<rparr>)"

definition handle_status :: "'w http_env \<Rightarrow> 'w app \<Rightarrow> http_reply \<times> 'w app" where
  "handle_status h a = (write_json 200 (PageValue (status_page_of h a)), a)"

definition handle_get_config :: "'w app \<Rightarrow> http_reply \<times> 'w app" where
  "handle_get_config a = (write_json 200 (ConfigValue (apConfig a)), a)"

definition handle_update_config :: "'w http_env \<Rightarrow> http_request \<Rightarrow> 'w app \<Rightarrow> http_reply \<times> 'w app" where
  "handle_update_config h rq a =
     (if rqBroken rq \<and> length (rqBody rq) < bodyLimit then (bad_request ''failed to read request body'', a)
      else case heConfigOf h (limited rq) of
        None \<Rightarrow> (bad_request ''invalid JSON payload'', a)
      | Some cfg \<Rightarrow>
      (case update_config (heApp h) cfg a of
        (Inl er, a1) \<Rightarrow> (write_error 400 er, a1)
      | (Inr _, a1) \<Rightarrow> (write_json 200 (StatusText ''saved''), a1)))"

definition handle_serial_ports :: "'w http_env \<Rightarrow> 'w app \<Rightarrow> http_reply \<times> 'w app" where
  "handle_serial_ports h a =
     (case list_ports (heGlob h) (heExists h) of
        Inl er \<Rightarrow> (write_error 500 er, a)
      | Inr ports \<Rightarrow> (write_json 200 (PortsValue ports), a))"

definition handle_write_register :: "'w http_env \<Rightarrow> string \<Rightarrow> http_request \<Rightarrow> 'w app \<Rightarrow> http_reply \<times> 'w app" where
  "handle_write_register h i rq a =
     (if trim_space i = '''' then (bad_request ''missing register id'', a)
      else case heValueOf h (limited rq) of
        None \<Rightarrow> (bad_request ''invalid JSON payload'', a)
      | Some v \<Rightarrow>
          (if v = VNil then (bad_request ''value is required'', a)
           else case app_write_register (heApp h) i v a of
             (Inl er, a1) \<Rightarrow> (write_error 400 er, a1)
           | (Inr _, a1) \<Rightarrow> (write_json 200 (StatusText ''written''), a1)))"

definition reply_storm :: "'w http_env \<Rightarrow> 'w app \<Rightarrow> http_reply" where
  "reply_storm h a = write_json 200 (StormValue (get_storm_status (heApp h) a))"

definition handle_get_storm :: "'w http_env \<Rightarrow> 'w app \<Rightarrow> http_reply \<times> 'w app" where
  "handle_get_storm h a = (reply_storm h a, a)"

text \<open>The rest of a handler that reads settings and calls the application with them.\<close>

definition with_settings ::
  "'w http_env \<Rightarrow> (settings \<Rightarrow> 'w app \<Rightarrow> unit result \<times> 'w app) \<Rightarrow> http_request \<Rightarrow> 'w app \<Rightarrow> http_reply \<times> 'w app" where
  "with_settings h f rq a =
     (case heSettingsOf h (limited rq) of
        None \<Rightarrow> (bad_request ''invalid JSON payload'', a)
      | Some g \<Rightarrow>
      (case f g a of
        (Inl er, a1) \<Rightarrow> (write_error 400 er, a1)
      | (Inr _, a1) \<Rightarrow> (reply_storm h a1, a1)))"

definition handle_storm_settings :: "'w http_env \<Rightarrow> http_request \<Rightarrow> 'w app \<Rightarrow> http_reply \<times> 'w app" where
  "handle_storm_settings h = with_settings h (update_storm_settings (heApp h))"

definition handle_start_storm :: "'w http_env \<Rightarrow> http_request \<Rightarrow> 'w app \<Rightarrow> http_reply \<times> 'w app" where
  "handle_start_storm h = with_settings h (start_storm (heApp h))"

definition handle_cancel_storm :: "'w http_env \<Rightarrow> 'w app \<Rightarrow> http_reply \<times> 'w app" where
  "handle_cancel_storm h a =
     (case cancel_storm (heApp h) a of
        (Inl er, a1) \<Rightarrow> (write_error 400 er, a1)
      | (Inr _, a1) \<Rightarrow> (reply_storm h a1, a1))"

section \<open>Assets\<close>

fun url_path :: "string list \<Rightarrow> string" where
  "url_path [] = ''''"
| "url_path (s # ss) = ''/'' @ s @ url_path ss"

definition serve_spa :: "'w http_env \<Rightarrow> http_request \<Rightarrow> http_reply" where
  "serve_spa h rq =
     (let url = url_path (rqSegments rq) in
      if has_prefix url ''/api/'' \<or> has_prefix url ''/healthz'' then plain_error 404 ''404 page not found''
      else
        let p = (if tl url = '''' then ''index.html'' else tl url) in
        (case heOpen h p of
           Opened \<Rightarrow> heServeFile h rq
         | Unreadable \<Rightarrow> plain_error 500 ''failed to serve asset''
         | Missing \<Rightarrow>
             (case heIndex h of
                None \<Rightarrow> plain_error 500 ''missing index.html''
              | Some index \<Rightarrow>
                  \<lparr>rpStatus = 200, rpHeaders = [(''Content-Type'', ''text/html; charset=utf-8'')],
                   rpBody = Bytes index\<rparr>)))"

section \<open>Routes\<close>

datatype route =
    Health | Status | GetConfig | PutConfig | SerialPorts | WriteRegister string | GetStorm | PutSettings
  | StartStorm | CancelStorm | GetClock | SetClock | Spa

text \<open>The patterns of \<^verbatim>\<open>Routes\<close>. One with GET takes HEAD as well; everything else is for the
  pattern that matches every path, with any method.\<close>

definition route_of :: "string \<Rightarrow> string list \<Rightarrow> route" where
  "route_of meth segs =
     (let get = meth \<in> {''GET'', ''HEAD''}; put = (meth = ''PUT''); post = (meth = ''POST'') in
      if get \<and> segs = [''healthz''] then Health
      else if take 2 segs \<noteq> [''api'', ''v1''] then Spa
      else case drop 2 segs of
        [x] \<Rightarrow>
          (if get \<and> x = ''status'' then Status
           else if get \<and> x = ''config'' then GetConfig
           else if put \<and> x = ''config'' then PutConfig
           else if get \<and> x = ''storm-charge'' then GetStorm
           else Spa)
      | [x, y] \<Rightarrow>
          (if get \<and> x = ''serial'' \<and> y = ''ports'' then SerialPorts
           else if put \<and> x = ''storm-charge'' \<and> y = ''settings'' then PutSettings
           else if post \<and> x = ''storm-charge'' \<and> y = ''start'' then StartStorm
           else if post \<and> x = ''storm-charge'' \<and> y = ''cancel'' then CancelStorm
           else if get \<and> x = ''inverter'' \<and> y = ''clock'' then GetClock
           else if post \<and> x = ''inverter'' \<and> y = ''clock'' then SetClock
           else Spa)
      | [x, i, y] \<Rightarrow> (if post \<and> x = ''registers'' \<and> y = ''write'' \<and> i \<noteq> '''' then WriteRegister i else Spa)
      | _ \<Rightarrow> Spa)"

fun handle_route :: "'w http_env \<Rightarrow> http_request \<Rightarrow> route \<Rightarrow> 'w app \<Rightarrow> http_reply \<times> 'w app" where
  "handle_route h rq Health a = handle_health a"
| "handle_route h rq Status a = handle_status h a"
| "handle_route h rq GetConfig a = handle_get_config a"
| "handle_route h rq PutConfig a = handle_update_config h rq a"
| "handle_route h rq SerialPorts a = handle_serial_ports h a"
| "handle_route h rq (WriteRegister i) a = handle_write_register h i rq a"
| "handle_route h rq GetStorm a = handle_get_storm h a"
| "handle_route h rq PutSettings a = handle_storm_settings h rq a"
| "handle_route h rq StartStorm a = handle_start_storm h rq a"
| "handle_route h rq CancelStorm a = handle_cancel_storm h a"
| "handle_route h rq GetClock a = handle_get_clock h a"
| "handle_route h rq SetClock a = handle_set_clock h rq a"
| "handle_route h rq Spa a = (serve_spa h rq, a)"

definition serve_http :: "'w http_env \<Rightarrow> http_request \<Rightarrow> 'w app \<Rightarrow> http_reply \<times> 'w app" where
  "serve_http h rq a =
     (case handle_route h rq (route_of (rqMethod rq) (rqSegments rq)) a of
        (rp, a1) \<Rightarrow> (with_common_headers rp, a1))"

end
