(* ===== verification/ModbusProofs.thy ===== *)
theory ModbusProofs
  imports Modbus CatalogProofs
begin

text \<open>
  Properties of the Modbus service over any client library: the clock's interface
  \<open>word_accessor\<close> is provided, a successful write was read back, a rejected write touches
  nothing, accepted writes keep the battery thresholds ordered, and over a device whose reads
  return its memory a poll stores the decoded memory of every register of the plan.
\<close>

section \<open>The word accessor\<close>

lemma read_holding_words_length:
  assumes "read_holding_words env cfg a n s = (Inr ws, s')"
  shows "length ws = unat n"
  using assms
  by (auto simp: read_holding_words_def min_def dest: words_from_bytes_ok(2)
      split: if_splits prod.splits sum.splits)

interpretation modbus_words: word_accessor "read_holding_words env cfg" "write_holding_words env cfg" for env cfg
  by unfold_locales (rule read_holding_words_length)

lemma compare_readback_ok: "compare_readback a i vs rs = Inr () \<longleftrightarrow> length vs \<le> length rs \<and> take (length vs) rs = vs"
  by (induction a i vs rs rule: compare_readback.induct) auto

section \<open>A device with a memory\<close>

text \<open>What is assumed of a device and of the client library: a connection can be opened, and a read
  returns the words of the device's memory; opening and closing do not change the memory.\<close>

definition memory_words :: "(u16 \<Rightarrow> u16) \<Rightarrow> u16 \<Rightarrow> u16 \<Rightarrow> u16 list" where
  "memory_words m a n = map (\<lambda>i. m (a + of_nat i)) [0..<unat n]"

definition reads_memory :: "'w modbus_env \<Rightarrow> ('w \<Rightarrow> u16 \<Rightarrow> u16) \<Rightarrow> bool" where
  "reads_memory env mem \<longleftrightarrow>
     (\<forall>h a n w. meRead env h a n w = (Inr (bytes_of_words (memory_words (mem w) a n)), w))
     \<and> (\<forall>h w. mem (meClose env h w) = mem w)
     \<and> (\<forall>d w. \<exists>h w'. meDial env d w = (Inr h, w') \<and> mem w' = mem w)"

lemma length_memory_words [simp]: "length (memory_words m a n) = unat n"
  by (simp add: memory_words_def)

lemma words_from_memory: "words_from_bytes (bytes_of_words (memory_words m a n)) n = Inr (memory_words m a n)"
  by (simp add: words_from_bytes_def)

text \<open>The slice of a range that belongs to one of its registers is the register's own memory.\<close>

lemma memory_words_slice:
  assumes "range_ok rr" "reg \<in> set (rrRegisters rr)"
  shows "unat (rAddress reg - rrStart rr) + unat (rCount reg) \<le> unat (rrCount rr)"
    and "take (unat (rCount reg)) (drop (unat (rAddress reg - rrStart rr)) (memory_words m (rrStart rr) (rrCount rr)))
      = memory_words m (rAddress reg) (rCount reg)"
proof -
  have fit: "fits reg" using assms by (auto simp: range_ok_def list_all_iff)
  have "reg_words reg \<subseteq> range_words rr" using assms by (auto simp: range_ok_def)
  then have sub: "unat (rrStart rr) \<le> unat (rAddress reg)"
    "unat (rAddress reg) + unat (rCount reg) \<le> unat (rrStart rr) + unat (rrCount rr)"
    using fit by (auto simp: fits_def reg_words_def range_words_def)
  then have off: "unat (rAddress reg - rrStart rr) = unat (rAddress reg) - unat (rrStart rr)"
    by (intro unat_sub_u16) (simp add: word_le_nat_alt)
  with sub show len: "unat (rAddress reg - rrStart rr) + unat (rCount reg) \<le> unat (rrCount rr)" by simp
  show "take (unat (rCount reg)) (drop (unat (rAddress reg - rrStart rr)) (memory_words m (rrStart rr) (rrCount rr)))
      = memory_words m (rAddress reg) (rCount reg)"
  proof (rule nth_equalityI)
    fix i
    assume "i < length (take (unat (rCount reg)) (drop (unat (rAddress reg - rrStart rr)) (memory_words m (rrStart rr) (rrCount rr))))"
    then have i: "i < unat (rCount reg)" using len by simp
    have "rrStart rr + of_nat (unat (rAddress reg - rrStart rr) + i) = rAddress reg + of_nat i"
      by (simp add: algebra_simps)
    then show "take (unat (rCount reg)) (drop (unat (rAddress reg - rrStart rr)) (memory_words m (rrStart rr) (rrCount rr))) ! i
        = memory_words m (rAddress reg) (rCount reg) ! i"
      using i len by (simp add: memory_words_def)
  qed (use len in simp)
qed

lemma open_client_memory:
  assumes "reads_memory env mem" "connection_mode_of (cfSerial cfg) = Inr m"
  shows "\<exists>h w'. open_client env cfg w = (Inr h, w') \<and> mem w' = mem w"
proof -
  obtain h w' where "meDial env (dial_of cfg m) w = (Inr h, w')" "mem w' = mem w"
    using assms(1) unfolding reads_memory_def by metis
  then show ?thesis by (simp add: open_client_def assms(2))
qed

lemma ensure_client_memory:
  assumes "reads_memory env mem" "connection_mode_of (cfSerial cfg) = Inr m"
  shows "\<exists>h s'. ensure_client env cfg s = (Inr h, s') \<and> mem (svWorld s') = mem (svWorld s) \<and> svStore s' = svStore s"
proof (cases "svClient s \<noteq> None \<and> svKey s = Some (serial_key_of cfg)")
  case True
  then show ?thesis by (simp add: ensure_client_def)
next
  case False
  have c: "mem (svWorld (close_locked env s)) = mem (svWorld s)" "svStore (close_locked env s) = svStore s"
    using assms(1) by (auto simp: close_locked_def reads_memory_def split: option.split)
  have "\<exists>h w. open_client env cfg (svWorld (close_locked env s)) = (Inr h, w) \<and> mem w = mem (svWorld (close_locked env s))"
    by (rule open_client_memory [OF assms])
  with c False show ?thesis by (auto simp: ensure_client_def Let_def)
qed

lemma read_with_retry_memory:
  "reads_memory env mem \<Longrightarrow>
   read_with_retry env cfg h a n s = (Inr (bytes_of_words (memory_words (mem (svWorld s)) a n)), s)"
  by (simp add: reads_memory_def read_with_retry_def client_read_def)

text \<open>The decoded memory of a register.\<close>

definition memory_value :: "(u16 \<Rightarrow> u16) \<Rightarrow> gotime \<Rightarrow> register \<Rightarrow> decoded_value result" where
  "memory_value m now reg = decode reg (memory_words m (rAddress reg) (rCount reg)) now"

lemma decode_from_memory:
  assumes "range_ok rr" "reg \<in> set (rrRegisters rr)" "register_wf reg" "\<not> rSynthetic reg"
  shows "\<exists>v. decode_from_range rr (memory_words m (rrStart rr) (rrCount rr)) now reg = Inr v
    \<and> memory_value m now reg = Inr v \<and> dID v = rID reg"
proof -
  obtain v where v: "memory_value m now reg = Inr v" "dID v = rID reg"
    using decode_ok [OF assms(3,4), of "memory_words m (rAddress reg) (rCount reg)" now]
    by (auto simp: memory_value_def)
  then show ?thesis
    using memory_words_slice [OF assms(1,2)]
    by (simp add: decode_from_range_def memory_value_def Let_def)
qed

lemma poll_range_memory:
  assumes "reads_memory env mem" "connection_mode_of (cfSerial cfg) = Inr mo" "range_ok rr"
    and "\<forall>reg \<in> set (rrRegisters rr). register_wf reg \<and> \<not> rSynthetic reg"
  shows "\<exists>vs s'. poll_range env cfg now rr s = ((vs, [], True), s')
    \<and> mem (svWorld s') = mem (svWorld s) \<and> svStore s' = svStore s
    \<and> map Inr vs = map (memory_value (mem (svWorld s)) now) (rrRegisters rr) \<and> map dID vs = map rID (rrRegisters rr)"
proof -
  let ?m = "mem (svWorld s)"
  obtain h s1 where e: "ensure_client env cfg s = (Inr h, s1)" "mem (svWorld s1) = ?m" "svStore s1 = svStore s"
    using ensure_client_memory [OF assms(1,2)] by blast
  let ?ws = "memory_words ?m (rrStart rr) (rrCount rr)"
  let ?s2 = "if should_reopen_per_range cfg then close_locked env s1 else s1"
  have s2: "mem (svWorld ?s2) = ?m" "svStore ?s2 = svStore s"
    using assms(1) e by (auto simp: close_locked_def reads_memory_def split: option.split)
  have "\<exists>v. decode_from_range rr ?ws now reg = Inr v \<and> memory_value ?m now reg = Inr v \<and> dID v = rID reg"
    if "reg \<in> set (rrRegisters rr)" for reg
    using decode_from_memory [OF assms(3) that] assms(4) that by blast
  then have each: "\<forall>reg \<in> set (rrRegisters rr). decode_from_range rr ?ws now reg = Inr (projr (memory_value ?m now reg))
      \<and> memory_value ?m now reg = Inr (projr (memory_value ?m now reg)) \<and> dID (projr (memory_value ?m now reg)) = rID reg"
    by fastforce
  define vs where "vs = map (\<lambda>reg. projr (memory_value ?m now reg)) (rrRegisters rr)"
  have vs: "map (decode_from_range rr ?ws now) (rrRegisters rr) = map Inr vs"
    "map Inr vs = map (memory_value ?m now) (rrRegisters rr)" "map dID vs = map rID (rrRegisters rr)"
    using each by (auto simp: vs_def)
  have parts: "concat (map (\<lambda>r. case r of Inr v \<Rightarrow> [v] | Inl _ \<Rightarrow> []) (map Inr vs)) = vs"
    "concat (map (\<lambda>r. case r of Inl e \<Rightarrow> [e] | Inr _ \<Rightarrow> []) (map Inr vs)) = ([] :: go_error list)" for vs :: "decoded_value list"
    by (induction vs) auto
  have "poll_range env cfg now rr s = ((vs, [], True), ?s2)"
    by (simp add: poll_range_def e(1) read_with_retry_memory [OF assms(1)] e(2) words_from_memory Let_def vs(1) parts
        del: map_map)
  with s2 vs(2,3) show ?thesis by blast
qed

lemma poll_ranges_memory:
  assumes "reads_memory env mem" "connection_mode_of (cfSerial cfg) = Inr mo"
  shows "list_all range_ok plan \<Longrightarrow>
    \<forall>reg \<in> set (concat (map rrRegisters plan)). register_wf reg \<and> \<not> rSynthetic reg \<Longrightarrow>
    \<exists>vs s'. poll_ranges env cfg now plan k s = ((vs, []), s')
      \<and> mem (svWorld s') = mem (svWorld s) \<and> svStore s' = svStore s
      \<and> map Inr vs = map (memory_value (mem (svWorld s)) now) (concat (map rrRegisters plan))
      \<and> map dID vs = map rID (concat (map rrRegisters plan))"
proof (induction plan arbitrary: k s)
  case (Cons rr plan)
  have ok: "range_ok rr" "\<forall>reg \<in> set (rrRegisters rr). register_wf reg \<and> \<not> rSynthetic reg"
    using Cons.prems by auto
  obtain vs s1 where 1: "poll_range env cfg now rr s = ((vs, [], True), s1)"
    "mem (svWorld s1) = mem (svWorld s)" "svStore s1 = svStore s"
    "map Inr vs = map (memory_value (mem (svWorld s)) now) (rrRegisters rr)" "map dID vs = map rID (rrRegisters rr)"
    using poll_range_memory [OF assms ok] by blast
  obtain vs' s2 where 2: "poll_ranges env cfg now plan 0 s1 = ((vs', []), s2)"
    "mem (svWorld s2) = mem (svWorld s1)" "svStore s2 = svStore s1"
    "map Inr vs' = map (memory_value (mem (svWorld s1)) now) (concat (map rrRegisters plan))"
    "map dID vs' = map rID (concat (map rrRegisters plan))"
    using Cons.IH [of 0 s1] Cons.prems by auto
  have "poll_ranges env cfg now (rr # plan) k s = ((vs @ vs', []), s2)"
    by (simp add: 1(1) 2(1))
  moreover have "map Inr (vs @ vs') = map (memory_value (mem (svWorld s)) now) (concat (map rrRegisters (rr # plan)))"
    using 1(2,4) 2(4) by simp
  moreover have "map dID (vs @ vs') = map rID (concat (map rrRegisters (rr # plan)))"
    using 1(5) 2(5) by simp
  ultimately show ?case using 1(2,3) 2(2,3) by auto
qed simp

text \<open>The registers a poll of a group reads.\<close>

definition polled_registers :: "poll_group \<Rightarrow> string \<Rightarrow> register list" where
  "polled_registers g t =
     (if g = GroupFast
      then filter (\<lambda>reg. rID reg \<in> set (criticalIDs t)) (byGroupForInverterType g t)
      else byGroupForInverterType g t)"

lemma sort_key_sorted_filter: "sort_key rAddress (filter p (byGroupForInverterType g t)) = filter p (byGroupForInverterType g t)"
  unfolding byGroupForInverterType_def filter_sort_address [symmetric]
  by (simp add: filter_sort_address sort_key_id_if_sorted)

lemma plan_for_group:
  assumes "normalized_inverter_type (cfDevice cfg) = Inr t"
  shows "concat (map rrRegisters (read_plan_for_group g cfg)) = polled_registers g t"
    and "list_all range_ok (read_plan_for_group g cfg)"
proof -
  have fits: "list_all fits (filter p (byGroupForInverterType g t))" for p
    using byGroup_fits [of g t] by (simp add: list_all_iff)
  have all: "byGroupForInverterType g t = filter (\<lambda>_. True) (byGroupForInverterType g t)" by simp
  have plan: "read_plan_for_group g cfg = buildReadPlanForRegisters (polled_registers g t)"
    by (cases g) (simp_all add: read_plan_for_group_def assms polled_registers_def
        buildCriticalFastReadPlanForInverterType_def buildReadPlanForInverterType_def)
  obtain p where p: "polled_registers g t = filter p (byGroupForInverterType g t)"
    unfolding polled_registers_def by (metis all)
  show "concat (map rrRegisters (read_plan_for_group g cfg)) = polled_registers g t"
    unfolding plan plan_registers p by (rule sort_key_sorted_filter)
  show "list_all range_ok (read_plan_for_group g cfg)"
    unfolding plan p using plan_ok [OF fits] by blast
qed

lemma polled_in_catalog:
  "reg \<in> set (polled_registers g t) \<Longrightarrow> reg \<in> set (catalogForInverterType t) \<and> \<not> rSynthetic reg"
  by (auto simp: polled_registers_def byGroupForInverterType_def split: if_splits)

lemma polled_distinct: "distinct (map rID (polled_registers g t))"
proof -
  have "distinct (map rID (byGroupForInverterType g t))"
    unfolding byGroupForInverterType_def
    by (subst mset_eq_imp_distinct_iff [of _ "map rID (filter _ (catalogForInverterType t))"])
      (simp_all add: distinct_map_filter [OF distinct_ids])
  then show ?thesis by (auto simp: polled_registers_def intro: distinct_map_filter)
qed

lemma last_value_unique:
  assumes "distinct (map dID vs)" "v \<in> set vs"
  shows "last_value vs (dID v) = Some v"
  unfolding last_value_def using assms by (intro find_first_unique) (simp_all add: rev_map [symmetric])

text \<open>C19: a poll over a device that answers stores, for every register the plan of the group polls
  (\<open>polled_registers\<close>: all of the slow group, of the fast group the critical identifiers), the decoded
  words of the device's memory at the register's own address, and reports the service connected.\<close>

theorem poll_stores_memory:
  assumes "reads_memory env mem" "validate_config cfg = Inr ()" "trim_space (scPort (cfSerial cfg)) \<noteq> ''''"
    and "normalized_inverter_type (cfDevice cfg) = Inr t" "reg \<in> set (polled_registers g t)"
  shows "\<exists>v. memory_value (mem (svWorld s)) (meNow env (svWorld s)) reg = Inr v
    \<and> map_of (stValues (svStore (poll_group env cfg g s))) (rID reg) = Some v
    \<and> ssConnected (lookup_or status0 (stServices (svStore (poll_group env cfg g s))) ''modbus'')"
proof -
  let ?now = "meNow env (svWorld s)" and ?plan = "read_plan_for_group g cfg"
  let ?s0 = "if should_reopen_per_range cfg then close_locked env s else s"
  obtain mo where mo: "connection_mode_of (cfSerial cfg) = Inr mo" using assms(2) by (auto simp: valid_iff)
  have s0: "mem (svWorld ?s0) = mem (svWorld s)"
    using assms(1) by (auto simp: close_locked_def reads_memory_def split: option.split)
  have regs: "\<forall>reg \<in> set (concat (map rrRegisters ?plan)). register_wf reg \<and> \<not> rSynthetic reg"
    unfolding plan_for_group(1) [OF assms(4)] using polled_in_catalog catalog_wf by blast
  obtain vs s1 where 1: "poll_ranges env cfg ?now ?plan 0 ?s0 = ((vs, []), s1)"
    "map Inr vs = map (memory_value (mem (svWorld s)) ?now) (polled_registers g t)"
    "map dID vs = map rID (polled_registers g t)"
    using poll_ranges_memory [OF assms(1) mo plan_for_group(2) [OF assms(4)] regs, of ?now 0 ?s0]
    unfolding s0 plan_for_group(1) [OF assms(4)] by blast
  obtain j where j: "j < length (polled_registers g t)" "polled_registers g t ! j = reg"
    using assms(5) by (auto simp: in_set_conv_nth)
  have len: "length vs = length (polled_registers g t)" using 1(2) by (metis length_map)
  have v: "memory_value (mem (svWorld s)) ?now reg = Inr (vs ! j)" "dID (vs ! j) = rID reg"
    using arg_cong [OF 1(2), of "\<lambda>xs. xs ! j"] arg_cong [OF 1(3), of "\<lambda>xs. xs ! j"] j len by simp_all
  have lv: "last_value vs (rID reg) = Some (vs ! j)"
    using last_value_unique [of vs "vs ! j"] 1(3) polled_distinct j len v(2) by simp
  have "vs \<noteq> []" using j len by auto
  then have p: "svStore (poll_group env cfg g s) =
      set_service_status (meNow env (svWorld s1)) ''modbus'' ''connected'' True no_error ?now (upsert_telemetry vs (svStore s1))"
    using assms(3,4) 1(1)
    by (simp add: poll_group_def Let_def put_status_def put_telemetry_def close_locked_def)
  have "map_of (stValues (svStore (poll_group env cfg g s))) (rID reg) = Some (vs ! j)"
    unfolding p by (simp add: set_service_status_def Let_def upsert_values map_of_put_values lv)
  moreover have "ssConnected (lookup_or status0 (stServices (svStore (poll_group env cfg g s))) ''modbus'')"
    unfolding p by (simp add: set_service_status_def Let_def lookup_or_def update_conv')
  ultimately show ?thesis using v(1) by blast
qed

section \<open>Writing a register\<close>

lemma put_status_store [simp]:
  "stValues (svStore (put_status env st ok e ls s)) = stValues (svStore s)"
  "svWorld (put_status env st ok e ls s) = svWorld s" "svClient (put_status env st ok e ls s) = svClient s"
  by (simp_all add: put_status_def set_service_status_def Let_def)

lemma decode_raw_id: "decode reg ws now = Inr v \<Longrightarrow> dID v = rID reg"
  by (auto simp: decode_def describe_register_def split: if_splits sum.splits prod.splits)

text \<open>A confirmed write leaves the value that was read back in the store.\<close>

lemma confirm_write_ok:
  assumes "confirm_write env cfg reg h encoded s = (Inr (), s')" "\<not> rWriteOnly reg"
  shows "\<exists>v. map_of (stValues (svStore s')) (rID reg) = Some v \<and> dRaw v = uint encoded
    \<and> dUpdatedAt v = meNow env (svWorld s)"
proof -
  let ?now = "meNow env (svWorld s)"
  obtain optimistic payload s1 words v where
    steps: "read_with_retry env cfg h (rAddress reg) (rCount reg) (put_telemetry [optimistic] s) = (Inr payload, s1)"
      "decode reg (take (unat (rCount reg)) words) ?now = Inr v" "dRaw v = uint encoded"
      "s' = put_status env ''connected'' True no_error ?now (put_telemetry [v] s1)"
    using assms by (auto simp: confirm_write_def Let_def split: sum.splits prod.splits if_splits)
  have "dUpdatedAt v = ?now"
    using steps(2) by (auto simp: decode_def describe_register_def split: if_splits sum.splits prod.splits)
  then show ?thesis
    using steps(3,4) decode_raw_id [OF steps(2)]
    by (simp add: put_telemetry_def upsert_values map_of_put_values last_value_def)
qed

lemma write_register_ok:
  assumes "write_register env cfg i x s = (Inr (), s')"
  shows "\<exists>t reg h encoded s1 s2 s3. normalized_inverter_type (cfDevice cfg) = Inr t
    \<and> findByIDForInverterType i t = Some reg \<and> rWritable reg
    \<and> ensure_client env cfg s = (Inr h, s1) \<and> encode_write reg x = Inr encoded
    \<and> validate_write env cfg reg encoded s1 = (Inr (), s2)
    \<and> write_verified env cfg reg h encoded (unlock_before_write env h s2) = (Inr (), s3)
    \<and> confirm_write env cfg reg h encoded s3 = (Inr (), s')"
  using assms unfolding write_register_def
  by (auto split: sum.splits option.splits prod.splits if_splits)

text \<open>A write that succeeds was encoded for the register of that identifier and, unless the
  control is write-only, was read back: the store holds a value of that register whose raw value is
  the word written.\<close>

theorem write_register_confirmed:
  assumes "write_register env cfg i x s = (Inr (), s')"
  shows "\<exists>t reg encoded. normalized_inverter_type (cfDevice cfg) = Inr t \<and> findByIDForInverterType i t = Some reg
    \<and> rWritable reg \<and> encode_write reg x = Inr encoded
    \<and> (rWriteOnly reg \<or> (\<exists>v. map_of (stValues (svStore s')) i = Some v \<and> dRaw v = uint encoded))"
proof -
  obtain t reg h encoded s1 s2 s3 where w: "normalized_inverter_type (cfDevice cfg) = Inr t"
    "findByIDForInverterType i t = Some reg" "rWritable reg" "encode_write reg x = Inr encoded"
    "confirm_write env cfg reg h encoded s3 = (Inr (), s')"
    using write_register_ok [OF assms] by blast
  have "rID reg = i" using w(2) by (auto simp: findByIDForInverterType_def dest: find_first_Some)
  then show ?thesis using w confirm_write_ok [OF w(5)] by blast
qed

section \<open>Rejected writes\<close>

text \<open>A property of the world that everything but a write keeps.\<close>

definition kept_without_writes :: "'w modbus_env \<Rightarrow> ('w \<Rightarrow> bool) \<Rightarrow> bool" where
  "kept_without_writes env P \<longleftrightarrow>
     (\<forall>d w. P w \<longrightarrow> P (snd (meDial env d w))) \<and> (\<forall>h w. P w \<longrightarrow> P (meClose env h w))
     \<and> (\<forall>h a n w. P w \<longrightarrow> P (snd (meRead env h a n w)))"

lemma close_kept: "kept_without_writes env P \<Longrightarrow> P (svWorld s) \<Longrightarrow> P (svWorld (close_locked env s))"
  by (auto simp: kept_without_writes_def close_locked_def split: option.split)

lemma open_client_kept: "kept_without_writes env P \<Longrightarrow> P w \<Longrightarrow> P (snd (open_client env cfg w))"
  unfolding kept_without_writes_def open_client_def
  by (auto split: sum.split prod.split) (metis snd_conv)+

lemma ensure_client_kept:
  assumes "kept_without_writes env P" "P (svWorld s)"
  shows "P (svWorld (snd (ensure_client env cfg s)))"
  using open_client_kept [OF assms(1) close_kept [OF assms], of cfg] assms(2)
  by (auto simp: ensure_client_def Let_def split: prod.split sum.split)

lemma client_read_kept:
  "kept_without_writes env P \<Longrightarrow> P (svWorld s) \<Longrightarrow> P (svWorld (snd (client_read env h a n s)))"
  unfolding kept_without_writes_def client_read_def by (auto split: prod.split) (metis snd_conv)

lemma read_with_retry_kept:
  assumes "kept_without_writes env P" "P (svWorld s)"
  shows "P (svWorld (snd (read_with_retry env cfg h a n s)))"
proof -
  obtain r s1 where 1: "client_read env h a n s = (r, s1)" by fastforce
  have p1: "P (svWorld s1)" using client_read_kept [OF assms, of h a n] 1 by simp
  obtain r2 s2 where 2: "ensure_client env cfg (close_locked env s1) = (r2, s2)" by fastforce
  have p2: "P (svWorld s2)" using ensure_client_kept [OF assms(1) close_kept [OF assms(1) p1], of cfg] 2 by simp
  have p3: "P (svWorld (snd (client_read env h' a n s2)))" for h' using client_read_kept [OF assms(1) p2] .
  then show ?thesis using 1 2 p1 p2
    by (auto simp: read_with_retry_def split: sum.split prod.split) (metis snd_conv)+
qed

lemma current_register_raw_kept:
  assumes "kept_without_writes env P" "P (svWorld s)"
  shows "P (svWorld (snd (current_register_raw env cfg i s)))"
proof -
  obtain r s1 where 1: "ensure_client env cfg s = (r, s1)" by fastforce
  have p1: "P (svWorld s1)" using ensure_client_kept [OF assms, of cfg] 1 by simp
  have "P (svWorld s2)" if "read_with_retry env cfg h a n s1 = (r2, s2)" for h a n r2 s2
    using read_with_retry_kept [OF assms(1) p1, of cfg h a n] that by simp
  then show ?thesis using assms(2) 1 p1
    by (auto simp: current_register_raw_def split: option.split sum.split prod.split)
qed

text \<open>A check of one register, then possibly of another, keeps what reading keeps.\<close>

lemma checked_kept:
  assumes "kept_without_writes env P" "P (svWorld s)"
    and "\<And>v s1. P (svWorld s1) \<Longrightarrow> P (svWorld (snd (k v s1)))"
  shows "P (svWorld (snd (case current_register_raw env cfg i s of (Inl e, s1) \<Rightarrow> (Inl e, s1) | (Inr v, s1) \<Rightarrow> k v s1)))"
proof -
  obtain r s1 where 1: "current_register_raw env cfg i s = (r, s1)" by fastforce
  then have "P (svWorld s1)" using current_register_raw_kept [OF assms(1,2), of cfg i] by simp
  then show ?thesis using assms(3) by (cases r) (simp_all add: 1)
qed

lemma if_kept: "(p \<Longrightarrow> P (svWorld (snd x))) \<Longrightarrow> (\<not> p \<Longrightarrow> P (svWorld (snd y))) \<Longrightarrow> P (svWorld (snd (if p then x else y)))"
  by simp

lemma validate_write_kept:
  assumes k: "kept_without_writes env P" and "P (svWorld s)"
  shows "P (svWorld (snd (validate_write env cfg reg encoded s)))"
  unfolding validate_write_def
  by (rule if_kept [where P = P] checked_kept [OF k] assms(2) | assumption | simp only: snd_conv)+

text \<open>C20: a value that the register cannot encode, or that the battery thresholds forbid, is
  rejected without any write to the device: whatever property of the outside world holds before
  and is kept by connecting, closing and reading, holds after. The telemetry is unchanged when the
  value cannot be encoded.\<close>

theorem rejected_write_untouched:
  assumes "kept_without_writes env P" "P (svWorld s)"
    and "normalized_inverter_type (cfDevice cfg) = Inr t" "findByIDForInverterType i t = Some reg"
    and "\<And>encoded h s1. encode_write reg x = Inr encoded \<Longrightarrow> ensure_client env cfg s = (Inr h, s1) \<Longrightarrow>
        \<exists>e. fst (validate_write env cfg reg encoded s1) = Inl e"
  shows "\<exists>e s'. write_register env cfg i x s = (Inl e, s') \<and> P (svWorld s')"
proof -
  obtain r s1 where 1: "ensure_client env cfg s = (r, s1)" by fastforce
  have p1: "P (svWorld s1)" using ensure_client_kept [OF assms(1,2), of cfg] 1 by simp
  show ?thesis
  proof (cases "rWritable reg \<and> trim_space (scPort (cfSerial cfg)) \<noteq> '''' \<and> (\<exists>h. r = Inr h) \<and> (\<exists>w. encode_write reg x = Inr w)")
    case False
    then show ?thesis
      using assms(2-4) 1 p1
      by (auto simp: write_register_def put_error_def split: sum.split)
  next
    case True
    then obtain h w where hw: "r = Inr h" "encode_write reg x = Inr w" by blast
    obtain e s2 where v: "validate_write env cfg reg w s1 = (Inl e, s2)"
      using assms(5) [OF hw(2)] 1 hw(1) by (metis fst_conv surj_pair)
    then have "P (svWorld s2)" using validate_write_kept [OF assms(1) p1, of cfg reg w] by simp
    then show ?thesis
      using True assms(3,4) 1 hw v by (simp add: write_register_def)
  qed
qed

section \<open>Battery thresholds\<close>

text \<open>The order the four thresholds must have.\<close>

record thresholds =
  thCutoff :: u16
  thAlarm :: u16
  thStop :: u16
  thStart :: u16

definition thresholds_ok :: "thresholds \<Rightarrow> bool" where
  "thresholds_ok th \<longleftrightarrow>
     unat (thCutoff th) + 5 \<le> unat (thAlarm th) \<and> unat (thAlarm th) + 5 \<le> unat (thStart th)
     \<and> unat (thStop th) \<le> unat (thStart th)"

definition stored_thresholds :: "store \<Rightarrow> thresholds \<Rightarrow> bool" where
  "stored_thresholds st th \<longleftrightarrow>
     raw_from_snapshot (snapshot st) ''battery_discharge_cutoff_soc'' = Some (thCutoff th)
     \<and> raw_from_snapshot (snapshot st) ''battery_low_soc_alarm'' = Some (thAlarm th)
     \<and> raw_from_snapshot (snapshot st) ''battery_discharge_stop'' = Some (thStop th)
     \<and> raw_from_snapshot (snapshot st) ''battery_discharge_start'' = Some (thStart th)"

definition set_threshold :: "string \<Rightarrow> u16 \<Rightarrow> thresholds \<Rightarrow> thresholds" where
  "set_threshold i w th =
     (if i = ''battery_discharge_cutoff_soc'' then th\<lparr>thCutoff := w\<rparr>
      else if i = ''battery_low_soc_alarm'' then th\<lparr>thAlarm := w\<rparr>
      else if i = ''battery_discharge_stop'' then th\<lparr>thStop := w\<rparr>
      else if i = ''battery_discharge_start'' then th\<lparr>thStart := w\<rparr>
      else th)"

lemma u16_add_5: "unat (w :: u16) \<le> 65530 \<Longrightarrow> unat (w + 5) = unat w + 5"
  by (subst unat_add_u16) simp_all

text \<open>C21: an accepted write keeps the thresholds ordered: the discharge cutoff at least 5 points
  below the alarm, the alarm at least 5 points below the discharge start, the stop not above the
  start; and every write that keeps them ordered is accepted.\<close>

theorem thresholds_guard:
  assumes "stored_thresholds (svStore s) th" "thresholds_ok th" "unat encoded \<le> 65530" "unat (thStart th) \<le> 65530"
  shows "(\<exists>s'. validate_write env cfg reg encoded s = (Inr (), s')) \<longleftrightarrow>
    thresholds_ok (set_threshold (rID reg) encoded th)"
proof -
  have le: "unat (thAlarm th) \<le> 65530" "unat (thCutoff th) \<le> 65530"
    using assms(2,4) by (simp_all add: thresholds_ok_def)
  have cur: "current_register_raw env cfg ''battery_discharge_cutoff_soc'' s = (Inr (thCutoff th), s)"
    "current_register_raw env cfg ''battery_low_soc_alarm'' s = (Inr (thAlarm th), s)"
    "current_register_raw env cfg ''battery_discharge_stop'' s = (Inr (thStop th), s)"
    "current_register_raw env cfg ''battery_discharge_start'' s = (Inr (thStart th), s)"
    using assms(1) by (simp_all add: current_register_raw_def stored_thresholds_def)
  have add: "unat (encoded + batterySOCThresholdGap) = unat encoded + 5"
    "unat (thAlarm th + batterySOCThresholdGap) = unat (thAlarm th) + 5"
    "unat (thCutoff th + batterySOCThresholdGap) = unat (thCutoff th) + 5"
    using assms(3) le by (simp_all add: batterySOCThresholdGap_def u16_add_5)
  have ok: "unat (thCutoff th) + 5 \<le> unat (thAlarm th)" "unat (thAlarm th) + 5 \<le> unat (thStart th)"
    "unat (thStop th) \<le> unat (thStart th)"
    using assms(2) by (simp_all add: thresholds_ok_def)
  note defs = validate_write_def cur thresholds_ok_def set_threshold_def word_le_nat_alt word_less_nat_alt add
  consider "rID reg = ''battery_discharge_cutoff_soc''" | "rID reg = ''battery_low_soc_alarm''"
    | "rID reg = ''battery_discharge_stop''" | "rID reg = ''battery_discharge_start''"
    | "rID reg \<noteq> ''battery_discharge_cutoff_soc''" "rID reg \<noteq> ''battery_low_soc_alarm''"
      "rID reg \<noteq> ''battery_discharge_stop''" "rID reg \<noteq> ''battery_discharge_start''"
    by blast
  then show ?thesis
  proof cases
    case 1
    show ?thesis using ok unfolding defs by (simp add: 1 defs)
  next
    case 2
    show ?thesis using ok unfolding defs by (simp add: 2 defs)
  next
    case 3
    show ?thesis using ok unfolding defs by (simp add: 3 defs)
  next
    case 4
    show ?thesis using ok unfolding defs by (simp add: 4 defs)
  next
    case 5
    show ?thesis using ok unfolding defs by (simp add: 5 defs)
  qed
qed

section \<open>A concrete device\<close>

text \<open>A device with a memory, on which the properties are instantiated: single writes are stored,
  block writes are refused.\<close>

definition memory_env :: "(u16 \<Rightarrow> u16) modbus_env" where
  "memory_env =
     \<lparr>meDial = (\<lambda>d m. (Inr 1, m)), meClose = (\<lambda>h m. m),
      meRead = (\<lambda>h a n m. (Inr (bytes_of_words (memory_words m a n)), m)),
      meWriteSingle = (\<lambda>h a v m. (Inr (), m(a := v))),
      meWriteMultiple = (\<lambda>h a n payload m. (Inl (External ''illegal function''), m)),
      meNow = (\<lambda>m. 9)\<rparr>"

definition hesp_config :: config where
  "hesp_config = default_config\<lparr>cfDevice := \<lparr>dcName = ''srne-main'', dcSlaveID = 1, dcInverterType = ''hesp_sh3''\<rparr>\<rparr>"

lemma memory_env_reads: "reads_memory memory_env (\<lambda>m. m)"
  by (simp add: reads_memory_def memory_env_def)

lemma hesp_config_facts:
  "normalized_inverter_type (cfDevice hesp_config) = Inr inverterTypeHESPSH3"
  "trim_space (scPort (cfSerial hesp_config)) \<noteq> ''''" "validate_config hesp_config = Inr ()"
proof -
  have s: "cfSerial hesp_config = cfSerial default_config" "cfPolling hesp_config = cfPolling default_config"
    "cfListen hesp_config = cfListen default_config" "cfLevel hesp_config = cfLevel default_config"
    "cfStorm hesp_config = cfStorm default_config" by (simp_all add: hesp_config_def)
  show t: "normalized_inverter_type (cfDevice hesp_config) = Inr inverterTypeHESPSH3" by code_simp
  show "trim_space (scPort (cfSerial hesp_config)) \<noteq> ''''" by code_simp
  have "trim_space (dcName (cfDevice hesp_config)) \<noteq> ''''" by code_simp
  then show "validate_config hesp_config = Inr ()"
    using default_valid t unfolding valid_iff s by (simp add: hesp_config_def)
qed

lemma hesp_control_polled: "zeroExportPowerRegister \<in> set (polled_registers GroupSlow inverterTypeHESPSH3)"
  using hesp_control(1,10) by (simp add: polled_registers_def byGroupForInverterType_def zeroExportPowerRegister_def reg0_def)

theorem poll_stores_memory_witness:
  "\<exists>v. map_of (stValues (svStore (poll_group memory_env hesp_config GroupSlow
      \<lparr>svStore = new_store, svKey = None, svClient = None, svWorld = (\<lambda>_. 250)\<rparr>))) ''zero_export_power'' = Some v"
  using poll_stores_memory [OF memory_env_reads hesp_config_facts(3,2,1) hesp_control_polled,
      of "\<lparr>svStore = new_store, svKey = None, svClient = None, svWorld = (\<lambda>_. 250)\<rparr>"]
  by (auto simp: zeroExportPowerRegister_def reg0_def)

lemma hesp_find: "findByIDForInverterType ''zero_export_power'' inverterTypeHESPSH3 = Some zeroExportPowerRegister"
  using hesp_control(1) distinct_ids [of inverterTypeHESPSH3]
  by (auto simp: findByIDForInverterType_def zeroExportPowerRegister_def reg0_def intro: find_first_unique)


lemma memory_env_ops [simp]:
  "meDial memory_env d m = (Inr 1, m)" "meClose memory_env h m = m"
  "meRead memory_env h a n m = (Inr (bytes_of_words (memory_words m a n)), m)"
  "meWriteSingle memory_env h a v m = (Inr (), m(a := v))" "meNow memory_env m = 9"
  by (simp_all add: memory_env_def)

abbreviation hesp_service :: "store \<Rightarrow> (u16 \<Rightarrow> u16) \<Rightarrow> (u16 \<Rightarrow> u16) service" where
  "hesp_service st m \<equiv> \<lparr>svStore = st, svKey = Some (serial_key_of hesp_config), svClient = Some 3, svWorld = m\<rparr>"

lemma hesp_write_accepted:
  "\<exists>s'. write_register memory_env hesp_config ''zero_export_power'' (VInt64 250) (hesp_service new_store (\<lambda>_. 7)) = (Inr (), s')"
proof -
  let ?m = "((\<lambda>_. 7)(0xE203 := 0))(0xE42C := 250) :: u16 \<Rightarrow> u16"
  obtain v where v: "decode zeroExportPowerRegister [250] 9 = Inr v" "dRaw v = 250"
    using decode_ok [OF catalog_wf [OF hesp_control(1)] hesp_control(10), of "[250]" 9] hesp_control(3)
    by (auto simp: raw_value_def zeroExportPowerRegister_def reg0_def)
  have a: "rAddress zeroExportPowerRegister = 0xE42C" "rID zeroExportPowerRegister = ''zero_export_power''"
    "\<not> rWriteOnly zeroExportPowerRegister"
    by (simp_all add: zeroExportPowerRegister_def reg0_def)
  have 1: "ensure_client memory_env hesp_config (hesp_service new_store (\<lambda>_. 7)) = (Inr 3, hesp_service new_store (\<lambda>_. 7))"
    by (simp add: ensure_client_def)
  have 2: "validate_write memory_env hesp_config zeroExportPowerRegister 250 s = (Inr (), s)" for s
    by (simp add: validate_write_def a)
  have 3: "write_verified memory_env hesp_config zeroExportPowerRegister 3 250
      (unlock_before_write memory_env 3 (hesp_service new_store (\<lambda>_. 7))) = (Inr (), hesp_service new_store ?m)"
    by (simp add: write_verified_def unlock_before_write_def client_write_def a unlockRegisterAddress_def)
  have "memory_words ?m 0xE42C 1 = [250]" by (simp add: memory_words_def)
  moreover have "words_from_bytes [hi_byte 250, lo_byte 250] 1 = Inr [250]" by (simp add: words_from_bytes_def)
  ultimately have 4: "\<exists>s'. confirm_write memory_env hesp_config zeroExportPowerRegister 3 250 (hesp_service new_store ?m) = (Inr (), s')"
    by (simp add: confirm_write_def Let_def a v hesp_control(3) read_with_retry_def client_read_def
        put_telemetry_def words_from_memory [of ?m "0xE42C" 1, simplified])
  show ?thesis
    using 4 by (simp add: write_register_def hesp_config_facts(1,2) hesp_find hesp_control(2) hesp_control_250 1 2 3)
qed

theorem write_register_confirmed_witness:
  "\<exists>s' v. write_register memory_env hesp_config ''zero_export_power'' (VInt64 250) (hesp_service new_store (\<lambda>_. 7)) = (Inr (), s')
    \<and> map_of (stValues (svStore s')) ''zero_export_power'' = Some v \<and> dRaw v = 250"
proof -
  obtain s' where s': "write_register memory_env hesp_config ''zero_export_power'' (VInt64 250) (hesp_service new_store (\<lambda>_. 7)) = (Inr (), s')"
    using hesp_write_accepted by blast
  from write_register_confirmed [OF s'] s' show ?thesis
    using hesp_find hesp_control_250 by (auto simp: hesp_config_facts(1) zeroExportPowerRegister_def reg0_def)
qed

theorem rejected_write_untouched_witness:
  "\<exists>e s'. write_register memory_env hesp_config ''zero_export_power'' (VStr ''full'') (hesp_service new_store (\<lambda>_. 7)) = (Inl e, s')
    \<and> svWorld s' 0xE42C = 7"
proof -
  have "parse_float ''full'' = None" by code_simp
  then have e: "encode_write zeroExportPowerRegister (VStr ''full'') \<noteq> Inr w" for w
    by (simp add: encode_write_def hesp_control(2-4) numeric_input_def)
  show ?thesis
    by (rule rejected_write_untouched [OF _ _ hesp_config_facts(1) hesp_find])
      (simp_all add: kept_without_writes_def e)
qed

theorem thresholds_guard_witness:
  "\<exists>st. \<exists>s'. validate_write memory_env hesp_config (reg0\<lparr>rID := ''battery_low_soc_alarm''\<rparr>) 20 (hesp_service st (\<lambda>_. 7)) = (Inr (), s')"
proof -
  let ?v = "\<lambda>i n. value0\<lparr>dID := i, dRaw := n\<rparr>"
  let ?st = "upsert_telemetry [?v ''battery_discharge_cutoff_soc'' 10, ?v ''battery_low_soc_alarm'' 15,
      ?v ''battery_discharge_stop'' 20, ?v ''battery_discharge_start'' 30] new_store"
  have "store_ok ?st" by (intro upsert_ok new_store_ok)
  then have "stored_thresholds ?st \<lparr>thCutoff = 10, thAlarm = 15, thStop = 20, thStart = 30\<rparr>"
    by (simp add: stored_thresholds_def raw_from_snapshot_def snapshot_lookup derivedIDs_def upsert_values put_values_def new_store_def)
  then show ?thesis
    using thresholds_guard [of "hesp_service ?st (\<lambda>_. 7)" "\<lparr>thCutoff = 10, thAlarm = 15, thStop = 20, thStart = 30\<rparr>" 20
       memory_env hesp_config "reg0\<lparr>rID := ''battery_low_soc_alarm''\<rparr>"]
    by (auto simp: thresholds_ok_def set_threshold_def)
qed

end
