(* ===== verification/ModbusMemory.thy ===== *)
theory ModbusMemory
  imports ModbusProofs
begin

text \<open>
  What the writes of the Modbus service do to the memory of a device that may lose writes: a write
  reported as done may not have been made, one reported as failed may have been made, and any request
  can fail. Only the words that are read are taken to be those of the memory. Every success the
  service reports is then true of the memory, because it reads back what it wrote, and nothing but
  the register written and the unlock register changes.
\<close>

section \<open>The device\<close>

definition lossy_memory :: "'w modbus_env \<Rightarrow> ('w \<Rightarrow> u16 \<Rightarrow> u16) \<Rightarrow> bool" where
  "lossy_memory env mem \<longleftrightarrow>
     (\<forall>h a n w payload w'. meRead env h a n w = (Inr payload, w') \<longrightarrow>
        payload = bytes_of_words (memory_words (mem w) a n))
     \<and> (\<forall>m. kept_without_writes env (\<lambda>w. mem w = m))
     \<and> (\<forall>h a v w. mem (snd (meWriteSingle env h a v w)) \<in> {mem w, (mem w)(a := v)})"

lemma lossy_memoryD:
  assumes "lossy_memory env mem"
  shows "meRead env h a n w = (Inr payload, w') \<Longrightarrow> payload = bytes_of_words (memory_words (mem w) a n)"
    and "kept_without_writes env (\<lambda>w. mem w = m)"
    and "mem (snd (meWriteSingle env h a v w)) \<in> {mem w, (mem w)(a := v)}"
  using assms unfolding lossy_memory_def by (blast, simp_all)

abbreviation service_memory :: "('w \<Rightarrow> u16 \<Rightarrow> u16) \<Rightarrow> 'w service \<Rightarrow> u16 \<Rightarrow> u16" where
  "service_memory mem s \<equiv> mem (svWorld s)"

lemma memory_words_1 [simp]: "memory_words m a 1 = [m a]"
  by (simp add: memory_words_def)

lemma words_of_one [simp]: "words_from_bytes [hi_byte w, lo_byte w] 1 = Inr [w]"
  by (simp add: words_from_bytes_def)

section \<open>Reads\<close>

lemma ensure_client_same:
  assumes "lossy_memory env mem" "ensure_client env cfg s = (r, s')"
  shows "service_memory mem s' = service_memory mem s"
  using ensure_client_kept [OF lossy_memoryD(2) [OF assms(1)], where s = s and cfg = cfg] assms(2) by simp

lemma close_locked_same:
  "lossy_memory env mem \<Longrightarrow> service_memory mem (close_locked env s) = service_memory mem s"
  by (rule close_kept [OF lossy_memoryD(2)]) simp_all

lemma client_read_true:
  assumes "lossy_memory env mem" "client_read env h a n s = (r, s')"
  shows "service_memory mem s' = service_memory mem s"
    and "r = Inr payload \<Longrightarrow> payload = bytes_of_words (memory_words (service_memory mem s) a n)"
  using client_read_kept [OF lossy_memoryD(2) [OF assms(1)], where s = s and h = h and a = a and n = n]
    lossy_memoryD(1) [OF assms(1), of h a n "svWorld s"] assms(2)
  by (auto simp: client_read_def split: prod.splits)

lemma read_with_retry_true:
  assumes "lossy_memory env mem" "read_with_retry env cfg h a n s = (r, s')"
  shows "service_memory mem s' = service_memory mem s"
    and "r = Inr payload \<Longrightarrow> payload = bytes_of_words (memory_words (service_memory mem s) a n)"
proof -
  show "service_memory mem s' = service_memory mem s"
    using read_with_retry_kept [OF lossy_memoryD(2) [OF assms(1)], where s = s and cfg = cfg and h = h and a = a and n = n]
      assms(2) by simp
  assume r: "r = Inr payload"
  obtain r1 s1 where 1: "client_read env h a n s = (r1, s1)" by fastforce
  note c1 = client_read_true [OF assms(1) 1]
  show "payload = bytes_of_words (memory_words (service_memory mem s) a n)"
  proof (cases r1)
    case (Inr p)
    then show ?thesis using c1(2) assms(2) 1 r by (simp add: read_with_retry_def)
  next
    case (Inl e)
    then obtain h' s2 s3 where 2: "ensure_client env cfg (close_locked env s1) = (Inr h', s2)"
      "client_read env h' a n s2 = (Inr payload, s3)"
      using assms(2) 1 r by (auto simp: read_with_retry_def split: sum.splits prod.splits)
    have "service_memory mem s2 = service_memory mem s"
      using ensure_client_same [OF assms(1) 2(1)] close_locked_same [OF assms(1), of s1] c1(1) by simp
    then show ?thesis using client_read_true(2) [OF assms(1) 2(2)] by simp
  qed
qed

lemma validate_write_same:
  assumes "lossy_memory env mem" "validate_write env cfg reg encoded s = (r, s')"
  shows "service_memory mem s' = service_memory mem s"
  using validate_write_kept [OF lossy_memoryD(2) [OF assms(1)], where s = s and cfg = cfg and reg = reg and encoded = encoded]
    assms(2) by simp

lemma verify_write_same:
  assumes "lossy_memory env mem" "verify_write env cfg reg expected s = (r, s')"
  shows "service_memory mem s' = service_memory mem s"
proof -
  obtain r1 s1 where 1: "ensure_client env cfg (close_locked env s) = (r1, s1)" by fastforce
  have "service_memory mem s1 = service_memory mem s"
    using ensure_client_same [OF assms(1) 1] close_locked_same [OF assms(1), of s] by simp
  then show ?thesis
    using assms(2) 1 read_with_retry_true(1) [OF assms(1), of cfg _ _ _ s1]
    by (auto simp: verify_write_def split: sum.splits prod.splits if_splits)
qed

section \<open>Writes\<close>

text \<open>What a write may change: the word at one address, to one value, and the unlock register.\<close>

definition writes_at_most :: "u16 \<Rightarrow> u16 \<Rightarrow> (u16 \<Rightarrow> u16) \<Rightarrow> (u16 \<Rightarrow> u16) \<Rightarrow> bool" where
  "writes_at_most a v m m' \<longleftrightarrow> (\<forall>b. b \<noteq> unlockRegisterAddress \<longrightarrow> m' b = m b \<or> b = a \<and> m' b = v)"

lemma writes_at_most_refl [simp]: "writes_at_most a v m m"
  by (simp add: writes_at_most_def)

lemma writes_at_most_trans [trans]:
  "writes_at_most a v m m1 \<Longrightarrow> writes_at_most a v m1 m2 \<Longrightarrow> writes_at_most a v m m2"
  unfolding writes_at_most_def by metis

lemma client_write_effect:
  assumes "lossy_memory env mem" "client_write env h a v s = (r, s')"
  shows "service_memory mem s' \<in> {service_memory mem s, (service_memory mem s)(a := v)}"
  using lossy_memoryD(3) [OF assms(1), of h a v "svWorld s"] assms(2)
  by (auto simp: client_write_def split: prod.splits)

lemma client_write_at_most:
  assumes "lossy_memory env mem" "client_write env h a v s = (r, s')"
  shows "writes_at_most a v (service_memory mem s) (service_memory mem s')"
  using client_write_effect [OF assms] by (auto simp: writes_at_most_def split: if_splits)

lemma unlock_at_most:
  assumes "lossy_memory env mem"
  shows "writes_at_most a v (service_memory mem s) (service_memory mem (unlock_before_write env h s))"
  using client_write_effect [OF assms, of h unlockRegisterAddress 0 s]
  by (cases "client_write env h unlockRegisterAddress 0 s")
    (auto simp: unlock_before_write_def writes_at_most_def)

lemma write_verified_at_most:
  assumes "lossy_memory env mem" "write_verified env cfg reg h encoded s = (r, s')"
  shows "writes_at_most (rAddress reg) encoded (service_memory mem s) (service_memory mem s')"
proof -
  obtain r1 s1 where 1: "client_write env h (rAddress reg) encoded s = (r1, s1)" by fastforce
  obtain r2 s2 where 2: "verify_write env cfg reg encoded s1 = (r2, s2)" by fastforce
  have "service_memory mem s' = service_memory mem s1"
    using assms(2) 1 2 verify_write_same [OF assms(1) 2]
    by (auto simp: write_verified_def put_error_def split: sum.splits if_splits bool.splits)
  then show ?thesis using client_write_at_most [OF assms(1) 1] by simp
qed

lemma put_telemetry_world [simp]: "svWorld (put_telemetry vs s) = svWorld s"
  by (simp add: put_telemetry_def)

lemma raw_word: "raw_value reg [w] = Inr raw \<Longrightarrow> word_of_int raw = w"
  by (cases "rType reg") (auto simp: raw_value_def)

text \<open>Confirming a write leaves the memory alone and succeeds only when it holds the word written.\<close>

lemma confirm_write_true:
  assumes "lossy_memory env mem" "confirm_write env cfg reg h encoded s = (r, s')"
  shows "service_memory mem s' = service_memory mem s"
    and "r = Inr () \<Longrightarrow> \<not> rWriteOnly reg \<Longrightarrow> rCount reg = 1 \<Longrightarrow> service_memory mem s (rAddress reg) = encoded"
proof -
  have same: "service_memory mem s1 = service_memory mem s"
    if "read_with_retry env cfg h a n (put_telemetry vs s) = (r1, s1)" for vs a n r1 s1
    using read_with_retry_true(1) [OF assms(1) that] by simp
  then show "service_memory mem s' = service_memory mem s"
    using assms(2)
    by (auto simp: confirm_write_def Let_def put_error_def split: sum.splits prod.splits if_splits)
  assume r: "r = Inr ()" "\<not> rWriteOnly reg" "rCount reg = 1"
  then obtain optimistic payload s1 words v where
    steps: "read_with_retry env cfg h (rAddress reg) (rCount reg) (put_telemetry [optimistic] s) = (Inr payload, s1)"
      "words_from_bytes payload (rCount reg) = Inr words"
      "decode reg (take (unat (rCount reg)) words) (meNow env (svWorld s)) = Inr v" "dRaw v = uint encoded"
    using assms(2) by (auto simp: confirm_write_def Let_def split: sum.splits prod.splits if_splits)
  have "words = [service_memory mem s (rAddress reg)]"
    using read_with_retry_true(2) [OF assms(1) steps(1) refl] steps(2) r(3) by simp
  then show "service_memory mem s (rAddress reg) = encoded"
    using decode_single(1) [of reg "service_memory mem s (rAddress reg)"] raw_word steps(3,4) r(3) by fastforce
qed

text \<open>The two outcomes of a register write.\<close>

lemma write_register_change:
  assumes "lossy_memory env mem" "write_register env cfg i x s = (r, s')"
  shows "(\<exists>t reg encoded. normalized_inverter_type (cfDevice cfg) = Inr t \<and> findByIDForInverterType i t = Some reg
      \<and> rWritable reg \<and> encode_write reg x = Inr encoded
      \<and> writes_at_most (rAddress reg) encoded (mem (svWorld s)) (mem (svWorld s'))
      \<and> (r = Inr () \<and> \<not> rWriteOnly reg \<longrightarrow> mem (svWorld s') (rAddress reg) = encoded))
    \<or> r \<noteq> Inr () \<and> mem (svWorld s') = mem (svWorld s)"
proof (cases "\<exists>e s2. write_register env cfg i x s = (Inl e, s2) \<and> mem (svWorld s2) = mem (svWorld s)")
  case True
  then show ?thesis using assms(2) by auto
next
  case False
  have ens: "mem (svWorld s1) = mem (svWorld s)" if "ensure_client env cfg s = (r1, s1)" for r1 s1
    using ensure_client_same [OF assms(1) that] .
  have val: "mem (svWorld s2) = mem (svWorld s)"
    if "ensure_client env cfg s = (r1, s1)" "validate_write env cfg reg e s1 = (r2, s2)" for r1 s1 reg e r2 s2
    using validate_write_same [OF assms(1) that(2)] ens [OF that(1)] by simp
  obtain t reg h encoded s1 s2 where w: "normalized_inverter_type (cfDevice cfg) = Inr t"
    "findByIDForInverterType i t = Some reg" "rWritable reg" "encode_write reg x = Inr encoded"
    "ensure_client env cfg s = (Inr h, s1)" "validate_write env cfg reg encoded s1 = (Inr (), s2)"
    using False ens val unfolding write_register_def
    by (auto simp: put_error_def split: sum.splits option.splits prod.splits if_splits)
  obtain r3 s3 where 3: "write_verified env cfg reg h encoded (unlock_before_write env h s2) = (r3, s3)" by fastforce
  have m3: "writes_at_most (rAddress reg) encoded (mem (svWorld s)) (mem (svWorld s3))"
    using unlock_at_most [OF assms(1), of "rAddress reg" encoded s2 h] write_verified_at_most [OF assms(1) 3]
      writes_at_most_trans val [OF w(5,6)] by metis
  have p: "trim_space (scPort (cfSerial cfg)) \<noteq> ''''"
    using False w by (auto simp: write_register_def)
  have "reg \<in> set (catalogForInverterType t)"
    using w(2) by (auto simp: findByIDForInverterType_def dest: find_first_Some)
  then have c: "rCount reg = 1" using catalog_wf w(3) by (auto simp: register_wf_def)
  have k: "write_register env cfg i x s = (case r3 of Inl e \<Rightarrow> (Inl e, s3) | Inr _ \<Rightarrow> confirm_write env cfg reg h encoded s3)"
    using w p 3 by (simp add: write_register_def)
  show ?thesis
  proof (cases r3)
    case (Inl e)
    then show ?thesis using k assms(2) w m3 by auto
  next
    case (Inr u)
    then have q: "confirm_write env cfg reg h encoded s3 = (r, s')" using k assms(2) by simp
    show ?thesis using confirm_write_true [OF assms(1) q] w m3 c by auto
  qed
qed

text \<open>The same for one word of a block; the storm charge writes the schedule word by word.\<close>

lemma write_word_true:
  assumes "lossy_memory env mem" "write_holding_words env cfg a [v] s = (r, s')"
  shows "writes_at_most a v (mem (svWorld s)) (mem (svWorld s'))" "r = Inr () \<Longrightarrow> mem (svWorld s') a = v"
proof -
  obtain r1 s1 where 1: "ensure_client env cfg s = (r1, s1)" by fastforce
  have m1: "mem (svWorld s1) = mem (svWorld s)" using ensure_client_same [OF assms(1) 1] .
  have "writes_at_most a v (mem (svWorld s)) (mem (svWorld s')) \<and> (r = Inr () \<longrightarrow> mem (svWorld s') a = v)"
  proof (cases "trim_space (scPort (cfSerial cfg)) = '''' \<or> (\<exists>e. r1 = Inl e)")
    case True
    then show ?thesis
      using assms(2) 1 m1 by (auto simp: write_holding_words_def put_error_def split: if_splits)
  next
    case False
    then obtain h where h: "r1 = Inr h" "trim_space (scPort (cfSerial cfg)) \<noteq> ''''" by (cases r1) auto
    obtain r2 s2 where 2: "client_write env h a v (unlock_before_write env h s1) = (r2, s2)" by fastforce
    obtain r3 s3 where 3: "read_with_retry env cfg h a 1 s2 = (r3, s3)" by fastforce
    have m2: "writes_at_most a v (mem (svWorld s)) (mem (svWorld s2))"
      using unlock_at_most [OF assms(1), of a v s1 h] client_write_at_most [OF assms(1) 2] m1 writes_at_most_trans
      by metis
    note m3 = read_with_retry_true [OF assms(1) 3]
    have m: "mem (svWorld s') = mem (svWorld s2)"
      using assms(2) h 1 2 3 m3(1)
      by (auto simp: write_holding_words_def Let_def put_error_def split: sum.splits)
    have "r3 = Inr [hi_byte (mem (svWorld s2) a), lo_byte (mem (svWorld s2) a)] \<and> mem (svWorld s2) a = v" if "r = Inr ()"
      using assms(2) h 1 2 3 that m3(2)
      by (auto simp: write_holding_words_def Let_def split: sum.splits if_splits)
    then show ?thesis using m m2 by simp
  qed
  then show "writes_at_most a v (mem (svWorld s)) (mem (svWorld s'))" "r = Inr () \<Longrightarrow> mem (svWorld s') a = v" by simp_all
qed




end
