(* ===== verification/StormProofs.thy ===== *)
theory StormProofs
  imports StormCharge InverterClock
begin

text \<open>
  The storm charge manager over any device, file system and clock: what each step keeps, the
  invariant of the reachable managers, that a session is on disk before the device is written and
  survives a restart, and the control state an operation ends in.
\<close>

section \<open>What the steps keep\<close>

text \<open>The steps inside an operation change the world only.\<close>

definition world_step :: "'w manager \<Rightarrow> 'w manager \<Rightarrow> bool" where
  "world_step m m' \<longleftrightarrow> mgRuntime m' = mgRuntime m \<and> mgPath m' = mgPath m
     \<and> mgResumePending m' = mgResumePending m"

lemma world_step_refl [simp]: "world_step m m"
  by (simp add: world_step_def)

lemma world_step_fields:
  "world_step m m' \<Longrightarrow> mgRuntime m' = mgRuntime m"
  "world_step m m' \<Longrightarrow> mgPath m' = mgPath m"
  "world_step m m' \<Longrightarrow> mgResumePending m' = mgResumePending m"
  by (simp_all add: world_step_def)

lemma world_step_trans [trans]: "world_step m m1 \<Longrightarrow> world_step m1 m2 \<Longrightarrow> world_step m m2"
  by (simp add: world_step_def)

lemma call_world_step: "call f m = (r, m') \<Longrightarrow> world_step m m' \<and> f (mgWorld m) = (r, mgWorld m')"
  by (auto simp: call_def world_step_def split: prod.splits)

section \<open>Steps inside an operation\<close>

text \<open>A relation between managers that every device write keeps is kept by the operations made of
  device writes.\<close>

definition device_closed :: "'w storm_env \<Rightarrow> ('w manager \<Rightarrow> 'w manager \<Rightarrow> bool) \<Rightarrow> bool" where
  "device_closed env R \<longleftrightarrow> (\<forall>m. R m m) \<and> (\<forall>m m1 m2. R m m1 \<longrightarrow> R m1 m2 \<longrightarrow> R m m2)
     \<and> (\<forall>i v m r m'. call (evWriteRegister env i v) m = (r, m') \<longrightarrow> R m m')
     \<and> (\<forall>a vs m r m'. call (evWriteWords env a vs) m = (r, m') \<longrightarrow> R m m')"

lemma device_closedD:
  assumes "device_closed env R"
  shows "R m m" "R m m1 \<Longrightarrow> R m1 m2 \<Longrightarrow> R m m2"
    "call (evWriteRegister env i v) m = (r, m') \<Longrightarrow> R m m'"
    "call (evWriteWords env a vs) m = (r, m') \<Longrightarrow> R m m'"
  using assms unfolding device_closed_def by blast+

section \<open>The file and the session\<close>

definition session_ok :: "runtime \<Rightarrow> bool" where
  "session_ok r \<longleftrightarrow>
     rtVersion r = 2
     \<and> (\<not> rtActive r \<longrightarrow> rtPhase r \<in> {phaseIdle, phaseCompleted, phaseCancelled, phaseTimedOut, phaseError})
     \<and> (rtActive r \<longrightarrow> rtPhase r \<in> {phaseStarting, phaseCharging, phaseRestoring}
          \<and> validateSettings (rtSettings r) = Inr () \<and> length (psSchedule (rtPrevious r)) = timedChargeWords
          \<and> (rtDeadline r = rtStartedAt r + sgTimeout (rtSettings r) \<or> rtPhase r = phaseRestoring))"

text \<open>What the file holds, and that it is an active session with the given previous settings.\<close>

definition on_disk :: "'w storm_env \<Rightarrow> string \<Rightarrow> 'w \<Rightarrow> runtime option" where
  "on_disk env path w =
     (case evReadFile env path w of
        Inl _ \<Rightarrow> None
      | Inr data \<Rightarrow> (case evUnmarshal env data runtime0 of Inl _ \<Rightarrow> None | Inr r \<Rightarrow> Some r))"

definition recorded :: "'w storm_env \<Rightarrow> string \<Rightarrow> previous_settings \<Rightarrow> 'w \<Rightarrow> bool" where
  "recorded env path p w \<longleftrightarrow> (\<exists>r. on_disk env path w = Some r \<and> session_ok r \<and> rtActive r \<and> rtPrevious r = p)"

text \<open>What is assumed of the file system, of YAML and of the device: only the rename changes the
  file, a failed one does not, the file then holds what was written, and reading back what was
  serialised gives the same runtime but for the text of the error.\<close>

definition durable :: "'w storm_env \<Rightarrow> string \<Rightarrow> bool" where
  "durable env path \<longleftrightarrow>
     (\<forall>w i v. evReadFile env path (snd (evWriteRegister env i v w)) = evReadFile env path w)
     \<and> (\<forall>w a n. evReadFile env path (snd (evReadWords env a n w)) = evReadFile env path w)
     \<and> (\<forall>w a vs. evReadFile env path (snd (evWriteWords env a vs w)) = evReadFile env path w)
     \<and> (\<forall>w. evReadFile env path (snd (evMkdirFor env path w)) = evReadFile env path w)
     \<and> (\<forall>w data. evReadFile env path (snd (evWriteFile env (path @ ''.tmp'') data w)) = evReadFile env path w)
     \<and> (\<forall>w w' e. evRename env (path @ ''.tmp'') path w = (Inl e, w') \<longrightarrow> evReadFile env path w' = evReadFile env path w)
     \<and> (\<forall>w data w1 w2. evWriteFile env (path @ ''.tmp'') data w = (Inr (), w1) \<longrightarrow>
          evRename env (path @ ''.tmp'') path w1 = (Inr (), w2) \<longrightarrow> evReadFile env path w2 = Inr data)
     \<and> (\<forall>r data. evMarshal env r = Inr data \<longrightarrow>
          (\<exists>e. evUnmarshal env data runtime0 = Inr (r\<lparr>rtLastError := e\<rparr>)))"

text \<open>A property of the world that a device write has to keep only when the file holds an active
  session, from which the previous settings can be restored after a crash.\<close>

definition kept_when_recorded :: "'w storm_env \<Rightarrow> string \<Rightarrow> ('w \<Rightarrow> bool) \<Rightarrow> bool" where
  "kept_when_recorded env path P \<longleftrightarrow>
     (\<forall>w a n. P w \<longrightarrow> P (snd (evReadWords env a n w)))
     \<and> (\<forall>w. P w \<longrightarrow> P (snd (evMkdirFor env path w)))
     \<and> (\<forall>w data. P w \<longrightarrow> P (snd (evWriteFile env (path @ ''.tmp'') data w)))
     \<and> (\<forall>w. P w \<longrightarrow> P (snd (evRename env (path @ ''.tmp'') path w)))
     \<and> (\<forall>w i v p. recorded env path p w \<and> P w \<longrightarrow> P (snd (evWriteRegister env i v w)))
     \<and> (\<forall>w a vs p. recorded env path p w \<and> P w \<longrightarrow> P (snd (evWriteWords env a vs w)))"

text \<open>The invariant: the file is well formed, and holds the session when one is active.\<close>

definition file_ok :: "'w storm_env \<Rightarrow> string \<Rightarrow> 'w \<Rightarrow> bool" where
  "file_ok env path w \<longleftrightarrow> (\<forall>r. on_disk env path w = Some r \<longrightarrow> session_ok r)"

definition world_ok :: "'w storm_env \<Rightarrow> string \<Rightarrow> ('w \<Rightarrow> bool) \<Rightarrow> 'w manager \<Rightarrow> bool" where
  "world_ok env path P m \<longleftrightarrow> mgPath m = path \<and> P (mgWorld m) \<and> file_ok env path (mgWorld m)"

definition manager_ok :: "'w storm_env \<Rightarrow> string \<Rightarrow> ('w \<Rightarrow> bool) \<Rightarrow> 'w manager \<Rightarrow> bool" where
  "manager_ok env path P m \<longleftrightarrow> world_ok env path P m \<and> session_ok (mgRuntime m)
     \<and> (rtActive (mgRuntime m) \<longrightarrow> recorded env path (rtPrevious (mgRuntime m)) (mgWorld m))"

text \<open>A session that the device can be written for.\<close>

definition writable_session :: "'w storm_env \<Rightarrow> string \<Rightarrow> ('w \<Rightarrow> bool) \<Rightarrow> 'w manager \<Rightarrow> bool" where
  "writable_session env path P m \<longleftrightarrow> manager_ok env path P m \<and> rtActive (mgRuntime m)"

lemma on_disk_cong: "evReadFile env path w' = evReadFile env path w \<Longrightarrow> on_disk env path w' = on_disk env path w"
  by (simp add: on_disk_def)

lemma disk_cong:
  assumes "on_disk env path w' = on_disk env path w"
  shows "recorded env path p w' = recorded env path p w" "file_ok env path w' = file_ok env path w"
  by (simp_all add: recorded_def file_ok_def assms)

text \<open>One save: the outcome decides what the file holds.\<close>

lemma save_locked_cases:
  assumes "save_locked env m = (r, m')"
  obtains (mkdir) e where "r \<noteq> Inr ()" "evMkdirFor env (mgPath m) (mgWorld m) = (Inl e, mgWorld m')" "world_step m m'"
  | (marshal) "r \<noteq> Inr ()" "evMkdirFor env (mgPath m) (mgWorld m) = (Inr (), mgWorld m')" "world_step m m'"
  | (wrote) w1 data e where "r \<noteq> Inr ()" "evMkdirFor env (mgPath m) (mgWorld m) = (Inr (), w1)"
      "evWriteFile env (mgPath m @ ''.tmp'') data w1 = (Inl e, mgWorld m')" "world_step m m'"
  | (rename) w1 data w2 e where "r \<noteq> Inr ()" "evMkdirFor env (mgPath m) (mgWorld m) = (Inr (), w1)"
      "evWriteFile env (mgPath m @ ''.tmp'') data w1 = (Inr (), w2)"
      "evRename env (mgPath m @ ''.tmp'') (mgPath m) w2 = (Inl e, mgWorld m')" "world_step m m'"
  | (saved) w1 data w2 where "r = Inr ()" "evMkdirFor env (mgPath m) (mgWorld m) = (Inr (), w1)"
      "evMarshal env (mgRuntime m) = Inr data" "evWriteFile env (mgPath m @ ''.tmp'') data w1 = (Inr (), w2)"
      "evRename env (mgPath m @ ''.tmp'') (mgPath m) w2 = (Inr (), mgWorld m')" "world_step m m'"
  using assms
  by (auto simp: save_locked_def call_def world_step_def Let_def split: prod.splits sum.splits)

lemma save_locked_disk:
  assumes d: "durable env path" and k: "kept_when_recorded env path P" and m: "mgPath m = path" "P (mgWorld m)"
    and s: "save_locked env m = (r, m')"
  shows "world_step m m'" "P (mgWorld m')"
    and "r \<noteq> Inr () \<Longrightarrow> on_disk env path (mgWorld m') = on_disk env path (mgWorld m)"
    and "r = Inr () \<Longrightarrow> \<exists>e. on_disk env path (mgWorld m') = Some ((mgRuntime m)\<lparr>rtLastError := e\<rparr>)"
proof -
  show "world_step m m'" using s by (cases rule: save_locked_cases) 
  note dd = d [unfolded durable_def] and kk = k [unfolded kept_when_recorded_def]
  show "P (mgWorld m')"
    using s by (cases rule: save_locked_cases) (metis kk m snd_conv)+
  show "on_disk env path (mgWorld m') = on_disk env path (mgWorld m)" if "r \<noteq> Inr ()"
    using s
  proof (cases rule: save_locked_cases)
    case mkdir
    then show ?thesis using dd m by (intro on_disk_cong) (metis snd_conv)
  next
    case marshal
    then show ?thesis using dd m by (intro on_disk_cong) (metis snd_conv)
  next
    case wrote
    then show ?thesis using dd m by (intro on_disk_cong) (metis snd_conv)
  next
    case rename
    then show ?thesis using dd m by (intro on_disk_cong) (metis snd_conv)
  next
    case saved
    then show ?thesis using that by simp
  qed
  show "\<exists>e. on_disk env path (mgWorld m') = Some ((mgRuntime m)\<lparr>rtLastError := e\<rparr>)" if "r = Inr ()"
    using s
  proof (cases rule: save_locked_cases)
    case (saved w1 data w2)
    then have "evReadFile env path (mgWorld m') = Inr data" using dd m by metis
    moreover obtain e where "evUnmarshal env data runtime0 = Inr ((mgRuntime m)\<lparr>rtLastError := e\<rparr>)"
      using saved(3) dd by metis
    ultimately show ?thesis by (auto simp: on_disk_def)
  qed (use that in simp_all)
qed


section \<open>The operations on a session\<close>

lemma session_ok_error [simp]: "session_ok (r\<lparr>rtLastError := e\<rparr>) = session_ok r"
  by (simp add: session_ok_def)

lemma save_locked_ok:
  assumes d: "durable env path" and k: "kept_when_recorded env path P"
    and m: "world_ok env path P m" "session_ok (mgRuntime m)" and s: "save_locked env m = (r, m')"
  shows "world_step m m' \<and> world_ok env path P m'"
    and "r = Inr () \<Longrightarrow> manager_ok env path P m'"
    and "r \<noteq> Inr () \<Longrightarrow> on_disk env path (mgWorld m') = on_disk env path (mgWorld m)"
proof -
  have p: "mgPath m = path" "P (mgWorld m)" "file_ok env path (mgWorld m)" using m(1) by (auto simp: world_ok_def)
  note f = save_locked_disk [OF d k p(1,2) s]
  have disk: "file_ok env path (mgWorld m')"
  proof (cases "r = Inr ()")
    case True
    then show ?thesis using f(4) m(2) by (auto simp: file_ok_def)
  next
    case False
    then show ?thesis using disk_cong(2) [OF f(3)] p(3) by simp
  qed
  then show w: "world_step m m' \<and> world_ok env path P m'"
    using f(1,2) p(1) disk by (simp add: world_ok_def world_step_fields)
  show "manager_ok env path P m'" if "r = Inr ()"
    using f(4) [OF that] m(2) w by (auto simp: manager_ok_def recorded_def world_step_fields)
  show "on_disk env path (mgWorld m') = on_disk env path (mgWorld m)" if "r \<noteq> Inr ()"
    using f(3) that .
qed

text \<open>A step inside a session: it keeps the session writable and changes the world only.\<close>

definition session_step :: "'w storm_env \<Rightarrow> string \<Rightarrow> ('w \<Rightarrow> bool) \<Rightarrow> 'w manager \<Rightarrow> 'w manager \<Rightarrow> bool" where
  "session_step env path P m m' \<longleftrightarrow>
     (writable_session env path P m \<longrightarrow> writable_session env path P m' \<and> world_step m m')"

lemma session_step_refl [simp]: "session_step env path P m m"
  by (simp add: session_step_def)

lemma session_step_trans:
  "session_step env path P m m1 \<Longrightarrow> session_step env path P m1 m2 \<Longrightarrow> session_step env path P m m2"
  by (auto simp: session_step_def intro: world_step_trans)

lemma session_stepI:
  assumes "world_step m m'"
    and "writable_session env path P m \<Longrightarrow> P (mgWorld m') \<and> on_disk env path (mgWorld m') = on_disk env path (mgWorld m)"
  shows "session_step env path P m m'"
  using assms disk_cong [of env path "mgWorld m'" "mgWorld m"]
  by (auto simp: session_step_def writable_session_def manager_ok_def world_ok_def world_step_fields)

definition safe_env :: "'w storm_env \<Rightarrow> string \<Rightarrow> ('w \<Rightarrow> bool) \<Rightarrow> bool" where
  "safe_env env path P \<longleftrightarrow> durable env path \<and> kept_when_recorded env path P"

lemma safe_envD:
  assumes "safe_env env path P"
  shows "durable env path" "kept_when_recorded env path P"
  using assms by (simp_all add: safe_env_def)

lemma device_safe:
  assumes "safe_env env path P"
  shows "evReadFile env path (snd (evWriteRegister env i v w)) = evReadFile env path w"
    and "evReadFile env path (snd (evWriteWords env a vs w)) = evReadFile env path w"
    and "evReadFile env path (snd (evReadWords env a n w)) = evReadFile env path w"
    and "recorded env path p w \<Longrightarrow> P w \<Longrightarrow> P (snd (evWriteRegister env i v w))"
    and "recorded env path p w \<Longrightarrow> P w \<Longrightarrow> P (snd (evWriteWords env a vs w))"
    and "P w \<Longrightarrow> P (snd (evReadWords env a n w))"
  using assms unfolding safe_env_def durable_def kept_when_recorded_def by (simp_all, (elim conjE, blast)+)

lemma device_step:
  assumes c: "call f m = (r, m')"
    and "\<And>w p. recorded env path p w \<Longrightarrow> P w \<Longrightarrow> P (snd (f w))"
    and "\<And>w. evReadFile env path (snd (f w)) = evReadFile env path w"
  shows "session_step env path P m m'"
proof (rule session_stepI)
  have f: "world_step m m'" "mgWorld m' = snd (f (mgWorld m))" using call_world_step [OF c] by auto
  show "world_step m m'" by (fact f(1))
  assume "writable_session env path P m"
  then have "recorded env path (rtPrevious (mgRuntime m)) (mgWorld m)" "P (mgWorld m)"
    by (simp_all add: writable_session_def manager_ok_def world_ok_def)
  then have "P (snd (f (mgWorld m)))" by (rule assms(2))
  then show "P (mgWorld m') \<and> on_disk env path (mgWorld m') = on_disk env path (mgWorld m)"
    unfolding f(2) using on_disk_cong [OF assms(3)] by simp
qed

lemma write_register_step:
  assumes "safe_env env path P" "call (evWriteRegister env i v) m = (r, m')"
  shows "session_step env path P m m'"
  using assms(2) by (rule device_step) (simp_all add: device_safe [OF assms(1)])

lemma write_words_step:
  assumes "safe_env env path P" "call (evWriteWords env a vs) m = (r, m')"
  shows "session_step env path P m m'"
  using assms(2) by (rule device_step) (simp_all add: device_safe [OF assms(1)])

lemma save_step:
  assumes "safe_env env path P" "save_locked env m = (r, m')"
  shows "session_step env path P m m'"
  unfolding session_step_def
proof
  assume "writable_session env path P m"
  then have m: "manager_ok env path P m" "rtActive (mgRuntime m)" by (simp_all add: writable_session_def)
  then have w: "world_ok env path P m" "session_ok (mgRuntime m)" by (simp_all add: manager_ok_def)
  note f = save_locked_ok [OF safe_envD [OF assms(1)] w assms(2)]
  note rt = world_step_fields(1) [OF conjunct1 [OF f(1)]]
  have "manager_ok env path P m'"
  proof (cases "r = Inr ()")
    case False
    then show ?thesis
      using f(1) m disk_cong(1) [OF f(3)] w(2) by (simp add: manager_ok_def rt)
  qed (rule f(2))
  then show "writable_session env path P m' \<and> world_step m m'"
    using f(1) m(2) by (simp add: writable_session_def rt)
qed

lemma try_save_step: "safe_env env path P \<Longrightarrow> session_step env path P m (try_save env m)"
  using save_step [of env path P m "fst (save_locked env m)" "try_save env m"] by (simp add: try_save_def)

lemma session_closed: "safe_env env path P \<Longrightarrow> device_closed env (session_step env path P)"
  unfolding device_closed_def
  by (auto intro: session_step_trans write_register_step write_words_step)

lemma world_closed: "device_closed env world_step"
  unfolding device_closed_def by (auto intro: world_step_trans dest: call_world_step)

text \<open>A step that goes on when the one before succeeded.\<close>

lemma then_step:
  assumes "device_closed env R"
    and "(case x of (Inl e, m1) \<Rightarrow> (Inl (f e), m1) | (Inr _, m1) \<Rightarrow> k m1) = (r, m')"
    and "R m (snd x)"
    and "\<And>m1. k m1 = (r, m') \<Longrightarrow> R m1 m'"
  shows "R m m'"
  using assms(2-4) device_closedD(1,2) [OF assms(1)] by (auto split: prod.splits sum.splits)

lemma write_enable_step:
  assumes "device_closed env R" "write_enable env v m = (r, m')"
  shows "R m m'"
  using assms(2) unfolding write_enable_def
  by (rule then_step [OF assms(1)]) (auto simp: device_closedD(4) [OF assms(1) prod.collapse [symmetric]] device_closedD(1) [OF assms(1)])

lemma write_slots_step:
  assumes "device_closed env R"
  shows "write_slots env off vs m = (r, m') \<Longrightarrow> R m m'"
proof (induction vs arbitrary: off m)
  case (Cons v vs)
  show ?case
    using Cons.prems unfolding write_slots.simps
    by (rule then_step [OF assms(1)]) (simp_all add: device_closedD(4) [OF assms prod.collapse [symmetric]] Cons.IH)
qed (simp add: device_closedD(1) [OF assms])

lemma write_schedule_step:
  assumes "device_closed env R" "write_schedule env vs m = (r, m')"
  shows "R m m'"
proof (cases "length vs = timedChargeWords")
  case True
  note enable = write_enable_step [OF assms(1) prod.collapse [symmetric]]
  note slots = write_slots_step [OF assms(1) prod.collapse [symmetric]]
  have "(case (if vs ! 6 = 0 then write_enable env (vs ! 6) m else (Inr (), m)) of
        (Inl e, m1) \<Rightarrow> (Inl e, m1)
      | (Inr _, m1) \<Rightarrow>
          (case write_slots env 0 (take 6 vs) m1 of
             (Inl e, m2) \<Rightarrow> (Inl e, m2)
           | (Inr _, m2) \<Rightarrow> (if vs ! 6 \<noteq> 0 then write_enable env (vs ! 6) m2 else (Inr (), m2)))) = (r, m')"
    using assms(2) True by (simp add: write_schedule_def)
  then show ?thesis
  proof (rule then_step [OF assms(1)])
    show "R m (snd (if vs ! 6 = 0 then write_enable env (vs ! 6) m else (Inr (), m)))"
      by (simp add: enable device_closedD(1) [OF assms(1)])
  next
    fix m1
    assume "(case write_slots env 0 (take 6 vs) m1 of
             (Inl e, m2) \<Rightarrow> (Inl e, m2)
           | (Inr _, m2) \<Rightarrow> (if vs ! 6 \<noteq> 0 then write_enable env (vs ! 6) m2 else (Inr (), m2))) = (r, m')"
    then show "R m1 m'"
      by (rule then_step [OF assms(1)]) (auto simp: slots device_closedD(1) [OF assms(1)] split: if_splits dest: write_enable_step [OF assms(1)])
  qed
qed (use assms(2) device_closedD(1) [OF assms(1)] in \<open>simp add: write_schedule_def\<close>)

lemma apply_writes_step:
  assumes "device_closed env R"
  shows "apply_writes env ws m = (r, m') \<Longrightarrow> R m m'"
proof (induction ws arbitrary: m)
  case (Cons a ws)
  obtain i v where a: "a = (i, v)" by fastforce
  show ?case
    using Cons.prems unfolding a apply_writes.simps
    by (rule then_step [OF assms(1)]) (simp_all add: device_closedD(3) [OF assms prod.collapse [symmetric]] Cons.IH)
qed (simp add: device_closedD(1) [OF assms])

lemma apply_storm_settings_step:
  assumes "device_closed env R" "apply_storm_settings env m = (r, m')"
  shows "R m m'"
  using assms(2) unfolding apply_storm_settings_def
proof (rule then_step [OF assms(1)])
  show "R m (snd (apply_writes env ws m))" for ws
    by (rule apply_writes_step [OF assms(1) prod.collapse [symmetric]])
next
  fix m1
  assume "(case write_schedule env stormSchedule m1 of
      (Inl e, m2) \<Rightarrow> (Inl (Errorf ''enable timed utility charging: %w'' [AErr e]), m2) | (Inr _, m2) \<Rightarrow> (Inr (), m2)) = (r, m')"
  then show "R m1 m'"
    by (rule then_step [OF assms(1)]) (auto simp: write_schedule_step [OF assms(1) prod.collapse [symmetric]] device_closedD(1) [OF assms(1)])
qed

lemma restore_writes_step:
  assumes "device_closed env R"
  shows "restore_writes env ws m = (r, m') \<Longrightarrow> R m m'"
proof (induction ws arbitrary: r m)
  case (Cons a ws)
  obtain i v where a: "a = (i, v)" by fastforce
  obtain r1 m1 where c: "call (evWriteRegister env i v) m = (r1, m1)" by fastforce
  have 1: "R m m1" by (rule device_closedD(3) [OF assms c])
  obtain es where "restore_writes env ws m1 = (es, m')" using Cons.prems c a by (auto split: prod.splits)
  from Cons.IH [OF this] 1 show ?case by (rule device_closedD(2) [OF assms, rotated])
qed (simp add: device_closedD(1) [OF assms])

lemma restore_all_step:
  assumes "device_closed env R" "restore_all env m = (es, m')"
  shows "R m m'"
proof -
  obtain es1 m1 where 1: "restore_schedule env m = (es1, m1)" by fastforce
  have "R m m1"
    using 1 write_schedule_step [OF assms(1)] device_closedD(1) [OF assms(1)]
    by (auto simp: restore_schedule_def Let_def split: if_splits prod.splits sum.splits)
  moreover have "R m1 m'"
    using assms(2) 1 restore_writes_step [OF assms(1)] unfolding restore_all_def
    by (auto simp del: restore_writes.simps split: prod.splits)
  ultimately show ?thesis by (rule device_closedD(2) [OF assms(1)])
qed

section \<open>The operations of the manager\<close>

lemma set_runtime_simps [simp]:
  "mgRuntime (set_runtime f m) = f (mgRuntime m)" "mgPath (set_runtime f m) = mgPath m"
  "mgWorld (set_runtime f m) = mgWorld m" "mgResumePending (set_runtime f m) = mgResumePending m"
  by (simp_all add: set_runtime_def)

lemma writable_set_runtime:
  assumes "writable_session env path P m"
    and "session_ok (f (mgRuntime m))" "rtActive (f (mgRuntime m))" "rtPrevious (f (mgRuntime m)) = rtPrevious (mgRuntime m)"
  shows "writable_session env path P (set_runtime f m)"
  using assms by (simp add: writable_session_def manager_ok_def world_ok_def)

lemma session_ok_restoring:
  "session_ok r \<Longrightarrow> rtActive r \<Longrightarrow> session_ok (r\<lparr>rtPhase := phaseRestoring, rtReason := reason, rtUpdatedAt := t\<rparr>)"
  by (simp add: session_ok_def)

lemma writable_ok: "writable_session env path P m \<Longrightarrow> session_ok (mgRuntime m) \<and> rtActive (mgRuntime m)"
  by (simp add: writable_session_def manager_ok_def)

text \<open>A step between writable sessions that keeps the previous settings and the pending flag.\<close>

lemma writable_step:
  assumes "session_step env path P m m'" "writable_session env path P m"
  shows "writable_session env path P m'" "mgRuntime m' = mgRuntime m" "mgResumePending m' = mgResumePending m"
  using assms by (auto simp: session_step_def world_step_def)

definition finalPhases :: "string set" where
  "finalPhases = {phaseCompleted, phaseCancelled, phaseTimedOut, phaseError}"

lemma restore_locked_ok:
  assumes s: "safe_env env path P" and w: "writable_session env path P m" and f: "finalPhase \<in> finalPhases"
    and r: "restore_locked env finalPhase reason m = (r, m')"
  shows "manager_ok env path P m' \<and> mgResumePending m' = mgResumePending m
    \<and> rtPrevious (mgRuntime m') = rtPrevious (mgRuntime m) \<and> (r = Inr () \<longleftrightarrow> \<not> rtActive (mgRuntime m'))"
proof -
  let ?m1 = "set_runtime (\<lambda>r. r\<lparr>rtPhase := phaseRestoring, rtReason := reason, rtUpdatedAt := now_of env m\<rparr>) m"
  have w1: "writable_session env path P ?m1"
    using w writable_ok [OF w] by (intro writable_set_runtime) (simp_all add: session_ok_restoring)
  note w2 = writable_step [OF try_save_step [OF s] w1]
  obtain es m3 where 3: "restore_all env (try_save env ?m1) = (es, m3)" by fastforce
  note w3 = writable_step [OF restore_all_step [OF session_closed [OF s] 3] w2(1)]
  have rt3: "rtPrevious (mgRuntime m3) = rtPrevious (mgRuntime m)" "mgResumePending m3 = mgResumePending m"
    using w2 w3 by simp_all
  show ?thesis
  proof (cases "es = []")
    case False
    let ?m4 = "set_runtime (\<lambda>r. r\<lparr>rtLastError := Joined ''; '' es, rtUpdatedAt := now_of env m3\<rparr>) m3"
    have "r = Inl (Joined ''; '' es)" "m' = try_save env ?m4"
      using r 3 False by (simp_all add: restore_locked_def Let_def)
    moreover have w4: "writable_session env path P ?m4"
      using w3(1) writable_ok [OF w3(1)] by (intro writable_set_runtime) (simp_all add: session_ok_def)
    ultimately show ?thesis
      using writable_step [OF try_save_step [OF s] w4] rt3 by (simp add: writable_session_def)
  next
    case True
    let ?m4 = "set_runtime (\<lambda>r. r\<lparr>rtActive := False, rtPhase := finalPhase, rtLastError := no_error,
                        rtDeadline := 0, rtUpdatedAt := now_of env m3\<rparr>) m3"
    obtain r5 m5 where 5: "save_locked env ?m4 = (r5, m5)" by fastforce
    have wo: "world_ok env path P ?m4" "session_ok (mgRuntime ?m4)"
      using w3(1) f by (auto simp: writable_session_def manager_ok_def world_ok_def session_ok_def finalPhases_def)
    note s5 = save_locked_ok [OF safe_envD [OF s] wo 5]
    note same = world_step_fields [OF conjunct1 [OF s5(1)]]
    show ?thesis
    proof (cases r5)
      case (Inr u)
      then have "r = Inr ()" "m' = m5" using r 3 True 5 by (simp_all add: restore_locked_def Let_def)
      then show ?thesis using s5(2) Inr same rt3 by simp
    next
      case (Inl e)
      let ?m6 = "set_runtime (\<lambda>r. r\<lparr>rtActive := True, rtPhase := phaseRestoring, rtLastError := e\<rparr>) m5"
      have m': "r = Inl e" "m' = ?m6" using r 3 True 5 Inl by (simp_all add: restore_locked_def Let_def)
      have "on_disk env path (mgWorld m5) = on_disk env path (mgWorld m3)" using s5(3) Inl by simp
      then have rec: "recorded env path (rtPrevious (mgRuntime m)) (mgWorld m5)"
        using w3(1) rt3 disk_cong(1) [of env path "mgWorld m5" "mgWorld m3"] by (simp add: writable_session_def manager_ok_def)
      have "session_ok (mgRuntime m3)" "rtActive (mgRuntime m3)" using writable_ok [OF w3(1)] by simp_all
      then have "session_ok (mgRuntime ?m6)" using same(1) by (simp add: session_ok_def)
      then show ?thesis using m' s5(1) rec same rt3 by (simp add: manager_ok_def world_ok_def)
    qed
  qed
qed

lemma restore_keeps:
  assumes "safe_env env path P" "writable_session env path P m" "finalPhase \<in> finalPhases"
  shows "manager_ok env path P (snd (restore_locked env finalPhase reason m))"
  using restore_locked_ok [OF assms prod.collapse [symmetric]] by blast

lemma final_phase_of_reason: "finalPhaseForReason reason \<in> finalPhases"
  by (simp add: finalPhaseForReason_def finalPhases_def)

lemma final_phases [simp]: "phaseCompleted \<in> finalPhases" "phaseCancelled \<in> finalPhases"
  "phaseTimedOut \<in> finalPhases" "phaseError \<in> finalPhases"
  by (simp_all add: finalPhases_def)

text \<open>Setting the control fields of a running session.\<close>

lemma writable_control:
  assumes "writable_session env path P m" "phase \<in> {phaseStarting, phaseCharging, phaseRestoring}"
    and "phase = phaseRestoring \<or> rtPhase (mgRuntime m) \<noteq> phaseRestoring"
  shows "writable_session env path P (set_runtime (\<lambda>r. r\<lparr>rtPhase := phase, rtReason := reason, rtLastError := e, rtUpdatedAt := t\<rparr>) m)"
    and "writable_session env path P (set_runtime (\<lambda>r. r\<lparr>rtPhase := phase, rtLastError := e, rtUpdatedAt := t\<rparr>) m)"
    and "writable_session env path P (set_runtime (\<lambda>r. r\<lparr>rtPhase := phase, rtUpdatedAt := t, rtLastError := e\<rparr>) m)"
    and "writable_session env path P (set_runtime (\<lambda>r. r\<lparr>rtPhase := phase, rtReason := reason, rtLastError := e\<rparr>) m)"
    and "writable_session env path P (set_runtime (\<lambda>r. r\<lparr>rtLastError := e, rtUpdatedAt := t\<rparr>) m)"
  using assms(2,3) writable_ok [OF assms(1)]
  by (intro writable_set_runtime [OF assms(1)]; auto simp: session_ok_def)+

lemma start_session_ok:
  assumes s: "safe_env env path P" and w: "writable_session env path P m" "rtPhase (mgRuntime m) \<noteq> phaseRestoring"
    and r: "start_session env m = (r, m')"
  shows "manager_ok env path P m'"
    and "r = Inr () \<Longrightarrow> rtActive (mgRuntime m') \<and> rtPhase (mgRuntime m') = phaseCharging"
proof -
  obtain r1 m1 where 1: "apply_storm_settings env m = (r1, m1)" by fastforce
  note w1 = writable_step [OF apply_storm_settings_step [OF session_closed [OF s] 1] w(1)]
  have "manager_ok env path P m' \<and> (r = Inr () \<longrightarrow> rtActive (mgRuntime m') \<and> rtPhase (mgRuntime m') = phaseCharging)"
  proof (cases r1)
    case (Inl e)
    let ?m2 = "set_runtime (\<lambda>r. r\<lparr>rtPhase := phaseRestoring, rtReason := ''start_failed'', rtLastError := e,
                      rtUpdatedAt := now_of env m1\<rparr>) m1"
    have w2: "writable_session env path P ?m2" by (rule writable_control(1) [OF w1(1)]) simp_all
    have "m' = snd (restore_locked env phaseError ''start_failed'' (try_save env ?m2))" "r \<noteq> Inr ()"
      using r 1 Inl by (auto simp: start_session_def Let_def split: prod.splits sum.splits)
    then show ?thesis
      using restore_keeps [OF s writable_step(1) [OF try_save_step [OF s] w2] final_phases(4)] by simp
  next
    case (Inr u)
    let ?m2 = "set_runtime (\<lambda>r. r\<lparr>rtPhase := phaseCharging, rtUpdatedAt := now_of env m1, rtLastError := no_error\<rparr>) m1"
    have w2: "writable_session env path P ?m2" by (rule writable_control(3) [OF w1(1)]) (simp_all add: w1(2) w(2))
    obtain r3 m3 where 3: "save_locked env ?m2 = (r3, m3)" by fastforce
    note w3 = writable_step [OF save_step [OF s 3] w2]
    show ?thesis
    proof (cases r3)
      case (Inl e)
      let ?m4 = "set_runtime (\<lambda>r. r\<lparr>rtPhase := phaseRestoring, rtReason := ''persistence_failed'', rtLastError := e\<rparr>) m3"
      have w4: "writable_session env path P ?m4" by (rule writable_control(4) [OF w3(1)]) simp_all
      have "m' = snd (restore_locked env phaseError ''persistence_failed'' ?m4)" "r \<noteq> Inr ()"
        using r 1 Inr 3 Inl by (auto simp: start_session_def Let_def split: prod.splits sum.splits)
      then show ?thesis using restore_keeps [OF s w4 final_phases(4)] by simp
    next
      case (Inr u')
      then have "m' = m3" using r 1 \<open>r1 = Inr u\<close> 3 by (simp add: start_session_def Let_def)
      then show ?thesis using w3 by (simp add: writable_session_def)
    qed
  qed
  then show "manager_ok env path P m'" "r = Inr () \<Longrightarrow> rtActive (mgRuntime m') \<and> rtPhase (mgRuntime m') = phaseCharging"
    by simp_all
qed

text \<open>The words read are as many as were asked for: the interface the Modbus service provides.\<close>

lemma previous_of_ok:
  assumes "safe_env env path P" "word_accessor (evReadWords env)" "previous_of env snap m = (r, m1)"
  shows "world_step m m1" "world_ok env path P m \<Longrightarrow> world_ok env path P m1"
    and "on_disk env path (mgWorld m1) = on_disk env path (mgWorld m)"
    and "r = Inr p \<Longrightarrow> length (psSchedule p) = timedChargeWords"
proof -
  have "m1 = m \<and> (\<nexists>p. r = Inr p) \<or> (\<exists>r1. call (evReadWords env timedChargeAddress (of_nat timedChargeWords)) m = (r1, m1)
      \<and> (\<forall>p. r = Inr p \<longrightarrow> r1 = Inr (psSchedule p)))"
    using assms(3) unfolding previous_of_def by (auto split: sum.splits prod.splits)
  then consider "m1 = m" "\<nexists>p. r = Inr p"
    | r1 where "evReadWords env timedChargeAddress (of_nat timedChargeWords) (mgWorld m) = (r1, mgWorld m1)"
        "world_step m m1" "\<forall>p. r = Inr p \<longrightarrow> r1 = Inr (psSchedule p)"
    using call_world_step by metis
  then have "world_step m m1 \<and> (world_ok env path P m \<longrightarrow> world_ok env path P m1)
    \<and> on_disk env path (mgWorld m1) = on_disk env path (mgWorld m) \<and> (\<forall>p. r = Inr p \<longrightarrow> length (psSchedule p) = timedChargeWords)"
  proof cases
    case 1
    then show ?thesis by auto
  next
    case (2 r1)
    have w: "mgWorld m1 = snd (evReadWords env timedChargeAddress (of_nat timedChargeWords) (mgWorld m))" using 2(1) by simp
    have disk: "on_disk env path (mgWorld m1) = on_disk env path (mgWorld m)"
      unfolding w by (rule on_disk_cong) (rule device_safe(3) [OF assms(1)])
    have "P (mgWorld m) \<Longrightarrow> P (mgWorld m1)" unfolding w by (rule device_safe(6) [OF assms(1)])
    moreover have "length ws = 7" if "r1 = Inr ws" for ws
      using word_accessor.rd_length [OF assms(2), of timedChargeAddress 7 "mgWorld m" ws "mgWorld m1"] 2(1) that
      by (simp add: timedChargeWords_def)
    ultimately show ?thesis
      using 2(2,3) disk disk_cong(2) [OF disk] by (auto simp: world_ok_def world_step_fields timedChargeWords_def)
  qed
  then show "world_step m m1" "world_ok env path P m \<Longrightarrow> world_ok env path P m1"
    "on_disk env path (mgWorld m1) = on_disk env path (mgWorld m)"
    "r = Inr p \<Longrightarrow> length (psSchedule p) = timedChargeWords" by simp_all
qed

lemma start_ok:
  assumes s: "safe_env env path P" and a: "word_accessor (evReadWords env)" and m: "manager_ok env path P m"
    and r: "start env g m = (r, m')"
  shows "manager_ok env path P m'"
    and "r = Inr () \<Longrightarrow> rtActive (mgRuntime m') \<and> rtPhase (mgRuntime m') = phaseCharging"
proof -
  let ?snap = "evSnapshot env (mgWorld m)"
  have "manager_ok env path P m' \<and> (r = Inr () \<longrightarrow> rtActive (mgRuntime m') \<and> rtPhase (mgRuntime m') = phaseCharging)"
  proof (cases "validateSettings g = Inr () \<and> \<not> rtActive (mgRuntime m) \<and> start_checks g ?snap = Inr ()")
    case False
    then have "m' = m \<and> r \<noteq> Inr ()"
      using r by (auto simp: start_def Let_def split: sum.splits if_splits)
    then show ?thesis using m by simp
  next
    case True
    obtain r1 m1 where 1: "previous_of env ?snap m = (r1, m1)" by fastforce
    note p1 = previous_of_ok [OF s a 1]
    have m1: "world_ok env path P m1" "mgRuntime m1 = mgRuntime m"
      using p1(2) m world_step_fields(1) [OF p1(1)] by (simp_all add: manager_ok_def)
    show ?thesis
    proof (cases r1)
      case (Inl e)
      then have "m' = m1 \<and> r \<noteq> Inr ()" using r True 1 by (auto simp: start_def Let_def)
      then show ?thesis using m m1 True by (simp add: manager_ok_def)
    next
      case (Inr p)
      let ?m2 = "set_runtime (\<lambda>_. start_runtime g p (now_of env m1)) m1"
      obtain r3 m3 where 3: "save_locked env ?m2 = (r3, m3)" by fastforce
      have "world_ok env path P ?m2" "session_ok (mgRuntime ?m2)"
        using m1 True p1(4) [OF Inr] by (simp_all add: world_ok_def session_ok_def start_runtime_def)
      note s3 = save_locked_ok [OF safe_envD [OF s] this 3]
      show ?thesis
      proof (cases r3)
        case (Inl e)
        then have "m' = set_runtime (\<lambda>_. runtime0) m3 \<and> r \<noteq> Inr ()"
          using r True 1 Inr 3 by (auto simp: start_def Let_def)
        then show ?thesis using s3(1) by (simp add: manager_ok_def world_ok_def session_ok_def runtime0_def)
      next
        case (Inr u)
        have "writable_session env path P m3" "rtPhase (mgRuntime m3) \<noteq> phaseRestoring"
          using s3(2) Inr world_step_fields(1) [OF conjunct1 [OF s3(1)]]
          by (simp_all add: writable_session_def start_runtime_def phaseStarting_def phaseRestoring_def)
        moreover have "start_session env m3 = (r, m')"
          using r True 1 \<open>r1 = Inr p\<close> 3 Inr by (simp add: start_def Let_def)
        ultimately show ?thesis using start_session_ok [OF s] by blast
      qed
    qed
  qed
  then show "manager_ok env path P m'" "r = Inr () \<Longrightarrow> rtActive (mgRuntime m') \<and> rtPhase (mgRuntime m') = phaseCharging"
    by simp_all
qed

lemma writableI: "manager_ok env path P m \<Longrightarrow> rtActive (mgRuntime m) \<Longrightarrow> writable_session env path P m"
  by (simp add: writable_session_def)

lemma cancel_ok:
  assumes "safe_env env path P" "manager_ok env path P m"
  shows "manager_ok env path P (snd (cancel env m))"
  using assms restore_keeps [OF assms(1) writableI [OF assms(2)] final_phases(2)]
  by (simp add: cancel_def)

lemma check_session_ok:
  assumes "safe_env env path P" "manager_ok env path P m" "rtActive (mgRuntime m)"
  shows "manager_ok env path P (check_session env snap m)"
  using assms(2) restore_keeps [OF assms(1) writableI [OF assms(2,3)]]
  by (auto simp: check_session_def split: option.splits sum.splits prod.splits)

lemma resume_flag_ok [simp]:
  "manager_ok env path P (m\<lparr>mgResumePending := b\<rparr>) = manager_ok env path P m"
  "writable_session env path P (m\<lparr>mgResumePending := b\<rparr>) = writable_session env path P m"
  by (simp_all add: manager_ok_def world_ok_def writable_session_def)

lemma evaluate_ok:
  assumes s: "safe_env env path P" and m: "manager_ok env path P m"
  shows "manager_ok env path P (evaluate env m)"
proof (cases "rtActive (mgRuntime m)")
  case False
  then show ?thesis using m by (simp add: evaluate_def Let_def)
next
  case True
  have w: "writable_session env path P m" using m True by (rule writableI)
  have saved: "manager_ok env path P (try_save env m1)" if "writable_session env path P m1" for m1
    using writable_step(1) [OF try_save_step [OF s] that] by (simp add: writable_session_def)
  let ?snap = "evSnapshot env (mgWorld m)"
  consider (offline) "\<not> modbus_connected ?snap"
    | (restoring) "modbus_connected ?snap" "rtPhase (mgRuntime m) = phaseRestoring"
    | (due) "modbus_connected ?snap" "rtPhase (mgRuntime m) \<noteq> phaseRestoring"
        "rtDeadline (mgRuntime m) \<noteq> 0 \<and> rtDeadline (mgRuntime m) \<le> now_of env m"
    | (running) "modbus_connected ?snap" "rtPhase (mgRuntime m) \<noteq> phaseRestoring"
        "\<not> (rtDeadline (mgRuntime m) \<noteq> 0 \<and> rtDeadline (mgRuntime m) \<le> now_of env m)"
    by blast
  then show ?thesis
  proof cases
    case offline
    have "manager_ok env path P (try_save env (set_runtime (\<lambda>r. r\<lparr>rtPhase := phaseRestoring, rtReason := i,
                rtLastError := e, rtUpdatedAt := t\<rparr>) m))" for i e t
      by (rule saved) (rule writable_control(1) [OF w], simp_all)
    then show ?thesis using offline True m by (simp add: evaluate_def Let_def)
  next
    case restoring
    obtain r1 m1 where 1: "restore_locked env (finalPhaseForReason (rtReason (mgRuntime m))) (rtReason (mgRuntime m)) m = (r1, m1)"
      by fastforce
    note o1 = restore_locked_ok [OF s w final_phase_of_reason 1]
    show ?thesis
    proof (cases r1)
      case (Inl e)
      then have "writable_session env path P m1" using o1 by (simp add: writable_session_def)
      then have "writable_session env path P (set_runtime (\<lambda>r. r\<lparr>rtLastError := e, rtUpdatedAt := now_of env m1\<rparr>) m1)"
        using writable_ok [of env path P m1] by (intro writable_set_runtime) (simp_all add: session_ok_def)
      then show ?thesis using restoring True 1 Inl saved by (simp add: evaluate_def Let_def)
    next
      case (Inr u)
      then show ?thesis using restoring True 1 o1 by (simp add: evaluate_def Let_def)
    qed
  next
    case due
    then show ?thesis using True restore_keeps [OF s w final_phases(3)] by (simp add: evaluate_def Let_def)
  next
    case running
    obtain r1 m1 where 1: "apply_storm_settings env m = (r1, m1)" by fastforce
    note w1 = writable_step [OF apply_storm_settings_step [OF session_closed [OF s] 1] w]
    have rest: "manager_ok env path P (try_save env (set_runtime (\<lambda>r. r\<lparr>rtPhase := phaseRestoring, rtReason := i,
                rtLastError := e, rtUpdatedAt := t\<rparr>) m1))" for i e t
      by (rule saved) (rule writable_control(1) [OF w1(1)], simp_all)
    let ?m2 = "\<lambda>t. set_runtime (\<lambda>r. r\<lparr>rtPhase := phaseCharging, rtLastError := no_error, rtUpdatedAt := t\<rparr>) (m1\<lparr>mgResumePending := False\<rparr>)"
    have "writable_session env path P (?m2 t)" for t
      by (rule writable_control(2)) (simp_all add: w1 running)
    then have "writable_session env path P (try_save env (?m2 t))" for t
      by (rule writable_step(1) [OF try_save_step [OF s]])
    then have charged: "manager_ok env path P (check_session env ?snap (try_save env (?m2 t)))" for t
      by (intro check_session_ok [OF s]) (simp_all add: writable_session_def)
    show ?thesis
      using running True m rest charged check_session_ok [OF s m True] 1
      by (cases r1) (auto simp: evaluate_def Let_def)
  qed
qed


section \<open>Reachable managers\<close>

text \<open>One call of an operation, a change of the world outside (telemetry, the device, the clock), or
  a restart of the process.\<close>

inductive manager_step :: "'w storm_env \<Rightarrow> ('w \<Rightarrow> 'w \<Rightarrow> bool) \<Rightarrow> 'w manager \<Rightarrow> 'w manager \<Rightarrow> bool"
  for env outside where
  start_call: "start env g m = (r, m') \<Longrightarrow> manager_step env outside m m'"
| cancel_call: "cancel env m = (r, m') \<Longrightarrow> manager_step env outside m m'"
| evaluate_call: "manager_step env outside m (evaluate env m)"
| outside: "outside (mgWorld m) w \<Longrightarrow> manager_step env outside m (m\<lparr>mgWorld := w\<rparr>)"
| restart: "new_manager env (mgPath m) (mgWorld m) = Inr m' \<Longrightarrow> manager_step env outside m m'"

text \<open>What changes outside does not touch the file of the manager.\<close>

definition outside_ok :: "'w storm_env \<Rightarrow> string \<Rightarrow> ('w \<Rightarrow> bool) \<Rightarrow> ('w \<Rightarrow> 'w \<Rightarrow> bool) \<Rightarrow> bool" where
  "outside_ok env path P outside \<longleftrightarrow>
     (\<forall>w w'. outside w w' \<longrightarrow> evReadFile env path w' = evReadFile env path w \<and> (P w \<longrightarrow> P w'))"

lemma session_ok_loaded: "session_ok r \<Longrightarrow> rtPhase r \<noteq> '''' \<and> rtVersion r = 2"
  by (cases "rtActive r")
    (auto simp: session_ok_def phaseIdle_def phaseStarting_def phaseCharging_def phaseRestoring_def
      phaseCompleted_def phaseCancelled_def phaseTimedOut_def phaseError_def)

lemma new_manager_cases:
  assumes "new_manager env path w = Inr m"
  shows "mgPath m = path" "mgWorld m = w" "mgResumePending m = rtActive (mgRuntime m)"
    and "mgRuntime m = runtime0 \<or> (\<exists>r0. on_disk env path w = Some r0 \<and>
      (session_ok r0 \<longrightarrow> mgRuntime m = r0))"
  using assms
  by (auto simp: new_manager_def load_def Let_def on_disk_def runtime0_def
      split: sum.splits load_error.splits if_splits dest: session_ok_loaded)

lemma new_manager_ok:
  assumes "file_ok env path w" "P w" "new_manager env path w = Inr m"
  shows "manager_ok env path P m"
proof -
  note c = new_manager_cases [OF assms(3)]
  have "world_ok env path P m" using c(1,2) assms(1,2) by (simp add: world_ok_def)
  moreover from c(4) have "session_ok (mgRuntime m) \<and> (rtActive (mgRuntime m) \<longrightarrow> recorded env path (rtPrevious (mgRuntime m)) w)"
  proof
    assume "\<exists>r0. on_disk env path w = Some r0 \<and> (session_ok r0 \<longrightarrow> mgRuntime m = r0)"
    then obtain r0 where r0: "on_disk env path w = Some r0" "session_ok r0 \<longrightarrow> mgRuntime m = r0" by blast
    then have "session_ok r0" using assms(1) by (simp add: file_ok_def)
    with r0 show ?thesis by (auto simp: recorded_def)
  qed (simp add: runtime0_def session_ok_def)
  ultimately show ?thesis using c(2) by (simp add: manager_ok_def)
qed

lemma manager_step_ok:
  assumes s: "safe_env env path P" and a: "word_accessor (evReadWords env)" and o: "outside_ok env path P outside"
    and m: "manager_ok env path P m" and st: "manager_step env outside m m'"
  shows "manager_ok env path P m'"
  using st
proof (cases rule: manager_step.cases)
  case (start_call g r)
  then show ?thesis using start_ok(1) [OF s a m] by blast
next
  case (cancel_call r)
  then show ?thesis using cancel_ok [OF s m] by simp
next
  case evaluate_call
  then show ?thesis using evaluate_ok [OF s m] by simp
next
  case (outside w)
  then have "evReadFile env path w = evReadFile env path (mgWorld m)" "P (mgWorld m) \<Longrightarrow> P w"
    using o by (auto simp: outside_ok_def)
  then show ?thesis
    using m outside disk_cong [OF on_disk_cong [of env path w "mgWorld m"]] by (simp add: manager_ok_def world_ok_def)
next
  case restart
  then show ?thesis using m by (intro new_manager_ok) (auto simp: manager_ok_def world_ok_def)
qed

lemma reachable_manager_ok:
  assumes "safe_env env path P" "word_accessor (evReadWords env)" "outside_ok env path P outside"
    and "manager_ok env path P m0" "(manager_step env outside)\<^sup>*\<^sup>* m0 m"
  shows "manager_ok env path P m"
  using assms(5,4) by (induction rule: rtranclp_induct) (auto intro: manager_step_ok [OF assms(1-3)])

section \<open>Properties of the manager\<close>

text \<open>C22: the device is only written while the file holds an active session with the settings to
  restore: from a start of the process with no file or one that a manager wrote, through any calls,
  restarts and changes outside, a property of the world holds that device writes have to keep only
  when the file holds such a session. And the control state of every manager so reached is well
  formed: an active session has validated settings, a schedule of seven words to restore and its
  own deadline, or is being restored.\<close>

theorem storm_write_ahead:
  assumes "durable env path" "kept_when_recorded env path P" "word_accessor (evReadWords env)"
    and "outside_ok env path P outside" "file_ok env path w0" "P w0"
    and "new_manager env path w0 = Inr m0" "(manager_step env outside)\<^sup>*\<^sup>* m0 m"
  shows "P (mgWorld m) \<and> session_ok (mgRuntime m)
    \<and> (rtActive (mgRuntime m) \<longrightarrow> recorded env path (rtPrevious (mgRuntime m)) (mgWorld m))"
  using reachable_manager_ok [OF _ assms(3,4) new_manager_ok [where P = P, OF assms(5-7)] assms(8)] assms(1,2)
  by (simp add: safe_env_def manager_ok_def world_ok_def)

text \<open>C23: an active session survives a crash at any moment between two operations: the next start of
  the process finds it active, with the same previous settings, and will apply its settings again.\<close>

theorem storm_survives_restart:
  assumes "durable env path" "word_accessor (evReadWords env)" "outside_ok env path (\<lambda>_. True) outside"
    and "file_ok env path w0" "new_manager env path w0 = Inr m0" "(manager_step env outside)\<^sup>*\<^sup>* m0 m"
    and "rtActive (mgRuntime m)"
  shows "\<exists>m'. new_manager env path (mgWorld m) = Inr m' \<and> rtActive (mgRuntime m') \<and> mgResumePending m'
    \<and> rtPrevious (mgRuntime m') = rtPrevious (mgRuntime m)"
proof -
  have "safe_env env path (\<lambda>_. True)" using assms(1) by (simp add: safe_env_def kept_when_recorded_def)
  from reachable_manager_ok [OF this assms(2,3) new_manager_ok [where P = "\<lambda>_. True", OF assms(4) TrueI assms(5)] assms(6)]
  obtain r data where r: "evReadFile env path (mgWorld m) = Inr data" "evUnmarshal env data runtime0 = Inr r"
    "session_ok r" "rtActive r" "rtPrevious r = rtPrevious (mgRuntime m)"
    using assms(7) by (auto simp: manager_ok_def recorded_def on_disk_def split: sum.splits)
  show ?thesis using r session_ok_loaded [OF r(3)] by (simp add: new_manager_def load_def Let_def)
qed


section \<open>The control state after an operation\<close>

lemma save_world_step: "save_locked env m = (r, m') \<Longrightarrow> world_step m m'"
  by (cases rule: save_locked_cases)

lemma try_save_fields [simp]:
  "mgRuntime (try_save env m) = mgRuntime m" "mgPath (try_save env m) = mgPath m"
  "mgResumePending (try_save env m) = mgResumePending m"
  using world_step_fields [OF save_world_step [OF prod.collapse [symmetric]]] by (simp_all add: try_save_def)

text \<open>Restoring ends the session with the given phase, or leaves it active and restoring.\<close>

lemma restore_locked_control:
  assumes "restore_locked env finalPhase reason m = (r, m')"
  shows "rtReason (mgRuntime m') = reason \<and> rtPrevious (mgRuntime m') = rtPrevious (mgRuntime m)
    \<and> rtSettings (mgRuntime m') = rtSettings (mgRuntime m) \<and> mgResumePending m' = mgResumePending m
    \<and> (if r = Inr () then \<not> rtActive (mgRuntime m') \<and> rtPhase (mgRuntime m') = finalPhase \<and> rtLastError (mgRuntime m') = no_error
       else rtPhase (mgRuntime m') = phaseRestoring \<and> (rtActive (mgRuntime m) \<longrightarrow> rtActive (mgRuntime m')))"
proof -
  let ?m1 = "set_runtime (\<lambda>r. r\<lparr>rtPhase := phaseRestoring, rtReason := reason, rtUpdatedAt := now_of env m\<rparr>) m"
  obtain es m3 where 3: "restore_all env (try_save env ?m1) = (es, m3)" by fastforce
  note f3 = world_step_fields [OF restore_all_step [OF world_closed 3]]
  let ?m4 = "set_runtime (\<lambda>r. r\<lparr>rtActive := False, rtPhase := finalPhase, rtLastError := no_error,
                        rtDeadline := 0, rtUpdatedAt := now_of env m3\<rparr>) m3"
  obtain r5 m5 where 5: "save_locked env ?m4 = (r5, m5)" by fastforce
  note f5 = world_step_fields [OF save_world_step [OF 5]]
  show ?thesis
    using assms 3 5 f3 f5
    by (cases r5) (auto simp: restore_locked_def Let_def split: if_splits)
qed

end
