(* ===== verification/StormDevice.thy ===== *)
theory StormDevice
  imports StormProofs
begin

text \<open>
  The storm charge manager and the device it writes: what a schedule leaves on the device, that a
  session ends with the previous settings restored, which starts succeed, and that a due session
  ends. At the end a concrete device at which the properties are instantiated.
\<close>

section \<open>What the device holds\<close>

text \<open>The words of the schedule.\<close>

abbreviation schedule_word :: "nat \<Rightarrow> u16" where
  "schedule_word i \<equiv> timedChargeAddress + of_nat i"

definition scheduleWords :: "u16 set" where
  "scheduleWords = schedule_word ` {..<timedChargeWords}"

lemma schedule_word_inj: "i < 7 \<Longrightarrow> j < 7 \<Longrightarrow> schedule_word i = schedule_word j \<longleftrightarrow> i = j"
proof -
  assume "i < 7" "j < 7"
  then have "unat (of_nat i :: u16) = i" "unat (of_nat j :: u16) = j" by (simp_all add: unat_of_nat)
  then show ?thesis by (metis add_left_cancel)
qed

text \<open>What is assumed of a device: \<open>word\<close> observes its words and \<open>holds\<close> the value of a control.
  A write that succeeds takes effect, one that fails may have taken effect, and nothing else of the
  schedule and of the managed controls changes; the files are not part of the device.\<close>

definition device_ok ::
  "'w storm_env \<Rightarrow> string \<Rightarrow> ('w \<Rightarrow> u16 \<Rightarrow> u16) \<Rightarrow> ('w \<Rightarrow> string \<Rightarrow> go_value \<Rightarrow> bool) \<Rightarrow> bool" where
  "device_ok env path word holds \<longleftrightarrow>
     (\<forall>a v w w'. evWriteWords env a [v] w = (Inr (), w') \<longrightarrow> word w' a = v)
     \<and> (\<forall>a v w b. b \<in> scheduleWords \<longrightarrow>
          word (snd (evWriteWords env a [v] w)) b = word w b \<or> (b = a \<and> word (snd (evWriteWords env a [v] w)) b = v))
     \<and> (\<forall>i v w w'. evWriteRegister env i v w = (Inr (), w') \<longrightarrow> i \<in> managedRegisters \<longrightarrow> holds w' i v)
     \<and> (\<forall>i j v x w. i \<in> managedRegisters \<longrightarrow> j \<in> managedRegisters \<longrightarrow> i \<noteq> j \<longrightarrow> holds w j x \<longrightarrow>
          holds (snd (evWriteRegister env i v w)) j x)
     \<and> (\<forall>i v w b. i \<in> managedRegisters \<longrightarrow> b \<in> scheduleWords \<longrightarrow> word (snd (evWriteRegister env i v w)) b = word w b)
     \<and> (\<forall>w. word (snd (evMkdirFor env path w)) = word w \<and> holds (snd (evMkdirFor env path w)) = holds w)
     \<and> (\<forall>data w. word (snd (evWriteFile env (path @ ''.tmp'') data w)) = word w
          \<and> holds (snd (evWriteFile env (path @ ''.tmp'') data w)) = holds w)
     \<and> (\<forall>w. word (snd (evRename env (path @ ''.tmp'') path w)) = word w
          \<and> holds (snd (evRename env (path @ ''.tmp'') path w)) = holds w)"

lemma device_okD:
  assumes "device_ok env path word holds"
  shows "evWriteWords env a [v] w = (Inr (), w') \<Longrightarrow> word w' a = v"
    and "b \<in> scheduleWords \<Longrightarrow> word (snd (evWriteWords env a [v] w)) b = word w b \<or> (b = a \<and> word (snd (evWriteWords env a [v] w)) b = v)"
    and "evWriteRegister env i x w = (Inr (), w') \<Longrightarrow> i \<in> managedRegisters \<Longrightarrow> holds w' i x"
    and "i \<in> managedRegisters \<Longrightarrow> j \<in> managedRegisters \<Longrightarrow> i \<noteq> j \<Longrightarrow> holds w j y \<Longrightarrow> holds (snd (evWriteRegister env i x w)) j y"
    and "i \<in> managedRegisters \<Longrightarrow> b \<in> scheduleWords \<Longrightarrow> word (snd (evWriteRegister env i x w)) b = word w b"
  using assms unfolding device_ok_def by simp_all

text \<open>The device holds the settings from before the session.\<close>

definition restored ::
  "('w \<Rightarrow> u16 \<Rightarrow> u16) \<Rightarrow> ('w \<Rightarrow> string \<Rightarrow> go_value \<Rightarrow> bool) \<Rightarrow> previous_settings \<Rightarrow> 'w \<Rightarrow> bool" where
  "restored word holds p w \<longleftrightarrow>
     map (\<lambda>i. word w (schedule_word i)) [0..<timedChargeWords] = psSchedule p
     \<and> holds w ''mains_charge_current_limit'' (VFloat (psMainsCurrentA p))
     \<and> holds w ''battery_charge_cutoff_soc'' (VInt (psCutoffSOC p))"

lemma save_device:
  assumes "device_ok env (mgPath m) word holds" "save_locked env m = (r, m')"
  shows "word (mgWorld m') = word (mgWorld m) \<and> holds (mgWorld m') = holds (mgWorld m)"
  using assms(2)
proof (cases rule: save_locked_cases)
  case mkdir
  then show ?thesis using assms(1) unfolding device_ok_def by (metis snd_conv)
next
  case marshal
  then show ?thesis using assms(1) unfolding device_ok_def by (metis snd_conv)
next
  case wrote
  then show ?thesis using assms(1) unfolding device_ok_def by (metis snd_conv)
next
  case rename
  then show ?thesis using assms(1) unfolding device_ok_def by (metis snd_conv)
next
  case saved
  then show ?thesis using assms(1) unfolding device_ok_def by (metis snd_conv)
qed

lemma schedule_words_mem: "i < 7 \<Longrightarrow> schedule_word i \<in> scheduleWords"
  by (auto simp: scheduleWords_def timedChargeWords_def)

text \<open>One word of the schedule: after the write, successful or not, and the others.\<close>

lemma write_word_effect:
  assumes "device_ok env path word holds" "call (evWriteWords env (schedule_word k) [v]) m = (r, m')" "k < 7" "i < 7"
  shows "word (mgWorld m') (schedule_word i) = word (mgWorld m) (schedule_word i)
      \<or> i = k \<and> word (mgWorld m') (schedule_word i) = v"
    and "r = Inr () \<Longrightarrow> word (mgWorld m') (schedule_word k) = v"
proof -
  have c: "evWriteWords env (schedule_word k) [v] (mgWorld m) = (r, mgWorld m')"
    using call_world_step [OF assms(2)] by simp
  show "word (mgWorld m') (schedule_word i) = word (mgWorld m) (schedule_word i)
      \<or> i = k \<and> word (mgWorld m') (schedule_word i) = v"
    using device_okD(2) [OF assms(1) schedule_words_mem [OF assms(4)], of "schedule_word k" v "mgWorld m"] c
      schedule_word_inj [OF assms(4,3)] by auto
  show "word (mgWorld m') (schedule_word k) = v" if "r = Inr ()"
    using device_okD(1) [OF assms(1)] c that by simp
qed

lemma write_slots_effect:
  assumes d: "device_ok env path word holds"
  shows "write_slots env off vs m = (r, m') \<Longrightarrow> off + length vs \<le> 6 \<Longrightarrow>
    (\<forall>i < 7. \<not> (off \<le> i \<and> i < off + length vs) \<longrightarrow> word (mgWorld m') (schedule_word i) = word (mgWorld m) (schedule_word i))
    \<and> (r = Inr () \<longrightarrow> (\<forall>i < length vs. word (mgWorld m') (schedule_word (off + i)) = vs ! i))"
proof (induction vs arbitrary: off m)
  case (Cons v vs)
  obtain r1 m1 where c: "call (evWriteWords env (schedule_word off) [v]) m = (r1, m1)" by fastforce
  have off: "off < 7" using Cons.prems(2) by simp
  note e = write_word_effect [OF d c off]
  have others: "\<forall>i < 7. i \<noteq> off \<longrightarrow> word (mgWorld m1) (schedule_word i) = word (mgWorld m) (schedule_word i)"
    using e(1) by blast
  show ?case
  proof (cases r1)
    case (Inl x)
    then show ?thesis using Cons.prems(1) c others by auto
  next
    case (Inr u)
    then have w: "write_slots env (Suc off) vs m1 = (r, m')" using Cons.prems(1) c by simp
    have ih: "\<forall>i < 7. \<not> (Suc off \<le> i \<and> i < Suc off + length vs) \<longrightarrow> word (mgWorld m') (schedule_word i) = word (mgWorld m1) (schedule_word i)"
      "r = Inr () \<Longrightarrow> \<forall>i < length vs. word (mgWorld m') (schedule_word (Suc off + i)) = vs ! i"
      using Cons.IH [OF w] Cons.prems(2) by auto
    have "word (mgWorld m') (schedule_word off) = v" using ih(1) off e(2) [OF off] Inr by simp
    then have "r = Inr () \<Longrightarrow> word (mgWorld m') (schedule_word (off + i)) = (v # vs) ! i" if "i < Suc (length vs)" for i
      using ih(2) that by (cases i) auto
    then show ?thesis using ih(1) others by auto
  qed
qed simp

lemma write_enable_effect:
  assumes "device_ok env path word holds" "write_enable env v m = (r, m')"
  shows "i < 6 \<Longrightarrow> word (mgWorld m') (schedule_word i) = word (mgWorld m) (schedule_word i)"
    and "word (mgWorld m') (schedule_word 6) = word (mgWorld m) (schedule_word 6) \<or> word (mgWorld m') (schedule_word 6) = v"
    and "r = Inr () \<Longrightarrow> word (mgWorld m') (schedule_word 6) = v"
proof -
  obtain r1 where c: "call (evWriteWords env (schedule_word 6) [v]) m = (r1, m')" "r = Inr () \<Longrightarrow> r1 = Inr ()"
    using assms(2) by (auto simp: write_enable_def split: prod.splits sum.splits)
  note e = write_word_effect [OF assms(1) c(1)]
  show "i < 6 \<Longrightarrow> word (mgWorld m') (schedule_word i) = word (mgWorld m) (schedule_word i)" using e(1) [of i] by auto
  show "word (mgWorld m') (schedule_word 6) = word (mgWorld m) (schedule_word 6) \<or> word (mgWorld m') (schedule_word 6) = v"
    using e(1) [of 6] by auto
  show "r = Inr () \<Longrightarrow> word (mgWorld m') (schedule_word 6) = v" using e(2) [of 6] c(2) by auto
qed

lemma schedule_complete:
  "(\<forall>i < 7. f i = vs ! i) \<longleftrightarrow> (\<forall>i < 6. f i = vs ! i) \<and> f 6 = vs ! (6::nat)"
proof -
  have "i < 7 \<longleftrightarrow> i < 6 \<or> i = 6" for i :: nat by auto
  then show ?thesis by auto
qed

lemma write_schedule_effect:
  assumes d: "device_ok env path word holds" and w: "write_schedule env vs m = (r, m')"
  shows "r = Inr () \<Longrightarrow> \<forall>i < 7. word (mgWorld m') (schedule_word i) = vs ! i"
    and "vs ! 6 = 0 \<Longrightarrow> word (mgWorld m') (schedule_word 6) = 0
      \<or> (\<forall>i < 6. word (mgWorld m') (schedule_word i) = word (mgWorld m) (schedule_word i))"
    and "vs ! 6 \<noteq> 0 \<Longrightarrow> word (mgWorld m') (schedule_word 6) = word (mgWorld m) (schedule_word 6)
      \<or> (\<forall>i < 6. word (mgWorld m') (schedule_word i) = vs ! i)"
proof -
  let ?w = "\<lambda>m i. word (mgWorld m) (schedule_word i)"
  have "(r = Inr () \<longrightarrow> (\<forall>i < 7. ?w m' i = vs ! i))
    \<and> (vs ! 6 = 0 \<longrightarrow> ?w m' 6 = 0 \<or> (\<forall>i < 6. ?w m' i = ?w m i))
    \<and> (vs ! 6 \<noteq> 0 \<longrightarrow> ?w m' 6 = ?w m 6 \<or> (\<forall>i < 6. ?w m' i = vs ! i))"
  proof (cases "length vs = 7")
    case False
    then have "r \<noteq> Inr ()" "m' = m" using w by (auto simp: write_schedule_def timedChargeWords_def)
    then show ?thesis by simp
  next
    case len: True
    show ?thesis
    proof (cases "vs ! 6 = 0")
      case True
      obtain r1 m1 where 1: "write_enable env 0 m = (r1, m1)" by fastforce
      note e1 = write_enable_effect [OF d 1]
      show ?thesis
      proof (cases r1)
        case (Inl e)
        then have "r \<noteq> Inr ()" "m' = m1" using w len True 1 by (auto simp: write_schedule_def timedChargeWords_def)
        then show ?thesis using e1(1) True by simp
      next
        case (Inr u)
        obtain r2 m2 where 2: "write_slots env 0 (take 6 vs) m1 = (r2, m2)" by fastforce
        have e2: "\<forall>i < 7. \<not> i < 6 \<longrightarrow> ?w m2 i = ?w m1 i" "r2 = Inr () \<Longrightarrow> \<forall>i < 6. ?w m2 i = vs ! i"
          using write_slots_effect [OF d 2] len by simp_all
        have "?w m2 6 = ?w m1 6" using spec [OF e2(1), of 6] by simp
        then have six: "?w m2 6 = 0" using e1(3) Inr by simp
        have "m' = m2" "r = Inr () \<longleftrightarrow> r2 = Inr ()"
          using w len True 1 2 Inr by (auto simp: write_schedule_def timedChargeWords_def split: sum.splits)
        then show ?thesis using six True e2(2) by (simp add: schedule_complete)
      qed
    next
      case False
      obtain r2 m2 where 2: "write_slots env 0 (take 6 vs) m = (r2, m2)" by fastforce
      have e2: "\<forall>i < 7. \<not> i < 6 \<longrightarrow> ?w m2 i = ?w m i" "r2 = Inr () \<Longrightarrow> \<forall>i < 6. ?w m2 i = vs ! i"
        using write_slots_effect [OF d 2] len by simp_all
      have six: "?w m2 6 = ?w m 6" using spec [OF e2(1), of 6] by simp
      show ?thesis
      proof (cases r2)
        case (Inl e)
        then have "r \<noteq> Inr ()" "m' = m2" using w len False 2 by (auto simp: write_schedule_def timedChargeWords_def)
        then show ?thesis using six False by simp
      next
        case (Inr u)
        obtain r3 m3 where 3: "write_enable env (vs ! 6) m2 = (r3, m3)" by fastforce
        note e3 = write_enable_effect [OF d 3]
        have slots: "\<forall>i < 6. ?w m3 i = vs ! i" using e2(2) e3(1) Inr by simp
        have "m' = m3" "r = r3" using w len False 2 Inr 3 by (auto simp: write_schedule_def timedChargeWords_def)
        then show ?thesis using slots e3(3) False by (simp add: schedule_complete)
      qed
    qed
  qed
  then show "r = Inr () \<Longrightarrow> \<forall>i < 7. ?w m' i = vs ! i"
    "vs ! 6 = 0 \<Longrightarrow> ?w m' 6 = 0 \<or> (\<forall>i < 6. ?w m' i = ?w m i)"
    "vs ! 6 \<noteq> 0 \<Longrightarrow> ?w m' 6 = ?w m 6 \<or> (\<forall>i < 6. ?w m' i = vs ! i)" by blast+
qed

text \<open>C24: the order in which a schedule is written, seen in what is left when it succeeds or fails at
  any of its words: a schedule that disables timed charging has disabled it before the first slot is
  changed, one that enables it does so only once all six slot words are the new ones (until then the
  enable word is what it was), and a success leaves all seven words of the schedule.\<close>

theorem storm_schedule_order:
  assumes "device_ok env path word holds" "write_schedule env vs m = (r, m')"
  shows "(r = Inr () \<longrightarrow> (\<forall>i < 7. word (mgWorld m') (schedule_word i) = vs ! i))
    \<and> (if vs ! 6 = 0
       then word (mgWorld m') (schedule_word 6) = 0
         \<or> (\<forall>i < 6. word (mgWorld m') (schedule_word i) = word (mgWorld m) (schedule_word i))
       else word (mgWorld m') (schedule_word 6) = word (mgWorld m) (schedule_word 6)
         \<or> (\<forall>i < 6. word (mgWorld m') (schedule_word i) = vs ! i))"
  using write_schedule_effect [OF assms] by simp

lemma managed [simp]: "''battery_charge_cutoff_soc'' \<in> managedRegisters" "''mains_charge_current_limit'' \<in> managedRegisters"
  by (simp_all add: managedRegisters_def)

lemma restore_locked_restored:
  assumes d: "device_ok env (mgPath m) word holds" and len: "length (psSchedule (rtPrevious (mgRuntime m))) = timedChargeWords"
    and r: "restore_locked env finalPhase reason m = (Inr (), m')"
  shows "restored word holds (rtPrevious (mgRuntime m)) (mgWorld m')"
proof -
  let ?p = "rtPrevious (mgRuntime m)"
  let ?m1 = "set_runtime (\<lambda>r. r\<lparr>rtPhase := phaseRestoring, rtReason := reason, rtUpdatedAt := now_of env m\<rparr>) m"
  let ?m2 = "try_save env ?m1"
  obtain r3 m3 where 3: "write_schedule env (psSchedule ?p) ?m2 = (r3, m3)" by fastforce
  note f3 = world_step_fields [OF write_schedule_step [OF world_closed 3]]
  obtain r4 m4 where 4: "call (evWriteRegister env ''mains_charge_current_limit'' (VFloat (psMainsCurrentA ?p))) m3 = (r4, m4)"
    by fastforce
  obtain r5 m5 where 5: "call (evWriteRegister env ''battery_charge_cutoff_soc'' (VInt (psCutoffSOC ?p))) m4 = (r5, m5)"
    by fastforce
  obtain es where es: "restore_all env ?m2 = (es, m5)" "es = [] \<longleftrightarrow> r3 = Inr () \<and> r4 = Inr () \<and> r5 = Inr ()"
    using len 3 4 5 f3 by (cases r3; cases r4; cases r5) (simp_all add: restore_all_def restore_schedule_def Let_def)
  let ?m6 = "set_runtime (\<lambda>r. r\<lparr>rtActive := False, rtPhase := finalPhase, rtLastError := no_error,
                        rtDeadline := 0, rtUpdatedAt := now_of env m5\<rparr>) m5"
  have nil: "es = []" and save: "save_locked env ?m6 = (Inr (), m')"
    using r es by (auto simp: restore_locked_def Let_def split: if_splits prod.splits sum.splits)
  have ok: "r3 = Inr ()" "r4 = Inr ()" "r5 = Inr ()" using es(2) nil by simp_all
  have c: "evWriteRegister env ''mains_charge_current_limit'' (VFloat (psMainsCurrentA ?p)) (mgWorld m3) = (Inr (), mgWorld m4)"
    "evWriteRegister env ''battery_charge_cutoff_soc'' (VInt (psCutoffSOC ?p)) (mgWorld m4) = (Inr (), mgWorld m5)"
    using call_world_step [OF 4] call_world_step [OF 5] ok by simp_all
  have words: "word (mgWorld m5) (schedule_word i) = psSchedule ?p ! i" if "i < 7" for i
    using write_schedule_effect(1) [OF d 3 ok(1)] that schedule_words_mem [OF that]
      device_okD(5) [OF d managed(2), of _ "VFloat (psMainsCurrentA ?p)" "mgWorld m3"]
      device_okD(5) [OF d managed(1), of _ "VInt (psCutoffSOC ?p)" "mgWorld m4"] c
    by simp
  have mains: "holds (mgWorld m5) ''mains_charge_current_limit'' (VFloat (psMainsCurrentA ?p))"
    using device_okD(3) [OF d c(1) managed(2)]
      device_okD(4) [OF d managed(1,2), of "mgWorld m4" _ "VInt (psCutoffSOC ?p)"] c(2) by simp
  have cutoff: "holds (mgWorld m5) ''battery_charge_cutoff_soc'' (VInt (psCutoffSOC ?p))"
    using device_okD(3) [OF d c(2) managed(1)] .
  have "mgPath m5 = mgPath m"
    using f3 call_world_step [OF 4] call_world_step [OF 5] by (simp add: world_step_def)
  then have "word (mgWorld m') = word (mgWorld m5)" "holds (mgWorld m') = holds (mgWorld m5)"
    using save_device [OF _ save, of word holds] d by simp_all
  moreover have "map (\<lambda>i. word (mgWorld m5) (schedule_word i)) [0..<timedChargeWords] = psSchedule ?p"
    using len words by (intro nth_equalityI) (simp_all add: timedChargeWords_def)
  ultimately show ?thesis using mains cutoff by (simp add: restored_def)
qed

lemma restore_ends:
  assumes "rtActive (mgRuntime m)" "\<not> rtActive (mgRuntime (snd (restore_locked env finalPhase reason m)))"
    and "device_ok env (mgPath m) word holds" "length (psSchedule (rtPrevious (mgRuntime m))) = timedChargeWords"
  shows "restored word holds (rtPrevious (mgRuntime m)) (mgWorld (snd (restore_locked env finalPhase reason m)))"
proof -
  obtain r m' where r: "restore_locked env finalPhase reason m = (r, m')" by fastforce
  have "r = Inr ()" using restore_locked_control [OF r] assms(1,2) r by (auto split: if_splits)
  then show ?thesis using restore_locked_restored [OF assms(3,4)] r by simp
qed

lemma check_session_restored:
  assumes "rtActive (mgRuntime m)" "\<not> rtActive (mgRuntime (check_session env snap m))"
    and "device_ok env (mgPath m) word holds" "length (psSchedule (rtPrevious (mgRuntime m))) = timedChargeWords"
  shows "restored word holds (rtPrevious (mgRuntime m)) (mgWorld (check_session env snap m))"
  using assms(1,2) restore_ends [OF assms(1) _ assms(3,4)]
  by (auto simp: check_session_def split: option.splits sum.splits prod.splits if_splits)

text \<open>A session ends only with the previous settings on the device: whenever a cancel or an
  evaluation leaves a manager inactive that was active, the device holds the schedule, the current
  and the cutoff that were recorded before the session.\<close>

lemma session_ends_restored:
  assumes "device_ok env (mgPath m) word holds" "session_ok (mgRuntime m)" "rtActive (mgRuntime m)"
    and "m' = snd (cancel env m) \<or> m' = evaluate env m" "\<not> rtActive (mgRuntime m')"
  shows "restored word holds (rtPrevious (mgRuntime m)) (mgWorld m')"
proof -
  have len: "length (psSchedule (rtPrevious (mgRuntime m))) = timedChargeWords"
    using assms(2,3) by (simp add: session_ok_def)
  note ends = restore_ends [OF assms(3) _ assms(1) len]
  from assms(4) show ?thesis
  proof
    assume "m' = snd (cancel env m)"
    then show ?thesis using ends assms(3,5) by (simp add: cancel_def)
  next
    assume m': "m' = evaluate env m"
    obtain r1 m1 where 1: "apply_storm_settings env m = (r1, m1)" by fastforce
    note f1 = world_step_fields [OF apply_storm_settings_step [OF world_closed 1]]
    obtain r2 m2 where 2: "restore_locked env (finalPhaseForReason (rtReason (mgRuntime m))) (rtReason (mgRuntime m)) m = (r2, m2)"
      by fastforce
    note c2 = restore_locked_control [OF 2]
    let ?t = "set_runtime (\<lambda>r. r\<lparr>rtPhase := phaseCharging, rtLastError := no_error, rtUpdatedAt := now_of env m\<rparr>) (m1\<lparr>mgResumePending := False\<rparr>)"
    have resumed: "restored word holds (rtPrevious (mgRuntime m)) (mgWorld (check_session env snap (try_save env ?t)))"
      if "\<not> rtActive (mgRuntime (check_session env snap (try_save env ?t)))" for snap
      using check_session_restored [OF _ that, of word holds] assms(1,3) len f1 by simp
    have plain: "restored word holds (rtPrevious (mgRuntime m)) (mgWorld (check_session env snap m))"
      if "\<not> rtActive (mgRuntime (check_session env snap m))" for snap
      using check_session_restored [OF assms(3) that assms(1) len] .
    have due: "restored word holds (rtPrevious (mgRuntime m)) (mgWorld (snd (restore_locked env phaseTimedOut ''timeout'' m)))"
      if "\<not> rtActive (mgRuntime (snd (restore_locked env phaseTimedOut ''timeout'' m)))"
      using ends [OF that] .
    have retried: "restored word holds (rtPrevious (mgRuntime m)) (mgWorld m2)" if "\<not> rtActive (mgRuntime m2)"
      using ends [of "finalPhaseForReason (rtReason (mgRuntime m))" "rtReason (mgRuntime m)"] 2 that by simp
    have retry: "rtActive (mgRuntime m2)" if "r2 = Inl e" for e using c2 assms(3) that by simp
    show ?thesis
      using assms(3,5) due resumed plain retried retry f1
      unfolding m' evaluate_def Let_def 1 2
      by (cases r1; cases r2) (auto split: if_splits)
  qed
qed


section \<open>Starting and ending in time\<close>

text \<open>The grid can be charged from: every phase voltage and the frequency are known and in range.\<close>

definition known_between :: "snapshot_data \<Rightarrow> f64 \<Rightarrow> f64 \<Rightarrow> string \<Rightarrow> bool" where
  "known_between snap lo hi i \<longleftrightarrow> (\<exists>x. optionalNumeric snap i = Some x \<and> \<not> flt x lo \<and> \<not> flt hi x)"

lemma requireGrid_iff:
  "requireGrid snap = Inr () \<longleftrightarrow>
     list_all (known_between snap (Num 170) (Num 280)) [''grid_voltage_phase_a'', ''grid_voltage_phase_b'', ''grid_voltage_phase_c'']
     \<and> known_between snap (Num 45) (Num 65) ''grid_frequency''"
proof -
  have "require_phases snap is = Inr () \<longleftrightarrow> list_all (known_between snap (Num 170) (Num 280)) is" for "is"
    by (induction "is") (auto simp: requiredNumeric_def known_between_def split: option.splits)
  then show ?thesis
    unfolding requireGrid_def
    by (auto simp: requiredNumeric_def known_between_def split: option.splits sum.splits)
qed

lemma start_session_control:
  assumes "start_session env m = (r, m')"
  shows "mgResumePending m' = mgResumePending m \<and>
    (if r = Inr () then \<exists>t. mgRuntime m' = (mgRuntime m)\<lparr>rtPhase := phaseCharging, rtUpdatedAt := t, rtLastError := no_error\<rparr>
     else \<not> rtActive (mgRuntime m') \<or> rtPhase (mgRuntime m') = phaseRestoring)"
proof -
  obtain r1 m1 where 1: "apply_storm_settings env m = (r1, m1)" by fastforce
  note f1 = world_step_fields [OF apply_storm_settings_step [OF world_closed 1]]
  have restored: "mgResumePending m3 = mgResumePending m2 \<and> (\<not> rtActive (mgRuntime m3) \<or> rtPhase (mgRuntime m3) = phaseRestoring)"
    if "restore_locked env phaseError reason m2 = (r2, m3)" for reason m2 r2 m3
    using restore_locked_control [OF that] by (auto split: if_splits)
  show ?thesis
  proof (cases r1)
    case (Inl e)
    then show ?thesis
      using assms 1 f1 restored by (fastforce simp: start_session_def Let_def split: prod.splits sum.splits)
  next
    case (Inr u)
    let ?m2 = "set_runtime (\<lambda>r. r\<lparr>rtPhase := phaseCharging, rtUpdatedAt := now_of env m1, rtLastError := no_error\<rparr>) m1"
    obtain r3 m3 where 3: "save_locked env ?m2 = (r3, m3)" by fastforce
    note f3 = world_step_fields [OF save_world_step [OF 3]]
    show ?thesis
    proof (cases r3)
      case (Inl e)
      then show ?thesis
        using assms 1 Inr 3 f1 f3 restored by (fastforce simp: start_session_def Let_def split: prod.splits sum.splits)
    next
      case (Inr u')
      then show ?thesis
        using assms 1 \<open>r1 = Inr u\<close> 3 f1 f3 by (auto simp: start_session_def Let_def)
    qed
  qed
qed

lemma previous_of_world_step: "previous_of env snap m = (r, m1) \<Longrightarrow> world_step m m1"
  unfolding previous_of_def by (auto dest: call_world_step split: sum.splits prod.splits)

text \<open>C25: a start succeeds only for validated settings, with no session active, a known state of charge
  below the target, the grid in range on all phases and a current within the battery's limit, and
  then the session is charging with its own deadline; a start that fails leaves no session active,
  or one that is being restored.\<close>

theorem storm_start_outcome:
  assumes "start env g m = (r, m')" "\<not> rtActive (mgRuntime m)"
  shows "if r = Inr () then
       validateSettings g = Inr ()
       \<and> (\<exists>soc. optionalNumeric (evSnapshot env (mgWorld m)) ''battery_soc'' = Some soc \<and> \<not> fle (f64_of_int (sgTargetSOC g)) soc)
       \<and> list_all (known_between (evSnapshot env (mgWorld m)) (Num 170) (Num 280))
           [''grid_voltage_phase_a'', ''grid_voltage_phase_b'', ''grid_voltage_phase_c'']
       \<and> known_between (evSnapshot env (mgWorld m)) (Num 45) (Num 65) ''grid_frequency''
       \<and> (\<forall>limit. optionalNumeric (evSnapshot env (mgWorld m)) ''maximum_charge_current'' = Some limit \<longrightarrow>
            flt (Num 0) limit \<longrightarrow> \<not> flt limit (sgMaxCurrentA g))
       \<and> rtActive (mgRuntime m') \<and> rtPhase (mgRuntime m') = phaseCharging \<and> rtSettings (mgRuntime m') = g
       \<and> rtDeadline (mgRuntime m') = rtStartedAt (mgRuntime m') + sgTimeout g
     else \<not> rtActive (mgRuntime m') \<or> rtPhase (mgRuntime m') = phaseRestoring"
proof -
  let ?snap = "evSnapshot env (mgWorld m)"
  have checks: "(\<exists>soc. optionalNumeric ?snap ''battery_soc'' = Some soc \<and> \<not> fle (f64_of_int (sgTargetSOC g)) soc)
       \<and> requireGrid ?snap = Inr ()
       \<and> (\<forall>limit. optionalNumeric ?snap ''maximum_charge_current'' = Some limit \<longrightarrow> flt (Num 0) limit \<longrightarrow> \<not> flt limit (sgMaxCurrentA g))"
    if "start_checks g ?snap = Inr ()"
    using that by (auto simp: start_checks_def requiredNumeric_def split: option.splits sum.splits if_splits)
  show ?thesis
  proof (cases "validateSettings g = Inr () \<and> start_checks g ?snap = Inr ()")
    case False
    then show ?thesis using assms by (auto simp: start_def Let_def split: sum.splits)
  next
    case True
    obtain r1 m1 where 1: "previous_of env ?snap m = (r1, m1)" by fastforce
    have m1: "mgRuntime m1 = mgRuntime m" using previous_of_world_step [OF 1] by (rule world_step_fields)
    show ?thesis
    proof (cases r1)
      case (Inl e)
      then show ?thesis using assms True 1 m1 by (auto simp: start_def Let_def)
    next
      case (Inr p)
      let ?m2 = "set_runtime (\<lambda>_. start_runtime g p (now_of env m1)) m1"
      obtain r3 m3 where 3: "save_locked env ?m2 = (r3, m3)" by fastforce
      note f3 = world_step_fields [OF save_world_step [OF 3]]
      show ?thesis
      proof (cases r3)
        case (Inl e)
        then show ?thesis using assms True 1 Inr 3 by (auto simp: start_def Let_def runtime0_def)
      next
        case (Inr u)
        then have "start_session env m3 = (r, m')" using assms True 1 \<open>r1 = Inr p\<close> 3 by (simp add: start_def Let_def)
        from start_session_control [OF this] checks True f3 show ?thesis
          unfolding requireGrid_iff by (auto simp: start_runtime_def split: if_splits)
      qed
    qed
  qed
qed

text \<open>A device that makes the writes of single words and those writes of controls that are in
  \<open>W\<close>; and files that can be written.\<close>

definition device_answers :: "'w storm_env \<Rightarrow> (string \<times> go_value) set \<Rightarrow> bool" where
  "device_answers env W \<longleftrightarrow>
     (\<forall>(i, v) \<in> W. \<forall>w. fst (evWriteRegister env i v w) = Inr ()) \<and> (\<forall>a v w. fst (evWriteWords env a [v] w) = Inr ())"

definition files_answer :: "'w storm_env \<Rightarrow> bool" where
  "files_answer env \<longleftrightarrow>
     (\<forall>p w. fst (evMkdirFor env p w) = Inr ()) \<and> (\<forall>p data w. fst (evWriteFile env p data w) = Inr ())
     \<and> (\<forall>p q w. fst (evRename env p q w) = Inr ()) \<and> (\<forall>r. \<exists>data. evMarshal env r = Inr data)"

lemma answers_call:
  assumes "device_answers env W"
  shows "(i, v) \<in> W \<Longrightarrow> \<exists>m'. call (evWriteRegister env i v) m = (Inr (), m')"
    and "\<exists>m'. call (evWriteWords env a [x]) m = (Inr (), m')"
  using assms by (auto simp: device_answers_def call_def split: prod.splits) (metis fst_conv)+

lemma files_save: "files_answer env \<Longrightarrow> \<exists>m'. save_locked env m = (Inr (), m')"
  unfolding files_answer_def save_locked_def call_def Let_def
  by (auto split: prod.splits sum.splits) (metis fst_conv sum.distinct(1))+

lemma answers_slots: "device_answers env W \<Longrightarrow> \<exists>m'. write_slots env off vs m = (Inr (), m')"
proof (induction vs arbitrary: off m)
  case (Cons v vs)
  obtain m1 where "call (evWriteWords env (schedule_word off) [v]) m = (Inr (), m1)"
    using answers_call(2) [OF Cons.prems] by blast
  with Cons.IH [OF Cons.prems, of "Suc off" m1] show ?case by simp
qed simp

lemma answers_schedule:
  assumes "device_answers env W" "length vs = timedChargeWords"
  shows "\<exists>m'. write_schedule env vs m = (Inr (), m')"
proof -
  have enable: "\<exists>m'. write_enable env v m = (Inr (), m')" for v m
    using answers_call(2) [OF assms(1), of "timedChargeAddress + 6" v m] by (auto simp: write_enable_def)
  obtain m1 where "(if vs ! 6 = 0 then write_enable env (vs ! 6) m else (Inr (), m)) = (Inr (), m1)"
    using enable by (cases "vs ! 6 = 0") auto
  moreover obtain m2 where "write_slots env 0 (take 6 vs) m1 = (Inr (), m2)" using answers_slots [OF assms(1)] by blast
  ultimately show ?thesis using assms(2) enable by (simp add: write_schedule_def)
qed

text \<open>The writes of a session: those that start it and those that end it.\<close>

definition restoring_writes :: "previous_settings \<Rightarrow> (string \<times> go_value) set" where
  "restoring_writes p =
     {(''mains_charge_current_limit'', VFloat (psMainsCurrentA p)), (''battery_charge_cutoff_soc'', VInt (psCutoffSOC p))}"

definition session_writes :: "settings \<Rightarrow> previous_settings \<Rightarrow> (string \<times> go_value) set" where
  "session_writes g p =
     {(''battery_charge_cutoff_soc'', VInt (sgTargetSOC g)), (''mains_charge_current_limit'', VFloat (sgMaxCurrentA g))}
     \<union> restoring_writes p"

lemma answers_apply:
  assumes "device_answers env W" "session_writes (rtSettings (mgRuntime m)) p \<subseteq> W"
  shows "\<exists>m'. apply_storm_settings env m = (Inr (), m')"
proof -
  have "\<exists>m'. apply_writes env ws m = (Inr (), m')" if "set ws \<subseteq> W" for ws
    using that
  proof (induction ws arbitrary: m)
    case (Cons x ws)
    obtain i v where x: "x = (i, v)" by fastforce
    obtain m2 where "call (evWriteRegister env i v) m = (Inr (), m2)"
      using answers_call(1) [OF assms(1), of i v m] Cons.prems x by auto
    with Cons.IH [of m2] Cons.prems show ?case by (simp add: x)
  qed simp
  from this [of "[(''battery_charge_cutoff_soc'', VInt (sgTargetSOC (rtSettings (mgRuntime m)))),
       (''mains_charge_current_limit'', VFloat (sgMaxCurrentA (rtSettings (mgRuntime m))))]"]
  obtain m1 where "apply_writes env
      [(''battery_charge_cutoff_soc'', VInt (sgTargetSOC (rtSettings (mgRuntime m)))),
       (''mains_charge_current_limit'', VFloat (sgMaxCurrentA (rtSettings (mgRuntime m))))] m = (Inr (), m1)"
    using assms(2) by (auto simp: session_writes_def)
  moreover obtain m2 where "write_schedule env stormSchedule m1 = (Inr (), m2)"
    using answers_schedule [OF assms(1), of stormSchedule] by (auto simp: stormSchedule_def timedChargeWords_def)
  ultimately show ?thesis by (simp add: apply_storm_settings_def del: apply_writes.simps)
qed

lemma restore_schedule_same: "restore_schedule env m = (es, m') \<Longrightarrow> mgRuntime m' = mgRuntime m"
  by (auto simp: restore_schedule_def Let_def split: if_splits prod.splits sum.splits
      dest!: world_step_fields(1) [OF write_schedule_step [OF world_closed]])

lemma answers_restore:
  assumes "device_answers env W" "restoring_writes (rtPrevious (mgRuntime m)) \<subseteq> W"
  shows "\<exists>m'. restore_all env m = ([], m')"
proof -
  have "\<exists>m2. restore_schedule env m = ([], m2)"
    using answers_schedule [OF assms(1), of "psSchedule (rtPrevious (mgRuntime m))" m]
    by (auto simp: restore_schedule_def Let_def)
  then obtain m2 where 2: "restore_schedule env m = ([], m2)" by blast
  have same: "mgRuntime m2 = mgRuntime m" using 2 by (rule restore_schedule_same)
  have "\<exists>m'. restore_writes env ws m1 = ([], m')" if "set ws \<subseteq> W" for ws m1
    using that
  proof (induction ws arbitrary: m1)
    case (Cons x ws)
    obtain i v where x: "x = (i, v)" by fastforce
    obtain m3 where "call (evWriteRegister env i v) m1 = (Inr (), m3)"
      using answers_call(1) [OF assms(1), of i v m1] Cons.prems x by auto
    with Cons.IH [of m3] Cons.prems show ?case by (auto simp: x)
  qed simp
  from this [of "[(''mains_charge_current_limit'', VFloat (psMainsCurrentA (rtPrevious (mgRuntime m2)))),
      (''battery_charge_cutoff_soc'', VInt (psCutoffSOC (rtPrevious (mgRuntime m2))))]" m2]
  show ?thesis
    using assms(2) 2 by (auto simp: restoring_writes_def restore_all_def same simp del: restore_writes.simps)
qed

lemma answering_restore:
  assumes "device_answers env (restoring_writes (rtPrevious (mgRuntime m)))" "files_answer env"
  shows "\<exists>m'. restore_locked env finalPhase reason m = (Inr (), m')"
proof -
  let ?m2 = "try_save env (set_runtime (\<lambda>r. r\<lparr>rtPhase := phaseRestoring, rtReason := reason, rtUpdatedAt := now_of env m\<rparr>) m)"
  have "rtPrevious (mgRuntime ?m2) = rtPrevious (mgRuntime m)" by simp
  then obtain m3 where 3: "restore_all env ?m2 = ([], m3)" using answers_restore [OF assms(1)] by (metis order_refl)
  show ?thesis
    using files_save [OF assms(2), of "set_runtime (\<lambda>r. r\<lparr>rtActive := False, rtPhase := finalPhase, rtLastError := no_error,
        rtDeadline := 0, rtUpdatedAt := now_of env m3\<rparr>) m3"] 3
    by (auto simp: restore_locked_def Let_def)
qed

text \<open>C26: a session ends: once its deadline has passed or it is being restored, the first evaluation
  that finds Modbus connected ends it, in the phase of its reason, if the device takes the two values
  and the words to be restored and the file can be written; and evaluations leave an ended session
  alone. A previous value that the device does not take is the subject of \<open>storm_unrestorable\<close>.\<close>

theorem storm_session_ends:
  assumes "device_answers env (restoring_writes (rtPrevious (mgRuntime m)))" "files_answer env"
    and "rtActive (mgRuntime m)" "modbus_connected (evSnapshot env (mgWorld m))"
    and "rtPhase (mgRuntime m) = phaseRestoring \<or> (rtDeadline (mgRuntime m) \<noteq> 0 \<and> rtDeadline (mgRuntime m) \<le> now_of env m)"
  shows "\<not> rtActive (mgRuntime (evaluate env m))
    \<and> rtPhase (mgRuntime (evaluate env m)) =
        (if rtPhase (mgRuntime m) = phaseRestoring then finalPhaseForReason (rtReason (mgRuntime m)) else phaseTimedOut)
    \<and> evaluate env (evaluate env m) = evaluate env m"
proof -
  let ?r = "mgRuntime m"
  define fp where "fp = (if rtPhase ?r = phaseRestoring then finalPhaseForReason (rtReason ?r) else phaseTimedOut)"
  define reason where "reason = (if rtPhase ?r = phaseRestoring then rtReason ?r else ''timeout'')"
  obtain m' where r: "restore_locked env fp reason m = (Inr (), m')" using answering_restore [OF assms(1,2)] by blast
  have e: "evaluate env m = m'"
    using assms(3-5) r by (auto simp: evaluate_def Let_def fp_def reason_def split: if_splits)
  have c: "\<not> rtActive (mgRuntime m')" "rtPhase (mgRuntime m') = fp" using restore_locked_control [OF r] by simp_all
  then have "evaluate env m' = m'" by (simp add: evaluate_def Let_def)
  then show ?thesis unfolding e fp_def [symmetric] using c by simp
qed

text \<open>A session whose previous settings hold a value that the device always refuses never ends, whatever
  sequence of evaluations and cancellations follows: \<^verbatim>\<open>Start\<close> records the values that were read
  without checking that they can be written.\<close>

lemma refused_writes:
  assumes "(i, v) \<in> set ws" "\<forall>w. fst (evWriteRegister env i v w) \<noteq> Inr ()"
  shows "fst (restore_writes env ws m) \<noteq> []"
  using assms(1)
proof (induction ws arbitrary: m)
  case (Cons x ws)
  obtain r m1 where 1: "call (evWriteRegister env (fst x) (snd x)) m = (r, m1)" by fastforce
  have "fst (evWriteRegister env (fst x) (snd x) (mgWorld m)) = r" using call_world_step [OF 1] by simp
  then show ?case using Cons 1 assms(2)
    by (cases x; cases r) (auto simp: case_prod_beta)
qed simp

lemma refused_restore:
  assumes "(i, v) \<in> restoring_writes (rtPrevious (mgRuntime m))" "\<forall>w. fst (evWriteRegister env i v w) \<noteq> Inr ()"
    and "rtActive (mgRuntime m)"
  shows "rtActive (mgRuntime (snd (restore_locked env fp reason m)))
    \<and> rtPrevious (mgRuntime (snd (restore_locked env fp reason m))) = rtPrevious (mgRuntime m)"
proof -
  let ?m2 = "try_save env (set_runtime (\<lambda>r. r\<lparr>rtPhase := phaseRestoring, rtReason := reason, rtUpdatedAt := now_of env m\<rparr>) m)"
  obtain r m' where r: "restore_locked env fp reason m = (r, m')" by fastforce
  obtain es1 m1 where 1: "restore_schedule env ?m2 = (es1, m1)" by fastforce
  have "mgRuntime m1 = mgRuntime ?m2" using 1 by (rule restore_schedule_same)
  then have "(i, v) \<in> set [(''mains_charge_current_limit'', VFloat (psMainsCurrentA (rtPrevious (mgRuntime m1)))),
      (''battery_charge_cutoff_soc'', VInt (psCutoffSOC (rtPrevious (mgRuntime m1))))]"
    using assms(1) by (auto simp: restoring_writes_def)
  from refused_writes [OF this assms(2), of m1] 1 have "fst (restore_all env ?m2) \<noteq> []"
    by (simp add: restore_all_def case_prod_beta)
  then have "r \<noteq> Inr ()" using r by (auto simp: restore_locked_def Let_def split: if_splits prod.splits)
  then show ?thesis using restore_locked_control [OF r] assms(3) r by simp
qed

lemma refused_step:
  assumes "(i, v) \<in> restoring_writes (rtPrevious (mgRuntime m))" "\<forall>w. fst (evWriteRegister env i v w) \<noteq> Inr ()"
    and "rtActive (mgRuntime m)" "m' = snd (cancel env m) \<or> m' = evaluate env m"
  shows "rtActive (mgRuntime m') \<and> rtPrevious (mgRuntime m') = rtPrevious (mgRuntime m)"
proof -
  note stuck = refused_restore [OF _ assms(2)]
  have check: "rtActive (mgRuntime (check_session env snap n)) \<and> rtPrevious (mgRuntime (check_session env snap n)) = rtPrevious (mgRuntime n)"
    if "(i, v) \<in> restoring_writes (rtPrevious (mgRuntime n))" "rtActive (mgRuntime n)" for snap n
    using that stuck [OF that] by (simp add: check_session_def split: option.split sum.split)
  obtain r1 m1 where 1: "apply_storm_settings env m = (r1, m1)" by fastforce
  note f1 = world_step_fields [OF apply_storm_settings_step [OF world_closed 1]]
  show ?thesis
    using assms(1,3,4) stuck check f1
    by (auto simp: cancel_def evaluate_def Let_def 1 case_prod_beta split: sum.split)
qed

theorem storm_unrestorable:
  assumes "(i, v) \<in> restoring_writes (rtPrevious (mgRuntime m))" "\<forall>w. fst (evWriteRegister env i v w) \<noteq> Inr ()"
    and "rtActive (mgRuntime m)"
  shows "rtActive (mgRuntime (fold (\<lambda>c m. if c then snd (cancel env m) else evaluate env m) calls m))"
  using assms(1,3)
proof (induction calls arbitrary: m)
  case (Cons c calls)
  let ?m = "if c then snd (cancel env m) else evaluate env m"
  have "rtActive (mgRuntime ?m) \<and> rtPrevious (mgRuntime ?m) = rtPrevious (mgRuntime m)"
    by (rule refused_step [OF Cons.prems(1) assms(2) Cons.prems(2)]) simp
  then show ?case using Cons.IH [of ?m] Cons.prems(1) by simp
qed simp

text \<open>The flag set by a restart is not cleared when the session that was loaded ends: while it is set,
  an evaluation without Modbus leaves the next session as it is instead of restoring it.\<close>

theorem storm_stale_resume:
  assumes "mgResumePending m" "start env g (snd (cancel env m)) = (Inr (), m')" "\<not> rtActive (mgRuntime (snd (cancel env m)))"
    and "\<not> modbus_connected (evSnapshot env (mgWorld m'))"
  shows "rtActive (mgRuntime m') \<and> evaluate env m' = m'"
proof -
  let ?c = "snd (cancel env m)"
  have c: "mgResumePending ?c"
    using assms(1) restore_locked_control [OF prod.collapse [symmetric], of env phaseCancelled "''manual_cancel''" m]
    by (simp add: cancel_def)
  obtain p m1 m3 where 1: "previous_of env (evSnapshot env (mgWorld ?c)) ?c = (Inr p, m1)"
    and 3: "save_locked env (set_runtime (\<lambda>_. start_runtime g p (now_of env m1)) m1) = (Inr (), m3)"
    and s: "start_session env m3 = (Inr (), m')"
    using assms(2) by (auto simp: start_def Let_def split: sum.splits if_splits prod.splits)
  have "mgResumePending m3"
    using c world_step_fields(3) [OF previous_of_world_step [OF 1]] world_step_fields(3) [OF save_world_step [OF 3]] by simp
  then have "mgResumePending m'" using start_session_control [OF s] by simp
  moreover have "rtActive (mgRuntime m3)" using world_step_fields(1) [OF save_world_step [OF 3]] by (simp add: start_runtime_def)
  then have "rtActive (mgRuntime m')" using start_session_control [OF s] by auto
  ultimately show ?thesis using assms(4) by (simp add: evaluate_def Let_def)
qed


section \<open>A concrete device\<close>

text \<open>A device that answers, with a memory of words and of controls, a file system and a snapshot that
  allows a session. YAML is a table of two runtimes in \<open>demo_env\<close>; in \<open>demo_answering\<close>
  every runtime is serialised, to the same text.\<close>

record demo =
  dmWords :: "u16 \<Rightarrow> u16"
  dmControls :: "string \<Rightarrow> go_value"
  dmFiles :: "string \<Rightarrow> string option"

definition demo_settings :: settings where
  "demo_settings = \<lparr>sgTargetSOC = 95, sgMaxCurrentA = Num 50, sgTimeout = hour\<rparr>"

definition demo_previous :: previous_settings where
  "demo_previous = \<lparr>psCutoffSOC = 100, psMainsCurrentA = Num 10, psSchedule = [0x600, 0x800, 0, 0, 0, 0, 0]\<rparr>"

definition demo_runtimes :: "(string \<times> runtime) list" where
  "demo_runtimes =
     [(''starting'', start_runtime demo_settings demo_previous 9),
      (''charging'', (start_runtime demo_settings demo_previous 9)\<lparr>rtPhase := phaseCharging\<rparr>)]"

definition demo_snapshot :: snapshot_data where
  "demo_snapshot =
     \<lparr>snServices = [(''modbus'', status0\<lparr>ssConnected := True\<rparr>)],
      snTelemetry =
        [value0\<lparr>dID := ''battery_soc'', dValue := VFloat (Num 60)\<rparr>,
         value0\<lparr>dID := ''battery_charge_cutoff_soc'', dValue := VInt64 100\<rparr>,
         value0\<lparr>dID := ''mains_charge_current_limit'', dValue := VFloat (Num 10)\<rparr>,
         value0\<lparr>dID := ''grid_voltage_phase_a'', dValue := VFloat (Num 230)\<rparr>,
         value0\<lparr>dID := ''grid_voltage_phase_b'', dValue := VFloat (Num 231)\<rparr>,
         value0\<lparr>dID := ''grid_voltage_phase_c'', dValue := VFloat (Num 229)\<rparr>,
         value0\<lparr>dID := ''grid_frequency'', dValue := VFloat (Num 50)\<rparr>]\<rparr>"

definition demo_env :: "demo storm_env" where
  "demo_env =
     \<lparr>evWriteRegister = (\<lambda>i v w. (Inr (), w\<lparr>dmControls := (dmControls w)(i := v)\<rparr>)),
      evReadWords = (\<lambda>a n w. (Inr (map (\<lambda>i. dmWords w (a + of_nat i)) [0..<unat n]), w)),
      evWriteWords = (\<lambda>a vs w. (Inr (), case vs of [v] \<Rightarrow> w\<lparr>dmWords := (dmWords w)(a := v)\<rparr> | _ \<Rightarrow> w)),
      evSnapshot = (\<lambda>w. demo_snapshot), evNow = (\<lambda>w. 9 + 2 * hour),
      evReadFile = (\<lambda>p w. case dmFiles w p of None \<Rightarrow> Inl NotExist | Some d \<Rightarrow> Inr d),
      evMkdirFor = (\<lambda>p w. (Inr (), w)),
      evWriteFile = (\<lambda>p d w. (Inr (), w\<lparr>dmFiles := (dmFiles w)(p := Some d)\<rparr>)),
      evRename = (\<lambda>p q w. if dmFiles w p = None then (Inl (External ''no such file''), w)
                     else (Inr (), w\<lparr>dmFiles := (dmFiles w)(q := dmFiles w p, p := None)\<rparr>)),
      evMarshal = (\<lambda>r. case find_first (\<lambda>(d, x). x = r\<lparr>rtLastError := no_error\<rparr>) demo_runtimes of
                     None \<Rightarrow> Inl (External ''yaml'') | Some (d, x) \<Rightarrow> Inr d),
      evUnmarshal = (\<lambda>d r. case map_of demo_runtimes d of None \<Rightarrow> Inl (External ''yaml'') | Some r \<Rightarrow> Inr r)\<rparr>"

definition demo_answering :: "demo storm_env" where
  "demo_answering = demo_env\<lparr>evMarshal := (\<lambda>r. Inr ''runtime''),
     evRename := (\<lambda>p q w. (Inr (), w\<lparr>dmFiles := (dmFiles w)(q := dmFiles w p, p := None)\<rparr>))\<rparr>"

definition demo_world :: demo where
  "demo_world = \<lparr>dmWords = (\<lambda>a. 0), dmControls = (\<lambda>i. VNil), dmFiles = [''s.yaml'' \<mapsto> ''charging'']\<rparr>"

definition demo_manager :: "demo manager" where
  "demo_manager =
     \<lparr>mgPath = ''s.yaml'', mgRuntime = (start_runtime demo_settings demo_previous 9)\<lparr>rtPhase := phaseCharging\<rparr>,
      mgResumePending = True, mgWorld = demo_world\<rparr>"

lemma demo_ops [simp]:
  "evWriteRegister demo_env i v w = (Inr (), w\<lparr>dmControls := (dmControls w)(i := v)\<rparr>)"
  "evReadWords demo_env a n w = (Inr (map (\<lambda>i. dmWords w (a + of_nat i)) [0..<unat n]), w)"
  "evWriteWords demo_env a vs w = (Inr (), case vs of [v] \<Rightarrow> w\<lparr>dmWords := (dmWords w)(a := v)\<rparr> | _ \<Rightarrow> w)"
  "evSnapshot demo_env w = demo_snapshot" "evNow demo_env w = 9 + 2 * hour"
  "evReadFile demo_env p w = (case dmFiles w p of None \<Rightarrow> Inl NotExist | Some d \<Rightarrow> Inr d)"
  "evMkdirFor demo_env p w = (Inr (), w)"
  "evWriteFile demo_env p d w = (Inr (), w\<lparr>dmFiles := (dmFiles w)(p := Some d)\<rparr>)"
  "evRename demo_env p q w = (if dmFiles w p = None then (Inl (External ''no such file''), w)
     else (Inr (), w\<lparr>dmFiles := (dmFiles w)(q := dmFiles w p, p := None)\<rparr>))"
  by (simp_all add: demo_env_def)

lemma demo_unmarshal [simp]: "evUnmarshal demo_env d r = (case map_of demo_runtimes d of None \<Rightarrow> Inl (External ''yaml'') | Some r \<Rightarrow> Inr r)"
  by (simp add: demo_env_def)

lemma demo_marshal: "evMarshal demo_env r = Inr d \<Longrightarrow> map_of demo_runtimes d = Some (r\<lparr>rtLastError := no_error\<rparr>)"
  by (auto simp: demo_env_def demo_runtimes_def split: if_splits)

lemma demo_words_case [simp]:
  "dmFiles (case vs of [v] \<Rightarrow> w\<lparr>dmWords := (dmWords w)(a := v)\<rparr> | _ \<Rightarrow> w) = dmFiles w"
  by (simp split: list.split)

lemma demo_durable: "durable demo_env ''s.yaml''"
proof -
  have "\<exists>e. evUnmarshal demo_env data runtime0 = Inr (r\<lparr>rtLastError := e\<rparr>)" if "evMarshal demo_env r = Inr data" for r data
    using demo_marshal [OF that] by auto
  then show ?thesis by (auto simp: durable_def)
qed

lemma demo_reader: "word_accessor (evReadWords demo_env)"
  by unfold_locales auto

lemma demo_session_ok: "session_ok ((start_runtime demo_settings demo_previous 9)\<lparr>rtPhase := phaseCharging\<rparr>)"
  "session_ok (start_runtime demo_settings demo_previous 9)"
proof -
  have "validateSettings demo_settings = Inr ()"
    by (simp add: validateSettings_def demo_settings_def minute_def hour_def second_def)
  then show "session_ok ((start_runtime demo_settings demo_previous 9)\<lparr>rtPhase := phaseCharging\<rparr>)"
    "session_ok (start_runtime demo_settings demo_previous 9)"
    by (simp_all add: session_ok_def start_runtime_def demo_previous_def timedChargeWords_def)
qed

lemma demo_file_ok: "file_ok demo_env ''s.yaml'' w"
  by (auto simp: file_ok_def on_disk_def demo_runtimes_def demo_session_ok split: option.splits if_splits)

lemma demo_loaded: "new_manager demo_env ''s.yaml'' demo_world = Inr demo_manager"
  by (simp add: new_manager_def load_def demo_world_def demo_runtimes_def start_runtime_def demo_manager_def phaseCharging_def)

lemma demo_safe: "safe_env demo_env ''s.yaml'' (\<lambda>_. True)"
  by (simp add: safe_env_def demo_durable kept_when_recorded_def)

text \<open>A property that device writes keep only because the session is recorded before them: the words
  of the device differ from zero only when there is a file.\<close>

lemma demo_kept: "kept_when_recorded demo_env ''s.yaml'' (\<lambda>w. dmFiles w ''s.yaml'' = None \<longrightarrow> dmWords w = (\<lambda>_. 0))"
  by (auto simp: kept_when_recorded_def recorded_def on_disk_def split: option.splits)

theorem storm_write_ahead_witness:
  "session_ok (mgRuntime (snd (cancel demo_env demo_manager)))"
proof -
  have "manager_step demo_env (\<lambda>_ _. False) demo_manager (snd (cancel demo_env demo_manager))"
    by (rule cancel_call [of _ _ "fst (cancel demo_env demo_manager)"]) simp
  moreover have "outside_ok demo_env ''s.yaml'' P (\<lambda>_ _. False)" for P by (simp add: outside_ok_def)
  ultimately show ?thesis
    using storm_write_ahead [OF demo_durable demo_kept demo_reader _ demo_file_ok _ demo_loaded, of "\<lambda>_ _. False" "snd (cancel demo_env demo_manager)"]
    by (auto simp: demo_world_def)
qed

theorem storm_survives_restart_witness:
  "\<exists>m'. new_manager demo_env ''s.yaml'' (mgWorld demo_manager) = Inr m' \<and> rtActive (mgRuntime m') \<and> mgResumePending m'
    \<and> rtPrevious (mgRuntime m') = demo_previous"
  using storm_survives_restart [OF demo_durable demo_reader _ demo_file_ok demo_loaded, of "\<lambda>_ _. False" demo_manager]
  by (auto simp: outside_ok_def demo_manager_def start_runtime_def)

lemma demo_answers: "device_answers demo_answering W" "files_answer demo_answering"
  by (auto simp: files_answer_def device_answers_def demo_answering_def demo_env_def)

lemma demo_device: "device_ok demo_answering path dmWords (\<lambda>w i v. dmControls w i = v)"
  by (simp add: device_ok_def demo_answering_def demo_env_def)

theorem storm_schedule_order_witness:
  "\<exists>m'. write_schedule demo_answering stormSchedule demo_manager = (Inr (), m') \<and> dmWords (mgWorld m') (schedule_word 6) = 1"
proof -
  obtain m' where w: "write_schedule demo_answering stormSchedule demo_manager = (Inr (), m')"
    using answers_schedule [OF demo_answers(1), of stormSchedule demo_manager] by (auto simp: stormSchedule_def timedChargeWords_def)
  have "\<forall>i < 7. dmWords (mgWorld m') (schedule_word i) = stormSchedule ! i"
    using storm_schedule_order [OF demo_device w] by blast
  then have "dmWords (mgWorld m') (schedule_word 6) = stormSchedule ! 6" by (rule allE [of _ 6]) simp
  with w show ?thesis by (auto simp: stormSchedule_def)
qed

lemma demo_active: "session_ok (mgRuntime demo_manager)" "rtActive (mgRuntime demo_manager)"
  using demo_session_ok(1) by (simp_all add: demo_manager_def start_runtime_def)

theorem session_ends_restored_witness:
  "\<not> rtActive (mgRuntime (snd (cancel demo_answering demo_manager)))
   \<and> restored dmWords (\<lambda>w i v. dmControls w i = v) demo_previous (mgWorld (snd (cancel demo_answering demo_manager)))"
proof -
  obtain m' where r: "restore_locked demo_answering phaseCancelled ''manual_cancel'' demo_manager = (Inr (), m')"
    using answering_restore [OF demo_answers] by blast
  then have e: "\<not> rtActive (mgRuntime (snd (cancel demo_answering demo_manager)))"
    using restore_locked_control [OF r] demo_active(2) by (simp add: cancel_def)
  have "rtPrevious (mgRuntime demo_manager) = demo_previous" by (simp add: demo_manager_def start_runtime_def)
  with session_ends_restored [OF demo_device demo_active disjI1 [OF refl] e] e show ?thesis by simp
qed

text \<open>A start that can succeed: the device answers and the snapshot allows the session.\<close>

lemma demo_session: "\<exists>m'. start_session demo_answering m = (Inr (), m')"
proof -
  obtain m1 where 1: "apply_storm_settings demo_answering m = (Inr (), m1)"
    using answers_apply [OF demo_answers(1) order_refl] by blast
  obtain m2 where "save_locked demo_answering (set_runtime (\<lambda>r. r\<lparr>rtPhase := phaseCharging, rtUpdatedAt := now_of demo_answering m1,
      rtLastError := no_error\<rparr>) m1) = (Inr (), m2)" using files_save [OF demo_answers(2)] by blast
  with 1 show ?thesis by (simp add: start_session_def Let_def)
qed

theorem storm_start_outcome_witness:
  "\<exists>m'. start demo_answering demo_settings (demo_manager\<lparr>mgRuntime := runtime0\<rparr>) = (Inr (), m')
    \<and> rtActive (mgRuntime m') \<and> rtDeadline (mgRuntime m') = rtStartedAt (mgRuntime m') + hour"
proof -
  let ?m = "demo_manager\<lparr>mgRuntime := runtime0\<rparr>"
  have snap: "evSnapshot demo_answering w = demo_snapshot" for w by (simp add: demo_answering_def demo_env_def)
  have idle: "\<not> rtActive runtime0" by (simp add: runtime0_def)
  have v: "validateSettings demo_settings = Inr ()"
    by (simp add: validateSettings_def demo_settings_def minute_def hour_def second_def)
  have vals: "optionalNumeric demo_snapshot ''battery_soc'' = Some (Num 60)"
    "optionalNumeric demo_snapshot ''grid_voltage_phase_a'' = Some (Num 230)"
    "optionalNumeric demo_snapshot ''grid_voltage_phase_b'' = Some (Num 231)"
    "optionalNumeric demo_snapshot ''grid_voltage_phase_c'' = Some (Num 229)"
    "optionalNumeric demo_snapshot ''grid_frequency'' = Some (Num 50)"
    "optionalNumeric demo_snapshot ''maximum_charge_current'' = None"
    "optionalNumeric demo_snapshot ''battery_charge_cutoff_soc'' = Some (f64_of_int 100)"
    "optionalNumeric demo_snapshot ''mains_charge_current_limit'' = Some (Num 10)"
    by (simp_all add: optionalNumeric_def demo_snapshot_def)
  have "f64_of_int 95 = Num 95" by (simp add: f64_of_int_exact)
  then have "start_checks demo_settings demo_snapshot = Inr ()"
    by (simp add: start_checks_def requireGrid_def requiredNumeric_def vals demo_settings_def)
  moreover obtain p where p: "previous_of demo_answering demo_snapshot ?m = (Inr p, ?m)"
    by (simp add: previous_of_def requiredNumeric_def vals call_def demo_answering_def demo_env_def)
  moreover obtain m3 where "save_locked demo_answering (set_runtime (\<lambda>_. start_runtime demo_settings p (now_of demo_answering ?m)) ?m) = (Inr (), m3)"
    using files_save [OF demo_answers(2)] by blast
  moreover obtain m' where "start_session demo_answering m3 = (Inr (), m')" using demo_session by blast
  ultimately have s: "start demo_answering demo_settings ?m = (Inr (), m')"
    by (simp add: start_def v snap Let_def idle)
  have "\<not> rtActive (mgRuntime ?m)" by (simp add: runtime0_def)
  from storm_start_outcome [OF s this] s show ?thesis by (auto simp: demo_settings_def)
qed

end
