(* ===== verification/AppDevice.thy ===== *)
theory AppDevice
  imports App ModbusMemory StormDevice
begin

text \<open>
  The storm charge manager wired to the Modbus service, as \<^verbatim>\<open>App.Run\<close> does: over a device with a
  memory that may lose writes, the environment \<open>site_env\<close> has what the properties of the manager
  assume of a device (\<open>site_device_ok\<close>) and of its file (\<open>site_durable\<close>), so those hold of the
  inverter's memory.
\<close>

section \<open>The registers of the storm charge\<close>

definition stormAddresses :: "u16 set" where
  "stormAddresses = {0xE01D, 0xE205} \<union> {0xE026, 0xE027, 0xE028, 0xE029, 0xE02A, 0xE02B, 0xE02C}"

lemma scheduleWords_eq: "scheduleWords = {0xE026, 0xE027, 0xE028, 0xE029, 0xE02A, 0xE02B, 0xE02C}"
  by (simp add: scheduleWords_def timedChargeWords_def timedChargeAddress_def lessThan_nat_numeral lessThan_Suc insert_commute)

lemma unlock_elsewhere [simp]: "unlockRegisterAddress \<notin> stormAddresses" "b \<in> scheduleWords \<Longrightarrow> b \<noteq> unlockRegisterAddress"
  by (auto simp: stormAddresses_def unlockRegisterAddress_def scheduleWords_eq)

text \<open>Where the two managed controls are, and that no other control writes there or in the schedule.\<close>

definition storm_register_ok :: "register \<Rightarrow> bool" where
  "storm_register_ok r \<longleftrightarrow>
     (rID r = ''battery_charge_cutoff_soc'' \<longrightarrow> rAddress r = 0xE01D \<and> \<not> rWriteOnly r)
     \<and> (rID r = ''mains_charge_current_limit'' \<longrightarrow> rAddress r = 0xE205 \<and> \<not> rWriteOnly r)
     \<and> (rWritable r \<and> rAddress r \<in> stormAddresses \<longrightarrow> isManagedRegister (rID r))"

lemma storm_adjust: "storm_register_ok (adjustThreePhase r) = storm_register_ok r"
  by (simp add: storm_register_ok_def adjustThreePhase_def)

lemma storm_catalogs1:
  "list_all storm_register_ok baseCatalog1" "list_all storm_register_ok baseCatalog2" "list_all storm_register_ok baseCatalog3"
  by (simp_all add: baseCatalog1_def baseCatalog2_def baseCatalog3_def storm_register_ok_def stormAddresses_def isManagedRegister_def
      managedRegisters_def reg0_def)

lemma storm_catalogs2:
  "list_all storm_register_ok baseCatalog4" "list_all storm_register_ok baseCatalog5" "list_all storm_register_ok baseCatalog6"
  by (simp_all add: baseCatalog4_def baseCatalog5_def baseCatalog6_def storm_register_ok_def stormAddresses_def isManagedRegister_def
      managedRegisters_def reg0_def)

lemma storm_catalogs3:
  "list_all storm_register_ok baseCatalog7" "list_all storm_register_ok baseCatalog8" "list_all storm_register_ok baseCatalog9"
  by (simp_all add: baseCatalog7_def baseCatalog8_def baseCatalog9_def storm_register_ok_def stormAddresses_def isManagedRegister_def
      managedRegisters_def reg0_def)

lemma storm_catalogs_three: "list_all storm_register_ok threePhaseRegisters" "list_all storm_register_ok gridControls"
  by (simp_all add: threePhaseRegisters_def gridControls_def constructor_defs storm_register_ok_def stormAddresses_def isManagedRegister_def
      managedRegisters_def reg0_def)

lemmas storm_catalogs = storm_catalogs1 storm_catalogs2 storm_catalogs3 storm_catalogs_three

lemma storm_registers: "r \<in> set (catalogForInverterType t) \<Longrightarrow> storm_register_ok r"
proof -
  have base: "list_all storm_register_ok baseCatalog" by (simp add: baseCatalog_def storm_catalogs)
  then have "list_all storm_register_ok (threePhaseCatalog baseCatalog b)" for b
    using storm_catalogs(10,11) by (auto simp: threePhaseCatalog_def list_all_iff storm_adjust)
  then show "r \<in> set (catalogForInverterType t) \<Longrightarrow> storm_register_ok r"
    using base catalog_cases [of t] by (metis list_all_iff)
qed

lemma found_storm_register:
  assumes "findByIDForInverterType i t = Some reg"
  shows "rID reg = i" "storm_register_ok reg"
  using assms by (auto simp: findByIDForInverterType_def dest!: find_first_Some intro: storm_registers)

lemma managed_register:
  assumes "findByIDForInverterType i t = Some reg" "i \<in> managedRegisters"
  shows "rAddress reg = (if i = ''battery_charge_cutoff_soc'' then 0xE01D else 0xE205)" "\<not> rWriteOnly reg"
  using found_storm_register [OF assms(1)] assms(2) by (auto simp: storm_register_ok_def managedRegisters_def)

section \<open>The device of the site\<close>

abbreviation site_memory :: "('w \<Rightarrow> u16 \<Rightarrow> u16) \<Rightarrow> 'w site \<Rightarrow> u16 \<Rightarrow> u16" where
  "site_memory mem s \<equiv> mem (svWorld (siService s))"

text \<open>A control holds a value when the register it names holds the encoded word.\<close>

definition holds_control :: "config \<Rightarrow> (u16 \<Rightarrow> u16) \<Rightarrow> string \<Rightarrow> go_value \<Rightarrow> bool" where
  "holds_control cfg m i v \<longleftrightarrow>
     (\<exists>t reg. normalized_inverter_type (cfDevice cfg) = Inr t \<and> findByIDForInverterType i t = Some reg
        \<and> encode_write reg v = Inr (m (rAddress reg)))"

lemma site_env_ops [simp]:
  "evWriteRegister (site_env e cfg) i v = on_service (write_register (aeModbus e) cfg i v)"
  "evReadWords (site_env e cfg) a n = on_service (read_holding_words (aeModbus e) cfg a n)"
  "evWriteWords (site_env e cfg) a vs = on_service (write_holding_words (aeModbus e) cfg a vs)"
  "evSnapshot (site_env e cfg) s = snapshot (svStore (siService s))"
  "evNow (site_env e cfg) = site_now e"
  "evReadFile (site_env e cfg) p s = (case feRead (aeFs e s) of
      Some er \<Rightarrow> Inl (LoadFailed er)
    | None \<Rightarrow> (case siFiles s p of None \<Rightarrow> Inl NotExist | Some data \<Rightarrow> Inr data))"
  "evMkdirFor (site_env e cfg) p s = file_outcome (feMkdir (aeFs e s)) s s"
  "evWriteFile (site_env e cfg) p data s = (case feWrite (aeFs e s) of
      Some er \<Rightarrow> (Inl er, s\<lparr>siFiles := (siFiles s)(p := fePartial (aeFs e s))\<rparr>)
    | None \<Rightarrow> (Inr (), s\<lparr>siFiles := (siFiles s)(p := Some data)\<rparr>))"
  "evRename (site_env e cfg) p q s = file_outcome (feRename (aeFs e s)) s
      (s\<lparr>siFiles := (siFiles s)(q := siFiles s p, p := None)\<rparr>)"
  "evMarshal (site_env e cfg) = aeMarshalRuntime e" "evUnmarshal (site_env e cfg) = aeUnmarshalRuntime e"
  by (simp_all add: site_env_def)

lemma on_service_files [simp]: "siFiles (snd (on_service f s)) = siFiles s"
  by (simp add: on_service_def split: prod.split)

lemma on_service_result:
  "on_service f s = (r, s') \<longleftrightarrow> (\<exists>sv. f (siService s) = (r, sv) \<and> s' = s\<lparr>siService := sv\<rparr>)"
  by (auto simp: on_service_def split: prod.split)

text \<open>A write of a control reaches only its own register.\<close>

lemma site_write_register:
  assumes "lossy_memory (aeModbus e) mem" "on_service (write_register (aeModbus e) cfg i v) s = (r, s')"
  shows "b \<in> stormAddresses \<Longrightarrow> i \<notin> managedRegisters \<Longrightarrow> site_memory mem s' b = site_memory mem s b"
    and "b \<in> stormAddresses \<Longrightarrow> i \<in> managedRegisters \<Longrightarrow> b \<noteq> (if i = ''battery_charge_cutoff_soc'' then 0xE01D else 0xE205)
      \<Longrightarrow> site_memory mem s' b = site_memory mem s b"
    and "r = Inr () \<Longrightarrow> i \<in> managedRegisters \<Longrightarrow> holds_control cfg (site_memory mem s') i v"
proof -
  obtain sv where sv: "write_register (aeModbus e) cfg i v (siService s) = (r, sv)" "s' = s\<lparr>siService := sv\<rparr>"
    using assms(2) by (auto simp: on_service_result)
  have same: "site_memory mem s' b = site_memory mem s b"
    if "b \<in> stormAddresses" "\<And>t reg. findByIDForInverterType i t = Some reg \<Longrightarrow> rWritable reg \<Longrightarrow> b \<noteq> rAddress reg" for b
  proof -
    have "b \<noteq> unlockRegisterAddress" using that(1) unlock_elsewhere(1) by blast
    then show ?thesis using write_register_change [OF assms(1) sv(1)] sv(2) that(2) by (auto simp: writes_at_most_def)
  qed
  show "site_memory mem s' b = site_memory mem s b" if "b \<in> stormAddresses" "i \<notin> managedRegisters"
    using that found_storm_register by (intro same) (auto simp: storm_register_ok_def isManagedRegister_def)
  show "site_memory mem s' b = site_memory mem s b"
    if "b \<in> stormAddresses" "i \<in> managedRegisters" "b \<noteq> (if i = ''battery_charge_cutoff_soc'' then 0xE01D else 0xE205)"
    using that managed_register(1) by (intro same) auto
  show "holds_control cfg (site_memory mem s') i v" if "r = Inr ()" "i \<in> managedRegisters"
    using write_register_change [OF assms(1) sv(1)] sv(2) that managed_register(2)
    by (auto simp: holds_control_def)
qed

text \<open>The assumptions of the manager on its device hold for the Modbus service over a lossy device.\<close>

lemma site_device_ok:
  assumes l: "lossy_memory (aeModbus e) mem"
  shows "device_ok (site_env e cfg) path (site_memory mem) (\<lambda>s. holds_control cfg (site_memory mem s))"
  unfolding device_ok_def
proof (intro conjI allI impI)
  fix a v and s s' :: "'a site"
  assume "evWriteWords (site_env e cfg) a [v] s = (Inr (), s')"
  then show "site_memory mem s' a = v"
    using write_word_true(2) [OF l] by (auto simp: on_service_result)
next
  fix a v and s :: "'a site" and b :: u16
  assume "b \<in> scheduleWords"
  then have b: "b \<noteq> unlockRegisterAddress" by simp
  obtain r sv where w: "write_holding_words (aeModbus e) cfg a [v] (siService s) = (r, sv)" by fastforce
  then show "site_memory mem (snd (evWriteWords (site_env e cfg) a [v] s)) b = site_memory mem s b
      \<or> b = a \<and> site_memory mem (snd (evWriteWords (site_env e cfg) a [v] s)) b = v"
    using write_word_true(1) [OF l w] b by (auto simp: on_service_def writes_at_most_def)
next
  fix i v and s s' :: "'a site"
  assume "evWriteRegister (site_env e cfg) i v s = (Inr (), s')" "i \<in> managedRegisters"
  then show "holds_control cfg (site_memory mem s') i v" using site_write_register(3) [OF l] by simp
next
  fix i j :: string and v x and s :: "'a site"
  assume i: "i \<in> managedRegisters" "j \<in> managedRegisters" "i \<noteq> j" and h: "holds_control cfg (site_memory mem s) j x"
  let ?s' = "snd (evWriteRegister (site_env e cfg) i v s)"
  obtain t reg where reg: "normalized_inverter_type (cfDevice cfg) = Inr t" "findByIDForInverterType j t = Some reg"
    "encode_write reg x = Inr (site_memory mem s (rAddress reg))"
    using h by (auto simp: holds_control_def)
  have a: "rAddress reg = (if j = ''battery_charge_cutoff_soc'' then 0xE01D else 0xE205)"
    using managed_register(1) [OF reg(2) i(2)] .
  have "site_memory mem ?s' (rAddress reg) = site_memory mem s (rAddress reg)"
    using i by (intro site_write_register(2) [OF l, of cfg i v s "fst (evWriteRegister (site_env e cfg) i v s)"])
      (auto simp: a stormAddresses_def managedRegisters_def)
  then show "holds_control cfg (site_memory mem ?s') j x" using reg by (auto simp: holds_control_def)
next
  fix i v and s :: "'a site" and b :: u16
  assume "i \<in> managedRegisters" "b \<in> scheduleWords"
  then show "site_memory mem (snd (evWriteRegister (site_env e cfg) i v s)) b = site_memory mem s b"
    by (intro site_write_register(2) [OF l, of cfg i v s "fst (evWriteRegister (site_env e cfg) i v s)"])
      (auto simp: stormAddresses_def scheduleWords_eq)
qed (simp_all add: file_outcome_def split: option.split)

section \<open>The file of the session\<close>

text \<open>What is assumed of the files and of YAML: a file can be read, and reading back a serialised
  runtime gives it but for the text of its error.\<close>

definition storage_ok :: "'w app_env \<Rightarrow> bool" where
  "storage_ok e \<longleftrightarrow> (\<forall>s. feRead (aeFs e s) = None)
     \<and> (\<forall>r data. aeMarshalRuntime e r = Inr data \<longrightarrow>
          (\<exists>er. aeUnmarshalRuntime e data runtime0 = Inr (r\<lparr>rtLastError := er\<rparr>)))"

lemma site_read: "storage_ok e \<Longrightarrow>
    evReadFile (site_env e cfg) p s = (case siFiles s p of None \<Rightarrow> Inl NotExist | Some data \<Rightarrow> Inr data)"
  by (simp add: storage_ok_def)

lemma site_durable: "storage_ok e \<Longrightarrow> durable (site_env e cfg) path"
  unfolding durable_def
  by (simp only: site_read)
    (auto simp: file_outcome_def storage_ok_def split: option.splits)

lemma site_safe: "storage_ok e \<Longrightarrow> safe_env (site_env e cfg) path (\<lambda>_. True)"
  by (simp add: safe_env_def site_durable kept_when_recorded_def)

interpretation site_words: word_accessor "evReadWords (site_env e cfg)" "evWriteWords (site_env e cfg)" for e cfg
  by unfold_locales (auto simp: on_service_result dest: read_holding_words_length)

lemma site_reader: "word_accessor (evReadWords (site_env e cfg))"
  by (rule site_words.word_accessor_axioms)


end
