(* ===== verification/AppProofs.thy ===== *)
theory AppProofs
  imports AppDevice
begin

text \<open>
  Properties of the application as a whole: the invariant of every application that can be reached
  from a start (the configuration and the recorded session stay in step), that a session that ends
  leaves the inverter's own memory restored, that nothing but the manager writes the registers of an
  active session, and when the watchdog restarts the process.
\<close>

section \<open>What the operations of the manager keep of a session\<close>

definition same_session :: "'w manager \<Rightarrow> 'w manager \<Rightarrow> bool" where
  "same_session m m' \<longleftrightarrow> rtSettings (mgRuntime m') = rtSettings (mgRuntime m) \<and> rtPrevious (mgRuntime m') = rtPrevious (mgRuntime m)"

lemma same_session_refl [simp]: "same_session m m"
  by (simp add: same_session_def)

lemma same_session_trans: "same_session m m1 \<Longrightarrow> same_session m1 m2 \<Longrightarrow> same_session m m2"
  by (simp add: same_session_def)

lemma same_session_set [simp]:
  assumes "\<And>r. rtSettings (f r) = rtSettings r \<and> rtPrevious (f r) = rtPrevious r"
  shows "same_session m (set_runtime f m') = same_session m m'"
  using assms by (simp add: same_session_def)

lemma same_session_flag [simp]: "same_session m (m'\<lparr>mgResumePending := b\<rparr>) = same_session m m'"
  by (simp add: same_session_def)

lemma same_session_save [simp]: "same_session m (try_save env m') = same_session m m'"
  by (simp add: same_session_def)

lemma same_session_restore: "same_session m (snd (restore_locked env finalPhase reason m))"
  using restore_locked_control [OF prod.collapse [symmetric], of env finalPhase reason m] by (simp add: same_session_def)

lemma same_session_check: "same_session m (check_session env snap m)"
  by (simp add: check_session_def same_session_restore split: option.split sum.split prod.split)

lemma same_session_cancel: "same_session m (snd (cancel env m))"
  by (simp add: cancel_def same_session_restore)

lemma same_session_apply: "apply_storm_settings env m = (r, m') \<Longrightarrow> same_session m m'"
  by (drule world_step_fields(1) [OF apply_storm_settings_step [OF world_closed]]) (simp add: same_session_def)

lemma same_session_evaluate: "same_session m (evaluate env m)"
proof -
  obtain r1 m1 where 1: "apply_storm_settings env m = (r1, m1)" by fastforce
  obtain r2 m2 where 2: "restore_locked env (finalPhaseForReason (rtReason (mgRuntime m))) (rtReason (mgRuntime m)) m = (r2, m2)"
    by fastforce
  have 3: "same_session m m1" "same_session m m2"
    using same_session_apply [OF 1] same_session_restore [of m env] 2 by (simp, metis snd_conv)
  have 4: "same_session m m' \<Longrightarrow> same_session m (check_session env snap m')" for m' snap
    by (rule same_session_trans [OF _ same_session_check])
  show ?thesis
    unfolding evaluate_def Let_def 1 2
    by (simp add: same_session_restore 3 4 split: sum.split)
qed

lemma same_session_start: "same_session m (snd (start_session env m))"
proof -
  obtain r2 m2 where 2: "apply_storm_settings env m = (r2, m2)" by fastforce
  have saved: "same_session m m4 = same_session m m3" if "save_locked env m3 = (r4, m4)" for m3 r4 m4
    using world_step_fields(1) [OF save_world_step [OF that]] by (simp add: same_session_def)
  have restored: "same_session m m4" if "restore_locked env ph i m3 = (r4, m4)" "same_session m m3" for ph i m3 r4 m4
    using same_session_trans [OF that(2) same_session_restore [of m3 env ph i]] that(1) by simp
  show ?thesis
    using same_session_apply [OF 2]
    by (auto simp: start_session_def Let_def 2 saved restored split: sum.split prod.split)
qed

lemma start_settings:
  assumes "start env g m = (r, m')" "rtActive (mgRuntime m')" "\<not> rtActive (mgRuntime m)"
  shows "rtSettings (mgRuntime m') = g"
proof -
  let ?snap = "evSnapshot env (mgWorld m)"
  have c: "validateSettings g = Inr ()" "start_checks g ?snap = Inr ()"
    using assms by (auto simp: start_def Let_def split: sum.splits)
  obtain r1 m1 where 1: "previous_of env ?snap m = (r1, m1)" by fastforce
  have m1: "mgRuntime m1 = mgRuntime m" using previous_of_world_step [OF 1] by (rule world_step_fields)
  obtain p where p: "r1 = Inr p" using assms c 1 m1 by (cases r1) (auto simp: start_def Let_def)
  let ?m2 = "set_runtime (\<lambda>_. start_runtime g p (now_of env m1)) m1"
  obtain r3 m3 where 3: "save_locked env ?m2 = (r3, m3)" by fastforce
  have m3: "rtSettings (mgRuntime m3) = g"
    using world_step_fields(1) [OF save_world_step [OF 3]] by (simp add: start_runtime_def)
  have "r3 = Inr ()" using assms c 1 p 3 by (cases r3) (auto simp: start_def Let_def runtime0_def)
  then have "start_session env m3 = (r, m')" using assms c 1 p 3 by (simp add: start_def Let_def)
  then show ?thesis using same_session_start [of m3 env] m3 by (simp add: same_session_def)
qed

section \<open>The application\<close>

text \<open>One call through the HTTP interface or MQTT, one round of the manager, or any change of the Modbus
  service, its store and the device (polling among them).\<close>

inductive app_step :: "'w app_env \<Rightarrow> 'w app \<Rightarrow> 'w app \<Rightarrow> bool" for e where
  write_call: "app_step e a (snd (app_write_register e i v a))"
| config_call: "app_step e a (snd (update_config e cfg a))"
| settings_call: "app_step e a (snd (update_storm_settings e g a))"
| start_call: "app_step e a (snd (start_storm e g a))"
| cancel_call: "app_step e a (snd (cancel_storm e a))"
| evaluate_call: "app_step e a (evaluate_storm e a)"
| clock_read_call: "app_step e a (snd (get_clock e a))"
| clock_set_call: "app_step e a (snd (set_clock e v a))"
| service_change: "app_step e a (put_site ((apSite a)\<lparr>siService := sv\<rparr>) a)"

text \<open>What the session of a running application has to do with its configuration: it is one of the configuration,
  or the one that the file held when the application started, \<open>q\<close>.\<close>

definition in_step :: "runtime option \<Rightarrow> config \<Rightarrow> runtime \<Rightarrow> bool" where
  "in_step q cfg r \<longleftrightarrow>
     normalized_inverter_type (cfDevice cfg) = Inr ''spi_h3p'' \<and> rtSettings r = settingsFromConfig (cfStorm cfg)
     \<or> (\<exists>r0. q = Some r0 \<and> rtActive r0 \<and> rtSettings r = rtSettings r0 \<and> rtPrevious r = rtPrevious r0)"

definition app_ok :: "'w app_env \<Rightarrow> runtime option \<Rightarrow> 'w app \<Rightarrow> bool" where
  "app_ok e q a \<longleftrightarrow> (\<exists>c. apStorm a = Some c
     \<and> manager_ok (site_env e (apConfig a)) (runtimePath (apConfigPath a)) (\<lambda>_. True) (manager_of a c)
     \<and> (rtActive (mgRuntime (manager_of a c)) \<longrightarrow> in_step q (apConfig a) (mgRuntime (manager_of a c))))"

lemma manager_of_simps [simp]:
  "mgPath (manager_of a (p, r, b)) = p" "mgRuntime (manager_of a (p, r, b)) = r"
  "mgResumePending (manager_of a (p, r, b)) = b" "mgWorld (manager_of a c) = apSite a"
  by (cases c, simp_all add: manager_of_def)+

lemma manager_of_put [simp]: "manager_of (put_manager m a) (mgPath m, mgRuntime m, mgResumePending m) = m"
  by (simp add: manager_of_def put_manager_def)

lemma put_manager_simps [simp]:
  "apStorm (put_manager m a) = Some (mgPath m, mgRuntime m, mgResumePending m)" "apSite (put_manager m a) = mgWorld m"
  "apConfig (put_manager m a) = apConfig a" "apConfigPath (put_manager m a) = apConfigPath a"
  by (simp_all add: put_manager_def)

lemma put_site_simps [simp]:
  "apStorm (put_site s a) = apStorm a" "apSite (put_site s a) = s"
  "apConfig (put_site s a) = apConfig a" "apConfigPath (put_site s a) = apConfigPath a"
  by (simp_all add: put_site_def)

text \<open>The file of the session does not depend on the configuration.\<close>

lemma manager_ok_site:
  assumes "storage_ok e" "manager_ok (site_env e cfg) p (\<lambda>_. True) m" "siFiles (mgWorld m') p = siFiles (mgWorld m) p"
    and "mgPath m' = mgPath m" "mgRuntime m' = mgRuntime m"
  shows "manager_ok (site_env e cfg') p (\<lambda>_. True) m'"
proof -
  have "on_disk (site_env e cfg') p (mgWorld m') = on_disk (site_env e cfg) p (mgWorld m)"
    using assms(1,3) by (simp add: on_disk_def storage_ok_def split: option.split)
  then show ?thesis
    using assms(2,4,5) by (simp add: manager_ok_def world_ok_def file_ok_def recorded_def)
qed

lemma app_ok_passive:
  assumes "storage_ok e" "app_ok e q a" "apStorm a' = apStorm a" "apConfigPath a' = apConfigPath a"
    and "siFiles (apSite a') (runtimePath (apConfigPath a)) = siFiles (apSite a) (runtimePath (apConfigPath a))"
    and "apConfig a' = apConfig a \<or> \<not> storm_active a"
  shows "app_ok e q a'"
proof -
  obtain p r b where c: "apStorm a = Some (p, r, b)"
    "manager_ok (site_env e (apConfig a)) (runtimePath (apConfigPath a)) (\<lambda>_. True) (manager_of a (p, r, b))"
    "rtActive r \<longrightarrow> in_step q (apConfig a) r"
    using assms(2) by (auto simp: app_ok_def)
  have "manager_ok (site_env e (apConfig a')) (runtimePath (apConfigPath a')) (\<lambda>_. True) (manager_of a' (p, r, b))"
    unfolding assms(4) by (rule manager_ok_site [OF assms(1) c(2)]) (simp_all add: assms(5))
  then show ?thesis
    using c assms(3,6) by (auto simp: app_ok_def storm_active_def is_active_def)
qed

text \<open>Saving the configuration does not touch the file of the session.\<close>

lemma runtime_path_apart: "runtimePath p \<noteq> p" "runtimePath p \<noteq> p @ ''.tmp''" "runtimePath p @ ''.tmp'' \<noteq> p"
  by (simp_all add: runtimePath_def)

lemma save_config_elsewhere:
  assumes "save_config marshal env p cfg files = (r, files')" "q \<noteq> p" "q \<noteq> p @ ''.tmp''"
  shows "files' q = files q"
  using assms by (auto simp: save_config_def Let_def split: sum.splits option.splits if_splits prod.splits)

lemma load_or_create_elsewhere:
  assumes "load_or_create unmarshal marshal env p files = (r, files')" "q \<noteq> p" "q \<noteq> p @ ''.tmp''"
  shows "files' q = files q"
  using assms save_config_elsewhere [OF _ assms(2,3)]
  by (auto simp: load_or_create_def Let_def split: sum.splits option.splits if_splits prod.splits load_error.splits)

lemma update_config_frame:
  assumes "update_config e cfg a = (r, a')"
  shows "apStorm a' = apStorm a" "apConfigPath a' = apConfigPath a"
    and "siFiles (apSite a') (runtimePath (apConfigPath a)) = siFiles (apSite a) (runtimePath (apConfigPath a))"
    and "apConfig a' = apConfig a \<or> \<not> storm_active a" "siService (apSite a') = siService (apSite a)"
    and "r = Inr () \<Longrightarrow> \<not> storm_active a \<and> apConfig a' = cfg"
  using assms save_config_elsewhere [of _ _ "apConfigPath a" cfg _ _ _ "runtimePath (apConfigPath a)"] runtime_path_apart
  by (auto simp: update_config_def split: if_splits prod.splits sum.splits)

lemma on_site_service_frame:
  assumes "on_site (on_service f) a = (r, a')"
  shows "apStorm a' = apStorm a" "apConfigPath a' = apConfigPath a" "siFiles (apSite a') = siFiles (apSite a)"
    "apConfig a' = apConfig a"
  using assms by (auto simp: on_site_def on_service_def split: prod.splits)


lemma app_write_frame:
  assumes "app_write_register e i v a = (r, a')"
  shows "apStorm a' = apStorm a" "apConfigPath a' = apConfigPath a" "siFiles (apSite a') = siFiles (apSite a)"
    "apConfig a' = apConfig a"
  using assms on_site_service_frame [of "write_register (aeModbus e) (apConfig a) i v" a r a']
  by (auto simp: app_write_register_def split: if_splits)

lemma clock_read_frame:
  assumes "get_clock e a = (r, a')"
  shows "apStorm a' = apStorm a" "apConfigPath a' = apConfigPath a" "siFiles (apSite a') = siFiles (apSite a)"
    "apConfig a' = apConfig a"
  using assms
  by (auto simp: get_clock_def on_site_def clock_read_def on_service_def split: if_splits prod.splits sum.splits)

lemma clock_set_frame:
  assumes "set_clock e v a = (r, a')"
  shows "apStorm a' = apStorm a" "apConfigPath a' = apConfigPath a" "siFiles (apSite a') = siFiles (apSite a)"
    "apConfig a' = apConfig a" "storm_active a \<Longrightarrow> a' = a"
  using assms
  by (auto simp: set_clock_def on_site_def clock_set_def clock_read_def on_service_def
      split: if_splits prod.splits sum.splits)

lemma settings_frame:
  assumes "update_storm_settings e g a = (r, a')"
  shows "apStorm a' = apStorm a" "apConfigPath a' = apConfigPath a"
    and "siFiles (apSite a') (runtimePath (apConfigPath a)) = siFiles (apSite a) (runtimePath (apConfigPath a))"
    and "apConfig a' = apConfig a \<or> \<not> storm_active a" "siService (apSite a') = siService (apSite a)"
    and "r = Inr () \<Longrightarrow> \<not> storm_active a \<and> cfDevice (apConfig a') = cfDevice (apConfig a)
      \<and> settingsFromConfig (cfStorm (apConfig a')) = g"
  using assms update_config_frame [of e _ a]
  by (auto simp: update_storm_settings_def settingsFromConfig_def split: sum.splits if_splits)

text \<open>A call of the manager that keeps what it has to.\<close>

lemma app_ok_manager:
  assumes "apStorm a = Some c"
    and "manager_ok (site_env e (apConfig a)) (runtimePath (apConfigPath a)) (\<lambda>_. True) m"
    and "rtActive (mgRuntime m) \<Longrightarrow> in_step q (apConfig a) (mgRuntime m)"
  shows "app_ok e q (put_manager m a)"
  using assms by (simp add: app_ok_def)

lemma start_storm_ok:
  assumes s: "storage_ok e" and a: "app_ok e q a"
  shows "app_ok e q (snd (start_storm e g a))"
proof -
  obtain c where c: "apStorm a = Some c" using a by (auto simp: app_ok_def)
  obtain r1 a1 where 1: "update_storm_settings e g a = (r1, a1)" by fastforce
  note f = settings_frame [OF 1]
  have a1: "app_ok e q a1" by (rule app_ok_passive [OF s a f(1,2,3,4)])
  then have m: "manager_ok (site_env e (apConfig a1)) (runtimePath (apConfigPath a1)) (\<lambda>_. True) (manager_of a1 c)"
    using c f(1) by (auto simp: app_ok_def)
  show ?thesis
  proof (cases "normalized_inverter_type (cfDevice (apConfig a)) = Inr ''spi_h3p'' \<and> \<not> storm_active a \<and> r1 = Inr ()")
    case False
    then have "snd (start_storm e g a) \<in> {a, a1}"
      using c 1 by (auto simp: start_storm_def split: sum.splits)
    then show ?thesis using a a1 by auto
  next
    case True
    obtain r m' where 2: "start (site_env e (apConfig a1)) g (manager_of a1 c) = (r, m')" by fastforce
    have k: "snd (start_storm e g a) = put_manager m' a1"
      using True c 1 f(1) 2 by (simp add: start_storm_def on_manager_def)
    have off: "\<not> rtActive (mgRuntime (manager_of a1 c))"
      using True c by (cases c) (simp add: storm_active_def is_active_def)
    show ?thesis
      unfolding k
      using start_ok(1) [OF site_safe [OF s] site_reader m 2] start_settings [OF 2 _ off] True f(1,6) c
      by (intro app_ok_manager) (auto simp: in_step_def)
  qed
qed

lemma manager_call_ok:
  assumes a: "app_ok e q a" and c: "apStorm a = Some c"
    and m: "\<And>m. manager_ok (site_env e (apConfig a)) (runtimePath (apConfigPath a)) (\<lambda>_. True) m \<Longrightarrow>
        manager_ok (site_env e (apConfig a)) (runtimePath (apConfigPath a)) (\<lambda>_. True) (f m)"
    and f: "\<And>m. same_session m (f m)" "\<And>m. \<not> rtActive (mgRuntime m) \<Longrightarrow> f m = m"
  shows "app_ok e q (put_manager (f (manager_of a c)) a)"
proof (rule app_ok_manager [OF c])
  have o: "manager_ok (site_env e (apConfig a)) (runtimePath (apConfigPath a)) (\<lambda>_. True) (manager_of a c)"
    "rtActive (mgRuntime (manager_of a c)) \<longrightarrow> in_step q (apConfig a) (mgRuntime (manager_of a c))"
    using a c by (auto simp: app_ok_def)
  show "manager_ok (site_env e (apConfig a)) (runtimePath (apConfigPath a)) (\<lambda>_. True) (f (manager_of a c))"
    using m o(1) .
  assume "rtActive (mgRuntime (f (manager_of a c)))"
  then have "rtActive (mgRuntime (manager_of a c))" using f(2) by metis
  then show "in_step q (apConfig a) (mgRuntime (f (manager_of a c)))"
    using o(2) f(1) [of "manager_of a c"] by (simp add: same_session_def in_step_def)
qed

lemma app_step_ok:
  assumes s: "storage_ok e" and a: "app_ok e q a" and st: "app_step e a a'"
  shows "app_ok e q a'"
  using st
proof cases
  case (write_call i v)
  show ?thesis unfolding write_call
    using app_write_frame [OF prod.collapse [symmetric], where e = e and i = i and v = v and a = a] by (intro app_ok_passive [OF s a]) simp_all
next
  case (config_call cfg)
  show ?thesis unfolding config_call
    using update_config_frame [OF prod.collapse [symmetric], where e = e and cfg = cfg and a = a] by (intro app_ok_passive [OF s a]) simp_all
next
  case (settings_call g)
  show ?thesis unfolding settings_call
    using settings_frame [OF prod.collapse [symmetric], where e = e and g = g and a = a] by (intro app_ok_passive [OF s a]) simp_all
next
  case (start_call g)
  then show ?thesis using start_storm_ok [OF s a] by simp
next
  case cancel_call
  obtain c where c: "apStorm a = Some c" using a by (auto simp: app_ok_def)
  have "app_ok e q (put_manager (snd (cancel (site_env e (apConfig a)) (manager_of a c))) a)"
    by (rule manager_call_ok [OF a c cancel_ok [OF site_safe [OF s]] same_session_cancel]) (simp_all add: cancel_def)
  then show ?thesis using cancel_call c by (simp add: cancel_storm_def on_manager_def case_prod_beta)
next
  case evaluate_call
  obtain c where c: "apStorm a = Some c" using a by (auto simp: app_ok_def)
  have "app_ok e q (put_manager (evaluate (site_env e (apConfig a)) (manager_of a c)) a)"
    by (rule manager_call_ok [OF a c evaluate_ok [OF site_safe [OF s]] same_session_evaluate])
      (simp_all add: evaluate_def Let_def)
  then show ?thesis using evaluate_call c by (simp add: evaluate_storm_def)
next
  case clock_read_call
  show ?thesis unfolding clock_read_call
    using clock_read_frame [OF prod.collapse [symmetric], where e = e and a = a] by (intro app_ok_passive [OF s a]) simp_all
next
  case (clock_set_call v)
  show ?thesis unfolding clock_set_call
    using clock_set_frame [OF prod.collapse [symmetric], where e = e and v = v and a = a] by (intro app_ok_passive [OF s a]) simp_all
next
  case (service_change sv)
  then show ?thesis by (intro app_ok_passive [OF s a]) simp_all
qed


text \<open>What the file of the session holds when the process starts; it does not depend on the configuration.\<close>

definition session_at_start :: "'w app_env \<Rightarrow> string \<Rightarrow> 'w site \<Rightarrow> runtime option" where
  "session_at_start e path s = on_disk (site_env e default_config) (runtimePath path) s"

definition start_file_ok :: "'w app_env \<Rightarrow> string \<Rightarrow> 'w site \<Rightarrow> bool" where
  "start_file_ok e path s \<longleftrightarrow> (\<forall>r. session_at_start e path s = Some r \<longrightarrow> session_ok r)"

lemma disk_files:
  assumes "storage_ok e" "siFiles s' p = siFiles s p"
  shows "on_disk (site_env e cfg') p s' = on_disk (site_env e cfg) p s"
  using assms by (simp add: on_disk_def storage_ok_def split: option.split)

lemma no_file_start:
  assumes "storage_ok e" "siFiles s (runtimePath path) = None"
  shows "session_at_start e path s = None" "start_file_ok e path s"
  using assms by (simp_all add: session_at_start_def start_file_ok_def on_disk_def storage_ok_def)

lemma run_init_ok:
  assumes "storage_ok e" "run_init e path s = Inr a" "start_file_ok e path s"
  shows "app_ok e (session_at_start e path s) a" "apConfigPath a = path"
proof -
  obtain cfg created files where l: "load_or_create (aeUnmarshalConfig e) (aeMarshalConfig e) (aeFs e s) path (siFiles s)
      = (Inr (cfg, created), files)"
    using assms(2) by (auto simp: run_init_def Let_def split: prod.splits sum.splits)
  define s1 where "s1 = s\<lparr>siFiles := files,
      siService := (siService s)\<lparr>svStore := set_service_status (site_now e s) ''web'' ''running'' True no_error (site_now e s)
        (svStore (siService s))\<rparr>\<rparr>"
  obtain m where m: "new_manager (site_env e cfg) (runtimePath path) s1 = Inr m"
    "a = put_manager m \<lparr>apConfigPath = path, apConfig = cfg, apStorm = None, apSite = s1\<rparr>"
    using assms(2) l by (auto simp: run_init_def Let_def s1_def split: sum.splits)
  have "siFiles s1 (runtimePath path) = siFiles s (runtimePath path)"
    using load_or_create_elsewhere [OF l runtime_path_apart(1,2)] by (simp add: s1_def)
  then have disk: "on_disk (site_env e cfg) (runtimePath path) s1 = session_at_start e path s"
    unfolding session_at_start_def by (rule disk_files [OF assms(1)])
  have f: "file_ok (site_env e cfg) (runtimePath path) s1"
    using assms(3) by (simp add: file_ok_def disk start_file_ok_def)
  have ok: "manager_ok (site_env e cfg) (runtimePath path) (\<lambda>_. True) m"
    by (rule new_manager_ok [OF f TrueI m(1)])
  have "in_step (session_at_start e path s) cfg (mgRuntime m)" if "rtActive (mgRuntime m)"
    using new_manager_cases(4) [OF m(1)] f that disk by (auto simp: runtime0_def file_ok_def in_step_def)
  then show "app_ok e (session_at_start e path s) a" "apConfigPath a = path"
    using ok by (auto simp: app_ok_def m(2))
qed

lemma reachable_app_ok:
  assumes "storage_ok e" "run_init e path s = Inr a0" "start_file_ok e path s"
    and "(app_step e)\<^sup>*\<^sup>* a0 a"
  shows "app_ok e (session_at_start e path s) a"
  using assms(4) run_init_ok(1) [OF assms(1-3)]
  by (induction rule: rtranclp_induct) (auto intro: app_step_ok [OF assms(1)])

lemma reachable_app_fresh:
  assumes "storage_ok e" "run_init e path s = Inr a0" "siFiles s (runtimePath path) = None"
    and "(app_step e)\<^sup>*\<^sup>* a0 a" "apStorm a = Some (p, r, b)"
  shows "manager_ok (site_env e (apConfig a)) (runtimePath (apConfigPath a)) (\<lambda>_. True) (manager_of a (p, r, b))"
    and "rtActive r \<Longrightarrow> normalized_inverter_type (cfDevice (apConfig a)) = Inr ''spi_h3p''
      \<and> rtSettings r = settingsFromConfig (cfStorm (apConfig a))"
  using reachable_app_ok [OF assms(1,2) no_file_start(2) [OF assms(1,3)] assms(4)] assms(5)
  by (auto simp: app_ok_def in_step_def no_file_start(1) [OF assms(1,3)])

section \<open>Properties of the application\<close>

text \<open>In every application reached from a start without a session, by any calls, rounds of the
  manager and changes outside, an active session is one of an SPI H3P inverter with the settings that
  the configuration holds, which cannot have been changed since; the session is well formed, and the
  settings to restore are in its file.\<close>

theorem app_session_invariant:
  assumes "storage_ok e" "run_init e path s = Inr a0" "siFiles s (runtimePath path) = None"
    and "(app_step e)\<^sup>*\<^sup>* a0 a" "apStorm a = Some (p, r, b)"
  shows "session_ok r \<and> (rtActive r \<longrightarrow>
    normalized_inverter_type (cfDevice (apConfig a)) = Inr ''spi_h3p''
    \<and> rtSettings r = settingsFromConfig (cfStorm (apConfig a))
    \<and> recorded (site_env e (apConfig a)) (runtimePath (apConfigPath a)) (rtPrevious r) (apSite a))"
  using reachable_app_fresh [OF assms] by (simp add: manager_ok_def)

lemma app_controls:
  assumes "holds_control cfg m i v" "i \<in> managedRegisters" "normalized_inverter_type (cfDevice cfg) = Inr t"
  shows "\<exists>reg. findByIDForInverterType i t = Some reg
    \<and> encode_write reg v = Inr (m (if i = ''battery_charge_cutoff_soc'' then 0xE01D else 0xE205))"
  using assms managed_register(1) by (fastforce simp: holds_control_def)

text \<open>C29: a session ends with the inverter itself restored: when a cancel or a round of the manager
  ends a session, the seven words of the timed charge schedule in the memory of the inverter are those
  read before the session, and the registers of the grid charge current and of the cutoff hold the
  encoding of the values before it, although any request may have failed or been lost on the way.\<close>

theorem app_ends_restored:
  assumes "storage_ok e" "run_init e path s = Inr a0" "siFiles s (runtimePath path) = None"
    and "(app_step e)\<^sup>*\<^sup>* a0 a" "apStorm a = Some (p, r, b)" "rtActive r"
    and "lossy_memory (aeModbus e) mem" "a' \<in> {snd (cancel_storm e a), evaluate_storm e a}" "\<not> storm_active a'"
  shows "map (\<lambda>i. mem (svWorld (siService (apSite a'))) (0xE026 + of_nat i)) [0..<7] = psSchedule (rtPrevious r)
    \<and> (\<exists>reg. findByIDForInverterType ''mains_charge_current_limit'' ''spi_h3p'' = Some reg
      \<and> encode_write reg (VFloat (psMainsCurrentA (rtPrevious r))) = Inr (mem (svWorld (siService (apSite a'))) 0xE205))
    \<and> (\<exists>reg. findByIDForInverterType ''battery_charge_cutoff_soc'' ''spi_h3p'' = Some reg
      \<and> encode_write reg (VInt (psCutoffSOC (rtPrevious r))) = Inr (mem (svWorld (siService (apSite a'))) 0xE01D))"
proof -
  let ?env = "site_env e (apConfig a)" and ?m = "manager_of a (p, r, b)"
  have ok: "session_ok r" "normalized_inverter_type (cfDevice (apConfig a)) = Inr ''spi_h3p''"
    using reachable_app_fresh [OF assms(1-5)] assms(6) by (simp_all add: manager_ok_def)
  define m' where "m' = (if a' = snd (cancel_storm e a) then snd (cancel ?env ?m) else evaluate ?env ?m)"
  have a': "a' = put_manager m' a"
    using assms(5,8) by (auto simp: m'_def cancel_storm_def evaluate_storm_def on_manager_def case_prod_beta)
  have "\<not> rtActive (mgRuntime m')" using assms(9) by (simp add: a' storm_active_def is_active_def)
  then have "restored (site_memory mem) (\<lambda>s. holds_control (apConfig a) (site_memory mem s)) (rtPrevious (mgRuntime ?m)) (mgWorld m')"
    using ok(1) assms(6)
    by (intro session_ends_restored [where env = ?env and m = ?m, OF site_device_ok [OF assms(7)]]) (simp_all add: m'_def)
  then have *: "map (\<lambda>i. mem (svWorld (siService (apSite a'))) (timedChargeAddress + of_nat i)) [0..<timedChargeWords] = psSchedule (rtPrevious r)"
    "holds_control (apConfig a) (site_memory mem (apSite a')) ''mains_charge_current_limit'' (VFloat (psMainsCurrentA (rtPrevious r)))"
    "holds_control (apConfig a) (site_memory mem (apSite a')) ''battery_charge_cutoff_soc'' (VInt (psCutoffSOC (rtPrevious r)))"
    by (simp_all add: restored_def a' del: upt.simps)
  show ?thesis
    using *(1) app_controls [OF *(2) managed(2) ok(2)] app_controls [OF *(3) managed(1) ok(2)]
    by (simp add: timedChargeAddress_def timedChargeWords_def del: upt.simps)
qed


lemma storm_range: "b \<in> {0xE01D, 0xE205} \<union> {0xE026..0xE02C} \<Longrightarrow> b \<in> stormAddresses"
proof -
  assume b: "b \<in> {0xE01D, 0xE205} \<union> {0xE026..0xE02C}"
  have "b \<in> {0xE026, 0xE027, 0xE028, 0xE029, 0xE02A, 0xE02B, 0xE02C}" if "0xE026 \<le> b" "b \<le> 0xE02C"
  proof -
    have "unat b \<in> {57382, 57383, 57384, 57385, 57386, 57387, 57388}" using that by (simp add: word_le_nat_alt) arith
    then show ?thesis by (auto simp: word_unat_eq_iff)
  qed
  then show ?thesis using b by (auto simp: stormAddresses_def)
qed

text \<open>While a session is active only the manager writes its registers: a write through the
  application, a change of the configuration or of the settings, another start and the clock leave the
  schedule, the grid charge current and the cutoff in the inverter's memory as they are, and do not
  touch the configuration or the session.\<close>

theorem app_settings_protected:
  assumes "storm_active a" "lossy_memory (aeModbus e) mem"
    and "a' \<in> {snd (app_write_register e i v a), snd (update_config e cfg a), snd (update_storm_settings e g a),
      snd (start_storm e g a), snd (set_clock e t a)}"
  shows "apConfig a' = apConfig a \<and> apStorm a' = apStorm a
    \<and> (\<forall>b \<in> {0xE01D, 0xE205} \<union> {0xE026..0xE02C}.
        mem (svWorld (siService (apSite a'))) b = mem (svWorld (siService (apSite a))) b)"
proof -
  have "b \<in> stormAddresses" if "b \<in> {0xE01D, 0xE205} \<union> {0xE026..0xE02C}" for b :: u16
    using that by (rule storm_range)
  moreover have "apConfig a' = apConfig a \<and> apStorm a' = apStorm a
    \<and> (\<forall>b \<in> stormAddresses. site_memory mem (apSite a') b = site_memory mem (apSite a) b)"
  proof (cases "a' = snd (app_write_register e i v a)")
    case False
    moreover have "snd (update_config e cfg a) = a" "snd (update_storm_settings e g a) = a"
      "snd (start_storm e g a) = a" "snd (set_clock e t a) = a"
      using assms(1) by (auto simp: update_config_def update_storm_settings_def start_storm_def set_clock_def
          storm_active_def split: sum.split option.splits)
    ultimately show ?thesis using assms(3) by auto
  next
    case True
    obtain r1 s1 where 1: "on_service (write_register (aeModbus e) (apConfig a) i v) (apSite a) = (r1, s1)" by fastforce
    note w = site_write_register(1) [OF assms(2) 1]
    show ?thesis
      using True assms(1) 1 w by (auto simp: app_write_register_def on_site_def isManagedRegister_def)
  qed
  ultimately show ?thesis by blast
qed

section \<open>The watchdog\<close>

text \<open>The status of the service after a success at time \<open>t\<close> and failures since.\<close>

fun failures :: "(gotime \<times> go_error) list \<Rightarrow> store \<Rightarrow> store" where
  "failures [] st = st"
| "failures ((now, er) # es) st = failures es (set_service_status now ''modbus'' ''error'' False er 0 st)"

lemma modbus_status_set:
  "map_of (stServices (set_service_status now ''modbus'' text ok er ls st)) ''modbus'' =
     Some \<lparr>ssName = ''modbus'', ssStatus = text, ssConnected = ok, ssLastError = er,
       ssLastSuccess = (if ls = 0 then last_success st ''modbus'' else ls), ssUpdatedAt = now\<rparr>"
  by (simp add: set_service_status_def last_success_def Let_def update_conv')

lemma last_success_status: "map_of (stServices st) n = Some ss \<Longrightarrow> last_success st n = ssLastSuccess ss"
  by (simp add: last_success_def lookup_or_def)

lemma failures_status:
  assumes "map_of (stServices st) ''modbus'' = Some ss"
  shows "\<exists>ss'. map_of (stServices (failures errs st)) ''modbus'' = Some ss' \<and> ssLastSuccess ss' = ssLastSuccess ss
    \<and> (if errs = [] then ss' = ss else \<not> ssConnected ss' \<and> ssStatus ss' = ''error'')"
  using assms
proof (induction errs arbitrary: st ss)
  case (Cons x errs)
  obtain now er where x: "x = (now, er)" by fastforce
  from Cons.IH [OF modbus_status_set [of now "''error''" False er 0 st]] show ?case
    using last_success_status [OF Cons.prems] by (fastforce simp: x split: if_splits)
qed simp

text \<open>The watchdog restarts the process exactly when the Modbus service, which had a success at
  time \<open>t\<close> and has reported only errors since, has been without one for its threshold, which is never
  below 90 seconds; with no error since the success it never does.\<close>

theorem watchdog_after_loss:
  assumes "svStore (siService (apSite a)) =
      failures errs (set_service_status t0 ''modbus'' ''connected'' True no_error t st)" "t \<noteq> 0"
  shows "(fst (should_trigger now a) \<longleftrightarrow> errs \<noteq> [] \<and> t + watchdog_threshold (apConfig a) \<le> now)
    \<and> 90 * second \<le> watchdog_threshold (apConfig a)"
proof -
  let ?s0 = "\<lparr>ssName = ''modbus'', ssStatus = ''connected'', ssConnected = True, ssLastError = no_error,
       ssLastSuccess = t, ssUpdatedAt = t0\<rparr>"
  have "map_of (stServices (set_service_status t0 ''modbus'' ''connected'' True no_error t st)) ''modbus'' = Some ?s0"
    using modbus_status_set [of t0 "''connected''" True no_error t st] assms(2) by simp
  from failures_status [OF this, of errs]
  obtain ss where ss: "map_of (stServices (svStore (siService (apSite a)))) ''modbus'' = Some ss" "ssLastSuccess ss = t"
    "if errs = [] then ss = ?s0 else \<not> ssConnected ss \<and> ssStatus ss = ''error''"
    using assms(1) by auto
  then have "fst (should_trigger now a) \<longleftrightarrow> errs \<noteq> [] \<and> watchdog_threshold (apConfig a) \<le> now - t"
    using assms(2) by (auto simp: should_trigger_def get_state_snapshot_def snapshot_def Let_def split: if_splits)
  then have "fst (should_trigger now a) \<longleftrightarrow> errs \<noteq> [] \<and> t + watchdog_threshold (apConfig a) \<le> now"
    by (auto simp: algebra_simps)
  then show ?thesis by (simp add: watchdog_threshold_def Let_def)
qed

end
