(* ===== verification/Bridge.thy ===== *)
theory Bridge
  imports MqttProofs MqttWorld HttpApi AppProofs
begin

text \<open>
  The running bridge: the application of \<^verbatim>\<open>internal/app/app.go\<close> with the two services that act
  on it for the outside, wired as \<^verbatim>\<open>Run\<close> does. The world of the MQTT service is the
  application and the state \<open>'b\<close> of the client library; \<open>client_lib\<close> is that library, the only
  parameter left of the interface \<open>mqtt_env\<close>. A step is an HTTP request, an event of the MQTT
  service, a round of the storm charge manager, or a change of the Modbus service and its store, polling
  among them. Then the loop of the watchdog.
\<close>

record 'b client_lib =
  clNew :: "client_options \<Rightarrow> 'b \<Rightarrow> nat \<times> 'b"
  clConnect :: "nat \<Rightarrow> 'b \<Rightarrow> token \<times> 'b"
  clIsOpen :: "nat \<Rightarrow> 'b \<Rightarrow> bool"
  clPublish :: "nat \<Rightarrow> string \<Rightarrow> bool \<Rightarrow> payload \<Rightarrow> 'b \<Rightarrow> token \<times> 'b"
  clSubscribe :: "nat \<Rightarrow> string list \<Rightarrow> 'b \<Rightarrow> token \<times> 'b"
  clDisconnect :: "nat \<Rightarrow> 'b \<Rightarrow> 'b"
  clOrder :: "(string \<times> string) list \<Rightarrow> 'b \<Rightarrow> (string \<times> string) list"

section \<open>Wiring\<close>

type_synonym ('w, 'b) bridge = "('w app \<times> 'b) mqtt"

definition on_app :: "('w app \<Rightarrow> 'a \<times> 'w app) \<Rightarrow> 'w app \<times> 'b \<Rightarrow> 'a \<times> 'w app \<times> 'b" where
  "on_app f w = (case f (fst w) of (r, a) \<Rightarrow> (r, (a, snd w)))"

definition on_lib :: "('b \<Rightarrow> 'a \<times> 'b) \<Rightarrow> 'w app \<times> 'b \<Rightarrow> 'a \<times> 'w app \<times> 'b" where
  "on_lib f w = (case f (snd w) of (r, b) \<Rightarrow> (r, (fst w, b)))"

definition set_app_status :: "'w app_env \<Rightarrow> string \<Rightarrow> string \<Rightarrow> bool \<Rightarrow> go_error \<Rightarrow> gotime \<Rightarrow> 'w app \<Rightarrow> 'w app" where
  "set_app_status e name text ok er t a =
     (let sv = siService (apSite a) in
      put_site ((apSite a)\<lparr>siService := sv\<lparr>svStore :=
        set_service_status (site_now e (apSite a)) name text ok er t (svStore sv)\<rparr>\<rparr>) a)"

definition bridge_env :: "'w http_env \<Rightarrow> 'b client_lib \<Rightarrow> ('w app \<times> 'b) mqtt_env" where
  "bridge_env h lib = (let e = heApp h in
     \<lparr>qeConfig = (\<lambda>w. apConfig (fst w)),
      qeWriteRegister = (\<lambda>i v. on_app (app_write_register e i v)),
      qeStormStatus = (\<lambda>w. get_storm_status e (fst w)),
      qeUpdateSettings = (\<lambda>g. on_app (update_storm_settings e g)),
      qeStartStorm = (\<lambda>g. on_app (start_storm e g)),
      qeCancelStorm = on_app (cancel_storm e),
      qeSnapshot = (\<lambda>w. get_state_snapshot (fst w)),
      qeSetStatus = (\<lambda>text ok er t w. (set_app_status e ''mqtt'' text ok er t (fst w), snd w)),
      qeNow = (\<lambda>w. site_now e (apSite (fst w))),
      qeVersion = biVersion (heBuild h),
      qeOrder = (\<lambda>vs w. clOrder lib vs (snd w)),
      qeNewClient = (\<lambda>opts. on_lib (clNew lib opts)),
      qeConnect = (\<lambda>c. on_lib (clConnect lib c)),
      qeIsOpen = (\<lambda>c w. clIsOpen lib c (snd w)),
      qePublish = (\<lambda>c t r p. on_lib (clPublish lib c t r p)),
      qeSubscribe = (\<lambda>c ts. on_lib (clSubscribe lib c ts)),
      qeDisconnect = (\<lambda>c w. (fst w, clDisconnect lib c (snd w)))\<rparr>)"

definition bridge_app :: "('w, 'b) bridge \<Rightarrow> 'w app" where
  "bridge_app s = fst (qsWorld s)"

definition with_app :: "'w app \<Rightarrow> ('w, 'b) bridge \<Rightarrow> ('w, 'b) bridge" where
  "with_app a s = s\<lparr>qsWorld := (a, snd (qsWorld s))\<rparr>"

definition bridge_http :: "'w http_env \<Rightarrow> http_request \<Rightarrow> ('w, 'b) bridge \<Rightarrow> http_reply \<times> ('w, 'b) bridge" where
  "bridge_http h rq s = (case serve_http h rq (bridge_app s) of (rp, a) \<Rightarrow> (rp, with_app a s))"

text \<open>\<^verbatim>\<open>Run\<close>: the application, then the services.\<close>

definition bridge_start :: "'w http_env \<Rightarrow> 'b client_lib \<Rightarrow> string \<Rightarrow> 'w site \<Rightarrow> 'b \<Rightarrow> go_error + ('w, 'b) bridge" where
  "bridge_start h lib path s b =
     (case run_init (heApp h) path s of
        Inl er \<Rightarrow> Inl er
      | Inr a \<Rightarrow> Inr (new_mqtt (a, b)))"

inductive bridge_step :: "'w http_env \<Rightarrow> 'b client_lib \<Rightarrow> ('w, 'b) bridge \<Rightarrow> ('w, 'b) bridge \<Rightarrow> bool" for h lib where
  http: "bridge_step h lib s (snd (bridge_http h rq s))"
| mqtt_begin: "bridge_step h lib s (mqtt_start (bridge_env h lib) (qsWorld s))"
| mqtt_tick: "bridge_step h lib s (mqtt_sync (bridge_env h lib) s)"
| mqtt_message: "bridge_step h lib s (on_message (bridge_env h lib) cfg topic body s)"
| mqtt_connected: "bridge_step h lib s (snd (on_connect (bridge_env h lib) cfg c s))"
| mqtt_lost: "bridge_step h lib s (on_connection_lost (bridge_env h lib) er s)"
| mqtt_reset: "bridge_step h lib s (reset_client (bridge_env h lib) (Some c) s)"
| mqtt_stopped: "bridge_step h lib s (mqtt_disconnect (bridge_env h lib) s)"
| storm_round: "bridge_step h lib s (with_app (evaluate_storm (heApp h) (bridge_app s)) s)"
| service_round: "bridge_step h lib s (with_app (put_site ((apSite (bridge_app s))\<lparr>siService := sv\<rparr>) (bridge_app s)) s)"
| library: "bridge_step h lib s (s\<lparr>qsWorld := (bridge_app s, b)\<rparr>)"

inductive_cases bridge_stepE: "bridge_step h lib s s'"

lemma bridge_env_simps [simp]:
  "qeConfig (bridge_env h lib) w = apConfig (fst w)"
  "qeWriteRegister (bridge_env h lib) i v = on_app (app_write_register (heApp h) i v)"
  "qeStormStatus (bridge_env h lib) w = get_storm_status (heApp h) (fst w)"
  "qeUpdateSettings (bridge_env h lib) g = on_app (update_storm_settings (heApp h) g)"
  "qeStartStorm (bridge_env h lib) g = on_app (start_storm (heApp h) g)"
  "qeCancelStorm (bridge_env h lib) = on_app (cancel_storm (heApp h))"
  "qeSnapshot (bridge_env h lib) w = get_state_snapshot (fst w)"
  "qeSetStatus (bridge_env h lib) text ok er t w = (set_app_status (heApp h) ''mqtt'' text ok er t (fst w), snd w)"
  "qeNow (bridge_env h lib) w = site_now (heApp h) (apSite (fst w))"
  "qeOrder (bridge_env h lib) vs w = clOrder lib vs (snd w)"
  "qeNewClient (bridge_env h lib) opts = on_lib (clNew lib opts)"
  "qeConnect (bridge_env h lib) c = on_lib (clConnect lib c)"
  "qeIsOpen (bridge_env h lib) c w = clIsOpen lib c (snd w)"
  "qePublish (bridge_env h lib) c topic r p = on_lib (clPublish lib c topic r p)"
  "qeSubscribe (bridge_env h lib) c ts = on_lib (clSubscribe lib c ts)"
  "qeDisconnect (bridge_env h lib) c w = (fst w, clDisconnect lib c (snd w))"
  by (simp_all add: bridge_env_def Let_def)

section \<open>The log of the library\<close>

text \<open>Any client library, with a log of its publications and what became of them, newest first. The
  library behaves as without it.\<close>

definition logged :: "'b client_lib \<Rightarrow> ('b \<times> publication list) client_lib" where
  "logged lib =
     \<lparr>clNew = (\<lambda>opts b. case clNew lib opts (fst b) of (c, b1) \<Rightarrow> (c, (b1, snd b))),
      clConnect = (\<lambda>c b. case clConnect lib c (fst b) of (tok, b1) \<Rightarrow> (tok, (b1, snd b))),
      clIsOpen = (\<lambda>c b. clIsOpen lib c (fst b)),
      clPublish = (\<lambda>c t r p b. case clPublish lib c t r p (fst b) of (tok, b1) \<Rightarrow> (tok, (b1, (t, p, tok) # snd b))),
      clSubscribe = (\<lambda>c ts b. case clSubscribe lib c ts (fst b) of (tok, b1) \<Rightarrow> (tok, (b1, snd b))),
      clDisconnect = (\<lambda>c b. (clDisconnect lib c (fst b), snd b)),
      clOrder = (\<lambda>vs b. clOrder lib vs (fst b))\<rparr>"

definition publications :: "('w, 'b \<times> publication list) bridge \<Rightarrow> publication list" where
  "publications s = snd (snd (qsWorld s))"

lemma on_app_simps [simp]: "fst (on_app f w) = fst (f (fst w))" "snd (on_app f w) = (snd (f (fst w)), snd w)"
  by (simp_all add: on_app_def case_prod_beta)

lemma on_lib_simps [simp]: "fst (on_lib f w) = fst (f (snd w))" "snd (on_lib f w) = (fst w, snd (f (snd w)))"
  by (simp_all add: on_lib_def case_prod_beta)

text \<open>The application never publishes, and publishing leaves it as it is, whatever the library does; of the
  order in which Go ranges over a map only that it is one of all its entries is needed.\<close>

lemma bridge_records:
  assumes "\<forall>vs b. mset (clOrder lib vs b) = mset vs"
  shows "records_completed (bridge_env h (logged lib)) (\<lambda>w. last_completed (snd (snd w)))"
  using assms
  by (auto simp: records_completed_def logged_def reports_def last_completed_Cons case_prod_beta)

section \<open>The bridge as an application\<close>

text \<open>Whatever happens to the bridge is a sequence of calls of the application.\<close>

abbreviation app_steps :: "'w app_env \<Rightarrow> 'w app \<Rightarrow> 'w app \<Rightarrow> bool" where
  "app_steps e \<equiv> (app_step e)\<^sup>*\<^sup>*"

lemmas handler_defs = handle_health_def handle_status_def handle_get_config_def handle_update_config_def
  handle_serial_ports_def handle_write_register_def handle_get_storm_def handle_storm_settings_def
  handle_start_storm_def with_settings_def handle_cancel_storm_def handle_get_clock_def handle_set_clock_def

lemma app_steps_http: "app_steps (heApp h) a (snd (serve_http h rq a))"
proof -
  have "snd (handle_route h rq rt a) = a \<or> app_step (heApp h) a (snd (handle_route h rq rt a))" for rt
    by (cases rt) (auto simp: handler_defs case_prod_beta intro: app_step.intros split: option.split sum.split)
  from this [of "route_of (rqMethod rq) (rqSegments rq)"] show ?thesis
    by (auto simp: serve_http_def case_prod_beta)
qed

lemma status_step: "app_step e a (set_app_status e name text ok er t a)"
  unfolding set_app_status_def Let_def by (rule app_step.service_change)

text \<open>The laws of the MQTT service's world hold of the application: its state is reached by calls.\<close>

interpretation bridge_world: mqtt_world "bridge_env h lib" "\<lambda>w. app_steps (heApp h) a (fst w)" for h lib a
  by unfold_locales (auto intro: rtranclp.rtrancl_into_rtrancl app_step.intros status_step)

text \<open>Publishing leaves the application as it is.\<close>

interpretation bridge_publisher: publisher "bridge_env h lib" "\<lambda>w. fst w = a" for h lib a
  by unfold_locales simp

lemma with_app_simps [simp]: "bridge_app (with_app a s) = a" "bridge_app (s\<lparr>qsWorld := w\<rparr>) = fst w"
  by (simp_all add: bridge_app_def with_app_def)

text \<open>The bridge refines the application.\<close>

lemma bridge_step_app:
  assumes "bridge_step h lib s s'"
  shows "app_steps (heApp h) (bridge_app s) (bridge_app s')"
proof -
  have refl: "app_steps (heApp h) (bridge_app s) (fst (qsWorld s))" by (simp add: bridge_app_def)
  show ?thesis
    using assms
  proof (cases rule: bridge_step.cases)
    case (http rq)
    then show ?thesis using app_steps_http by (simp add: bridge_http_def case_prod_beta)
  next
    case (storm_round)
    then show ?thesis by (auto intro: app_step.evaluate_call)
  next
    case (service_round sv)
    then show ?thesis by (auto intro: app_step.service_change)
  qed (use refl in \<open>simp_all add: bridge_app_def bridge_world.begin_keeps bridge_world.sync_keeps
      bridge_world.message_keeps bridge_world.callbacks_keep bridge_world.reset_keeps bridge_world.disconnect_keeps\<close>)
qed

lemma bridge_reachable_app:
  assumes "(bridge_step h lib)\<^sup>*\<^sup>* s s'"
  shows "app_steps (heApp h) (bridge_app s) (bridge_app s')"
  using assms by (induction rule: rtranclp_induct) (auto dest: bridge_step_app)

text \<open>C28: in every state of the bridge reached from a start, by any HTTP requests, MQTT events, rounds of
  the manager and changes outside, each of which ends before the next begins (theory \<open>Interleaving\<close> is
  about those that overlap), the session is well formed, and while it is active the settings to restore
  are in its file and it is one of two: a session of an SPI H3P inverter with the settings that the
  configuration holds, which cannot have been changed since; or the one that the file held active at the
  start, with the settings and previous settings it had there (the configuration may have been edited
  before the start). At the start there is no file of a session, or it holds a well-formed one, as every
  state so reached leaves it.\<close>

theorem bridge_session_invariant:
  assumes "storage_ok (heApp h)" "bridge_start h lib path st b = Inr s0" "start_file_ok (heApp h) path st"
    and "(bridge_step h lib)\<^sup>*\<^sup>* s0 s" "apStorm (bridge_app s) = Some (p, r, flag)"
  shows "session_ok r \<and> (rtActive r \<longrightarrow>
    recorded (site_env (heApp h) (apConfig (bridge_app s))) (runtimePath (apConfigPath (bridge_app s)))
      (rtPrevious r) (apSite (bridge_app s))
    \<and> (normalized_inverter_type (cfDevice (apConfig (bridge_app s))) = Inr ''spi_h3p''
        \<and> rtSettings r = settingsFromConfig (cfStorm (apConfig (bridge_app s)))
      \<or> (\<exists>r0. session_at_start (heApp h) path st = Some r0 \<and> rtActive r0
          \<and> rtSettings r = rtSettings r0 \<and> rtPrevious r = rtPrevious r0)))"
proof -
  obtain a0 where a0: "run_init (heApp h) path st = Inr a0" "bridge_app s0 = a0"
    using assms(2) by (auto simp: bridge_start_def bridge_app_def new_mqtt_def split: sum.splits)
  show ?thesis
    using reachable_app_ok [OF assms(1) a0(1) assms(3) bridge_reachable_app [OF assms(4), unfolded a0(2)]] assms(5)
    by (auto simp: app_ok_def manager_ok_def in_step_def)
qed

section \<open>What has been published\<close>


section \<open>What a command does to the application\<close>

lemma on_app_Pair: "on_app f w = (r, w') \<longleftrightarrow> w' = (snd (f (fst w)), snd w) \<and> r = fst (f (fst w))"
  by (auto simp: on_app_def case_prod_beta)

lemma command_app:
  "bridge_app (handle_command (bridge_env h lib) reg body s) =
     (if trim_space body = '''' then bridge_app s
      else snd (app_write_register (heApp h) (rID reg) (VStr (trim_space body)) (bridge_app s)))"
proof -
  obtain r w where w: "on_app (app_write_register (heApp h) (rID reg) (VStr (trim_space body))) (qsWorld s) = (r, w)"
    by (metis surj_pair)
  have "fst (qsWorld (snd (publish_command_state (bridge_env h lib) cfg reg v (s\<lparr>qsWorld := w\<rparr>)))) = fst w" for cfg v
    by (rule bridge_publisher.publications_keep(6)) simp
  moreover have "fst w = snd (app_write_register (heApp h) (rID reg) (VStr (trim_space body)) (fst (qsWorld s)))"
    using w by (simp add: on_app_Pair)
  ultimately show ?thesis
    by (simp add: handle_command_def Let_def bridge_app_def w split: sum.split)
qed

lemma storm_command_app:
  "bridge_app (snd (handle_storm_command (bridge_env h lib) cfg topic body s)) =
     (if trim_space body = '''' then bridge_app s
      else case storm_request (bridge_env h lib) cfg topic (trim_space body) (qsWorld s) of
        None \<Rightarrow> bridge_app s | Some (r, w) \<Rightarrow> fst w)"
proof -
  have "fst (qsWorld (snd (publish_storm (bridge_env h lib) cfg' (s\<lparr>qsWorld := w\<rparr>)))) = fst w" for cfg' and w :: "'a app \<times> 'b"
    by (rule bridge_publisher.publications_keep(4)) simp
  then show ?thesis
    by (auto simp: handle_storm_command_def Let_def bridge_app_def split: option.split sum.split)
qed

text \<open>The route of a command topic.\<close>

lemma route_of_command:
  assumes "normalized_inverter_type (cfDevice cfg) = Inr t" "findByIDForInverterType i t = Some reg" "rWritable reg"
  shows "map_of (rev (routes cfg)) (command_topic cfg i) = Some reg" "rID reg = i"
proof -
  have reg: "reg \<in> set (catalogForInverterType t)" "rID reg = i"
    using find_first_Some [OF assms(2) [unfolded findByIDForInverterType_def]] by auto
  let ?rs = "filter rWritable (catalogForInverterType t)"
  have r: "routes cfg = map (\<lambda>reg. (command_topic cfg (rID reg), reg)) ?rs"
    using assms(1) by (simp add: routes_def catalog_for_config_def)
  have "distinct (map rID ?rs)" using distinct_ids by (rule distinct_map_filter)
  then have "distinct (map fst (routes cfg))" unfolding r by (simp add: distinct_map inj_on_def comp_def)
  moreover have "(command_topic cfg i, reg) \<in> set (routes cfg)" using reg assms(3) unfolding r by auto
  ultimately show "map_of (rev (routes cfg)) (command_topic cfg i) = Some reg"
    by (intro map_of_is_SomeI) (simp_all add: rev_map [symmetric])
  show "rID reg = i" by (rule reg(2))
qed

text \<open>What is left of the application after a message, whatever its topic.\<close>

lemma message_app:
  "bridge_app (on_message (bridge_env h lib) cfg topic body s) =
     (case map_of (rev (routes cfg)) topic of
        Some reg \<Rightarrow> (if trim_space body = '''' then bridge_app s
          else snd (app_write_register (heApp h) (rID reg) (VStr (trim_space body)) (bridge_app s)))
      | None \<Rightarrow> (if trim_space body = '''' then bridge_app s
          else case storm_request (bridge_env h lib) cfg topic (trim_space body) (qsWorld s) of
            None \<Rightarrow> bridge_app s | Some (r, w) \<Rightarrow> fst w))"
  unfolding on_message_def by (simp add: command_app storm_command_app split: option.split)

lemma http_app: "bridge_app (snd (bridge_http h rq s)) = snd (serve_http h rq (bridge_app s))"
  by (simp add: bridge_http_def case_prod_beta)

lemma http_write:
  assumes "rqMethod rq = ''POST''" "rqSegments rq = [''api'', ''v1'', ''registers'', i, ''write'']"
    and "heValueOf h (limited rq) = Some v" "v \<noteq> VNil" "trim_space i \<noteq> ''''"
  shows "bridge_app (snd (bridge_http h rq s)) = snd (app_write_register (heApp h) i v (bridge_app s))"
    and "rpStatus (fst (bridge_http h rq s)) = 200 \<longleftrightarrow> fst (app_write_register (heApp h) i v (bridge_app s)) = Inr ()"
proof -
  have "trim_space '''' = ''''" by code_simp
  then have "i \<noteq> ''''" using assms(5) by auto
  then have r: "route_of (rqMethod rq) (rqSegments rq) = WriteRegister i"
    using assms(1,2) by (simp add: route_of_def)
  show "bridge_app (snd (bridge_http h rq s)) = snd (app_write_register (heApp h) i v (bridge_app s))"
    "rpStatus (fst (bridge_http h rq s)) = 200 \<longleftrightarrow> fst (app_write_register (heApp h) i v (bridge_app s)) = Inr ()"
    using r assms(3-5)
    by (auto simp: bridge_http_def serve_http_def handle_write_register_def case_prod_beta with_common_headers_def
        write_json_def write_error_def split: sum.split)
qed

text \<open>C37: a value sent to the command topic of a writable register over MQTT and the same value posted to
  its HTTP path do the same to the application, the inverter and the store: the guarded write of that
  register, neither more nor less; over HTTP the reply is 200 exactly when the write succeeded.\<close>

theorem commands_agree:
  assumes "normalized_inverter_type (cfDevice cfg) = Inr t" "findByIDForInverterType i t = Some reg" "rWritable reg"
    and "trim_space body \<noteq> ''''" "trim_space i \<noteq> ''''"
    and "rqMethod rq = ''POST''" "rqSegments rq = [''api'', ''v1'', ''registers'', i, ''write'']"
    and "heValueOf h (limited rq) = Some (VStr (trim_space body))"
  shows "bridge_app (on_message (bridge_env h lib) cfg (command_topic cfg i) body s) = bridge_app (snd (bridge_http h rq s))
    \<and> bridge_app (snd (bridge_http h rq s)) = snd (app_write_register (heApp h) i (VStr (trim_space body)) (bridge_app s))
    \<and> (rpStatus (fst (bridge_http h rq s)) = 200 \<longleftrightarrow>
        fst (app_write_register (heApp h) i (VStr (trim_space body)) (bridge_app s)) = Inr ())"
  using http_write [OF assms(6-8) _ assms(5), where s = s] route_of_command [OF assms(1-3)] assms(4)
  by (simp add: message_app)

section \<open>A session is protected\<close>

text \<open>What no call but the end of the session changes.\<close>

definition same_setup :: "('w \<Rightarrow> u16 \<Rightarrow> u16) \<Rightarrow> 'w app \<Rightarrow> 'w app \<Rightarrow> bool" where
  "same_setup mem a a' \<longleftrightarrow> apConfig a' = apConfig a \<and> apStorm a' = apStorm a
    \<and> (\<forall>b \<in> {0xE01D, 0xE205} \<union> {0xE026..0xE02C}.
        mem (svWorld (siService (apSite a'))) b = mem (svWorld (siService (apSite a))) b)"

lemma same_setup_refl [simp]: "same_setup mem a a"
  by (simp add: same_setup_def)

lemma same_setup_calls:
  assumes "storm_active a" "lossy_memory (aeModbus e) mem"
  shows "same_setup mem a (snd (app_write_register e i v a))" "same_setup mem a (snd (update_config e cfg a))"
    "same_setup mem a (snd (update_storm_settings e g a))" "same_setup mem a (snd (start_storm e g a))"
    "same_setup mem a (snd (set_clock e t a))"
  unfolding same_setup_def by (rule app_settings_protected [OF assms], blast)+

lemma read_words_memory:
  assumes "lossy_memory env mem"
  shows "service_memory mem (snd (read_holding_words env cfg a n s)) = service_memory mem s"
proof -
  obtain r1 s1 where 1: "ensure_client env cfg s = (r1, s1)" by fastforce
  have m1: "service_memory mem s1 = service_memory mem s" by (rule ensure_client_same [OF assms 1])
  show ?thesis
  proof (cases r1)
    case (Inr h)
    obtain r2 s2 where 2: "read_with_retry env cfg h a n s1 = (r2, s2)" by fastforce
    have "service_memory mem s2 = service_memory mem s1" by (rule read_with_retry_true(1) [OF assms 2])
    then show ?thesis using 1 2 m1 Inr
      by (auto simp: read_holding_words_def put_error_def put_status_def split: sum.split)
  qed (use 1 m1 in \<open>simp add: read_holding_words_def put_error_def put_status_def\<close>)
qed

lemma same_setup_clock:
  assumes "lossy_memory (aeModbus e) mem"
  shows "same_setup mem a (snd (get_clock e a))"
proof -
  have "service_memory mem (siService (snd (clock_read (evReadWords (site_env e cfg)) s))) = service_memory mem (siService s)" for cfg s
    using read_words_memory [OF assms, of cfg dateTimeAddress dateTimeWords "siService s"]
    by (simp add: clock_read_def on_service_def case_prod_beta split: sum.split)
  then show ?thesis
    by (simp add: get_clock_def on_site_def same_setup_def case_prod_beta)
qed

lemma same_setup_http:
  assumes "storm_active a" "lossy_memory (aeModbus (heApp h)) mem" "route_of (rqMethod rq) (rqSegments rq) \<noteq> CancelStorm"
  shows "same_setup mem a (snd (serve_http h rq a))"
proof -
  have "same_setup mem a (snd (handle_route h rq rt a))" if "rt \<noteq> CancelStorm" for rt
    using that same_setup_calls [OF assms(1,2)] same_setup_clock [OF assms(2)]
    by (cases rt) (auto simp: handler_defs case_prod_beta split: option.split sum.split)
  from this [OF assms(3)] show ?thesis by (simp add: serve_http_def case_prod_beta)
qed

text \<open>C30: while a session is active, no HTTP request that arrives but the one that cancels it and no MQTT
  message that arrives but OFF on the topic of the storm charge changes the configuration, the session, or the registers of the
  session in the inverter's memory, whatever the request or message holds.\<close>

theorem bridge_protected:
  assumes "storm_active (bridge_app s)" "lossy_memory (aeModbus (heApp h)) mem"
    and "route_of (rqMethod rq) (rqSegments rq) \<noteq> CancelStorm"
    and "topic \<noteq> command_topic cfg ''storm_charge'' \<or> to_upper (trim_space body) \<noteq> ''OFF''"
    and "s' \<in> {snd (bridge_http h rq s), on_message (bridge_env h lib) cfg topic body s}"
  shows "apConfig (bridge_app s') = apConfig (bridge_app s) \<and> apStorm (bridge_app s') = apStorm (bridge_app s)
    \<and> (\<forall>b \<in> {0xE01D, 0xE205} \<union> {0xE026..0xE02C}. mem (svWorld (siService (apSite (bridge_app s')))) b
        = mem (svWorld (siService (apSite (bridge_app s)))) b)"
proof -
  note c = same_setup_calls [OF assms(1,2)]
  have "same_setup mem (bridge_app s) (fst w)"
    if "storm_request (bridge_env h lib) cfg topic (trim_space body) (qsWorld s) = Some (r, w)" for r w
    using that assms(4) c by (auto simp: storm_request_def Let_def on_app_Pair bridge_app_def split: if_splits option.splits)
  then have "same_setup mem (bridge_app s) (bridge_app (on_message (bridge_env h lib) cfg topic body s))"
    using c by (auto simp: message_app split: option.split)
  moreover have "same_setup mem (bridge_app s) (bridge_app (snd (bridge_http h rq s)))"
    unfolding http_app by (rule same_setup_http [OF assms(1-3)])
  ultimately show ?thesis using assms(5) by (auto simp: same_setup_def)
qed

end
