(* ===== verification/Watchdog.thy ===== *)
theory Watchdog
  imports AppProofs
begin

text \<open>
  The loop of the watchdog, \<^verbatim>\<open>watchdogLoop\<close> of \<^verbatim>\<open>internal/app/app.go\<close>. The process runs
  on while the loop waits, so a run of it is given by what it finds at the end of each wait: the
  application, the time, and whether the process was told to stop. The loop may run for ever; it is a
  partial function, and that it ends is proved.
\<close>

datatype watchdog_end = Returned nat | Exited nat

partial_function (option) watchdog_loop ::
  "(nat \<Rightarrow> 'w app) \<Rightarrow> (nat \<Rightarrow> gotime) \<Rightarrow> (nat \<Rightarrow> bool) \<Rightarrow> nat \<Rightarrow> watchdog_end option" where
  "watchdog_loop apps clk stopped n =
     (if stopped n then Some (Returned n)
      else if fst (should_trigger (clk n) (apps n)) then Some (Exited n)
      else watchdog_loop apps clk stopped (Suc n))"

text \<open>Every wait takes the interval computed when it starts, and at most \<open>late\<close> longer.\<close>

definition paced :: "(nat \<Rightarrow> 'w app) \<Rightarrow> (nat \<Rightarrow> gotime) \<Rightarrow> duration \<Rightarrow> bool" where
  "paced apps clk late \<longleftrightarrow> (\<forall>n. clk n + watchdog_interval (apConfig (apps n)) \<le> clk (Suc n)
     \<and> clk (Suc n) \<le> clk n + watchdog_interval (apConfig (apps n)) + late)"

lemma pacedD: "paced apps clk late \<Longrightarrow> clk n + watchdog_interval (apConfig (apps n)) \<le> clk (Suc n)
    \<and> clk (Suc n) \<le> clk n + watchdog_interval (apConfig (apps n)) + late"
  by (simp add: paced_def)

lemma watchdog_interval_range: "1 \<le> watchdog_interval cfg \<and> watchdog_interval cfg \<le> 15 * second"
  by (simp add: watchdog_interval_def Let_def second_def)

text \<open>Without a stop, the loop ends at the first round that triggers.\<close>

lemma watchdog_first:
  assumes "\<forall>k. \<not> stopped k" "m \<le> n" "fst (should_trigger (clk n) (apps n))"
    and "\<forall>k. m \<le> k \<longrightarrow> k < n \<longrightarrow> \<not> fst (should_trigger (clk k) (apps k))"
  shows "watchdog_loop apps clk stopped m = Some (Exited n)"
  using assms(2-4)
proof (induction "n - m" arbitrary: m)
  case 0
  then show ?case using assms(1) by (subst watchdog_loop.simps) simp
next
  case (Suc d)
  then have "m < n" by simp
  then have "watchdog_loop apps clk stopped (Suc m) = Some (Exited n)" using Suc by simp
  then show ?case using assms(1) Suc.prems(3) \<open>m < n\<close> by (subst watchdog_loop.simps) simp
qed

lemma paced_ge: "paced apps clk late \<Longrightarrow> clk m + int n \<le> clk (m + n)"
proof (induction n)
  case (Suc n)
  have "clk (m + n) + 1 \<le> clk (Suc (m + n))"
    using pacedD [OF Suc.prems, of "m + n"] watchdog_interval_range [of "apConfig (apps (m + n))"] by linarith
  with Suc show ?case by simp
qed simp

text \<open>What a tick finds when the last success of the Modbus service was at \<open>t\<close> and the service is lost
  at the latest at \<open>due\<close>. Everything else in the store is arbitrary, and so are the other fields
  of the status.\<close>

definition lost_by :: "gotime \<Rightarrow> gotime \<Rightarrow> gotime \<Rightarrow> 'w app \<Rightarrow> bool" where
  "lost_by due t now a \<longleftrightarrow> (case map_of (snServices (get_state_snapshot a)) ''modbus'' of
     None \<Rightarrow> False
   | Some st \<Rightarrow> ssLastSuccess st = t
       \<and> (due \<le> now \<longrightarrow> \<not> ssConnected st \<and> ssStatus st \<notin> {''connected'', ''starting'', ''disabled''}))"

lemma lost_triggers:
  assumes "lost_by (t + watchdog_threshold (apConfig a)) t now a" "t \<noteq> 0"
  shows "fst (should_trigger now a) \<longleftrightarrow> t + watchdog_threshold (apConfig a) \<le> now"
  using assms by (auto simp: lost_by_def should_trigger_def Let_def split: option.splits)

text \<open>C35: the loop of the watchdog ends when the Modbus service is lost. Let \<open>t\<close> be the time of its last
  success and \<open>due\<close> the time that lies the threshold later (90 seconds, or twice the slow interval when
  that is longer). If from tick \<open>m\<close> on, not after \<open>due\<close>, the service has no other success and its
  status is that of a lost connection at the latest when \<open>due\<close> has passed, the process exits, not
  before \<open>due\<close>, and after it by at most one interval (the fast interval, at most 15 seconds) and the
  delay of a timer. The other services, the values and the rest of the configuration may change at every
  tick.\<close>

theorem watchdog_exits:
  assumes "paced apps clk late" "\<forall>n. \<not> stopped n" "\<forall>n \<ge> m. cfPolling (apConfig (apps n)) = polling"
    and "due = t + max (90 * second) (wrap64 (2 * pcSlowInterval polling))" "t \<noteq> 0" "clk m \<le> due"
    and "\<forall>n \<ge> m. lost_by due t (clk n) (apps n)"
  shows "\<exists>n. watchdog_loop apps clk stopped m = Some (Exited n) \<and> due \<le> clk n
    \<and> clk n \<le> due + late
        + (if 0 < pcFastInterval polling then min (pcFastInterval polling) (15 * second) else 15 * second)"
proof -
  have polled: "watchdog_interval (apConfig (apps n))
      = (if 0 < pcFastInterval polling then min (pcFastInterval polling) (15 * second) else 15 * second)"
    "t + watchdog_threshold (apConfig (apps n)) = due" if "m \<le> n" for n
    using assms(3,4) that by (auto simp: watchdog_interval_def watchdog_threshold_def Let_def mult.commute)
  have trig: "fst (should_trigger (clk n) (apps n)) \<longleftrightarrow> due \<le> clk n" if "m \<le> n" for n
    using lost_triggers [of t "apps n" "clk n"] polled(2) [OF that] assms(5,7) that by simp
  let ?late = "\<lambda>k. due \<le> clk (m + k)"
  have "?late (nat (due - clk m))" using paced_ge [OF assms(1), of m "nat (due - clk m)"] assms(6) by simp
  then have k: "?late (LEAST k. ?late k)" by (rule LeastI)
  define n where "n = m + (LEAST k. ?late k)"
  have n: "m \<le> n" "due \<le> clk n" using k by (simp_all add: n_def)
  have before: "clk k < due" if "m \<le> k" "k < n" for k
    using that not_less_Least [of "k - m" ?late] by (simp add: n_def not_le)
  have "watchdog_loop apps clk stopped m = Some (Exited n)"
    by (rule watchdog_first [OF assms(2) n(1)]) (use n before in \<open>auto simp: trig not_le\<close>)
  moreover have "clk n \<le> due + late + watchdog_interval (apConfig (apps m))"
  proof (cases "n = m")
    case True
    have "0 \<le> late" using pacedD [OF assms(1), of 0] by linarith
    then show ?thesis using assms(6) True watchdog_interval_range [of "apConfig (apps m)"] by simp
  next
    case False
    then obtain k where k: "n = Suc k" "m \<le> k" using n(1) by (cases n) auto
    then show ?thesis
      using before [of k] pacedD [OF assms(1), of k] polled(1) [of k] polled(1) [of m] by simp
  qed
  ultimately show ?thesis using n polled(1) [of m] by auto
qed
end
