(* ===== verification/AppDemo.thy ===== *)
theory AppDemo
  imports AppProofs
begin

text \<open>
  A plant on which the properties of the application are instantiated: an inverter whose memory does
  what it is told, an SPI H3P configuration, telemetry that allows a session, and a file system that
  works. A session is started through the application and cancelled again, both by evaluation of the
  definitions.
\<close>

section \<open>Requests to a memory that answers\<close>

lemma memory_client:
  assumes "connection_mode_of (cfSerial cfg) = Inr m"
  shows "\<exists>h s'. ensure_client memory_env cfg s = (Inr h, s') \<and> svWorld s' = svWorld s"
  using ensure_client_memory [OF memory_env_reads assms, of s] by auto

lemma memory_read: "read_with_retry memory_env cfg h a n s = (Inr (bytes_of_words (memory_words (svWorld s) a n)), s)"
  by (rule read_with_retry_memory [OF memory_env_reads])

lemma memory_write_word:
  assumes "connection_mode_of (cfSerial cfg) = Inr m" "trim_space (scPort (cfSerial cfg)) \<noteq> ''''"
  shows "fst (write_holding_words memory_env cfg a [v] s) = Inr ()"
proof -
  obtain h s1 where "ensure_client memory_env cfg s = (Inr h, s1)" using memory_client [OF assms(1)] by blast
  then show ?thesis
    using assms(2)
    by (simp add: write_holding_words_def Let_def memory_read client_write_def unlock_before_write_def)
qed

lemma memory_read_words:
  assumes "connection_mode_of (cfSerial cfg) = Inr m" "trim_space (scPort (cfSerial cfg)) \<noteq> ''''" "n \<noteq> 0"
  shows "\<exists>s'. read_holding_words memory_env cfg a n s = (Inr (memory_words (svWorld s) a n), s')"
proof -
  obtain h s1 where "ensure_client memory_env cfg s = (Inr h, s1)" "svWorld s1 = svWorld s"
    using memory_client [OF assms(1)] by blast
  then show ?thesis
    using assms(2,3) by (simp add: read_holding_words_def memory_read words_from_memory)
qed

lemma memory_write_register:
  assumes "connection_mode_of (cfSerial cfg) = Inr m" "trim_space (scPort (cfSerial cfg)) \<noteq> ''''"
    and "normalized_inverter_type (cfDevice cfg) = Inr t" "findByIDForInverterType i t = Some reg"
    and "rWritable reg" "\<not> rWriteOnly reg" "encode_write reg x = Inr encoded"
    and "\<And>s. validate_write memory_env cfg reg encoded s = (Inr (), s)" "rType reg = TypeUint16"
  shows "fst (write_register memory_env cfg i x s) = Inr ()"
proof -
  obtain h s1 where 1: "ensure_client memory_env cfg s = (Inr h, s1)" using memory_client [OF assms(1)] by blast
  have "reg \<in> set (catalogForInverterType t)"
    using assms(4) by (auto simp: findByIDForInverterType_def dest: find_first_Some)
  then have wf: "register_wf reg" by (rule catalog_wf)
  then have c: "rCount reg = 1" "\<not> rSynthetic reg" using assms(5) by (auto simp: register_wf_def)
  obtain v where v: "decode reg [encoded] 9 = Inr v" "dRaw v = uint encoded"
    using decode_ok [OF wf c(2), of "[encoded]" 9] c(1) raw_single(1) [OF assms(9)] by auto
  let ?s3 = "s1\<lparr>svWorld := (svWorld s1)(unlockRegisterAddress := 0, rAddress reg := encoded)\<rparr>"
  have "write_verified memory_env cfg reg h encoded (unlock_before_write memory_env h s1) = (Inr (), ?s3)"
    by (simp add: write_verified_def unlock_before_write_def client_write_def)
  then have "write_register memory_env cfg i x s = confirm_write memory_env cfg reg h encoded ?s3"
    using assms(2-5,7,8) 1 by (simp add: write_register_def)
  moreover have "fst (confirm_write memory_env cfg reg h encoded ?s3) = Inr ()"
    using assms(6) by (simp add: confirm_write_def Let_def memory_read c(1) v)
  ultimately show ?thesis by simp
qed

section \<open>The plant\<close>

definition spi_config :: config where
  "spi_config = default_config\<lparr>cfDevice := \<lparr>dcName = ''srne-main'', dcSlaveID = 1, dcInverterType = ''spi_h3p''\<rparr>\<rparr>"

lemma spi_config_facts:
  "normalized_inverter_type (cfDevice spi_config) = Inr ''spi_h3p''"
  "trim_space (scPort (cfSerial spi_config)) \<noteq> ''''" "connection_mode_of (cfSerial spi_config) = Inr ModeRTU"
  "validate_config spi_config = Inr ()"
proof -
  have s: "cfSerial spi_config = cfSerial default_config" "cfPolling spi_config = cfPolling default_config"
    "cfListen spi_config = cfListen default_config" "cfLevel spi_config = cfLevel default_config"
    "cfStorm spi_config = cfStorm default_config" by (simp_all add: spi_config_def)
  show t: "normalized_inverter_type (cfDevice spi_config) = Inr ''spi_h3p''" by code_simp
  show "trim_space (scPort (cfSerial spi_config)) \<noteq> ''''" "connection_mode_of (cfSerial spi_config) = Inr ModeRTU"
    by code_simp+
  have "trim_space (dcName (cfDevice spi_config)) \<noteq> ''''" by code_simp
  then show "validate_config spi_config = Inr ()"
    using default_valid t unfolding valid_iff s by (simp add: spi_config_def)
qed

text \<open>The two managed controls of the SPI H3P catalog.\<close>

definition cutoffRegister :: register where
  "cutoffRegister =
     reg0\<lparr>rID := ''battery_charge_cutoff_soc'', rName := ''Battery Charge Cut-off SOC'',
       rAddress := 0xE01D, rCount := 1, rType := TypeUint16, rScale := Num 1, rPrecision := 0,
       rUnit := ''%'', rDeviceClass := ''battery'', rIcon := ''mdi:battery-check-outline'',
       rComponent := ''sensor'', rGroup := GroupSlow, rEntity := ''config'', rWritable := True,
       rWriteMin := Num 0, rWriteMax := Num 100, rWriteStep := Num 1\<rparr>"

definition mainsRegister :: register where
  "mainsRegister =
     reg0\<lparr>rID := ''mains_charge_current_limit'', rName := ''Mains Charge Current Limit'',
       rAddress := 0xE205, rCount := 1, rType := TypeUint16, rScale := flit (1 / 10),
       rPrecision := 1, rUnit := ''A'', rDeviceClass := ''current'',
       rIcon := ''mdi:transmission-tower'', rComponent := ''sensor'', rGroup := GroupSlow,
       rEntity := ''config'', rWritable := True, rWriteMin := Num 0, rWriteMax := Num 120,
       rWriteStep := flit (1 / 10)\<rparr>"

lemma spi_catalog: "catalogForInverterType ''spi_h3p'' = threePhaseCatalog baseCatalog False"
  using normalize_fixed(1) type_names_distinct
  by (simp add: catalogForInverterType_def isThreePhaseInverterType_def inverterTypeSPIH3P_def)

lemma spi_find:
  assumes "reg \<in> set baseCatalog" "rID reg \<notin> set replacedByThreePhase"
  shows "findByIDForInverterType (rID reg) ''spi_h3p'' = Some (adjustThreePhase reg)"
proof -
  have "adjustThreePhase reg \<in> set (catalogForInverterType ''spi_h3p'')"
    using assms by (simp add: spi_catalog threePhaseCatalog_def)
  moreover have "rID (adjustThreePhase reg) = rID reg" by (simp add: adjustThreePhase_def)
  ultimately show ?thesis
    unfolding findByIDForInverterType_def by (intro find_first_unique [OF distinct_ids])
qed

lemma spi_controls:
  "findByIDForInverterType ''battery_charge_cutoff_soc'' ''spi_h3p'' = Some cutoffRegister"
  "findByIDForInverterType ''mains_charge_current_limit'' ''spi_h3p'' = Some mainsRegister"
proof -
  have "cutoffRegister \<in> set baseCatalog4"
    by (simp add: baseCatalog4_def cutoffRegister_def reg0_def)
  then have "cutoffRegister \<in> set baseCatalog" by (simp add: baseCatalog_def)
  from spi_find [OF this] show "findByIDForInverterType ''battery_charge_cutoff_soc'' ''spi_h3p'' = Some cutoffRegister"
    by (simp add: cutoffRegister_def reg0_def replacedByThreePhase_def adjustThreePhase_def)
  have "mainsRegister\<lparr>rWriteMax := Num 100\<rparr> \<in> set baseCatalog5"
    by (simp add: baseCatalog5_def mainsRegister_def reg0_def)
  then have "mainsRegister\<lparr>rWriteMax := Num 100\<rparr> \<in> set baseCatalog" by (simp add: baseCatalog_def)
  from spi_find [OF this] show "findByIDForInverterType ''mains_charge_current_limit'' ''spi_h3p'' = Some mainsRegister"
    by (simp add: mainsRegister_def reg0_def replacedByThreePhase_def adjustThreePhase_def)
qed

lemma encode_cutoff: "0 \<le> n \<Longrightarrow> n \<le> 100 \<Longrightarrow> encode_write cutoffRegister (VInt n) = Inr (word_of_int n)"
proof -
  assume n: "0 \<le> n" "n \<le> 100"
  have "encode_write cutoffRegister (VInt64 n) = Inr (word_of_int n)"
    using n by (intro encode_units(1) [where lo = 0 and hi = 100]) (simp_all add: cutoffRegister_def reg0_def)
  moreover have "encode_write cutoffRegister (VInt n) = encode_write cutoffRegister (VInt64 n)"
    unfolding encode_write_def by (simp add: numeric_input_def cutoffRegister_def reg0_def)
  ultimately show ?thesis by simp
qed

lemma encode_mains:
  assumes "0 \<le> n" "n \<le> 120"
  shows "encode_write mainsRegister (VFloat (Num (of_int n))) = Inr (word_of_int (10 * n))"
proof (rule encode_tenths [where m = 120])
  have "round53 (of_int n) = (of_int n :: rat)" using assms by (intro round53_of_int) simp
  then show "fval (Num (of_int n)) = round53 (of_int (10 * n) / 10)" by simp
  show "near (Num (of_int n)) (of_int (10 * n) / 10) (1 / 2 ^ 40)"
    using near_mono [OF near_Num, of "1 / 2 ^ 40" "of_int n"] by simp
qed (use assms in \<open>simp_all add: mainsRegister_def reg0_def\<close>)

text \<open>What is read before the session, the session itself, and the runtimes that are written to its
  file.\<close>

definition plant_settings :: settings where
  "plant_settings = settingsFromConfig (cfStorm default_config)"

definition plant_previous :: previous_settings where
  "plant_previous = \<lparr>psCutoffSOC = 80, psMainsCurrentA = Num 10, psSchedule = [0, 0, 0, 0, 0, 0, 0]\<rparr>"

definition plant_runtimes :: "(string \<times> runtime) list" where
  "plant_runtimes =
     (let r = start_runtime plant_settings plant_previous 9 in
      [(''starting'', r), (''charging'', r\<lparr>rtPhase := phaseCharging\<rparr>),
       (''cancelled'', r\<lparr>rtActive := False, rtPhase := phaseCancelled, rtReason := ''manual_cancel'', rtDeadline := 0\<rparr>)])"

definition plant_env :: "(u16 \<Rightarrow> u16) app_env" where
  "plant_env =
     \<lparr>aeModbus = memory_env,
      aeFs = (\<lambda>s. \<lparr>feRead = None, feMkdir = None, feWrite = None, fePartial = None, feRename = None\<rparr>),
      aeMarshalConfig = (\<lambda>cfg. Inr ''config''), aeUnmarshalConfig = (\<lambda>data cfg. Inr spi_config),
      aeMarshalRuntime = (\<lambda>r. case find_first (\<lambda>(d, x). x = r\<lparr>rtLastError := no_error\<rparr>) plant_runtimes of
          None \<Rightarrow> Inl (External ''yaml'') | Some (d, x) \<Rightarrow> Inr d),
      aeUnmarshalRuntime = (\<lambda>d r. case map_of plant_runtimes d of None \<Rightarrow> Inl (External ''yaml'') | Some x \<Rightarrow> Inr x)\<rparr>"

definition plant_values :: "decoded_value list" where
  "plant_values =
     [value0\<lparr>dID := ''battery_soc'', dValue := VFloat (Num 60)\<rparr>,
      value0\<lparr>dID := ''battery_charge_cutoff_soc'', dValue := VFloat (Num 80)\<rparr>,
      value0\<lparr>dID := ''mains_charge_current_limit'', dValue := VFloat (Num 10)\<rparr>,
      value0\<lparr>dID := ''grid_voltage_phase_a'', dValue := VFloat (Num 230)\<rparr>,
      value0\<lparr>dID := ''grid_voltage_phase_b'', dValue := VFloat (Num 231)\<rparr>,
      value0\<lparr>dID := ''grid_voltage_phase_c'', dValue := VFloat (Num 229)\<rparr>,
      value0\<lparr>dID := ''grid_frequency'', dValue := VFloat (Num 50)\<rparr>]"

definition plant_store :: store where
  "plant_store = new_store\<lparr>stValues := map (\<lambda>v. (dID v, v)) plant_values,
     stServices := [(''modbus'', status0\<lparr>ssName := ''modbus'', ssConnected := True\<rparr>)]\<rparr>"

definition plant_service :: "(u16 \<Rightarrow> u16) service" where
  "plant_service = \<lparr>svStore = plant_store, svKey = None, svClient = None, svWorld = (\<lambda>_. 0)\<rparr>"

definition plant_files :: files where
  "plant_files = (\<lambda>_. None)(''c.yaml'' := Some ''config'')"

definition plant_site :: "(u16 \<Rightarrow> u16) site" where
  "plant_site = \<lparr>siService = plant_service, siFiles = plant_files\<rparr>"

definition plant_idle :: "(u16 \<Rightarrow> u16) app" where
  "plant_idle = (case run_init plant_env ''c.yaml'' plant_site of
     Inr a \<Rightarrow> a | Inl _ \<Rightarrow> \<lparr>apConfigPath = '''', apConfig = default_config, apStorm = None, apSite = plant_site\<rparr>)"

definition plant_charging :: "(u16 \<Rightarrow> u16) app" where
  "plant_charging = snd (start_storm plant_env plant_settings plant_idle)"

lemma plant_ops [simp]:
  "aeModbus plant_env = memory_env"
  "aeFs plant_env s = \<lparr>feRead = None, feMkdir = None, feWrite = None, fePartial = None, feRename = None\<rparr>"
  "aeMarshalConfig plant_env cfg = Inr ''config''" "aeUnmarshalConfig plant_env data cfg = Inr spi_config"
  "aeUnmarshalRuntime plant_env d r = (case map_of plant_runtimes d of None \<Rightarrow> Inl (External ''yaml'') | Some x \<Rightarrow> Inr x)"
  "site_now plant_env s = 9"
  by (simp_all add: plant_env_def site_now_def)

lemma plant_marshal:
  "aeMarshalRuntime plant_env r = Inr d \<Longrightarrow> map_of plant_runtimes d = Some (r\<lparr>rtLastError := no_error\<rparr>)"
  by (auto simp: plant_env_def plant_runtimes_def Let_def split: if_splits)

lemma plant_storage: "storage_ok plant_env"
  using plant_marshal by (auto simp: storage_ok_def)

lemma plant_lossy: "lossy_memory (aeModbus plant_env) (\<lambda>m. m)"
  by (simp add: lossy_memory_def kept_without_writes_def)

text \<open>A save of one of those runtimes succeeds.\<close>

lemma plant_save:
  assumes "(d, (mgRuntime m)\<lparr>rtLastError := no_error\<rparr>) \<in> set plant_runtimes"
  shows "\<exists>m'. save_locked (site_env plant_env cfg) m = (Inr (), m') \<and> mgRuntime m' = mgRuntime m"
proof -
  obtain d' x where "find_first (\<lambda>(d, x). x = (mgRuntime m)\<lparr>rtLastError := no_error\<rparr>) plant_runtimes = Some (d', x)"
    using assms find_first_None [of "\<lambda>(d, x). x = (mgRuntime m)\<lparr>rtLastError := no_error\<rparr>" plant_runtimes] by fastforce
  then have "aeMarshalRuntime plant_env (mgRuntime m) = Inr d'" by (simp add: plant_env_def)
  then have "\<exists>m'. save_locked (site_env plant_env cfg) m = (Inr (), m')"
    by (simp add: save_locked_def call_def file_outcome_def Let_def)
  then show ?thesis using world_step_fields(1) [OF save_world_step] by blast
qed

lemma plant_writes: "device_answers (site_env plant_env spi_config) (session_writes plant_settings plant_previous)"
proof -
  have free: "validate_write memory_env spi_config reg encoded s = (Inr (), s)" if "reg \<in> {cutoffRegister, mainsRegister}"
    for reg encoded and s :: "(u16 \<Rightarrow> u16) service"
    using that by (auto simp: validate_write_def cutoffRegister_def mainsRegister_def reg0_def)
  have kind: "rWritable reg" "\<not> rWriteOnly reg" "rType reg = TypeUint16" if "reg \<in> {cutoffRegister, mainsRegister}" for reg
    using that by (auto simp: cutoffRegister_def mainsRegister_def reg0_def)
  have cutoff: "fst (write_register memory_env spi_config ''battery_charge_cutoff_soc'' (VInt n) s) = Inr ()"
    if "0 \<le> n" "n \<le> 100" for n s
    by (rule memory_write_register [OF spi_config_facts(3,2,1) spi_controls(1) kind(1,2) encode_cutoff [OF that] free kind(3)])
      simp_all
  have mains: "fst (write_register memory_env spi_config ''mains_charge_current_limit'' (VFloat (Num (of_int n))) s) = Inr ()"
    if "0 \<le> n" "n \<le> 120" for n s
    by (rule memory_write_register [OF spi_config_facts(3,2,1) spi_controls(2) kind(1,2) encode_mains [OF that] free kind(3)])
      simp_all
  have word: "fst (write_holding_words memory_env spi_config a [v] s) = Inr ()" for a v s
    by (rule memory_write_word [OF spi_config_facts(3,2)])
  have lift: "fst (on_service f s) = fst (f (siService s))" for f and s :: "(u16 \<Rightarrow> u16) site"
    by (simp add: on_service_def split: prod.split)
  show ?thesis
    using cutoff [of 95] cutoff [of 80] mains [of 50] mains [of 10] word
    by (simp add: device_answers_def session_writes_def restoring_writes_def lift plant_settings_def settingsFromConfig_def
        default_config_def plant_previous_def)
qed


section \<open>A session\<close>

lemma plant_numeric:
  "optionalNumeric (snapshot plant_store) ''battery_soc'' = Some (Num 60)"
  "optionalNumeric (snapshot plant_store) ''grid_voltage_phase_a'' = Some (Num 230)"
  "optionalNumeric (snapshot plant_store) ''grid_voltage_phase_b'' = Some (Num 231)"
  "optionalNumeric (snapshot plant_store) ''grid_voltage_phase_c'' = Some (Num 229)"
  "optionalNumeric (snapshot plant_store) ''grid_frequency'' = Some (Num 50)"
  "optionalNumeric (snapshot plant_store) ''maximum_charge_current'' = None"
  "optionalNumeric (snapshot plant_store) ''battery_charge_cutoff_soc'' = Some (Num 80)"
  "optionalNumeric (snapshot plant_store) ''mains_charge_current_limit'' = Some (Num 10)"
proof -
  have ok: "store_ok plant_store"
    by (simp add: store_ok_def plant_store_def plant_values_def new_store_def value0_def)
  have stored: "stValues plant_store = map (\<lambda>v. (dID v, v)) plant_values" by (simp add: plant_store_def)
  note find = snapshot_lookup [OF ok]
  show "optionalNumeric (snapshot plant_store) ''battery_soc'' = Some (Num 60)"
  "optionalNumeric (snapshot plant_store) ''grid_voltage_phase_a'' = Some (Num 230)"
  "optionalNumeric (snapshot plant_store) ''grid_voltage_phase_b'' = Some (Num 231)"
  "optionalNumeric (snapshot plant_store) ''grid_voltage_phase_c'' = Some (Num 229)"
  "optionalNumeric (snapshot plant_store) ''grid_frequency'' = Some (Num 50)"
  "optionalNumeric (snapshot plant_store) ''maximum_charge_current'' = None"
  "optionalNumeric (snapshot plant_store) ''battery_charge_cutoff_soc'' = Some (Num 80)"
  "optionalNumeric (snapshot plant_store) ''mains_charge_current_limit'' = Some (Num 10)"
    by (simp_all add: optionalNumeric_def find derivedIDs_def stored plant_values_def)
qed

text \<open>The web status that \<^verbatim>\<open>Run\<close> sets does not change the telemetry.\<close>

lemma telemetry_status: "snTelemetry (snapshot (set_service_status n name st c e ls s)) = snTelemetry (snapshot s)"
  by (simp add: snapshot_def set_service_status_def Let_def)

lemma optional_status: "optionalNumeric (snapshot (set_service_status n name st c e ls s)) i = optionalNumeric (snapshot s) i"
  by (simp add: optionalNumeric_def telemetry_status)

lemma plant_run:
  "run_init plant_env ''c.yaml'' plant_site = Inr plant_idle" "apConfig plant_idle = spi_config"
  "apStorm plant_idle = Some (runtimePath ''c.yaml'', runtime0, False)"
  "siFiles (apSite plant_idle) = plant_files"
  "svStore (siService (apSite plant_idle)) = set_service_status 9 ''web'' ''running'' True no_error 9 plant_store"
  "svWorld (siService (apSite plant_idle)) = (\<lambda>_. 0)"
proof -
  have l: "load_or_create (aeUnmarshalConfig plant_env) (aeMarshalConfig plant_env) (aeFs plant_env plant_site) ''c.yaml'' (siFiles plant_site)
    = (Inr (spi_config, False), plant_files)"
    by (simp add: load_or_create_def load_config_def plant_site_def plant_files_def spi_config_facts(4))
  have "plant_files (runtimePath ''c.yaml'') = None"
    using runtime_path_apart(1) [of "''c.yaml''"] by (simp add: plant_files_def)
  then have n: "new_manager (site_env plant_env spi_config) (runtimePath ''c.yaml'') s
    = Inr \<lparr>mgPath = runtimePath ''c.yaml'', mgRuntime = runtime0, mgResumePending = False, mgWorld = s\<rparr>"
    if "siFiles s = plant_files" for s
    using that by (simp add: new_manager_def load_def)
  show "run_init plant_env ''c.yaml'' plant_site = Inr plant_idle" "apConfig plant_idle = spi_config"
    "apStorm plant_idle = Some (runtimePath ''c.yaml'', runtime0, False)"
    "siFiles (apSite plant_idle) = plant_files"
    "svStore (siService (apSite plant_idle)) = set_service_status 9 ''web'' ''running'' True no_error 9 plant_store"
    "svWorld (siService (apSite plant_idle)) = (\<lambda>_. 0)"
    unfolding plant_idle_def run_init_def l by (simp_all add: n Let_def plant_site_def plant_service_def put_manager_def)
qed

lemma plant_file: "siFiles plant_site (runtimePath ''c.yaml'') = None"
  using runtime_path_apart(1) [of "''c.yaml''"] by (simp add: plant_site_def plant_files_def)

text \<open>The start succeeds and leaves the session charging.\<close>

lemma plant_start:
  fixes m :: "(u16 \<Rightarrow> u16) site manager"
  assumes "mgRuntime m = runtime0"
    and "\<And>i. optionalNumeric (evSnapshot (site_env plant_env spi_config) (mgWorld m)) i = optionalNumeric (snapshot plant_store) i"
    and "svWorld (siService (mgWorld m)) = (\<lambda>_. 0)"
  shows "\<exists>m'. start (site_env plant_env spi_config) plant_settings m = (Inr (), m')
    \<and> mgRuntime m' = (start_runtime plant_settings plant_previous 9)\<lparr>rtPhase := phaseCharging\<rparr>"
proof -
  let ?e = "site_env plant_env spi_config" and ?r = "start_runtime plant_settings plant_previous 9"
  let ?snap = "evSnapshot ?e (mgWorld m)"
  note vals = assms(2) plant_numeric
  have v: "validateSettings plant_settings = Inr ()"
    by (simp add: validateSettings_def plant_settings_def settingsFromConfig_def default_config_def minute_def hour_def second_def)
  have "f64_of_int 95 = Num 95" by (simp add: f64_of_int_exact)
  then have c: "start_checks plant_settings ?snap = Inr ()"
    by (simp add: start_checks_def requireGrid_def requiredNumeric_def vals plant_settings_def settingsFromConfig_def
        default_config_def del: site_env_ops)
  obtain sv where "read_holding_words memory_env spi_config timedChargeAddress (of_nat timedChargeWords) (siService (mgWorld m))
      = (Inr (memory_words (\<lambda>_. 0) timedChargeAddress (of_nat timedChargeWords)), sv)"
    using memory_read_words [OF spi_config_facts(3,2), of "of_nat timedChargeWords" timedChargeAddress "siService (mgWorld m)"]
      assms(3) by (auto simp: timedChargeWords_def)
  then obtain m1 where 1: "call (evReadWords ?e timedChargeAddress (of_nat timedChargeWords)) m
      = (Inr (memory_words (\<lambda>_. 0) timedChargeAddress (of_nat timedChargeWords)), m1)"
    by (simp add: call_def on_service_def)
  have "memory_words (\<lambda>_. 0) timedChargeAddress (of_nat timedChargeWords) = psSchedule plant_previous"
    by (simp add: memory_words_def timedChargeWords_def plant_previous_def upt_rec)
  then have p: "previous_of ?e ?snap m = (Inr plant_previous, m1)"
    using 1 int64_of_f64_fin [of "Num 80"]
    by (simp add: previous_of_def requiredNumeric_def vals plant_previous_def del: site_env_ops)
  have now: "now_of ?e m' = 9" for m' by (simp add: now_of_def)
  obtain m3 where 3: "save_locked ?e (set_runtime (\<lambda>_. ?r) m1) = (Inr (), m3)" "mgRuntime m3 = ?r"
    using plant_save [of "''starting''" "set_runtime (\<lambda>_. ?r) m1" spi_config]
    by (auto simp: plant_runtimes_def Let_def start_runtime_def)
  have "session_writes (rtSettings (mgRuntime m3)) plant_previous \<subseteq> session_writes plant_settings plant_previous"
    by (simp add: 3(2) start_runtime_def)
  then obtain m4 where 4: "apply_storm_settings ?e m3 = (Inr (), m4)" using answers_apply [OF plant_writes] by blast
  have r4: "mgRuntime m4 = ?r"
    using world_step_fields(1) [OF apply_storm_settings_step [OF world_closed 4]] 3(2) by simp
  let ?m5 = "set_runtime (\<lambda>r. r\<lparr>rtPhase := phaseCharging, rtUpdatedAt := now_of ?e m4, rtLastError := no_error\<rparr>) m4"
  have r5: "mgRuntime ?m5 = ?r\<lparr>rtPhase := phaseCharging\<rparr>" by (simp add: r4 now start_runtime_def)
  obtain m6 where 6: "save_locked ?e ?m5 = (Inr (), m6)" "mgRuntime m6 = ?r\<lparr>rtPhase := phaseCharging\<rparr>"
    using plant_save [of "''charging''" ?m5 spi_config] unfolding r5
    by (auto simp: plant_runtimes_def Let_def start_runtime_def)
  have "start_session ?e m3 = (Inr (), m6)" using 4 6(1) by (simp add: start_session_def Let_def)
  moreover have "\<not> rtActive (mgRuntime m)" by (simp add: assms(1) runtime0_def)
  ultimately have "start ?e plant_settings m = (Inr (), m6)"
    using 3(1) by (simp add: start_def v c p Let_def now del: site_env_ops)
  then show ?thesis using 6(2) by blast
qed


text \<open>A start does not touch the flag of a restart.\<close>

lemma start_resume:
  assumes "start env g m = (Inr (), m')"
  shows "mgResumePending m' = mgResumePending m"
proof -
  let ?snap = "evSnapshot env (mgWorld m)"
  obtain p m1 where 1: "previous_of env ?snap m = (Inr p, m1)"
    using assms by (auto simp: start_def Let_def split: sum.splits prod.splits if_splits)
  let ?m2 = "set_runtime (\<lambda>_. start_runtime g p (now_of env m1)) m1"
  obtain m3 where 3: "save_locked env ?m2 = (Inr (), m3)" "start_session env m3 = (Inr (), m')"
    using assms 1 by (auto simp: start_def Let_def split: sum.splits prod.splits if_splits)
  show ?thesis
    using world_step_fields(3) [OF previous_of_world_step [OF 1]] world_step_fields(3) [OF save_world_step [OF 3(1)]]
      start_session_control [OF 3(2)] by simp
qed

text \<open>Starting the session from the idle plant, and cancelling it.\<close>

lemma plant_charging_storm:
  "apConfig plant_charging = spi_config"
  "\<exists>p. apStorm plant_charging = Some (p, (start_runtime plant_settings plant_previous 9)\<lparr>rtPhase := phaseCharging\<rparr>, False)"
  "start_storm plant_env plant_settings plant_idle = (Inr (), plant_charging)" "\<not> storm_active plant_idle"
proof -
  note run = plant_run
  have idle: "\<not> storm_active plant_idle" by (simp add: storm_active_def run is_active_def runtime0_def)
  have v: "validateSettings plant_settings = Inr ()"
    by (simp add: validateSettings_def plant_settings_def settingsFromConfig_def default_config_def minute_def hour_def second_def)
  have same: "spi_config\<lparr>cfStorm := \<lparr>smTargetSOC = sgTargetSOC plant_settings, smMaxCurrentA = sgMaxCurrentA plant_settings,
      smTimeout = sgTimeout plant_settings\<rparr>\<rparr> = spi_config"
    by (simp add: spi_config_def plant_settings_def settingsFromConfig_def default_config_def)
  obtain a1 where 1: "update_storm_settings plant_env plant_settings plant_idle = (Inr (), a1)" "apConfig a1 = spi_config"
    using idle by (simp add: update_storm_settings_def v run(2) same update_config_def save_config_def spi_config_facts(4) Let_def)
  note f = settings_frame [OF 1(1)]
  let ?m = "manager_of a1 (runtimePath ''c.yaml'', runtime0, False)"
  have w: "svWorld (siService (mgWorld ?m)) = (\<lambda>_. 0)" by (simp add: f(5) run)
  have o: "optionalNumeric (evSnapshot (site_env plant_env spi_config) (mgWorld ?m)) i = optionalNumeric (snapshot plant_store) i" for i
    by (simp add: f(5) run optional_status)
  obtain m' where m': "start (site_env plant_env spi_config) plant_settings ?m = (Inr (), m')"
    "mgRuntime m' = (start_runtime plant_settings plant_previous 9)\<lparr>rtPhase := phaseCharging\<rparr>"
    using plant_start [OF _ o w] by auto
  have flag: "mgResumePending m' = False"
    using start_resume [OF m'(1)] by simp
  have started: "start_storm plant_env plant_settings plant_idle = (Inr (), put_manager m' a1)"
    by (simp add: start_storm_def run(3) run(2) spi_config_facts(1) idle 1 f(1) on_manager_def m'(1))
  then have k: "plant_charging = put_manager m' a1" by (simp add: plant_charging_def)
  show "apConfig plant_charging = spi_config"
    "\<exists>p. apStorm plant_charging = Some (p, (start_runtime plant_settings plant_previous 9)\<lparr>rtPhase := phaseCharging\<rparr>, False)"
    "start_storm plant_env plant_settings plant_idle = (Inr (), plant_charging)" "\<not> storm_active plant_idle"
    unfolding k using 1(2) m'(2) flag started idle by simp_all
qed

lemma plant_reached: "(app_step plant_env)\<^sup>*\<^sup>* plant_idle plant_charging"
  unfolding plant_charging_def by (intro r_into_rtranclp start_call)

theorem app_session_invariant_witness:
  "storm_active plant_charging \<and> normalized_inverter_type (cfDevice (apConfig plant_charging)) = Inr ''spi_h3p''
   \<and> (\<exists>p r b. apStorm plant_charging = Some (p, r, b) \<and> session_ok r \<and> rtSettings r = settingsFromConfig (cfStorm (apConfig plant_charging)))"
proof -
  obtain p where c: "apStorm plant_charging = Some (p, (start_runtime plant_settings plant_previous 9)\<lparr>rtPhase := phaseCharging\<rparr>, False)"
    using plant_charging_storm(2) by blast
  note inv = app_session_invariant [OF plant_storage plant_run(1) plant_file plant_reached c]
  show ?thesis using inv c by (auto simp: storm_active_def is_active_def start_runtime_def)
qed

lemma plant_cancel: "\<not> storm_active (snd (cancel_storm plant_env plant_charging))"
proof -
  let ?r = "(start_runtime plant_settings plant_previous 9)\<lparr>rtPhase := phaseCharging\<rparr>" and ?e = "site_env plant_env spi_config"
  obtain p where c: "apStorm plant_charging = Some (p, ?r, False)" using plant_charging_storm(2) by blast
  let ?m = "manager_of plant_charging (p, ?r, False)"
  let ?m2 = "try_save ?e (set_runtime (\<lambda>r. r\<lparr>rtPhase := phaseRestoring, rtReason := ''manual_cancel'', rtUpdatedAt := now_of ?e ?m\<rparr>) ?m)"
  have now: "now_of ?e m' = 9" for m' by (simp add: now_of_def)
  have "restoring_writes (rtPrevious (mgRuntime ?m2)) \<subseteq> session_writes plant_settings plant_previous"
    by (auto simp: start_runtime_def session_writes_def)
  then obtain m3 where 3: "restore_all ?e ?m2 = ([], m3)" using answers_restore [OF plant_writes] by blast
  have r3: "mgRuntime m3 = mgRuntime ?m2"
    using world_step_fields(1) [OF restore_all_step [OF world_closed 3]] .
  let ?m4 = "set_runtime (\<lambda>r. r\<lparr>rtActive := False, rtPhase := phaseCancelled, rtLastError := no_error, rtDeadline := 0,
      rtUpdatedAt := now_of ?e m3\<rparr>) m3"
  obtain m5 where 5: "save_locked ?e ?m4 = (Inr (), m5)" "mgRuntime m5 = mgRuntime ?m4"
    using plant_save [of "''cancelled''" ?m4 spi_config]
    by (auto simp: plant_runtimes_def Let_def r3 now start_runtime_def)
  have "cancel ?e ?m = (Inr (), m5)"
    using 3 5(1) by (simp add: cancel_def restore_locked_def Let_def start_runtime_def)
  then show ?thesis
    using c plant_charging_storm(1) 5(2) by (simp add: cancel_storm_def on_manager_def storm_active_def is_active_def)
qed

theorem app_ends_restored_witness:
  "storm_active plant_charging
   \<and> map (\<lambda>i. svWorld (siService (apSite (snd (cancel_storm plant_env plant_charging)))) (0xE026 + of_nat i)) [0..<7] = [0, 0, 0, 0, 0, 0, 0]
   \<and> svWorld (siService (apSite (snd (cancel_storm plant_env plant_charging)))) 0xE205 = 100
   \<and> svWorld (siService (apSite (snd (cancel_storm plant_env plant_charging)))) 0xE01D = 80"
proof -
  let ?r = "(start_runtime plant_settings plant_previous 9)\<lparr>rtPhase := phaseCharging\<rparr>"
  obtain p where c: "apStorm plant_charging = Some (p, ?r, False)" using plant_charging_storm(2) by blast
  have a: "rtActive ?r" "rtPrevious ?r = plant_previous" by (simp_all add: start_runtime_def)
  note restored = app_ends_restored [OF plant_storage plant_run(1) plant_file plant_reached c a(1) plant_lossy insertI1 plant_cancel]
  show ?thesis
    using restored c encode_mains [of 10] encode_cutoff [of 80] a
    by (simp add: spi_controls plant_previous_def storm_active_def is_active_def del: upt.simps)
qed

theorem app_settings_protected_witness:
  "svWorld (siService (apSite (snd (app_write_register plant_env ''battery_charge_cutoff_soc'' (VInt 30) plant_charging)))) 0xE01D
   = svWorld (siService (apSite plant_charging)) 0xE01D"
proof -
  have "storm_active plant_charging"
    using plant_charging_storm(2) by (auto simp: storm_active_def is_active_def start_runtime_def)
  from app_settings_protected [OF this plant_lossy insertI1] show ?thesis by simp
qed

theorem watchdog_after_loss_witness:
  "fst (should_trigger (7 + 120 * second)
     (put_site ((apSite plant_idle)\<lparr>siService := plant_service\<lparr>svStore :=
        failures [(8, External ''timeout'')] (set_service_status 7 ''modbus'' ''connected'' True no_error 7 new_store)\<rparr>\<rparr>) plant_idle))"
  using watchdog_after_loss [of "put_site ((apSite plant_idle)\<lparr>siService := plant_service\<lparr>svStore :=
        failures [(8, External ''timeout'')] (set_service_status 7 ''modbus'' ''connected'' True no_error 7 new_store)\<rparr>\<rparr>) plant_idle"
      "[(8, External ''timeout'')]" 7 7 new_store]
  by (simp add: plant_run(2) spi_config_def watchdog_threshold_def default_config_def second_def wrap64_id)

text \<open>A session that started 13 hours ago, an hour past its deadline, over the inverter and the files of
  the plant; YAML serialises every runtime.\<close>

definition plant_files_env :: "(u16 \<Rightarrow> u16) app_env" where
  "plant_files_env = plant_env\<lparr>aeMarshalRuntime := (\<lambda>_. Inr ''runtime'')\<rparr>"

definition plant_session :: "previous_settings \<Rightarrow> (u16 \<Rightarrow> u16) site manager" where
  "plant_session p = manager_of plant_idle
     (runtimePath ''c.yaml'', (start_runtime plant_settings p (9 - 13 * hour))\<lparr>rtPhase := phaseCharging\<rparr>, False)"

lemma plant_session_simps:
  "rtPrevious (mgRuntime (plant_session p)) = p" "rtActive (mgRuntime (plant_session p))"
  "rtPhase (mgRuntime (plant_session p)) = ''charging''" "rtDeadline (mgRuntime (plant_session p)) = 9 - hour"
  "mgWorld (plant_session p) = apSite plant_idle"
  by (simp_all add: plant_session_def manager_of_def start_runtime_def plant_settings_def settingsFromConfig_def
      default_config_def phaseCharging_def)

lemma plant_files_env_ops:
  "evWriteRegister (site_env plant_files_env cfg) = evWriteRegister (site_env plant_env cfg)"
  "evWriteWords (site_env plant_files_env cfg) = evWriteWords (site_env plant_env cfg)"
  "evSnapshot (site_env plant_files_env cfg) = evSnapshot (site_env plant_env cfg)"
  "now_of (site_env plant_files_env cfg) m = 9" "files_answer (site_env plant_files_env cfg)"
  by (simp_all add: site_env_def plant_files_env_def fun_eq_iff site_now_def now_of_def plant_env_def files_answer_def file_outcome_def)

theorem storm_session_ends_witness:
  "\<not> rtActive (mgRuntime (evaluate (site_env plant_files_env spi_config) (plant_session plant_previous)))
   \<and> rtPhase (mgRuntime (evaluate (site_env plant_files_env spi_config) (plant_session plant_previous))) = ''timed_out''"
proof -
  let ?e = "site_env plant_files_env spi_config" and ?m = "plant_session plant_previous"
  have d: "device_answers ?e (restoring_writes (rtPrevious (mgRuntime ?m)))"
    using plant_writes by (auto simp: device_answers_def plant_files_env_ops plant_session_simps session_writes_def simp del: site_env_ops)
  have c: "modbus_connected (evSnapshot ?e (mgWorld ?m))"
    by (simp add: plant_files_env_ops plant_session_simps plant_run modbus_connected_def snapshot_def set_service_status_def
        plant_store_def Let_def update_conv')
  have "9 - hour \<noteq> 0" "9 - hour \<le> 9" by (simp_all add: hour_def minute_def second_def)
  with storm_session_ends [OF d plant_files_env_ops(5) plant_session_simps(2) c] show ?thesis
    by (simp add: plant_session_simps plant_files_env_ops phaseRestoring_def phaseTimedOut_def del: site_env_ops)
qed

text \<open>The same session, with a grid charge current of 130 A read before it started: the control accepts
  at most 120 A, so the session can neither end nor be cancelled.\<close>

theorem storm_unrestorable_witness:
  "\<forall>calls. rtActive (mgRuntime (fold (\<lambda>c m. if c then snd (cancel (site_env plant_files_env spi_config) m)
       else evaluate (site_env plant_files_env spi_config) m) calls (plant_session (plant_previous\<lparr>psMainsCurrentA := Num 130\<rparr>))))"
proof (rule allI, rule storm_unrestorable [OF _ _ plant_session_simps(2)])
  let ?v = "VFloat (Num 130)"
  show "(''mains_charge_current_limit'', ?v)
      \<in> restoring_writes (rtPrevious (mgRuntime (plant_session (plant_previous\<lparr>psMainsCurrentA := Num 130\<rparr>))))"
    by (simp add: plant_session_simps restoring_writes_def)
  have "\<exists>e. encode_write mainsRegister ?v = Inl e"
    by (simp add: encode_write_def mainsRegister_def reg0_def numeric_input_def validate_write_bounds_def)
  then obtain er where e: "encode_write mainsRegister ?v = Inl er" by blast
  have "rWritable mainsRegister" by (simp add: mainsRegister_def)
  then have "fst (write_register memory_env spi_config ''mains_charge_current_limit'' ?v s) \<noteq> Inr ()" for s
    using e spi_config_facts spi_controls(2) by (auto simp: write_register_def split: sum.split prod.split)
  then show "\<forall>w. fst (evWriteRegister (site_env plant_files_env spi_config) ''mains_charge_current_limit'' ?v w) \<noteq> Inr ()"
    by (simp add: plant_files_env_ops on_service_def case_prod_beta)
qed

end
