(* ===== verification/BridgeDemo.thy ===== *)
theory BridgeDemo
  imports Bridge Watchdog AppDemo
begin

text \<open>
  The bridge of the plant of \<open>AppDemo\<close>: its HTTP interface, and a client library that publishes
  everything at once. The properties of the bridge applied to it.
\<close>

definition plant_lib :: "(string \<Rightarrow> payload option) client_lib" where
  "plant_lib =
     \<lparr>clNew = (\<lambda>opts b. (0, b)), clConnect = (\<lambda>c b. (Done None, b)), clIsOpen = (\<lambda>c b. True),
      clPublish = (\<lambda>c t r p b. (Done None, b(t := Some p))), clSubscribe = (\<lambda>c ts b. (Done None, b)),
      clDisconnect = (\<lambda>c b. b), clOrder = (\<lambda>vs b. vs)\<rparr>"

definition plant_http :: "(u16 \<Rightarrow> u16) http_env" where
  "plant_http =
     \<lparr>heApp = plant_env, heBuild = \<lparr>biVersion = ''dev'', biCommit = '''', biDate = ''''\<rparr>, heStartedAt = 1, heReady = True,
      heZone = (\<lambda>t. t), heConfigOf = (\<lambda>_. None), heClockOf = (\<lambda>_. None),
      heValueOf = (\<lambda>b. if b = ''30'' then Some (VStr ''30'') else None), heSettingsOf = (\<lambda>_. Some plant_settings),
      heGlob = (\<lambda>_. Inr []), heExists = (\<lambda>_. False), heOpen = (\<lambda>_. Missing),
      heServeFile = (\<lambda>_. plain_error 404 ''404 page not found''), heIndex = None\<rparr>"

definition post :: "string list \<Rightarrow> string \<Rightarrow> http_request" where
  "post segs body = \<lparr>rqMethod = ''POST'', rqSegments = segs, rqBody = body, rqBroken = False\<rparr>"

definition plant_bridge :: "(u16 \<Rightarrow> u16) app \<Rightarrow> ((u16 \<Rightarrow> u16), (string \<Rightarrow> payload option)) bridge" where
  "plant_bridge a = new_mqtt (a, Map.empty)"

lemma plant_bridge_simps [simp]:
  "heApp plant_http = plant_env" "heSettingsOf plant_http b = Some plant_settings" "bridge_app (plant_bridge a) = a"
  "rqMethod (post segs body) = ''POST''" "rqSegments (post segs body) = segs" "limited (post segs ''30'') = ''30''"
  "heValueOf plant_http ''30'' = Some (VStr ''30'')"
  by (simp_all add: plant_http_def plant_bridge_def bridge_app_def new_mqtt_def post_def limited_def bodyLimit_def)

lemma plant_active: "storm_active plant_charging"
  using plant_charging_storm(2) by (auto simp: storm_active_def is_active_def start_runtime_def)

text \<open>A session is started over HTTP.\<close>

theorem bridge_session_invariant_witness:
  "\<exists>s :: (u16 \<Rightarrow> u16, string \<Rightarrow> payload option) bridge. bridge_app s = plant_charging \<and> storm_active (bridge_app s)
    \<and> normalized_inverter_type (cfDevice (apConfig (bridge_app s))) = Inr ''spi_h3p''
    \<and> (\<exists>p r b. apStorm (bridge_app s) = Some (p, r, b) \<and> session_ok r)"
proof -
  let ?rq = "post [''api'', ''v1'', ''storm-charge'', ''start''] ''{}''"
  let ?s = "snd (bridge_http plant_http ?rq (plant_bridge plant_idle))"
  have start: "bridge_start plant_http plant_lib ''c.yaml'' plant_site Map.empty = Inr (plant_bridge plant_idle)"
    by (simp add: bridge_start_def plant_run(1) plant_bridge_def)
  have "route_of ''POST'' [''api'', ''v1'', ''storm-charge'', ''start''] = StartStorm" by (simp add: route_of_def)
  then have app: "bridge_app ?s = plant_charging"
    by (simp add: http_app serve_http_def handle_start_storm_def with_settings_def plant_charging_def
        case_prod_beta split: sum.split)
  have step: "(bridge_step plant_http plant_lib)\<^sup>*\<^sup>* (plant_bridge plant_idle) ?s" by (blast intro: bridge_step.http)
  obtain p where c: "apStorm (bridge_app ?s) = Some (p, (start_runtime plant_settings plant_previous 9)\<lparr>rtPhase := phaseCharging\<rparr>, False)"
    using plant_charging_storm(2) app by auto
  have ok: "storage_ok (heApp plant_http)" by (simp add: plant_storage)
  note none = no_file_start [OF plant_storage plant_file]
  have f: "start_file_ok (heApp plant_http) ''c.yaml'' plant_site" using none(2) by simp
  note inv = bridge_session_invariant [OF ok start f step c]
  have "rtActive ((start_runtime plant_settings plant_previous 9)\<lparr>rtPhase := phaseCharging\<rparr>)" by (simp add: start_runtime_def)
  with inv c app plant_active none(1) show ?thesis by (intro exI [of _ ?s]) auto
qed

text \<open>A round after the start of the service, with the library logged.\<close>

lemma plant_publishes: "publishes (bridge_env plant_http (logged plant_lib))"
  by (simp add: publishes_def logged_def plant_lib_def)

lemma plant_telemetry: "distinct (map dID (snTelemetry (get_state_snapshot plant_idle)) @ stormStateIDs)"
proof -
  have v: "stValues (svStore (siService (apSite plant_idle))) = map (\<lambda>v. (dID v, v)) plant_values"
    unfolding plant_run(5) by (simp add: set_service_status_def plant_store_def Let_def)
  have e: "stSwitchGrid (svStore (siService (apSite plant_idle))) = event0" "stSwitchBatt (svStore (siService (apSite plant_idle))) = event0"
    unfolding plant_run(5) by (simp_all add: set_service_status_def plant_store_def new_store_def Let_def)
  have nominal: "nominalBatteryVoltage \<lparr>dID = '''', dName = '''', dAddress = 0, dGroup = GroupFast, dComponent = '''',
     dEntity = '''', dEntityCategory = '''', dWritable = False, dWriteOnly = False,
     dSynthetic = False, dRawOnly = False, dUnit = '''', dDeviceClass = '''', dStateClass = '''',
     dIcon = '''', dRaw = 0, dRawWords = [], dValue = VNil, dRendered = '''', dWriteMin = Num 0,
     dWriteMax = Num 0, dWriteStep = Num 0, dOptions = [], dUpdatedAt = 0\<rparr> = None" by code_simp
  have "derivedTelemetry plant_values event0 event0 = []"
    by (simp add: derivedTelemetry_def energyTelemetry_def threePhasePowerTelemetry_def phasePowerSumTelemetry_def
        batteryEnergyTelemetry_def switchTelemetry_def plant_values_def index_values_def lookup_or_def value0_def event0_def
        numeric_value_def nominal switchSOCTelemetry_def Let_def)
  then have "mset (snTelemetry (get_state_snapshot plant_idle)) = mset plant_values"
    using set_snapshot [of "svStore (siService (apSite plant_idle))"] by (simp add: get_state_snapshot_def v e comp_def)
  then have "mset (map dID (snTelemetry (get_state_snapshot plant_idle)) @ stormStateIDs) = mset (map dID plant_values @ stormStateIDs)"
    by (simp add: mset_map)
  moreover have "distinct (map dID plant_values @ stormStateIDs)" by (simp add: plant_values_def stormStateIDs_def)
  ultimately show ?thesis using mset_eq_imp_distinct_iff by blast
qed

text \<open>The start of the service opens the connection, publishes, and only sets its status in the application.\<close>

lemma set_app_status_simps [simp]:
  "apConfig (set_app_status e name text ok er t a) = apConfig a"
  "apStorm (set_app_status e name text ok er t a) = apStorm a"
  "snTelemetry (get_state_snapshot (set_app_status e name text ok er t a)) = snTelemetry (get_state_snapshot a)"
  by (simp_all add: set_app_status_def get_state_snapshot_def put_site_def telemetry_status Let_def)

lemma plant_sync:
  fixes env s defines "env \<equiv> bridge_env plant_http (logged plant_lib)"
    and "s \<equiv> mqtt_start (bridge_env plant_http (logged plant_lib)) (plant_idle, Map.empty, [])"
  shows "qsClient s = Some 0"
    and "snTelemetry (get_state_snapshot (fst (qsWorld s))) = snTelemetry (get_state_snapshot plant_idle)"
    and "apStorm (fst (qsWorld s)) = apStorm plant_idle"
proof -
  define s0 where "s0 = set_mqtt_status env ''starting'' False no_error 0 (new_mqtt (plant_idle, Map.empty, []))"
  define s1 where "s1 = snd (ensure_mqtt_client env spi_config s0)"
  define s2 where "s2 = snd (publish_round env spi_config s1)"
  let ?a = "set_app_status plant_env ''mqtt'' ''starting'' False no_error 0 plant_idle"
  have e: "ensure_mqtt_client env spi_config s0 = (Some 0, s1)" "qsClient s1 = Some 0" "fst (qsWorld s1) = ?a"
    by (simp_all add: s1_def s0_def env_def ensure_mqtt_client_def new_mqtt_def set_mqtt_status_def forget_client_def
        on_lib_def logged_def plant_lib_def Let_def)
  have r: "publish_round env spi_config s1 = (Inr (), s2)" "qsClient s2 = Some 0"
    using publish_round_works [OF plant_publishes e(2)[unfolded env_def], of spi_config]
    by (auto simp: s2_def env_def prod_eq_iff)
  have w: "fst (qsWorld s2) = ?a" unfolding s2_def env_def
    by (rule bridge_publisher.round_keeps) (rule e(3))
  have "trim_space (mcBroker (cfMQTT spi_config)) \<noteq> ''''" by code_simp
  moreover have "qeConfig env (qsWorld s0) = spi_config"
    by (simp add: s0_def env_def set_mqtt_status_def new_mqtt_def plant_run(2))
  moreover have "qeIsOpen env 0 (qsWorld s1)" by (simp add: env_def logged_def plant_lib_def)
  ultimately have "s = set_mqtt_status env ''connected'' True no_error (mqtt_now env s2) (mark_healthy s2)"
    by (simp add: s_def mqtt_start_def mqtt_sync_def Let_def env_def [symmetric] s0_def [symmetric] e(1) r(1))
  then show "qsClient s = Some 0" "apStorm (fst (qsWorld s)) = apStorm plant_idle"
    "snTelemetry (get_state_snapshot (fst (qsWorld s))) = snTelemetry (get_state_snapshot plant_idle)"
    by (simp_all add: set_mqtt_status_def mark_healthy_def r(2) w env_def)
qed


theorem commands_agree_witness:
  "bridge_app (on_message (bridge_env plant_http plant_lib) spi_config
      (command_topic spi_config ''battery_charge_cutoff_soc'') '' 30 '' (plant_bridge plant_idle))
   = bridge_app (snd (bridge_http plant_http (post [''api'', ''v1'', ''registers'', ''battery_charge_cutoff_soc'', ''write''] ''30'')
      (plant_bridge plant_idle)))"
proof -
  let ?i = "''battery_charge_cutoff_soc''"
  have t: "trim_space '' 30 '' = ''30''" "trim_space ?i = ?i" by code_simp+
  have "rWritable cutoffRegister" by (simp add: cutoffRegister_def)
  from commands_agree [OF spi_config_facts(1) spi_controls(1) this, of "'' 30 ''"
      "post [''api'', ''v1'', ''registers'', ?i, ''write''] ''30''" plant_http plant_lib "plant_bridge plant_idle"]
  show ?thesis using t by simp
qed

theorem bridge_protected_witness:
  "svWorld (siService (apSite (bridge_app (on_message (bridge_env plant_http plant_lib) spi_config
      (command_topic spi_config ''battery_charge_cutoff_soc'') ''30'' (plant_bridge plant_charging))))) 0xE01D
   = svWorld (siService (apSite plant_charging)) 0xE01D"
proof -
  have r: "route_of (rqMethod (post [''healthz''] '''')) (rqSegments (post [''healthz''] '''')) \<noteq> CancelStorm"
    by (simp add: route_of_def)
  have a: "storm_active (bridge_app (plant_bridge plant_charging))" using plant_active by simp
  have l: "lossy_memory (aeModbus (heApp plant_http)) (\<lambda>m. m)" using plant_lossy by simp
  from bridge_protected [OF a l r _ insertI2 [OF singletonI], of "command_topic spi_config ''battery_charge_cutoff_soc''" spi_config "''30''" plant_lib]
  show ?thesis by simp
qed

text \<open>The Modbus service of the plant is lost at time 8: every tick finds another failed poll, and an MQTT
  service that goes on reporting.\<close>

definition plant_lost :: "nat \<Rightarrow> (u16 \<Rightarrow> u16) app" where
  "plant_lost n = put_site ((apSite plant_idle)\<lparr>siService := plant_service\<lparr>svStore :=
     set_service_status (9 + int n) ''mqtt'' ''connected'' True no_error (9 + int n)
       (failures [(8 + int n, External ''timeout'')]
         (set_service_status 7 ''modbus'' ''connected'' True no_error 7 new_store))\<rparr>\<rparr>) plant_idle"

lemma plant_lost_by: "lost_by due 7 now (plant_lost n)"
  by (simp add: lost_by_def plant_lost_def get_state_snapshot_def snapshot_def set_service_status_def lookup_or_def
      update_conv' new_store_def status0_def Let_def)

theorem watchdog_exits_witness:
  "\<exists>n. watchdog_loop plant_lost (\<lambda>n. 9 + int n * (15 * second)) (\<lambda>_. False) 0 = Some (Exited n)"
proof -
  let ?clk = "\<lambda>n. 9 + int n * (15 * second)" and ?due = "7 + max (90 * second) (wrap64 (2 * pcSlowInterval (cfPolling spi_config)))"
  have c: "apConfig (plant_lost n) = spi_config" for n by (simp add: plant_lost_def plant_run(2))
  have "watchdog_interval spi_config = 15 * second"
    by (simp add: watchdog_interval_def spi_config_def default_config_def second_def)
  then have p: "paced plant_lost ?clk 0" by (simp add: paced_def c algebra_simps)
  have "9 \<le> ?due" by (simp add: second_def le_max_iff_disj)
  then have "\<exists>n. watchdog_loop plant_lost ?clk (\<lambda>_. False) 0 = Some (Exited n) \<and> ?due \<le> ?clk n
    \<and> ?clk n \<le> ?due + 0 + (if 0 < pcFastInterval (cfPolling spi_config) then min (pcFastInterval (cfPolling spi_config)) (15 * second)
        else 15 * second)"
    by (intro watchdog_exits [OF p, where t = 7]) (simp_all add: c plant_lost_by)
  then show ?thesis by blast
qed

end
