(* ===== verification/Interleaving.thy ===== *)
theory Interleaving
  imports AppDemo
begin

text \<open>
  The methods of the application under concurrent requests. The HTTP server answers every request in its
  own goroutine and MQTT messages come from another, and no lock is held across a method of
  \<^verbatim>\<open>App\<close>: a \<open>thread\<close> is what is left of a call, cut wherever the method reads or writes what
  another call can change, and \<open>advance\<close> is its next piece. What runs under the lock of a service is one
  piece, and so is the replacement of the configuration file. Without interruption the pieces are the
  methods of theory \<open>App\<close> (\<open>complete_calls\<close>). Any interleaving keeps the session well formed and
  its settings to restore on disk (\<open>interleaved_session_invariant\<close>), but not the guards that the methods
  check first: a change of the configuration or a write of a managed register that was let in before a
  session starts still takes effect in it (\<open>guards_not_atomic\<close>).
\<close>

section \<open>Threads\<close>

text \<open>The optional settings are those of \<^verbatim>\<open>StartStormCharge\<close>, which goes on with the session after
  the configuration.\<close>

datatype thread =
  WriteGuard string go_value
| WriteGo string go_value
| ConfigGuard config "settings option"
| ConfigSave config "settings option"
| ConfigSet config "settings option"
| SettingsGuard settings "settings option"
| SettingsRead settings "settings option"
| StartGuard settings
| StartIdle settings
| StartGo settings
| CancelGo
| ClockGuard date_time
| ClockGo date_time

datatype progress = Continue thread | Return "unit result" | ReturnClock "date_time result"

definition after_config :: "settings option \<Rightarrow> progress" where
  "after_config k = (case k of None \<Rightarrow> Return (Inr ()) | Some g \<Rightarrow> Continue (StartGo g))"

fun advance :: "'w app_env \<Rightarrow> thread \<Rightarrow> 'w app \<Rightarrow> progress \<times> 'w app" where
  "advance e (WriteGuard i v) a =
     (if apStorm a = None then (Return (Inl (Errorf ''modbus service is not initialized'' [])), a)
      else if storm_active a \<and> isManagedRegister i
      then (Return (Inl (Errorf ''register %q is managed by active storm charge; cancel storm charge first'' [AStr i])), a)
      else (Continue (WriteGo i v), a))"
| "advance e (WriteGo i v) a =
     (case on_site (on_service (write_register (aeModbus e) (apConfig a) i v)) a of (r, a') \<Rightarrow> (Return r, a'))"
| "advance e (ConfigGuard cfg k) a =
     (if storm_active a
      then (Return (Inl (Errorf ''service configuration cannot be changed while storm charge is active'' [])), a)
      else (Continue (ConfigSave cfg k), a))"
| "advance e (ConfigSave cfg k) a =
     (case save_config (aeMarshalConfig e) (aeFs e (apSite a)) (apConfigPath a) cfg (siFiles (apSite a)) of
        (Inl er, files) \<Rightarrow> (Return (Inl er), put_site ((apSite a)\<lparr>siFiles := files\<rparr>) a)
      | (Inr _, files) \<Rightarrow> (Continue (ConfigSet cfg k), put_site ((apSite a)\<lparr>siFiles := files\<rparr>) a))"
| "advance e (ConfigSet cfg k) a = (after_config k, a\<lparr>apConfig := cfg\<rparr>)"
| "advance e (SettingsGuard g k) a =
     (case validateSettings g of
        Inl er \<Rightarrow> (Return (Inl er), a)
      | Inr _ \<Rightarrow>
          (if storm_active a
           then (Return (Inl (Errorf ''storm charge settings cannot be changed while charging is active'' [])), a)
           else (Continue (SettingsRead g k), a)))"
| "advance e (SettingsRead g k) a =
     (Continue (ConfigGuard ((apConfig a)\<lparr>cfStorm := \<lparr>smTargetSOC = sgTargetSOC g,
        smMaxCurrentA = sgMaxCurrentA g, smTimeout = sgTimeout g\<rparr>\<rparr>) k), a)"
| "advance e (StartGuard g) a =
     (if apStorm a = None then (Return (Inl (Errorf ''storm charge manager is not initialized'' [])), a)
      else case normalized_inverter_type (cfDevice (apConfig a)) of
        Inl er \<Rightarrow> (Return (Inl er), a)
      | Inr t \<Rightarrow>
          (if t \<noteq> ''spi_h3p''
           then (Return (Inl (Errorf ''storm charge is currently supported only for the SPI H3P profile'' [])), a)
           else (Continue (StartIdle g), a)))"
| "advance e (StartIdle g) a =
     (if storm_active a then (Return (Inl (Errorf ''storm charge is already active'' [])), a)
      else (Continue (SettingsGuard g (Some g)), a))"
| "advance e (StartGo g) a =
     (case apStorm a of
        None \<Rightarrow> (Return (Inl (GoPanic ''nil pointer dereference'')), a)
      | Some c \<Rightarrow> (case on_manager (start (site_env e (apConfig a)) g) c a of (r, a') \<Rightarrow> (Return r, a')))"
| "advance e CancelGo a = (case cancel_storm e a of (r, a') \<Rightarrow> (Return r, a'))"
| "advance e (ClockGuard v) a =
     (if apStorm a = None
      then (ReturnClock (Inl (Errorf ''inverter clock service is not initialized'' [])), a)
      else if storm_active a
      then (ReturnClock (Inl (Errorf ''inverter clock cannot be changed while storm charge is active'' [])), a)
      else (Continue (ClockGo v), a))"
| "advance e (ClockGo v) a =
     (case on_site (clock_set (evReadWords (site_env e (apConfig a))) (evWriteWords (site_env e (apConfig a))) v) a of
        (r, a') \<Rightarrow> (ReturnClock r, a'))"

text \<open>A call that is not interrupted.\<close>

fun pieces :: "thread \<Rightarrow> nat" where
  "pieces (WriteGuard i v) = 2" | "pieces (WriteGo i v) = 1"
| "pieces (ConfigGuard cfg k) = 4" | "pieces (ConfigSave cfg k) = 3" | "pieces (ConfigSet cfg k) = 2"
| "pieces (SettingsGuard g k) = 6" | "pieces (SettingsRead g k) = 5"
| "pieces (StartGuard g) = 8" | "pieces (StartIdle g) = 7" | "pieces (StartGo g) = 1"
| "pieces CancelGo = 1" | "pieces (ClockGuard v) = 2" | "pieces (ClockGo v) = 1"

lemma advance_pieces: "advance e t a = (Continue t', a') \<Longrightarrow> pieces t' < pieces t"
  by (cases t) (auto simp: after_config_def split: if_splits sum.splits prod.splits option.splits)

function uninterrupted :: "'w app_env \<Rightarrow> thread \<Rightarrow> 'w app \<Rightarrow> progress \<times> 'w app" where
  "uninterrupted e t a =
     (case advance e t a of
        (Continue t', a') \<Rightarrow> uninterrupted e t' a'
      | (Return r, a') \<Rightarrow> (Return r, a')
      | (ReturnClock r, a') \<Rightarrow> (ReturnClock r, a'))"
  by pat_completeness auto
termination
  by (relation "measure (\<lambda>(e, t, a). pieces t)") (simp_all add: advance_pieces [OF sym])

declare uninterrupted.simps [simp del]

lemma complete_steps:
  "advance e t a = (Continue t', a') \<Longrightarrow> uninterrupted e t a = uninterrupted e t' a'"
  "advance e t a = (Return r, a') \<Longrightarrow> uninterrupted e t a = (Return r, a')"
  "advance e t a = (ReturnClock d, a') \<Longrightarrow> uninterrupted e t a = (ReturnClock d, a')"
  by (subst uninterrupted.simps, simp)+


text \<open>The calls of the interfaces, and the methods of theory \<open>App\<close> they are.\<close>

fun called :: "'w app_env \<Rightarrow> thread \<Rightarrow> 'w app \<Rightarrow> progress \<times> 'w app" where
  "called e (WriteGuard i v) a = (case app_write_register e i v a of (r, a') \<Rightarrow> (Return r, a'))"
| "called e (ConfigGuard cfg None) a = (case update_config e cfg a of (r, a') \<Rightarrow> (Return r, a'))"
| "called e (SettingsGuard g None) a = (case update_storm_settings e g a of (r, a') \<Rightarrow> (Return r, a'))"
| "called e (StartGuard g) a = (case start_storm e g a of (r, a') \<Rightarrow> (Return r, a'))"
| "called e CancelGo a = (case cancel_storm e a of (r, a') \<Rightarrow> (Return r, a'))"
| "called e (ClockGuard v) a = (case set_clock e v a of (r, a') \<Rightarrow> (ReturnClock r, a'))"
| "called e _ a = (Return (Inr ()), a)"

fun entry :: "thread \<Rightarrow> bool" where
  "entry (WriteGuard i v) = True"
| "entry (ConfigGuard cfg k) = (k = None)"
| "entry (SettingsGuard g k) = (k = None)"
| "entry (StartGuard g) = True"
| "entry CancelGo = True"
| "entry (ClockGuard v) = True"
| "entry _ = False"

lemma complete_config:
  "uninterrupted e (ConfigGuard cfg k) a =
     (case update_config e cfg a of
        (Inl er, a1) \<Rightarrow> (Return (Inl er), a1)
      | (Inr _, a1) \<Rightarrow> (case k of None \<Rightarrow> (Return (Inr ()), a1) | Some g \<Rightarrow> uninterrupted e (StartGo g) a1))"
proof -
  have set: "uninterrupted e (ConfigSet cfg k) a1 =
      (case k of None \<Rightarrow> (Return (Inr ()), a1\<lparr>apConfig := cfg\<rparr>) | Some g \<Rightarrow> uninterrupted e (StartGo g) (a1\<lparr>apConfig := cfg\<rparr>))" for a1
    by (cases k) (simp_all add: complete_steps after_config_def)
  obtain r files where save: "save_config (aeMarshalConfig e) (aeFs e (apSite a)) (apConfigPath a) cfg (siFiles (apSite a)) = (r, files)"
    by fastforce
  show ?thesis
  proof (cases "storm_active a")
    case True
    then show ?thesis by (simp add: complete_steps update_config_def)
  next
    case False
    then have "uninterrupted e (ConfigGuard cfg k) a = uninterrupted e (ConfigSave cfg k) a" by (simp add: complete_steps)
    then show ?thesis using False save by (cases r) (simp_all add: complete_steps update_config_def set)
  qed
qed

lemma complete_settings:
  "uninterrupted e (SettingsGuard g k) a =
     (case update_storm_settings e g a of
        (Inl er, a1) \<Rightarrow> (Return (Inl er), a1)
      | (Inr _, a1) \<Rightarrow> (case k of None \<Rightarrow> (Return (Inr ()), a1) | Some h \<Rightarrow> uninterrupted e (StartGo h) a1))"
proof (cases "validateSettings g = Inr () \<and> \<not> storm_active a")
  case True
  then have "uninterrupted e (SettingsGuard g k) a = uninterrupted e (ConfigGuard ((apConfig a)\<lparr>cfStorm := \<lparr>smTargetSOC = sgTargetSOC g,
        smMaxCurrentA = sgMaxCurrentA g, smTimeout = sgTimeout g\<rparr>\<rparr>) k) a"
    by (simp add: complete_steps)
  then show ?thesis using True by (simp add: complete_config update_storm_settings_def)
next
  case False
  then show ?thesis by (cases "validateSettings g") (auto simp: complete_steps update_storm_settings_def)
qed

lemma complete_calls:
  assumes "entry t"
  shows "uninterrupted e t a = called e t a"
proof (cases t)
  case (WriteGuard i v)
  then show ?thesis by (auto simp: complete_steps app_write_register_def case_prod_beta)
next
  case (ConfigGuard cfg k)
  then show ?thesis using assms by (auto simp: complete_config split: prod.split sum.split)
next
  case (SettingsGuard g k)
  then show ?thesis using assms by (auto simp: complete_settings split: prod.split sum.split)
next
  case (StartGuard g)
  show ?thesis
  proof (cases "\<exists>c. apStorm a = Some c \<and> normalized_inverter_type (cfDevice (apConfig a)) = Inr ''spi_h3p'' \<and> \<not> storm_active a")
    case True
    then obtain c where c: "apStorm a = Some c" "normalized_inverter_type (cfDevice (apConfig a)) = Inr ''spi_h3p''" "\<not> storm_active a"
      by blast
    then have "uninterrupted e t a = uninterrupted e (SettingsGuard g (Some g)) a"
      unfolding StartGuard by (simp add: complete_steps)
    moreover have "uninterrupted e (StartGo g) a1 = (case apStorm a1 of
        None \<Rightarrow> (Return (Inl (GoPanic ''nil pointer dereference'')), a1)
      | Some c \<Rightarrow> (case on_manager (start (site_env e (apConfig a1)) g) c a1 of (r, a') \<Rightarrow> (Return r, a')))" for a1
      by (cases "apStorm a1") (simp_all add: complete_steps case_prod_beta)
    ultimately show ?thesis
      using c unfolding StartGuard by (auto simp: complete_settings start_storm_def split: prod.split sum.split option.split)
  next
    case False
    then show ?thesis
      unfolding StartGuard by (cases "apStorm a"; cases "normalized_inverter_type (cfDevice (apConfig a))")
        (auto simp: complete_steps start_storm_def)
  qed
next
  case CancelGo
  then show ?thesis by (simp add: complete_steps case_prod_beta)
next
  case (ClockGuard v)
  then show ?thesis by (auto simp: complete_steps set_clock_def case_prod_beta)
qed (use assms in simp_all)

section \<open>Interleavings\<close>

inductive thread_step :: "'w app_env \<Rightarrow> 'w app \<times> thread list \<Rightarrow> 'w app \<times> thread list \<Rightarrow> bool" for e where
  arrive: "entry t \<Longrightarrow> thread_step e (a, ts) (a, ts @ [t])"
| run: "i < length ts \<Longrightarrow> advance e (ts ! i) a = (Continue t, a') \<Longrightarrow> thread_step e (a, ts) (a', ts[i := t])"
| reply: "i < length ts \<Longrightarrow> advance e (ts ! i) a = (Return r, a') \<Longrightarrow> thread_step e (a, ts) (a', take i ts @ drop (Suc i) ts)"
| reply_clock: "i < length ts \<Longrightarrow> advance e (ts ! i) a = (ReturnClock d, a')
    \<Longrightarrow> thread_step e (a, ts) (a', take i ts @ drop (Suc i) ts)"

inductive pool_step :: "'w app_env \<Rightarrow> 'w app \<times> thread list \<Rightarrow> 'w app \<times> thread list \<Rightarrow> bool" for e where
  call_step: "thread_step e x y \<Longrightarrow> pool_step e x y"
| manager_round: "pool_step e (a, ts) (evaluate_storm e a, ts)"
| clock_read: "pool_step e (a, ts) (snd (get_clock e a), ts)"
| service_change: "pool_step e (a, ts) (put_site ((apSite a)\<lparr>siService := sv\<rparr>) a, ts)"

abbreviation thread_steps :: "'w app_env \<Rightarrow> 'w app \<times> thread list \<Rightarrow> 'w app \<times> thread list \<Rightarrow> bool" where
  "thread_steps e \<equiv> (thread_step e)\<^sup>*\<^sup>*"

abbreviation pool_steps :: "'w app_env \<Rightarrow> 'w app \<times> thread list \<Rightarrow> 'w app \<times> thread list \<Rightarrow> bool" where
  "pool_steps e \<equiv> (pool_step e)\<^sup>*\<^sup>*"

lemma threads_in_pool: "thread_steps e x y \<Longrightarrow> pool_steps e x y"
  by (rule rtranclp_mono [THEN predicate2D]) (auto intro: pool_step.call_step)

text \<open>The last call runs to its end while the others wait.\<close>

lemma thread_complete:
  "uninterrupted e t a = (Return r, a') \<Longrightarrow> thread_steps e (a, ts @ [t]) (a', ts)"
proof (induction e t a rule: uninterrupted.induct)
  case (1 e t a)
  obtain p a1 where 1: "advance e t a = (p, a1)" by fastforce
  have i: "length ts < length (ts @ [t])" "(ts @ [t]) ! length ts = t" by simp_all
  show ?case
  proof (cases p)
    case (Continue t')
    have "thread_step e (a, ts @ [t]) (a1, (ts @ [t])[length ts := t'])"
      using 1 Continue by (intro thread_step.run) simp_all
    moreover have "thread_steps e (a1, ts @ [t']) (a', ts)"
      using "1.IH" [OF 1 [symmetric] Continue] "1.prems" 1 Continue by (simp add: complete_steps)
    ultimately show ?thesis by (simp add: converse_rtranclp_into_rtranclp)
  next
    case (Return q)
    have "thread_step e (a, ts @ [t]) (a1, take (length ts) (ts @ [t]) @ drop (Suc (length ts)) (ts @ [t]))"
      using 1 Return by (intro thread_step.reply) simp_all
    then show ?thesis using 1 Return "1.prems" by (simp add: complete_steps)
  next
    case (ReturnClock d)
    then show ?thesis using 1 "1.prems" by (simp add: complete_steps)
  qed
qed


section \<open>What every interleaving keeps\<close>

definition recorded_ok :: "'w app_env \<Rightarrow> 'w app \<Rightarrow> bool" where
  "recorded_ok e a \<longleftrightarrow> (\<exists>c. apStorm a = Some c
     \<and> manager_ok (site_env e (apConfig a)) (runtimePath (apConfigPath a)) (\<lambda>_. True) (manager_of a c))"

lemma recorded_ok_passive:
  assumes "storage_ok e" "recorded_ok e a" "apStorm a' = apStorm a" "apConfigPath a' = apConfigPath a"
    and "siFiles (apSite a') (runtimePath (apConfigPath a)) = siFiles (apSite a) (runtimePath (apConfigPath a))"
  shows "recorded_ok e a'"
proof -
  obtain p r b where c: "apStorm a = Some (p, r, b)"
    "manager_ok (site_env e (apConfig a)) (runtimePath (apConfigPath a)) (\<lambda>_. True) (manager_of a (p, r, b))"
    using assms(2) by (auto simp: recorded_ok_def)
  have "manager_ok (site_env e (apConfig a')) (runtimePath (apConfigPath a')) (\<lambda>_. True) (manager_of a' (p, r, b))"
    unfolding assms(4) by (rule manager_ok_site [OF assms(1) c(2)]) (simp_all add: assms(5))
  then show ?thesis using c assms(3) by (auto simp: recorded_ok_def)
qed

lemma recorded_ok_manager:
  assumes "recorded_ok e a" "apStorm a = Some c"
    and "\<And>m. manager_ok (site_env e (apConfig a)) (runtimePath (apConfigPath a)) (\<lambda>_. True) m \<Longrightarrow>
        manager_ok (site_env e (apConfig a)) (runtimePath (apConfigPath a)) (\<lambda>_. True) (f m)"
  shows "recorded_ok e (put_manager (f (manager_of a c)) a)"
  using assms by (auto simp: recorded_ok_def)

lemma clock_go_frame:
  assumes "on_site (clock_set (evReadWords (site_env e cfg)) (evWriteWords (site_env e cfg)) v) a = (r, a')"
  shows "apStorm a' = apStorm a" "apConfigPath a' = apConfigPath a" "siFiles (apSite a') = siFiles (apSite a)"
  using assms
  by (auto simp: on_site_def clock_set_def clock_read_def on_service_def split: prod.splits sum.splits)

lemma advance_recorded:
  assumes s: "storage_ok e" and a: "recorded_ok e a" and "advance e t a = (p, a')"
  shows "recorded_ok e a'"
proof (cases t)
  case (WriteGo i v)
  then obtain r where "on_site (on_service (write_register (aeModbus e) (apConfig a) i v)) a = (r, a')"
    using assms(3) by (auto split: prod.splits)
  from on_site_service_frame [OF this] show ?thesis by (intro recorded_ok_passive [OF s a]) simp_all
next
  case (ConfigSave cfg k)
  obtain r files where save: "save_config (aeMarshalConfig e) (aeFs e (apSite a)) (apConfigPath a) cfg (siFiles (apSite a)) = (r, files)"
    by fastforce
  then have "a' = put_site ((apSite a)\<lparr>siFiles := files\<rparr>) a" using assms(3) ConfigSave by (cases r) simp_all
  then show ?thesis
    using save_config_elsewhere [OF save runtime_path_apart(1,2)] by (intro recorded_ok_passive [OF s a]) simp_all
next
  case (ConfigSet cfg k)
  then show ?thesis using assms(3) by (intro recorded_ok_passive [OF s a]) auto
next
  case (StartGo g)
  obtain c where c: "apStorm a = Some c" using a by (auto simp: recorded_ok_def)
  have "recorded_ok e (put_manager (snd (start (site_env e (apConfig a)) g (manager_of a c))) a)"
    by (rule recorded_ok_manager [OF a c start_ok(1) [OF site_safe [OF s] site_reader _ prod.collapse [symmetric]]])
  then show ?thesis using assms(3) StartGo c by (auto simp: on_manager_def split: prod.splits)
next
  case CancelGo
  obtain c where c: "apStorm a = Some c" using a by (auto simp: recorded_ok_def)
  have "recorded_ok e (put_manager (snd (cancel (site_env e (apConfig a)) (manager_of a c))) a)"
    by (rule recorded_ok_manager [OF a c cancel_ok [OF site_safe [OF s]]])
  then show ?thesis using assms(3) CancelGo c by (auto simp: cancel_storm_def on_manager_def split: prod.splits)
next
  case (ClockGo v)
  then obtain r where "on_site (clock_set (evReadWords (site_env e (apConfig a))) (evWriteWords (site_env e (apConfig a))) v) a = (r, a')"
    using assms(3) by (auto split: prod.splits)
  from clock_go_frame [OF this] show ?thesis by (intro recorded_ok_passive [OF s a]) simp_all
qed (use assms(2,3) in \<open>auto split: if_splits sum.splits\<close>)

lemma pool_step_recorded:
  assumes s: "storage_ok e" and st: "pool_step e x y" and a: "recorded_ok e (fst x)"
  shows "recorded_ok e (fst y)"
  using st
proof cases
  case (manager_round b ts)
  obtain c where c: "apStorm b = Some c" using a manager_round by (auto simp: recorded_ok_def)
  have "recorded_ok e (put_manager (evaluate (site_env e (apConfig b)) (manager_of b c)) b)"
    using a manager_round by (intro recorded_ok_manager [OF _ c] evaluate_ok [OF site_safe [OF s]]) simp_all
  then show ?thesis using manager_round c by (simp add: evaluate_storm_def)
next
  case (clock_read b ts)
  have b: "recorded_ok e b" using a clock_read(1) by simp
  have "recorded_ok e (snd (get_clock e b))"
    using clock_read_frame [OF prod.collapse [symmetric], where e = e and a = b] by (intro recorded_ok_passive [OF s b]) simp_all
  then show ?thesis using clock_read(2) by simp
next
  case (service_change b ts sv)
  have b: "recorded_ok e b" using a service_change(1) by simp
  have "recorded_ok e (put_site ((apSite b)\<lparr>siService := sv\<rparr>) b)" by (rule recorded_ok_passive [OF s b]) simp_all
  then show ?thesis using service_change(2) by simp
next
  case call_step
  then show ?thesis
  proof cases
    case (arrive t b ts)
    then show ?thesis using a by simp
  next
    case (run i ts b t b')
    then show ?thesis using a advance_recorded [OF s _ run(4)] by simp
  next
    case (reply i ts b r b')
    then show ?thesis using a advance_recorded [OF s _ reply(4)] by simp
  next
    case (reply_clock i ts b d b')
    then show ?thesis using a advance_recorded [OF s _ reply_clock(4)] by simp
  qed
qed

lemma pool_recorded:
  assumes "storage_ok e" "run_init e path st = Inr a0" "siFiles st (runtimePath path) = None"
    and "pool_steps e (a0, []) x"
  shows "recorded_ok e (fst x)"
  using assms(4)
proof (induction rule: rtranclp_induct)
  case base
  show ?case using run_init_ok(1) [OF assms(1,2) no_file_start(2) [OF assms(1,3)]] by (auto simp: app_ok_def recorded_ok_def)
qed (use pool_step_recorded [OF assms(1)] in blast)


section \<open>What an interleaving breaks\<close>

lemma thread_call:
  assumes "entry t" "called e t a = (Return r, a')"
  shows "thread_steps e (a, ts) (a', ts)"
  using thread_complete [of e t a r a' ts] complete_calls [OF assms(1), of e a] assms(2)
    thread_step.arrive [OF assms(1), of e a ts] by (simp add: converse_rtranclp_into_rtranclp)

text \<open>C32: the guards of the application are not atomic with what they guard. From any state without a
  session and for any successful start of one, a change of the configuration that was let in before, to any
  configuration that can be saved, takes effect while the session is active, and so does a write of a
  register that the session manages: both are refused when the calls do not overlap.\<close>

theorem guards_not_atomic:
  assumes "\<not> storm_active a" "start_storm e g a = (Inr (), a1)" "storm_active a1" "apStorm a \<noteq> None"
    and "save_config (aeMarshalConfig e) (aeFs e (apSite a1)) (apConfigPath a1) cfg (siFiles (apSite a1)) = (Inr (), files)"
  shows "(\<exists>a2. thread_steps e (a, []) (a2, []) \<and> storm_active a2 \<and> apConfig a2 = cfg)
    \<and> thread_steps e (a, []) (snd (on_site (on_service (write_register (aeModbus e) (apConfig a1) i v)) a1), [])
    \<and> fst (update_config e cfg a1) \<noteq> Inr ()
    \<and> (isManagedRegister i \<longrightarrow> fst (app_write_register e i v a1) \<noteq> Inr ())"
proof (intro conjI)
  have start: "thread_steps e (a, [t]) (a1, [t])" for t
    using assms(2) by (intro thread_call [of "StartGuard g"]) simp_all
  have "thread_step e (a, []) (a, [ConfigGuard cfg None])"
    using thread_step.arrive [of "ConfigGuard cfg None" e a "[]"] by simp
  moreover have "thread_step e (a, [ConfigGuard cfg None]) (a, [ConfigSave cfg None])"
    using thread_step.run [of 0 "[ConfigGuard cfg None]" e a] assms(1) by simp
  ultimately have 1: "thread_steps e (a, []) (a1, [ConfigSave cfg None])"
    using start [of "ConfigSave cfg None"] by (meson converse_rtranclp_into_rtranclp)
  let ?a2 = "put_site ((apSite a1)\<lparr>siFiles := files\<rparr>) a1\<lparr>apConfig := cfg\<rparr>"
  have "uninterrupted e (ConfigSave cfg None) a1 = (Return (Inr ()), ?a2)"
    using assms(5) by (simp add: complete_steps after_config_def)
  from thread_complete [OF this, of "[]"] have "thread_steps e (a1, [ConfigSave cfg None]) (?a2, [])" by simp
  moreover have "storm_active ?a2 \<and> apConfig ?a2 = cfg"
    using assms(3) by (auto simp: storm_active_def is_active_def split: option.splits prod.splits)
  ultimately show "\<exists>a2. thread_steps e (a, []) (a2, []) \<and> storm_active a2 \<and> apConfig a2 = cfg"
    using 1 by (meson rtranclp_trans)
  have "thread_step e (a, []) (a, [WriteGuard i v])"
    using thread_step.arrive [of "WriteGuard i v" e a "[]"] by simp
  moreover have "thread_step e (a, [WriteGuard i v]) (a, [WriteGo i v])"
    using thread_step.run [of 0 "[WriteGuard i v]" e a] assms(1,4) by auto
  ultimately have 2: "thread_steps e (a, []) (a1, [WriteGo i v])"
    using start [of "WriteGo i v"] by (meson converse_rtranclp_into_rtranclp)
  let ?a3 = "on_site (on_service (write_register (aeModbus e) (apConfig a1) i v)) a1"
  have "uninterrupted e (WriteGo i v) a1 = (Return (fst ?a3), snd ?a3)"
    by (simp add: complete_steps case_prod_beta)
  from thread_complete [OF this, of "[]"] show "thread_steps e (a, []) (snd ?a3, [])" using 2 by simp
  show "fst (update_config e cfg a1) \<noteq> Inr ()" using assms(3) by (simp add: update_config_def)
  show "isManagedRegister i \<longrightarrow> fst (app_write_register e i v a1) \<noteq> Inr ()"
    using assms(3) by (simp add: app_write_register_def)
qed

section \<open>At the plant\<close>

lemma plant_pool: "pool_steps plant_env (plant_idle, []) (plant_charging, [])"
  using plant_charging_storm(3) by (intro threads_in_pool thread_call [of "StartGuard plant_settings" plant_env plant_idle "Inr ()"]) simp_all


text \<open>A change to another inverter type, and a write of the cutoff, during the session.\<close>

theorem guards_not_atomic_witness:
  "\<exists>a. thread_steps plant_env (plant_idle, []) (a, []) \<and> storm_active a
     \<and> normalized_inverter_type (cfDevice (apConfig a)) = Inr ''single_phase''"
proof -
  have active: "storm_active plant_charging"
    using plant_charging_storm(2) by (auto simp: storm_active_def is_active_def start_runtime_def)
  have storm: "apStorm plant_idle \<noteq> None" by (simp add: plant_run(3))
  obtain files where save: "save_config (aeMarshalConfig plant_env) (aeFs plant_env (apSite plant_charging)) (apConfigPath plant_charging)
      default_config (siFiles (apSite plant_charging)) = (Inr (), files)"
    by (simp add: save_config_def default_valid Let_def)
  have t: "normalized_inverter_type (cfDevice default_config) = Inr ''single_phase''" by code_simp
  from guards_not_atomic [OF plant_charging_storm(4,3) active storm save, where i = "''battery_charge_cutoff_soc''" and v = "VInt 30"]
  obtain a where "thread_steps plant_env (plant_idle, []) (a, [])" "storm_active a" "apConfig a = default_config" by blast
  then show ?thesis using t by auto
qed

end
