(* ===== verification/Schedules.thy ===== *)
theory Schedules
  imports ModbusProofs StormProofs MqttProofs
begin

text \<open>
  The loops of the services, \<^verbatim>\<open>Run\<close> of \<^verbatim>\<open>internal/modbus/service.go\<close>,
  \<^verbatim>\<open>internal/mqtt/service.go\<close> and \<^verbatim>\<open>internal/stormcharge/manager.go\<close>, until the process is told to stop. The loop
  of the Modbus service may run for ever, and is a partial function: it looks at the context only in a
  round in which no group was due. It ends when one of the groups is polled faster than the other is due
  again (\<open>modbus_run_returns\<close>) and never ends when neither is (\<open>modbus_run_hangs\<close>).
\<close>

section \<open>The Modbus service\<close>

text \<open>The configuration of each round, what happens while the loop waits, and whether the wait of a round
  ended by the context are given from outside.\<close>

partial_function (option) poll_loop ::
  "'w modbus_env \<Rightarrow> (nat \<Rightarrow> config) \<Rightarrow> (nat \<Rightarrow> duration \<Rightarrow> 'w service \<Rightarrow> 'w service) \<Rightarrow> (nat \<Rightarrow> bool)
    \<Rightarrow> nat \<Rightarrow> scheduler \<Rightarrow> 'w service \<Rightarrow> 'w service option" where
  "poll_loop env cfgs pause stopped n sd s =
     (case scheduler_round env (cfgs n) sd s of
        ((None, sd1), s1) \<Rightarrow> poll_loop env cfgs pause stopped (Suc n) sd1 s1
      | ((Some d, sd1), s1) \<Rightarrow>
          (if stopped n then Some s1 else poll_loop env cfgs pause stopped (Suc n) sd1 (pause n d s1)))"

definition modbus_run ::
  "'w modbus_env \<Rightarrow> (nat \<Rightarrow> config) \<Rightarrow> (nat \<Rightarrow> duration \<Rightarrow> 'w service \<Rightarrow> 'w service) \<Rightarrow> (nat \<Rightarrow> bool)
    \<Rightarrow> 'w service \<Rightarrow> 'w service option" where
  "modbus_run env cfgs pause stopped s =
     (let s0 = put_status env ''starting'' False no_error 0 s in
      case poll_loop env cfgs pause stopped 0 (scheduler_start (cfgs 0) (meNow env (svWorld s0))) s0 of
        None \<Rightarrow> None
      | Some s1 \<Rightarrow> Some (close_locked env s1))"

abbreviation fast_interval :: "config \<Rightarrow> duration" where
  "fast_interval cfg \<equiv> pcFastInterval (cfPolling cfg)"

abbreviation slow_interval :: "config \<Rightarrow> duration" where
  "slow_interval cfg \<equiv> pcSlowInterval (cfPolling cfg)"

abbreviation service_now :: "'w modbus_env \<Rightarrow> 'w service \<Rightarrow> gotime" where
  "service_now env s \<equiv> meNow env (svWorld s)"

text \<open>Every poll of a group takes less, or not less, than the given time.\<close>

definition polls_within :: "'w modbus_env \<Rightarrow> (nat \<Rightarrow> config) \<Rightarrow> poll_group \<Rightarrow> duration \<Rightarrow> bool" where
  "polls_within env cfgs g d \<longleftrightarrow>
     (\<forall>n s. service_now env (poll_group env (cfgs n) g s) < service_now env s + d)"

definition polls_at_least :: "'w modbus_env \<Rightarrow> (nat \<Rightarrow> config) \<Rightarrow> poll_group \<Rightarrow> duration \<Rightarrow> bool" where
  "polls_at_least env cfgs g d \<longleftrightarrow>
     (\<forall>n s. service_now env s + d \<le> service_now env (poll_group env (cfgs n) g s))"

text \<open>The rounds of the loop by what is due.\<close>

lemma round_idle:
  assumes "service_now env s < sdNextFast sd" "service_now env s < sdNextSlow sd"
  shows "\<exists>d. scheduler_round env cfg sd s = ((Some d, sd), s)"
  using assms by (simp add: scheduler_round_def Let_def)

lemma round_fast:
  assumes "sdNextFast sd \<le> service_now env s" "s1 = poll_group env cfg GroupFast s" "service_now env s1 < sdNextSlow sd"
  shows "scheduler_round env cfg sd s = ((None, sd\<lparr>sdNextFast := service_now env s1 + fast_interval cfg\<rparr>), s1)"
  using assms by (simp add: scheduler_round_def Let_def)

lemma round_slow:
  assumes "service_now env s < sdNextFast sd" "sdNextSlow sd \<le> service_now env s" "s1 = poll_group env cfg GroupSlow s"
  shows "scheduler_round env cfg sd s = ((None, sd\<lparr>sdNextSlow := service_now env s1 + slow_interval cfg\<rparr>), s1)"
  using assms by (simp add: scheduler_round_def Let_def)

lemma round_both:
  assumes "sdNextFast sd \<le> service_now env s" "s1 = poll_group env cfg GroupFast s" "sdNextSlow sd \<le> service_now env s1"
    and "s2 = poll_group env cfg GroupSlow s1"
  shows "scheduler_round env cfg sd s =
    ((None, \<lparr>sdNextFast = service_now env s1 + fast_interval cfg, sdNextSlow = service_now env s2 + slow_interval cfg\<rparr>), s2)"
  using assms by (simp add: scheduler_round_def Let_def)

text \<open>The loop once the process is told to stop: it returns in the first idle round.\<close>

lemma loop_idle:
  assumes "service_now env s < sdNextFast sd" "service_now env s < sdNextSlow sd" "stopped n"
  shows "poll_loop env cfgs pause stopped n sd s = Some s"
  using round_idle [OF assms(1,2), of "cfgs n"] assms(3) by (subst poll_loop.simps) auto

lemma loop_next:
  assumes "scheduler_round env (cfgs n) sd s = ((None, sd1), s1)"
  shows "poll_loop env cfgs pause stopped n sd s = poll_loop env cfgs pause stopped (Suc n) sd1 s1"
  using assms by (subst poll_loop.simps) simp


lemma loop_fast:
  assumes "sdNextFast sd \<le> service_now env s" "service_now env (poll_group env (cfgs n) GroupFast s) < sdNextSlow sd"
    and "0 < fast_interval (cfgs n)" "stopped (Suc n)"
  shows "\<exists>s'. poll_loop env cfgs pause stopped n sd s = Some s'"
proof -
  let ?s1 = "poll_group env (cfgs n) GroupFast s"
  have "poll_loop env cfgs pause stopped n sd s
      = poll_loop env cfgs pause stopped (Suc n) (sd\<lparr>sdNextFast := service_now env ?s1 + fast_interval (cfgs n)\<rparr>) ?s1"
    by (rule loop_next [where cfgs = cfgs and n = n, OF round_fast [OF assms(1) refl assms(2)]])
  also have "\<dots> = Some ?s1" using assms(2-4) by (intro loop_idle) simp_all
  finally show ?thesis by blast
qed

text \<open>With fast polls that end before the slow group is due again.\<close>

lemma loop_quick_fast:
  assumes "polls_within env cfgs GroupFast d" "service_now env s + d \<le> sdNextSlow sd" "0 < d"
    and "0 < fast_interval (cfgs n)" "stopped n" "stopped (Suc n)"
  shows "\<exists>s'. poll_loop env cfgs pause stopped n sd s = Some s'"
proof (cases "sdNextFast sd \<le> service_now env s")
  case True
  have "service_now env (poll_group env (cfgs n) GroupFast s) < sdNextSlow sd"
    using assms(1,2) unfolding polls_within_def by (meson less_le_trans)
  then show ?thesis using loop_fast [OF True] assms(4,6) by blast
next
  case False
  then show ?thesis using loop_idle [of env s sd stopped n] assms(2,3,5) by auto
qed

text \<open>With slow polls that end before the fast group is due again.\<close>

lemma loop_quick_both:
  assumes "polls_within env cfgs GroupSlow d" "d \<le> fast_interval (cfgs n)" "0 < slow_interval (cfgs n)"
    and "sdNextFast sd \<le> service_now env s" "sdNextSlow sd \<le> service_now env (poll_group env (cfgs n) GroupFast s)"
    and "stopped (Suc n)"
  shows "\<exists>s'. poll_loop env cfgs pause stopped n sd s = Some s'"
proof -
  let ?s1 = "poll_group env (cfgs n) GroupFast s"
  let ?s2 = "poll_group env (cfgs n) GroupSlow ?s1"
  have "service_now env ?s2 < service_now env ?s1 + d" using assms(1) by (simp add: polls_within_def)
  then have "poll_loop env cfgs pause stopped (Suc n)
      \<lparr>sdNextFast = service_now env ?s1 + fast_interval (cfgs n), sdNextSlow = service_now env ?s2 + slow_interval (cfgs n)\<rparr> ?s2
      = Some ?s2"
    using assms(2,3,6) by (intro loop_idle) simp_all
  then show ?thesis using loop_next [where cfgs = cfgs and n = n, OF round_both [OF assms(4) refl assms(5) refl]] by metis
qed

definition loop_config :: "'w modbus_env \<Rightarrow> (nat \<Rightarrow> config) \<Rightarrow> duration \<Rightarrow> bool" where
  "loop_config env cfgs d \<longleftrightarrow> 0 < d \<and> (\<forall>n. 0 < fast_interval (cfgs n) \<and> 0 < slow_interval (cfgs n))
     \<and> (polls_within env cfgs GroupFast d \<and> (\<forall>n. d \<le> slow_interval (cfgs n))
        \<or> polls_within env cfgs GroupSlow d \<and> (\<forall>n. d \<le> fast_interval (cfgs n)))"

lemma loop_stops:
  assumes "loop_config env cfgs d" "\<And>k. n \<le> k \<Longrightarrow> stopped k"
  shows "\<exists>s'. poll_loop env cfgs pause stopped n sd s = Some s'"
proof -
  have pos: "0 < d" "0 < fast_interval (cfgs k)" "0 < slow_interval (cfgs k)" for k
    using assms(1) by (simp_all add: loop_config_def)
  have st: "stopped n" "stopped (Suc n)" "stopped (Suc (Suc n))" using assms(2) by simp_all
  let ?s1 = "poll_group env (cfgs n) GroupFast s"
  let ?s2 = "poll_group env (cfgs n) GroupSlow ?s1"
  let ?s3 = "poll_group env (cfgs n) GroupSlow s"
  let ?both = "\<lparr>sdNextFast = service_now env ?s1 + fast_interval (cfgs n), sdNextSlow = service_now env ?s2 + slow_interval (cfgs n)\<rparr>"
  let ?slow = "sd\<lparr>sdNextSlow := service_now env ?s3 + slow_interval (cfgs n)\<rparr>"
  consider (idle) "service_now env s < sdNextFast sd" "service_now env s < sdNextSlow sd"
    | (fast) "sdNextFast sd \<le> service_now env s" "service_now env ?s1 < sdNextSlow sd"
    | (slow) "service_now env s < sdNextFast sd" "sdNextSlow sd \<le> service_now env s"
    | (both) "sdNextFast sd \<le> service_now env s" "sdNextSlow sd \<le> service_now env ?s1"
    by linarith
  then show ?thesis
  proof cases
    case idle
    then show ?thesis using loop_idle [of env s sd stopped n] st by blast
  next
    case fast
    then show ?thesis using loop_fast [of sd env s cfgs n] pos st by blast
  next
    case slow
    have next1: "poll_loop env cfgs pause stopped n sd s = poll_loop env cfgs pause stopped (Suc n) ?slow ?s3"
      by (rule loop_next [where cfgs = cfgs and n = n, OF round_slow [OF slow refl]])
    from assms(1) consider "polls_within env cfgs GroupFast d" "d \<le> slow_interval (cfgs n)"
      | "polls_within env cfgs GroupSlow d" "d \<le> fast_interval (cfgs (Suc n))"
      by (auto simp: loop_config_def)
    then show ?thesis
    proof cases
      case 1
      then show ?thesis unfolding next1 using pos st by (intro loop_quick_fast [where d = d]) simp_all
    next
      case 2
      let ?s4 = "poll_group env (cfgs (Suc n)) GroupFast ?s3"
      consider "service_now env ?s3 < sdNextFast sd" | "sdNextFast sd \<le> service_now env ?s3" "service_now env ?s4 < sdNextSlow ?slow"
        | "sdNextFast sd \<le> service_now env ?s3" "sdNextSlow ?slow \<le> service_now env ?s4" by linarith
      then show ?thesis
      proof cases
        case 1
        then show ?thesis unfolding next1 using loop_idle [of env ?s3 ?slow stopped "Suc n"] pos st by auto
      next
        case 2
        then show ?thesis unfolding next1 using pos st by (intro loop_fast) simp_all
      next
        case 3
        then show ?thesis unfolding next1 using pos st 2 by (intro loop_quick_both [where d = d]) simp_all
      qed
    qed
  next
    case both
    have next1: "poll_loop env cfgs pause stopped n sd s = poll_loop env cfgs pause stopped (Suc n) ?both ?s2"
      by (rule loop_next [where cfgs = cfgs and n = n, OF round_both [OF both(1) refl both(2) refl]])
    from assms(1) consider "polls_within env cfgs GroupFast d" "d \<le> slow_interval (cfgs n)"
      | "polls_within env cfgs GroupSlow d" "d \<le> fast_interval (cfgs n)"
      by (auto simp: loop_config_def)
    then show ?thesis
    proof cases
      case 1
      then show ?thesis unfolding next1 using pos st by (intro loop_quick_fast [where d = d]) simp_all
    next
      case 2
      then show ?thesis using both pos st by (intro loop_quick_both [where d = d]) simp_all
    qed
  qed
qed

lemma loop_returns:
  assumes "loop_config env cfgs d" "\<And>k. N \<le> k \<Longrightarrow> stopped k"
  shows "\<exists>s'. poll_loop env cfgs pause stopped n sd s = Some s'"
proof (induction "N - n" arbitrary: n sd s)
  case 0
  then show ?case using assms(2) by (intro loop_stops [OF assms(1)]) simp
next
  case (Suc k)
  then have IH: "\<exists>s'. poll_loop env cfgs pause stopped (Suc n) sd1 s1 = Some s'" for sd1 s1 by simp
  obtain w sd1 s1 where r: "scheduler_round env (cfgs n) sd s = ((w, sd1), s1)" by (metis surj_pair)
  show ?case using IH r by (cases w) (subst poll_loop.simps, simp)+
qed

text \<open>C33: once the process is told to stop, \<^verbatim>\<open>Run\<close> of the Modbus service returns and leaves no
  connection, provided that polls of one group end before the other is due again, whatever the
  configuration is changed to within that bound.\<close>

theorem modbus_run_returns:
  assumes "\<forall>n. 0 < fast_interval (cfgs n) \<and> 0 < slow_interval (cfgs n)" "0 < d"
    and "polls_within env cfgs GroupFast d \<and> (\<forall>n. d \<le> slow_interval (cfgs n))
      \<or> polls_within env cfgs GroupSlow d \<and> (\<forall>n. d \<le> fast_interval (cfgs n))"
    and "\<forall>n\<ge>N. stopped n"
  shows "\<exists>s'. modbus_run env cfgs pause stopped s = Some s' \<and> svClient s' = None"
proof -
  have c: "loop_config env cfgs d" using assms(1-3) by (simp add: loop_config_def)
  let ?s0 = "put_status env ''starting'' False no_error 0 s"
  obtain s1 where "poll_loop env cfgs pause stopped 0 (scheduler_start (cfgs 0) (service_now env ?s0)) ?s0 = Some s1"
    using loop_returns [OF c, of N stopped pause 0] assms(4) by blast
  then show ?thesis by (simp add: modbus_run_def Let_def close_locked_def)
qed

text \<open>Otherwise every round polls, and the loop does not look at the context.\<close>

lemma loop_busy:
  assumes "polls_at_least env cfgs GroupFast d" "\<And>n. slow_interval (cfgs n) \<le> d"
    and "polls_at_least env cfgs GroupSlow d'" "\<And>n. fast_interval (cfgs n) \<le> d'"
    and "sdNextFast sd \<le> service_now env s" "sdNextSlow sd \<le> service_now env s + d"
  shows "poll_loop env cfgs pause stopped n sd s = None"
proof -
  have "env' = env \<longrightarrow> cfgs' = cfgs \<longrightarrow> sdNextFast sd \<le> service_now env s \<longrightarrow> sdNextSlow sd \<le> service_now env s + d \<longrightarrow> False"
    if "poll_loop env' cfgs' pause' stopped' n sd s = Some r" for env' cfgs' pause' stopped' n sd s r
    using that
  proof (induction rule: poll_loop.raw_induct [rotated 1, consumes 1])
    case (1 loop env' cfgs' pause' stopped' n sd s r)
    show ?case
    proof (intro impI)
      assume eq: "env' = env" "cfgs' = cfgs" and due: "sdNextFast sd \<le> service_now env s" "sdNextSlow sd \<le> service_now env s + d"
      let ?s1 = "poll_group env (cfgs n) GroupFast s"
      let ?s2 = "poll_group env (cfgs n) GroupSlow ?s1"
      let ?sd = "\<lparr>sdNextFast = service_now env ?s1 + fast_interval (cfgs n), sdNextSlow = service_now env ?s2 + slow_interval (cfgs n)\<rparr>"
      have t: "service_now env s + d \<le> service_now env ?s1" "service_now env ?s1 + d' \<le> service_now env ?s2"
        using assms(1,3) by (simp_all add: polls_at_least_def)
      have "sdNextSlow sd \<le> service_now env ?s1" using due(2) t(1) by linarith
      then have "loop env cfgs pause' stopped' (Suc n) ?sd ?s2 = Some r"
        using "1.hyps" round_both [OF due(1) refl _ refl, of "cfgs n"] by (simp add: eq)
      from "1.IH" [OF this] show False
        using t(2) assms(2) [of n] assms(4) [of n] by simp
    qed
  qed
  then show ?thesis using assms(5,6) by (cases "poll_loop env cfgs pause stopped n sd s") blast+
qed

text \<open>C34: when polls of each group take at least as long as the interval of the other, as when a device
  that does not answer is polled every second with a timeout of two, every round polls and the loop never
  looks at the context: \<^verbatim>\<open>Run\<close> does not return although the process was told to stop.\<close>

theorem modbus_run_hangs:
  assumes "polls_at_least env cfgs GroupFast d" "\<forall>n. slow_interval (cfgs n) \<le> d" "initial_slow_offset (cfgs 0) \<le> d"
    and "polls_at_least env cfgs GroupSlow d'" "\<forall>n. fast_interval (cfgs n) \<le> d'"
  shows "modbus_run env cfgs pause stopped s = None"
proof -
  have "poll_loop env cfgs pause stopped 0 (scheduler_start (cfgs 0) (service_now env s0)) s0 = None" for s0
    using assms by (intro loop_busy [where d = d and d' = d']) (simp_all add: scheduler_start_def)
  then show ?thesis by (simp add: modbus_run_def Let_def)
qed

section \<open>The other loops\<close>

text \<open>A ticker fires \<open>n\<close> times before the context ends; in between other goroutines act.\<close>

fun mqtt_ticks :: "'w mqtt_env \<Rightarrow> (nat \<Rightarrow> 'w mqtt \<Rightarrow> 'w mqtt) \<Rightarrow> nat \<Rightarrow> 'w mqtt \<Rightarrow> 'w mqtt" where
  "mqtt_ticks env others 0 s = others 0 s"
| "mqtt_ticks env others (Suc n) s = others (Suc n) (mqtt_sync env (mqtt_ticks env others n s))"

definition mqtt_run :: "'w mqtt_env \<Rightarrow> (nat \<Rightarrow> 'w mqtt \<Rightarrow> 'w mqtt) \<Rightarrow> nat \<Rightarrow> 'w \<Rightarrow> 'w mqtt" where
  "mqtt_run env others n w = mqtt_disconnect env (mqtt_ticks env others n (mqtt_start env w))"

fun storm_ticks :: "'w storm_env \<Rightarrow> (nat \<Rightarrow> 'w manager \<Rightarrow> 'w manager) \<Rightarrow> nat \<Rightarrow> 'w manager \<Rightarrow> 'w manager" where
  "storm_ticks env others 0 m = others 0 m"
| "storm_ticks env others (Suc n) m = others (Suc n) (evaluate env (storm_ticks env others n m))"

definition storm_run :: "'w storm_env \<Rightarrow> (nat \<Rightarrow> 'w manager \<Rightarrow> 'w manager) \<Rightarrow> nat \<Rightarrow> 'w manager \<Rightarrow> 'w manager" where
  "storm_run env others n m = storm_ticks env others n (evaluate env m)"

text \<open>What the other goroutines keep, the loop of the manager keeps.\<close>

lemma storm_run_ok:
  assumes "safe_env env path P" "\<And>n m. manager_ok env path P m \<Longrightarrow> manager_ok env path P (others n m)"
    and "manager_ok env path P m"
  shows "manager_ok env path P (storm_run env others n m)"
proof -
  have "manager_ok env path P (storm_ticks env others n m)" if "manager_ok env path P m" for m
    using that by (induction n) (simp_all add: assms(2) evaluate_ok [OF assms(1)])
  then show ?thesis by (simp add: storm_run_def evaluate_ok [OF assms(1)] assms(3))
qed

text \<open>When the loop of the MQTT service has returned, no client is left and nothing is remembered.\<close>

lemma mqtt_run_ends:
  "qsClient (mqtt_run env others n w) = None \<and> qsLast (mqtt_run env others n w) = Map.empty
   \<and> qsKey (mqtt_run env others n w) = '''' \<and> qsDiscoveryKey (mqtt_run env others n w) = ''''"
  by (simp add: mqtt_run_def mqtt_disconnect_def forget_client_def drop_client_def Let_def split: option.split)

section \<open>A port that cannot be opened\<close>

text \<open>The world is the time; every attempt to connect fails after two seconds.\<close>

definition deaf_env :: "int modbus_env" where
  "deaf_env =
     \<lparr>meDial = (\<lambda>d w. (Inl (External ''timeout''), w + 2 * second)), meClose = (\<lambda>h w. w),
      meRead = (\<lambda>h a n w. (Inl (External ''timeout''), w)), meWriteSingle = (\<lambda>h a v w. (Inl (External ''timeout''), w)),
      meWriteMultiple = (\<lambda>h a n p w. (Inl (External ''timeout''), w)), meNow = (\<lambda>w. w)\<rparr>"

definition deaf_config :: "duration \<Rightarrow> duration \<Rightarrow> config" where
  "deaf_config fast slow = default_config\<lparr>cfPolling := \<lparr>pcFastInterval = fast, pcSlowInterval = slow, pcReconnectDelay = second\<rparr>\<rparr>"

lemma deaf_config_facts:
  "fast_interval (deaf_config f sl) = f" "slow_interval (deaf_config f sl) = sl"
  "cfSerial (deaf_config f sl) = cfSerial default_config" "cfDevice (deaf_config f sl) = cfDevice default_config"
  by (simp_all add: deaf_config_def)

lemma deaf_range:
  assumes "svClient s = None"
  shows "\<exists>es s1. poll_range deaf_env (deaf_config f sl) now rr s = (([], es, False), s1)
    \<and> svWorld s1 = svWorld s + 2 * second \<and> svClient s1 = None"
proof -
  have "connection_mode_of (cfSerial default_config) = Inr ModeRTU" by code_simp
  then show ?thesis
    using assms by (simp add: poll_range_def ensure_client_def open_client_def close_locked_def deaf_env_def deaf_config_facts)
qed

lemma deaf_ranges:
  assumes "svClient s = None" "plan \<noteq> []"
  shows "\<exists>vs es s1. poll_ranges deaf_env (deaf_config f sl) now plan 0 s = ((vs, es), s1)
    \<and> svWorld s + 2 * second \<le> svWorld s1 \<and> svWorld s1 \<le> svWorld s + 4 * second"
proof -
  obtain rr rest where plan: "plan = rr # rest" using assms(2) by (cases plan) simp_all
  obtain es s1 where 1: "poll_range deaf_env (deaf_config f sl) now rr s = (([], es, False), s1)"
    "svWorld s1 = svWorld s + 2 * second" "svClient s1 = None" using deaf_range [OF assms(1)] by blast
  show ?thesis
  proof (cases rest)
    case Nil
    then show ?thesis by (simp add: plan 1 maxOpenFailuresPerCycle_def second_def)
  next
    case (Cons rr2 rest2)
    obtain es2 s2 where "poll_range deaf_env (deaf_config f sl) now rr2 s1 = (([], es2, False), s2)"
      "svWorld s2 = svWorld s1 + 2 * second" using deaf_range [OF 1(3)] by blast
    then show ?thesis by (simp add: plan Cons 1 maxOpenFailuresPerCycle_def second_def)
  qed
qed

lemma plan_nonempty: "regs \<noteq> [] \<Longrightarrow> buildReadPlanForRegisters regs \<noteq> []"
  using plan_registers [of regs] length_sort [of rAddress regs] by (metis concat.simps(1) length_0_conv list.simps(8))

lemma deaf_plan: "read_plan_for_group g (deaf_config f sl) \<noteq> []"
proof -
  have t: "normalized_inverter_type (cfDevice default_config) = Inr ''single_phase''" by code_simp
  have "\<not> isThreePhaseInverterType ''single_phase''" by code_simp
  then have c: "catalogForInverterType ''single_phase'' = baseCatalog" using three_phase_catalog [of "''single_phase''"] by blast
  have rows: "\<exists>r\<in>set (catalogForInverterType ''single_phase''). row r = x" if "x \<in> set baseRows" for x
    using that unfolding c base_rows [symmetric] by auto
  obtain rf where rf: "rf \<in> set (catalogForInverterType ''single_phase'')" "row rf = (''battery_soc'', 0x0100, 1, GroupFast, False)"
    using rows [of "(''battery_soc'', 0x0100, 1, GroupFast, False)"] by (auto simp: baseRows_def)
  obtain x where x: "x \<in> set baseRows" "polled GroupSlow x"
  proof -
    have "list_ex (polled GroupSlow) baseRows" by code_simp
    then show thesis using that by (auto simp: list_ex_iff)
  qed
  obtain rs where rs: "rs \<in> set (catalogForInverterType ''single_phase'')" "row rs = x" using rows [OF x(1)] by blast
  have "rID rf = ''battery_soc''" "polled GroupFast (row rf)" using rf(2) by (simp_all add: row_def polled_def)
  moreover have "''battery_soc'' \<in> set (criticalIDs ''single_phase'')" by code_simp
  ultimately have "rf \<in> set (filter (\<lambda>reg. rID reg \<in> set (criticalIDs ''single_phase'')) (byGroupForInverterType GroupFast ''single_phase''))"
    using rf(1) by (simp add: byGroup_filter)
  then have "buildCriticalFastReadPlanForInverterType ''single_phase'' \<noteq> []"
    unfolding buildCriticalFastReadPlanForInverterType_def by (intro plan_nonempty) (metis empty_iff list.set(1))
  moreover have "rs \<in> set (byGroupForInverterType GroupSlow ''single_phase'')"
    using rs x(2) by (simp add: byGroup_filter)
  then have "buildReadPlanForInverterType GroupSlow ''single_phase'' \<noteq> []"
    unfolding buildReadPlanForInverterType_def by (intro plan_nonempty) (metis empty_iff list.set(1))
  ultimately show ?thesis by (cases g) (simp_all add: read_plan_for_group_def deaf_config_facts t)
qed

lemma deaf_poll:
  "service_now deaf_env s + 2 * second \<le> service_now deaf_env (poll_group deaf_env (deaf_config f sl) g s)"
  "service_now deaf_env (poll_group deaf_env (deaf_config f sl) g s) \<le> service_now deaf_env s + 4 * second"
proof -
  let ?cfg = "deaf_config f sl"
  have port: "trim_space (scPort (cfSerial ?cfg)) \<noteq> ''''" unfolding deaf_config_facts by code_simp
  have t: "normalized_inverter_type (cfDevice ?cfg) = Inr ''single_phase''" unfolding deaf_config_facts by code_simp
  have reopen: "should_reopen_per_range ?cfg"
  proof -
    have "connection_mode_of (cfSerial default_config) = Inr ModeRTU" by code_simp
    then show ?thesis by (simp add: should_reopen_per_range_def deaf_config_facts)
  qed
  have close: "svWorld (close_locked deaf_env s) = svWorld s" "svClient (close_locked deaf_env s) = None" for s
    by (simp_all add: close_locked_def deaf_env_def split: option.split)
  have now: "meNow deaf_env w = w" for w by (simp add: deaf_env_def)
  obtain vs es s1 where 1: "poll_ranges deaf_env ?cfg (svWorld s) (read_plan_for_group g ?cfg) 0 (close_locked deaf_env s) = ((vs, es), s1)"
    "svWorld s + 2 * second \<le> svWorld s1" "svWorld s1 \<le> svWorld s + 4 * second"
    using deaf_ranges [OF close(2) deaf_plan, where f = f and sl = sl and now = "svWorld s"] by (metis close(1))
  have "svWorld (poll_group deaf_env ?cfg g s) = svWorld s1"
    using port t reopen 1(1)
    by (simp add: poll_group_def Let_def now close put_status_def put_error_def put_telemetry_def)
  then show "service_now deaf_env s + 2 * second \<le> service_now deaf_env (poll_group deaf_env ?cfg g s)"
    "service_now deaf_env (poll_group deaf_env ?cfg g s) \<le> service_now deaf_env s + 4 * second"
    using 1(2,3) by (simp_all add: now)
qed

definition deaf_service :: "int service" where
  "deaf_service = \<lparr>svStore = new_store, svKey = None, svClient = None, svWorld = 1\<rparr>"

text \<open>Polled every second the service cannot be stopped; with the default intervals it can.\<close>

theorem modbus_run_hangs_witness:
  "modbus_run deaf_env (\<lambda>_. deaf_config second second) (\<lambda>_ d s. s\<lparr>svWorld := svWorld s + d\<rparr>) (\<lambda>_. True) deaf_service = None"
proof (rule modbus_run_hangs [where d = "2 * second" and d' = "2 * second"])
  show "polls_at_least deaf_env (\<lambda>_. deaf_config second second) GroupFast (2 * second)"
    "polls_at_least deaf_env (\<lambda>_. deaf_config second second) GroupSlow (2 * second)"
    using deaf_poll(1) by (simp_all add: polls_at_least_def)
qed (simp_all add: deaf_config_facts initial_slow_offset_def second_def)

theorem modbus_run_returns_witness:
  "\<exists>s'. modbus_run deaf_env (\<lambda>_. deaf_config (15 * second) (60 * second)) (\<lambda>_ d s. s\<lparr>svWorld := svWorld s + d\<rparr>) (\<lambda>n. 3 \<le> n) deaf_service
      = Some s' \<and> svClient s' = None"
proof (rule modbus_run_returns [where d = "5 * second" and N = 3])
  have "service_now deaf_env (poll_group deaf_env (deaf_config (15 * second) (60 * second)) GroupFast s) < service_now deaf_env s + 5 * second" for s
    using deaf_poll(2) [where f = "15 * second" and sl = "60 * second" and g = GroupFast and s = s] by (simp add: second_def)
  then show "polls_within deaf_env (\<lambda>_. deaf_config (15 * second) (60 * second)) GroupFast (5 * second)
        \<and> (\<forall>n. 5 * second \<le> slow_interval (deaf_config (15 * second) (60 * second)))
      \<or> polls_within deaf_env (\<lambda>_. deaf_config (15 * second) (60 * second)) GroupSlow (5 * second)
        \<and> (\<forall>n. 5 * second \<le> fast_interval (deaf_config (15 * second) (60 * second)))"
    by (simp add: polls_within_def deaf_config_facts second_def)
qed (simp_all add: deaf_config_facts second_def)

end
