(* ===== verification/Commands.thy ===== *)
theory Commands
  imports Bridge Watchdog Schedules
begin

text \<open>
  The two commands. \<^verbatim>\<open>cmd/modbus-probe/main.go\<close> reads one range of registers with the client of
  the Modbus service; its flags arrive parsed. \<^verbatim>\<open>cmd/srne-inverter-to-mqtt/main.go\<close> creates the application and
  runs it; how the run ends is what \<^verbatim>\<open>Wait\<close> of the \<^verbatim>\<open>errgroup\<close> package makes of the ends of its goroutines, a
  parameter. A process ends with \<open>Fatal\<close> where \<^verbatim>\<open>log.Fatal\<close> ends it: deferred calls are then not made.
\<close>

section \<open>The probe\<close>

record probe_flags =
  pfPort :: string
  pfNetworkProtocol :: string
  pfSlave :: int
  pfBaud :: int
  pfTimeout :: duration
  pfAddress :: int
  pfCount :: int

definition default_flags :: probe_flags where
  "default_flags =
     \<lparr>pfPort = '''', pfNetworkProtocol = ''rtu'', pfSlave = 1, pfBaud = 9600, pfTimeout = 2 * second,
      pfAddress = 0x0100, pfCount = 1\<rparr>"

datatype probe_end = Fatal go_error | Output string "err_arg list"

definition probe_config :: "probe_flags \<Rightarrow> config" where
  "probe_config fl = default_config
     \<lparr>cfDevice := (cfDevice default_config)\<lparr>dcSlaveID := word_of_int (pfSlave fl)\<rparr>,
      cfSerial := \<lparr>scPort = pfPort fl, scNetworkProtocol = pfNetworkProtocol fl, scBaudRate = pfBaud fl,
        scDataBits = 8, scParity = ''N'', scStopBits = 1, scTimeout = pfTimeout fl\<rparr>\<rparr>"

text \<open>\<^verbatim>\<open>Duration.Round\<close> for a time that has passed, and the verbs of the format.\<close>

definition duration_round :: "duration \<Rightarrow> duration \<Rightarrow> duration" where
  "duration_round m d = (let r = d mod m in if r + r < m then d - r else d + m - r)"

definition hex_digit :: "int \<Rightarrow> char" where
  "hex_digit n = char_of (if n < 10 then 48 + n else 55 + n)"

definition hex_bytes :: "byte list \<Rightarrow> string" where
  "hex_bytes bs = concat (map (\<lambda>(i, b). (if i = 0 then '''' else '' '') @ [hex_digit (uint b div 16), hex_digit (uint b mod 16)])
     (enumerate 0 bs))"

fun mode_text :: "connection_mode \<Rightarrow> string" where
  "mode_text ModeRTU = ''rtu''"
| "mode_text ModeRTUOverTCP = ''rtu_over_tcp''"
| "mode_text ModeModbusTCP = ''modbus_tcp''"

definition elapsed_text :: "duration \<Rightarrow> string" where
  "elapsed_text d = duration_string (duration_round 1000000 d)"

definition modbus_probe :: "'w modbus_env \<Rightarrow> probe_flags \<Rightarrow> 'w \<Rightarrow> probe_end \<times> 'w" where
  "modbus_probe env fl w =
     (if trim_space (pfPort fl) = '''' then (Fatal (Errorf ''port is required'' []), w)
      else if pfSlave fl < 1 \<or> pfSlave fl > 247 then (Fatal (Errorf ''slave must be between 1 and 247'' []), w)
      else let cfg = probe_config fl in
        case open_client env cfg w of
          (Inl er, w1) \<Rightarrow> (Fatal (Errorf ''connect failed: %v'' [AErr er]), w1)
        | (Inr h, w1) \<Rightarrow>
            (case meRead env h (word_of_int (pfAddress fl)) (word_of_int (pfCount fl)) w1 of
               (r, w2) \<Rightarrow>
                 let elapsed = elapsed_text (meNow env w2 - meNow env w1) in
                 case r of
                   Inl er \<Rightarrow> (Fatal (Errorf ''read failed after %s: %v'' [AStr elapsed, AErr er]), w2)
                 | Inr bytes \<Rightarrow>
                     (Output ''ok port=%s mode=%s slave=%d address=0x%04X count=%d elapsed=%s bytes=% X''
                        [AStr (pfPort fl),
                         AStr (case connection_mode_of (cfSerial cfg) of Inl _ \<Rightarrow> '''' | Inr m \<Rightarrow> mode_text m),
                         AInt (pfSlave fl), AInt (pfAddress fl), AInt (pfCount fl), AStr elapsed, AStr (hex_bytes bytes)],
                      meClose env h w2)))"

text \<open>The address and the count are cut to 16 bits without a check, while the address is printed as given.\<close>

lemma probe_address_wraps:
  "snd (modbus_probe env (fl\<lparr>pfAddress := pfAddress fl + 65536\<rparr>) w) = snd (modbus_probe env fl w)"
proof -
  have "(word_of_int (pfAddress fl + 65536) :: u16) = word_of_int (pfAddress fl)" by simp
  moreover have "probe_config (fl\<lparr>pfAddress := a\<rparr>) = probe_config fl" for a by (simp add: probe_config_def)
  ultimately show ?thesis
    by (simp add: modbus_probe_def Let_def case_prod_beta split: sum.split del: of_int_add)
qed

text \<open>A probe that is refused touches nothing; one that prints has read what it prints, and closed.\<close>

lemma probe_refused:
  "trim_space (pfPort fl) = '''' \<or> pfSlave fl < 1 \<or> 247 < pfSlave fl \<Longrightarrow> \<exists>er. modbus_probe env fl w = (Fatal er, w)"
  by (auto simp: modbus_probe_def)

lemma probe_output:
  assumes "modbus_probe env fl w = (Output s as, w')"
  shows "\<exists>h w1 w2 bytes. open_client env (probe_config fl) w = (Inr h, w1)
    \<and> meRead env h (word_of_int (pfAddress fl)) (word_of_int (pfCount fl)) w1 = (Inr bytes, w2)
    \<and> last as = AStr (hex_bytes bytes) \<and> w' = meClose env h w2"
  using assms by (auto simp: modbus_probe_def Let_def split: if_splits prod.splits sum.splits)

lemma hex_bytes_example: "hex_bytes [0x0A, 0xFF, 3] = ''0A FF 03''"
  by code_simp

section \<open>The bridge\<close>

text \<open>The values of \<^verbatim>\<open>internal/buildinfo\<close> unless the linker sets others.\<close>

definition default_build :: build_info where
  "default_build = \<lparr>biVersion = ''dev'', biCommit = ''unknown'', biDate = ''unknown''\<rparr>"

text \<open>\<^verbatim>\<open>app.New\<close>: the embedded files may be missing; the store is new, and the services have not been
  created.\<close>

definition new_service :: "store \<Rightarrow> 'w \<Rightarrow> 'w service" where
  "new_service st w = \<lparr>svStore = st, svKey = None, svClient = None, svWorld = w\<rparr>"

definition new_app :: "unit result \<Rightarrow> files \<Rightarrow> 'w \<Rightarrow> go_error + 'w site" where
  "new_app assets files w =
     (case assets of
        Inl er \<Rightarrow> Inl (Errorf ''load embedded web assets: %w'' [AErr er])
      | Inr _ \<Rightarrow> Inr \<lparr>siService = new_service new_store w, siFiles = files\<rparr>)"

text \<open>How the goroutines of \<^verbatim>\<open>App.Run\<close> end, \<open>None\<close> for one that does not; \<open>wait\<close> is
  \<^verbatim>\<open>Wait\<close> of the group. The end of the HTTP server is the error it returns, one of them when it was shut down.\<close>

definition err_server_closed :: go_error where
  "err_server_closed = External ''http: Server closed''"

definition server_end :: "go_error option \<Rightarrow> unit result" where
  "server_end er = (case er of None \<Rightarrow> Inr () | Some e \<Rightarrow> if e = err_server_closed then Inr () else Inl e)"

definition watchdog_result :: "watchdog_end \<Rightarrow> unit result" where
  "watchdog_result d =
     (case d of Returned _ \<Rightarrow> Inr () | Exited _ \<Rightarrow> Inl (Errorf ''watchdog requested process restart'' []))"

definition group_end ::
  "(unit result option list \<Rightarrow> unit result option) \<Rightarrow> 's service option \<Rightarrow> 'm mqtt option \<Rightarrow> 'c manager option
    \<Rightarrow> watchdog_end option \<Rightarrow> go_error option option \<Rightarrow> unit result option \<Rightarrow> unit result option" where
  "group_end wait modbus mqtt storm dog server shutdown =
     wait [map_option (\<lambda>_. Inr ()) modbus, map_option (\<lambda>_. Inr ()) mqtt, map_option (\<lambda>_. Inr ()) storm,
           map_option watchdog_result dog, map_option server_end server, shutdown]"

text \<open>What the documentation of \<^verbatim>\<open>errgroup\<close> says of \<^verbatim>\<open>Wait\<close>: it returns when all have, with the first
  error, if there is one.\<close>

definition waits_for_all :: "(unit result option list \<Rightarrow> unit result option) \<Rightarrow> bool" where
  "waits_for_all wait \<longleftrightarrow> (\<forall>ends. (None \<in> set ends \<longrightarrow> wait ends = None)
     \<and> (None \<notin> set ends \<longrightarrow> (\<exists>r. wait ends = Some r \<and> Some r \<in> set ends
          \<and> (r = Inr () \<longrightarrow> set ends \<subseteq> {Some (Inr ())}))))"

datatype ('w, 'b) main_end = MainFatal go_error | Started "('w, 'b) bridge"

definition bridge_main ::
  "'w http_env \<Rightarrow> 'b client_lib \<Rightarrow> build_info \<Rightarrow> string \<Rightarrow> unit result \<Rightarrow> files \<Rightarrow> 'w \<Rightarrow> 'b \<Rightarrow> ('w, 'b) main_end" where
  "bridge_main h lib build path assets files w b =
     (case new_app assets files w of
        Inl er \<Rightarrow> MainFatal (Errorf ''failed to initialize application: %v'' [AErr er])
      | Inr site \<Rightarrow>
          (case bridge_start (h\<lparr>heBuild := build\<rparr>) lib path site b of
             Inl er \<Rightarrow> MainFatal (Errorf ''application stopped with error: %v'' [AErr er])
           | Inr s \<Rightarrow> Started s))"

definition main_exit :: "unit result \<Rightarrow> go_error option" where
  "main_exit r = (case r of Inl er \<Rightarrow> Some (Errorf ''application stopped with error: %v'' [AErr er]) | Inr _ \<Rightarrow> None)"

text \<open>A Modbus service that does not return keeps the process from ending, whatever the others do.\<close>

lemma hung_service_hangs:
  assumes "waits_for_all wait" "modbus_run env cfgs pause stopped s = None"
  shows "group_end wait (modbus_run env cfgs pause stopped s) mqtt storm dog server shutdown = None"
  using assms by (simp add: group_end_def waits_for_all_def)

text \<open>When all return, the process fails exactly when the watchdog, the server or its shutdown did.\<close>

lemma group_result:
  assumes "waits_for_all wait"
  shows "group_end wait (Some sv) (Some q) (Some m) (Some d) (Some e) (Some r) = Some (Inr ())
    \<longleftrightarrow> watchdog_result d = Inr () \<and> server_end e = Inr () \<and> r = Inr ()"
proof -
  let ?ends = "[Some (Inr ()), Some (Inr ()), Some (Inr ()), Some (watchdog_result d), Some (server_end e), Some r]"
  obtain x where x: "wait ?ends = Some x" "Some x \<in> set ?ends" "x = Inr () \<longrightarrow> set ?ends \<subseteq> {Some (Inr ())}"
    using assms unfolding waits_for_all_def by (auto dest!: spec [of _ ?ends])
  then show ?thesis by (auto simp: group_end_def)
qed

end
